(* ===== verification/Prelude.thy ===== *)
theory Prelude
  imports Main "HOL-Library.Word" "HOL-Library.Sublist" "HOL-Library.Char_ord"
    "HOL-Library.List_Lexorder"
begin

text \<open>
  Shared vocabulary of the development: the machine integers of the Rust sources, the
  \<^verbatim>\<open>str\<close> operations they use, and the generic lemmas about them.

  A Rust \<^verbatim>\<open>str\<close> is modelled by its UTF-8 bytes, a list of \<^typ>\<open>char\<close>; indices and
  lengths are therefore byte indices, as in Rust. Case mapping (\<open>to_uppercase\<close>,
  \<open>to_lowercase\<close>) and whitespace (\<open>trim\<close>) are modelled on the ASCII range; bytes above
  127 are left alone. Slicing at a byte that is not the start of a character panics in
  Rust, so slices are fallible here (\<open>is_char_boundary\<close>).
\<close>

section \<open>Machine integers\<close>

type_synonym u8 = "8 word"
type_synonym u16 = "16 word"
type_synonym u32 = "32 word"
type_synonym u64 = "64 word"
type_synonym i32 = "32 word"
type_synonym i64 = "64 word"
type_synonym f64 = "64 word" \<comment> \<open>the IEEE 754 bit pattern; never computed with here\<close>

named_theorems str_simps \<open>definitions of the string operations, for evaluation\<close>
named_theorems stream_simps \<open>definitions of the streaming model, for evaluation\<close>

section \<open>Bytes and characters\<close>

definition is_ascii_upper :: "char \<Rightarrow> bool" where
  "is_ascii_upper c = (65 \<le> (of_char c :: nat) \<and> (of_char c :: nat) \<le> 90)"

definition is_ascii_lower :: "char \<Rightarrow> bool" where
  "is_ascii_lower c = (97 \<le> (of_char c :: nat) \<and> (of_char c :: nat) \<le> 122)"

definition is_ascii_digit :: "char \<Rightarrow> bool" where
  "is_ascii_digit c = (48 \<le> (of_char c :: nat) \<and> (of_char c :: nat) \<le> 57)"

definition char_upper :: "char \<Rightarrow> char" where
  "char_upper c = (if is_ascii_lower c then char_of ((of_char c :: nat) - 32) else c)"

definition char_lower :: "char \<Rightarrow> char" where
  "char_lower c = (if is_ascii_upper c then char_of ((of_char c :: nat) + 32) else c)"

definition is_ws :: "char \<Rightarrow> bool" where
  "is_ws c = (let n = (of_char c :: nat) in n = 32 \<or> (9 \<le> n \<and> n \<le> 13))"

text \<open>A UTF-8 continuation byte (10xxxxxx) does not start a character.\<close>

definition is_continuation :: "char \<Rightarrow> bool" where
  "is_continuation c = (128 \<le> (of_char c :: nat) \<and> (of_char c :: nat) < 192)"

lemmas char_class_defs [str_simps] =
  is_ascii_upper_def is_ascii_lower_def is_ascii_digit_def char_upper_def char_lower_def
  is_ws_def is_continuation_def

lemma of_char_char_upper:
  "is_ascii_lower c \<Longrightarrow> (of_char (char_upper c) :: nat) = of_char c - 32"
  by (auto simp: char_upper_def is_ascii_lower_def intro!: mod_less)

lemma of_char_char_lower:
  "is_ascii_upper c \<Longrightarrow> (of_char (char_lower c) :: nat) = of_char c + 32"
  by (auto simp: char_lower_def is_ascii_upper_def intro!: mod_less)

lemma is_ascii_lower_char_upper [simp]: "\<not> is_ascii_lower (char_upper c)"
proof (cases "is_ascii_lower c")
  case True
  from of_char_char_upper [OF True] True show ?thesis by (auto simp: is_ascii_lower_def)
qed (simp add: char_upper_def)

lemma is_ascii_upper_char_lower [simp]: "\<not> is_ascii_upper (char_lower c)"
proof (cases "is_ascii_upper c")
  case True
  from of_char_char_lower [OF True] True show ?thesis by (auto simp: is_ascii_upper_def)
qed (simp add: char_lower_def)

lemma char_upper_idem [simp]: "char_upper (char_upper c) = char_upper c"
  by (simp add: char_upper_def [of "char_upper c"])

lemma char_lower_idem [simp]: "char_lower (char_lower c) = char_lower c"
  by (simp add: char_lower_def [of "char_lower c"])

lemma char_lower_upper [simp]: "char_lower (char_upper c) = char_lower c"
proof (cases "is_ascii_lower c")
  case True
  have up: "(of_char (char_upper c) :: nat) = of_char c - 32"
    by (rule of_char_char_upper [OF True])
  with True have "is_ascii_upper (char_upper c)" and "\<not> is_ascii_upper c"
    by (auto simp: is_ascii_lower_def is_ascii_upper_def)
  with True up show ?thesis
    by (auto simp: char_lower_def is_ascii_lower_def)
qed (simp add: char_upper_def)

lemma char_upper_lower [simp]: "char_upper (char_lower c) = char_upper c"
proof (cases "is_ascii_upper c")
  case True
  have low: "(of_char (char_lower c) :: nat) = of_char c + 32"
    by (rule of_char_char_lower [OF True])
  with True have "is_ascii_lower (char_lower c)" and "\<not> is_ascii_lower c"
    by (auto simp: is_ascii_lower_def is_ascii_upper_def)
  with low show ?thesis
    by (simp add: char_upper_def)
qed (simp add: char_lower_def)

lemma is_ascii_upper_char_upper: "is_ascii_lower c \<Longrightarrow> is_ascii_upper (char_upper c)"
  using of_char_char_upper [of c] by (auto simp: is_ascii_lower_def is_ascii_upper_def)

text \<open>Case mapping neither produces nor consumes a character that is not a letter.\<close>

lemma char_upper_eq_nonletter:
  "\<not> is_ascii_upper d \<Longrightarrow> \<not> is_ascii_lower d \<Longrightarrow> char_upper c = d \<longleftrightarrow> c = d"
proof (cases "is_ascii_lower c")
  case True
  assume "\<not> is_ascii_upper d" and "\<not> is_ascii_lower d"
  with True is_ascii_upper_char_upper [OF True] show ?thesis by auto
qed (simp add: char_upper_def)

lemma is_ws_char_upper [simp]: "is_ws (char_upper c) = is_ws c"
proof (cases "is_ascii_lower c")
  case True
  from of_char_char_upper [OF True] True show ?thesis
    by (auto simp: is_ws_def is_ascii_lower_def Let_def)
qed (simp add: char_upper_def)

lemma is_ws_char_lower [simp]: "is_ws (char_lower c) = is_ws c"
proof (cases "is_ascii_upper c")
  case True
  from of_char_char_lower [OF True] True show ?thesis
    by (auto simp: is_ws_def is_ascii_upper_def Let_def)
qed (simp add: char_lower_def)

section \<open>Strings\<close>

definition to_uppercase :: "string \<Rightarrow> string" where
  [str_simps]: "to_uppercase s = map char_upper s"

definition to_lowercase :: "string \<Rightarrow> string" where
  [str_simps]: "to_lowercase s = map char_lower s"

definition eq_ignore_ascii_case :: "string \<Rightarrow> string \<Rightarrow> bool" where
  [str_simps]: "eq_ignore_ascii_case a b = (map char_lower a = map char_lower b)"

definition trim_start :: "string \<Rightarrow> string" where
  [str_simps]: "trim_start s = dropWhile is_ws s"

definition trim_end :: "string \<Rightarrow> string" where
  [str_simps]: "trim_end s = rev (dropWhile is_ws (rev s))"

definition str_trim :: "string \<Rightarrow> string" where
  [str_simps]: "str_trim s = trim_end (trim_start s)"

text \<open>\<open>trim_end_matches\<close> with a character pattern, and with a (nonempty) string pattern.\<close>

definition trim_end_char :: "char \<Rightarrow> string \<Rightarrow> string" where
  [str_simps]: "trim_end_char c s = rev (dropWhile (\<lambda>x. x = c) (rev s))"

function trim_end_str :: "string \<Rightarrow> string \<Rightarrow> string" where
  "trim_end_str p s =
     (if p \<noteq> [] \<and> suffix p s then trim_end_str p (take (length s - length p) s) else s)"
  by pat_completeness auto
termination
  by (relation "measure (\<lambda>(p, s). length s)") (auto simp: suffix_def)

declare trim_end_str.simps [simp del]

definition starts_with :: "string \<Rightarrow> string \<Rightarrow> bool" where
  [str_simps]: "starts_with s p = prefix p s"

text \<open>\<open>str::find\<close> and \<open>str::rfind\<close>: byte index of the first and last occurrence.\<close>

definition strip_prefix :: "string \<Rightarrow> string \<Rightarrow> string option" where
  "strip_prefix p s = (if prefix p s then Some (drop (length p) s) else None)"

fun str_find :: "string \<Rightarrow> string \<Rightarrow> nat option" where
  "str_find [] p = (if p = [] then Some 0 else None)"
| "str_find (c # s) p = (if prefix p (c # s) then Some 0 else map_option Suc (str_find s p))"

fun str_rfind :: "string \<Rightarrow> string \<Rightarrow> nat option" where
  "str_rfind [] p = (if p = [] then Some 0 else None)"
| "str_rfind (c # s) p =
     (case str_rfind s p of Some i \<Rightarrow> Some (Suc i)
      | None \<Rightarrow> if prefix p (c # s) then Some 0 else None)"

definition str_contains :: "string \<Rightarrow> string \<Rightarrow> bool" where
  [str_simps]: "str_contains s p = (str_find s p \<noteq> None)"

fun split_on :: "char \<Rightarrow> string \<Rightarrow> string list" where
  "split_on d [] = [[]]"
| "split_on d (c # s) =
     (if c = d then [] # split_on d s
      else (case split_on d s of [] \<Rightarrow> [[c]] | w # ws \<Rightarrow> (c # w) # ws))"

fun str_join :: "string \<Rightarrow> string list \<Rightarrow> string" where
  "str_join sep [] = []"
| "str_join sep [w] = w"
| "str_join sep (w # ws) = w @ sep @ str_join sep ws"

definition is_char_boundary :: "string \<Rightarrow> nat \<Rightarrow> bool" where
  [str_simps]: "is_char_boundary s i =
     (i = 0 \<or> i = length s \<or> (i < length s \<and> \<not> is_continuation (s ! i)))"

text \<open>The slice \<open>&s[i..j]\<close>: \<^const>\<open>None\<close> is the panic of Rust's range check.\<close>

definition str_slice :: "string \<Rightarrow> nat \<Rightarrow> nat \<Rightarrow> string option" where
  [str_simps]: "str_slice s i j =
     (if i \<le> j \<and> j \<le> length s \<and> is_char_boundary s i \<and> is_char_boundary s j
      then Some (take (j - i) (drop i s)) else None)"

section \<open>Lemmas on strings\<close>

lemma to_uppercase_simps [simp]:
  "to_uppercase [] = []"
  "to_uppercase (s @ t) = to_uppercase s @ to_uppercase t"
  "to_uppercase (to_uppercase s) = to_uppercase s"
  "to_uppercase (to_lowercase s) = to_uppercase s"
  by (simp_all add: to_uppercase_def to_lowercase_def o_def)

lemma to_lowercase_simps [simp]:
  "to_lowercase [] = []"
  "to_lowercase (s @ t) = to_lowercase s @ to_lowercase t"
  "to_lowercase (to_lowercase s) = to_lowercase s"
  "to_lowercase (to_uppercase s) = to_lowercase s"
  by (simp_all add: to_uppercase_def to_lowercase_def o_def)

lemma trim_map:
  assumes "\<And>c. is_ws (f c) = is_ws c"
  shows "str_trim (map f s) = map f (str_trim s)"
proof -
  have drop: "dropWhile is_ws (map f xs) = map f (dropWhile is_ws xs)" for xs
    using assms by (simp add: dropWhile_map o_def)
  show ?thesis
    by (simp add: str_trim_def trim_start_def trim_end_def drop rev_map)
qed

lemma str_trim_case [simp]:
  "str_trim (to_uppercase s) = to_uppercase (str_trim s)"
  "str_trim (to_lowercase s) = to_lowercase (str_trim s)"
  by (simp_all add: to_uppercase_def to_lowercase_def trim_map)

lemma dropWhile_id: "(\<forall>x\<in>set s. \<not> P x) \<Longrightarrow> dropWhile P s = s"
  by (cases s) auto

lemma dropWhile_hd: "s \<noteq> [] \<Longrightarrow> \<not> P (hd s) \<Longrightarrow> dropWhile P s = s"
  by (cases s) auto

lemma str_trim_id:
  assumes "s \<noteq> [] \<Longrightarrow> \<not> is_ws (hd s)" and "s \<noteq> [] \<Longrightarrow> \<not> is_ws (last s)"
  shows "str_trim s = s"
proof (cases "s = []")
  case False
  with assms have "dropWhile is_ws s = s" and "dropWhile is_ws (rev s) = rev s"
    by (auto intro!: dropWhile_hd simp: hd_rev)
  then show ?thesis by (simp add: str_simps)
qed (simp add: str_simps)

lemma trim_end_prefix: "prefix (rev (dropWhile P (rev s))) s"
  by (metis rev_rev_ident suffix_dropWhile suffix_to_prefix)

lemma hd_trim_start: "trim_start s \<noteq> [] \<Longrightarrow> \<not> is_ws (hd (trim_start s))"
  by (simp add: trim_start_def hd_dropWhile)

lemma last_trim_end: "trim_end s \<noteq> [] \<Longrightarrow> \<not> is_ws (last (trim_end s))"
  by (simp add: trim_end_def last_rev hd_dropWhile)

lemma hd_prefix: "prefix p s \<Longrightarrow> p \<noteq> [] \<Longrightarrow> hd p = hd s"
  by (auto simp: prefix_def)

lemma str_trim_edges:
  assumes "str_trim s \<noteq> []"
  shows "\<not> is_ws (hd (str_trim s))" and "\<not> is_ws (last (str_trim s))"
proof -
  have pre: "prefix (str_trim s) (trim_start s)"
    unfolding str_trim_def trim_end_def by (rule trim_end_prefix)
  with assms have "trim_start s \<noteq> []" by (auto simp: str_trim_def trim_end_def)
  from hd_trim_start [OF this] hd_prefix [OF pre assms]
  show "\<not> is_ws (hd (str_trim s))" by simp
  from assms show "\<not> is_ws (last (str_trim s))"
    unfolding str_trim_def by (rule last_trim_end)
qed

lemma str_trim_idem [simp]: "str_trim (str_trim s) = str_trim s"
  by (rule str_trim_id) (simp_all add: str_trim_edges)

lemma str_find_Some:
  "str_find s p = Some i \<Longrightarrow> prefix p (drop i s) \<and> i \<le> length s"
proof (induction s arbitrary: i)
  case (Cons c s)
  then show ?case by (cases i) (auto split: if_splits)
qed (auto split: if_splits)

lemma str_find_least: "str_find s p = Some i \<Longrightarrow> j < i \<Longrightarrow> \<not> prefix p (drop j s)"
proof (induction s arbitrary: i j)
  case (Cons c s)
  then show ?case by (cases j) (auto split: if_splits)
qed (auto split: if_splits)

lemma str_find_None: "str_find s p = None \<longleftrightarrow> \<not> sublist p s"
proof (induction s)
  case (Cons c s)
  then show ?case by (auto simp: sublist_Cons_right)
qed auto

lemma str_contains_iff: "str_contains s p \<longleftrightarrow> sublist p s"
  by (simp add: str_contains_def str_find_None)

lemma str_rfind_None: "str_rfind s p = None \<longleftrightarrow> \<not> sublist p s"
proof (induction s)
  case (Cons c s)
  then show ?case by (auto simp: sublist_Cons_right split: option.splits)
qed auto

lemma str_rfind_Some:
  "p \<noteq> [] \<Longrightarrow> str_rfind s p = Some i \<Longrightarrow>
     i \<le> length s \<and> prefix p (drop i s) \<and> \<not> sublist p (tl (drop i s))"
proof (induction s arbitrary: i)
  case (Cons c s)
  then show ?case
    by (cases "str_rfind s p") (auto simp: str_rfind_None split: if_splits)
qed simp

lemma str_rfind_split:
  assumes "p \<noteq> []" "prefix p b" "\<not> sublist p (tl b)"
  shows "str_rfind (a @ b) p = Some (length a)"
proof (induction a)
  case Nil
  from assms obtain c b' where "b = c # b'" by (cases b) auto
  with assms show ?case by (simp add: str_rfind_None [THEN iffD2])
qed simp

lemma all_prefix_Cons: "(\<forall>p. prefix p (c # s) \<longrightarrow> P p) \<longleftrightarrow> P [] \<and> (\<forall>p. prefix p s \<longrightarrow> P (c # p))"
  by (auto simp: prefix_Cons)

lemma split_on_not_Nil [simp]: "split_on d s \<noteq> []"
  by (induction s) (auto split: list.splits)

lemma split_on_append: "d \<notin> set w \<Longrightarrow> split_on d (w @ d # r) = w # split_on d r"
  by (induction w) auto

lemma split_on_no_sep: "d \<notin> set s \<Longrightarrow> split_on d s = [s]"
  by (induction s) auto

section \<open>Decimal numbers\<close>

definition digit :: "nat \<Rightarrow> char" where
  [str_simps]: "digit d = char_of (48 + d)"

fun show_nat :: "nat \<Rightarrow> string" where
  "show_nat n = (if n < 10 then [digit n] else show_nat (n div 10) @ [digit (n mod 10)])"

declare show_nat.simps [simp del]

text \<open>\<open>Display\<close> of an unsigned integer.\<close>

definition show_word :: "'a::len word \<Rightarrow> string" where
  [str_simps]: "show_word w = show_nat (unat w)"

text \<open>\<open>str::parse\<close> into an unsigned type with maximum \<open>m\<close>: an optional plus sign, then digits.\<close>

definition digits_value :: "string \<Rightarrow> nat" where
  "digits_value s = foldl (\<lambda>n c. n * 10 + ((of_char c :: nat) - 48)) 0 s"

definition parse_digits :: "string \<Rightarrow> nat option" where
  "parse_digits s = (if s \<noteq> [] \<and> list_all is_ascii_digit s then Some (digits_value s) else None)"

definition parse_unsigned :: "nat \<Rightarrow> string \<Rightarrow> nat option" where
  "parse_unsigned m s =
     (let body = (case s of [] \<Rightarrow> [] | c # r \<Rightarrow> if c = CHR ''+'' then r else s) in
      case parse_digits body of None \<Rightarrow> None | Some n \<Rightarrow> if n \<le> m then Some n else None)"

lemma of_char_digit: "d < 10 \<Longrightarrow> (of_char (digit d) :: nat) = 48 + d"
  by (simp add: digit_def)

lemma show_nat_not_Nil [simp]: "show_nat n \<noteq> []"
  by (subst show_nat.simps) simp

lemma show_nat_digits: "list_all is_ascii_digit (show_nat n)"
proof (induction n rule: show_nat.induct)
  case (1 n)
  show ?case
  proof (cases "n < 10")
    case True
    then show ?thesis by (subst show_nat.simps) (simp add: is_ascii_digit_def of_char_digit)
  next
    case False
    have "is_ascii_digit (digit (n mod 10))"
      using of_char_digit [of "n mod 10"] by (auto simp: is_ascii_digit_def)
    with 1 False show ?thesis by (subst show_nat.simps) simp
  qed
qed

lemma digits_value_show_nat [simp]: "digits_value (show_nat n) = n"
proof (induction n rule: show_nat.induct)
  case (1 n)
  show ?case
  proof (cases "n < 10")
    case True
    then show ?thesis by (subst show_nat.simps) (simp add: digits_value_def of_char_digit)
  next
    case False
    with 1 have "digits_value (show_nat (n div 10)) = n div 10" by simp
    with False show ?thesis
      by (subst show_nat.simps) (simp add: digits_value_def of_char_digit)
  qed
qed

lemma parse_show_nat [simp]: "n \<le> m \<Longrightarrow> parse_unsigned m (show_nat n) = Some n"
proof -
  assume le: "n \<le> m"
  obtain c r where cr: "show_nat n = c # r" by (cases "show_nat n") auto
  with show_nat_digits [of n] have "is_ascii_digit c" by simp
  then have "c \<noteq> CHR ''+''" by (auto simp: is_ascii_digit_def)
  with cr have "(case show_nat n of [] \<Rightarrow> [] | c # r \<Rightarrow> if c = CHR ''+'' then r else show_nat n)
      = show_nat n"
    by simp
  with le show_nat_digits [of n] show ?thesis
    by (simp add: parse_unsigned_def parse_digits_def Let_def)
qed

lemma show_nat_inject [simp]: "show_nat m = show_nat n \<longleftrightarrow> m = n"
  by (metis digits_value_show_nat)

lemma show_word_inject [simp]: "show_word v = show_word w \<longleftrightarrow> v = w"
  by (simp add: show_word_def word_unat_eq_iff)

text \<open>\<open>Display\<close> and \<open>parse\<close> of an \<open>i64\<close>.\<close>

definition show_i64 :: "i64 \<Rightarrow> string" where
  "show_i64 w = (if sint w < 0 then CHR ''-'' # show_nat (nat (- sint w)) else show_nat (nat (sint w)))"

definition parse_i64 :: "string \<Rightarrow> i64 option" where
  "parse_i64 s =
     (case s of
        [] \<Rightarrow> None
      | c # r \<Rightarrow>
          if c = CHR ''-'' then
            (case parse_digits r of None \<Rightarrow> None
             | Some n \<Rightarrow> if n \<le> 2 ^ 63 then Some (word_of_int (- int n)) else None)
          else map_option word_of_nat (parse_unsigned (2 ^ 63 - 1) s))"

section \<open>UTF-8\<close>

text \<open>
  The byte shape of UTF-8 text: a lead byte announces the number of continuation bytes that
  follow. Every Rust \<open>str\<close> has this shape.
\<close>

fun utf8_shape :: "nat \<Rightarrow> string \<Rightarrow> bool" where
  "utf8_shape n [] = (n = 0)"
| "utf8_shape n (c # s) =
     (if 0 < n then is_continuation c \<and> utf8_shape (n - 1) s
      else let b = of_char c :: nat in
        if b < 128 then utf8_shape 0 s
        else if 194 \<le> b \<and> b < 224 then utf8_shape 1 s
        else if 224 \<le> b \<and> b < 240 then utf8_shape 2 s
        else if 240 \<le> b \<and> b < 245 then utf8_shape 3 s
        else False)"

abbreviation is_utf8 :: "string \<Rightarrow> bool" where
  "is_utf8 s \<equiv> utf8_shape 0 s"

lemma is_continuation_iff: "is_continuation c \<longleftrightarrow> 128 \<le> (of_char c :: nat) \<and> (of_char c :: nat) < 192"
  by (simp add: is_continuation_def)

lemma utf8_start_not_continuation:
  "\<lbrakk>is_utf8 (c # s)\<rbrakk> \<Longrightarrow> \<not> is_continuation c"
  by (auto simp: is_continuation_iff Let_def split: if_splits)

lemma utf8_after_ascii:
  assumes "utf8_shape n s" "i < length s" "(of_char (s ! i) :: nat) < 128"
  shows "utf8_shape 0 (drop (Suc i) s)"
  using assms
proof (induction s arbitrary: n i)
  case (Cons c s)
  then show ?case
    by (cases i) (auto simp: is_continuation_iff Let_def split: if_splits)
qed simp

lemma utf8_boundary_after_ascii:
  assumes "is_utf8 s" "i < length s" "(of_char (s ! i) :: nat) < 128"
  shows "is_char_boundary s i" "is_char_boundary s (Suc i)"
proof -
  show "is_char_boundary s i"
    using assms by (auto simp: is_char_boundary_def is_continuation_iff)
  show "is_char_boundary s (Suc i)"
  proof (cases "Suc i < length s")
    case True
    then have "drop (Suc i) s = s ! Suc i # drop (Suc (Suc i)) s" by (rule Cons_nth_drop_Suc [symmetric])
    with utf8_after_ascii [OF assms] show ?thesis
      using True utf8_start_not_continuation [of "s ! Suc i"] by (simp add: is_char_boundary_def)
  qed (use assms in \<open>auto simp: is_char_boundary_def\<close>)
qed

section \<open>Control flow\<close>

text \<open>\<open>if let Some(x) = o { f(x) } else { e }\<close>.\<close>

definition if_some :: "'a option \<Rightarrow> ('a \<Rightarrow> 'b) \<Rightarrow> 'b \<Rightarrow> 'b" where
  "if_some x f e = (case x of Some v \<Rightarrow> f v | None \<Rightarrow> e)"

lemma if_some_simps [simp]: "if_some (Some v) f e = f v" "if_some None f e = e"
  by (simp_all add: if_some_def)

lemma if_some_intro: "(\<And>v. x = Some v \<Longrightarrow> P (f v)) \<Longrightarrow> (x = None \<Longrightarrow> P e) \<Longrightarrow> P (if_some x f e)"
  by (cases x) simp_all

end
