(* ===== verification/Protocol_Types.thy ===== *)
theory Protocol_Types
  imports Prelude
begin

text \<open>
  The enumerations of the protocol crate: \<open>DatasourceType\<close> and \<open>Error\<close>
  (\<^verbatim>\<open>kyomi-connect-protocol/src/types.rs\<close>, \<^verbatim>\<open>error.rs\<close>), \<open>SimpleType\<close>, \<open>ColumnInfo\<close> and
  \<open>QueryFormat\<close> (\<^verbatim>\<open>stream.rs\<close>), \<open>QueryStatus\<close> (\<^verbatim>\<open>kyomi-datasource/src/provider.rs\<close>),
  each with the string form it has on the wire and the parser for it.
\<close>

section \<open>Errors\<close>

text \<open>
  \<open>Error\<close> of \<^verbatim>\<open>error.rs\<close>; the payload of \<open>SerdeJson\<close> is kept as its message.
  \<open>error_to_string\<close> is the \<open>Display\<close> that \<^verbatim>\<open>thiserror\<close> derives.
\<close>

datatype error =
    Provider string
  | Connection string
  | NotSupported string
  | Internal string
  | SerdeJson string

fun error_to_string :: "error \<Rightarrow> string" where
  "error_to_string (Provider m) = m"
| "error_to_string (Connection m) = ''connection failed: '' @ m"
| "error_to_string (NotSupported m) = ''not supported: '' @ m"
| "error_to_string (Internal m) = m"
| "error_to_string (SerdeJson m) = m"

type_synonym 'a result = "error + 'a"

section \<open>Datasource types\<close>

datatype datasource_type =
    BigQuery | ClickHouse | Snowflake | Databricks | Redshift | Postgres | MySQL
  | SqlServer | Synapse | FlareDb

definition ALL_TYPES :: "datasource_type list" where
  "ALL_TYPES =
     [BigQuery, ClickHouse, Snowflake, Databricks, Redshift, Postgres, MySQL, SqlServer,
      Synapse, FlareDb]"

fun ds_as_str :: "datasource_type \<Rightarrow> string" where
  "ds_as_str BigQuery = ''bigquery''"
| "ds_as_str ClickHouse = ''clickhouse''"
| "ds_as_str Snowflake = ''snowflake''"
| "ds_as_str Databricks = ''databricks''"
| "ds_as_str Redshift = ''redshift''"
| "ds_as_str Postgres = ''postgres''"
| "ds_as_str MySQL = ''mysql''"
| "ds_as_str SqlServer = ''sqlserver''"
| "ds_as_str Synapse = ''synapse''"
| "ds_as_str FlareDb = ''flaredb''"

fun display_name :: "datasource_type \<Rightarrow> string" where
  "display_name BigQuery = ''BigQuery''"
| "display_name ClickHouse = ''ClickHouse''"
| "display_name Snowflake = ''Snowflake''"
| "display_name Databricks = ''Databricks''"
| "display_name Redshift = ''Amazon Redshift''"
| "display_name Postgres = ''PostgreSQL''"
| "display_name MySQL = ''MySQL''"
| "display_name SqlServer = ''SQL Server''"
| "display_name Synapse = ''Azure Synapse''"
| "display_name FlareDb = ''FlareDB''"

fun ds_default_port :: "datasource_type \<Rightarrow> u16 option" where
  "ds_default_port BigQuery = None"
| "ds_default_port ClickHouse = Some 8123"
| "ds_default_port Snowflake = None"
| "ds_default_port Databricks = Some 443"
| "ds_default_port Redshift = Some 5439"
| "ds_default_port Postgres = Some 5432"
| "ds_default_port MySQL = Some 3306"
| "ds_default_port SqlServer = Some 1433"
| "ds_default_port Synapse = Some 1433"
| "ds_default_port FlareDb = Some 8815"

definition ds_from_str :: "string \<Rightarrow> datasource_type result" where
  "ds_from_str s =
     (if s = ''bigquery'' then Inr BigQuery
      else if s = ''clickhouse'' then Inr ClickHouse
      else if s = ''snowflake'' then Inr Snowflake
      else if s = ''databricks'' then Inr Databricks
      else if s = ''redshift'' then Inr Redshift
      else if s = ''postgres'' then Inr Postgres
      else if s = ''mysql'' then Inr MySQL
      else if s = ''sqlserver'' then Inr SqlServer
      else if s = ''synapse'' then Inr Synapse
      else if s = ''flaredb'' then Inr FlareDb
      else Inl (Internal (''unsupported datasource type: '' @ [CHR 0x27] @ s @ [CHR 0x27] @
                 ''. Must be one of: '' @ str_join '', '' (map ds_as_str ALL_TYPES))))"

section \<open>Column types, formats and query status\<close>

datatype simple_type =
    TString | TNumber | TBoolean | TDate | TTime | TTimestamp | TTimestampTz | TUnknown

fun simple_as_str :: "simple_type \<Rightarrow> string" where
  "simple_as_str TString = ''string''"
| "simple_as_str TNumber = ''number''"
| "simple_as_str TBoolean = ''boolean''"
| "simple_as_str TDate = ''date''"
| "simple_as_str TTime = ''time''"
| "simple_as_str TTimestamp = ''timestamp''"
| "simple_as_str TTimestampTz = ''timestamptz''"
| "simple_as_str TUnknown = ''unknown''"

definition simple_from_str :: "string \<Rightarrow> string + simple_type" where
  "simple_from_str s =
     (if s = ''string'' then Inr TString
      else if s = ''number'' then Inr TNumber
      else if s = ''boolean'' then Inr TBoolean
      else if s = ''date'' then Inr TDate
      else if s = ''time'' then Inr TTime
      else if s = ''timestamp'' then Inr TTimestamp
      else if s = ''timestamptz'' then Inr TTimestampTz
      else if s = ''unknown'' then Inr TUnknown
      else Inl (''unknown SimpleType: '' @ [CHR 0x27] @ s @ [CHR 0x27]))"

record column_info =
  col_name :: string
  col_type :: simple_type

datatype query_format = Json | Arrow

datatype query_status = Success | Error

fun status_as_str :: "query_status \<Rightarrow> string" where
  "status_as_str Success = ''success''"
| "status_as_str Error = ''error''"

definition status_from_str :: "string \<Rightarrow> string + query_status" where
  "status_from_str s =
     (if s = ''success'' then Inr Success
      else if s = ''error'' then Inr Error
      else Inl (''unknown QueryStatus: '' @ [CHR 0x27] @ s @ [CHR 0x27]))"

section \<open>Properties\<close>

lemma simple_from_as_str [simp]: "simple_from_str (simple_as_str t) = Inr t"
  by (cases t) (simp_all add: simple_from_str_def)

lemma simple_from_str_inv: "simple_from_str s = Inr t \<Longrightarrow> s = simple_as_str t"
  by (auto simp: simple_from_str_def split: if_splits)

lemma status_from_as_str [simp]: "status_from_str (status_as_str t) = Inr t"
  by (cases t) (simp_all add: status_from_str_def)

lemma ds_from_as_str [simp]: "ds_from_str (ds_as_str t) = Inr t"
  by (cases t) (simp_all add: ds_from_str_def)

lemma ds_from_str_inv: "ds_from_str s = Inr t \<Longrightarrow> s = ds_as_str t"
  by (auto simp: ds_from_str_def split: if_splits)

text \<open>
  Datasource type strings: the parser accepts exactly the strings the printer produces,
  one per type, and each type appears in the canonical list once.
\<close>

lemma datasource_type_roundtrip:
  "(ds_from_str s = Inr t \<longleftrightarrow> s = ds_as_str t) \<and> set ALL_TYPES = UNIV \<and> distinct ALL_TYPES"
proof -
  have "ds_from_str s = Inr t \<longleftrightarrow> s = ds_as_str t"
    using ds_from_str_inv by auto
  moreover have "x \<in> set ALL_TYPES" for x
    by (cases x) (simp_all add: ALL_TYPES_def)
  moreover have "distinct ALL_TYPES"
    by (simp add: ALL_TYPES_def)
  ultimately show ?thesis by blast
qed

end
