(* ===== verification/Type_Mapping.thy ===== *)
theory Type_Mapping
  imports Protocol_Types
begin

text \<open>
  The type mappings of \<^verbatim>\<open>kyomi-datasource/src/type_mapping.rs\<close>: from the type names, OIDs
  and type codes of each database engine to \<open>SimpleType\<close>, and the Arrow type each
  \<open>SimpleType\<close> is stored as (\<open>simple_type_to_arrow\<close> of \<^verbatim>\<open>arrow_builder.rs\<close>).

  The mapping functions match on upper- or lower-cased text; the ClickHouse mapping slices
  the type name at fixed byte offsets, so its result is an option, with \<^const>\<open>None\<close> for the
  panic at a byte that is inside a character.
\<close>

section \<open>Integer codes\<close>

definition map_postgres_type_oid :: "u32 \<Rightarrow> simple_type" where
  "map_postgres_type_oid oid =
     (if oid = 16 then TBoolean
      else if oid \<in> {20, 21, 23, 26} then TNumber
      else if oid \<in> {700, 701, 1700} then TNumber
      else if oid = 790 then TNumber
      else if oid \<in> {18, 19, 25, 1042, 1043} then TString
      else if oid = 1186 then TString
      else if oid = 17 then TString
      else if oid = 1082 then TDate
      else if oid = 1083 then TTime
      else if oid = 1114 then TTimestamp
      else if oid = 1184 then TTimestampTz
      else if oid \<in> {1009, 1015, 1016, 1007} then TString
      else if oid \<in> {114, 3802} then TString
      else if oid = 2950 then TString
      else TUnknown)"

definition map_redshift_type_code :: "u32 \<Rightarrow> simple_type" where
  "map_redshift_type_code code = map_postgres_type_oid code"

definition map_snowflake_type_code :: "i32 \<Rightarrow> simple_type" where
  "map_snowflake_type_code code =
     (if code \<in> {0, 1} then TNumber
      else if code = 2 then TString
      else if code = 3 then TDate
      else if code \<in> {4, 8} then TTimestamp
      else if code \<in> {5, 9, 10, 11} then TString
      else if code \<in> {6, 7} then TTimestampTz
      else if code = 12 then TTime
      else if code = 13 then TBoolean
      else TUnknown)"

section \<open>MySQL\<close>

text \<open>The name before an opening parenthesis, trimmed; the whole name if there is none.\<close>

definition before_paren :: "string \<Rightarrow> string" where
  "before_paren s = (case str_find s ''('' of Some i \<Rightarrow> str_trim (take i s) | None \<Rightarrow> s)"

definition map_mysql_type_name :: "string \<Rightarrow> simple_type" where
  "map_mysql_type_name type_name =
     (let upper = trim_end_str '' UNSIGNED'' (str_trim (to_uppercase type_name)) in
      if upper \<in> {''TINYINT'', ''SMALLINT'', ''MEDIUMINT'', ''INT'', ''INTEGER'', ''BIGINT''}
      then TNumber
      else if upper \<in> {''FLOAT'', ''DOUBLE'', ''DECIMAL'', ''NUMERIC'', ''REAL''} then TNumber
      else if upper \<in> {''VARCHAR'', ''CHAR'', ''TEXT'', ''TINYTEXT'', ''MEDIUMTEXT'', ''LONGTEXT''}
      then TString
      else if upper \<in> {''BLOB'', ''TINYBLOB'', ''MEDIUMBLOB'', ''LONGBLOB''} then TString
      else if upper \<in> {''BINARY'', ''VARBINARY''} then TString
      else if upper \<in> {''ENUM'', ''SET'', ''JSON''} then TString
      else if upper = ''DATE'' then TDate
      else if upper = ''TIME'' then TTime
      else if upper = ''DATETIME'' then TTimestamp
      else if upper = ''TIMESTAMP'' then TTimestampTz
      else if upper = ''YEAR'' then TNumber
      else if upper \<in> {''BIT'', ''BOOL'', ''BOOLEAN''} then TBoolean
      else
        (let base = before_paren upper in
         if base \<in> {''TINYINT'', ''SMALLINT'', ''MEDIUMINT'', ''INT'', ''INTEGER'', ''BIGINT''}
         then TNumber
         else if base \<in> {''FLOAT'', ''DOUBLE'', ''DECIMAL'', ''NUMERIC'', ''REAL''} then TNumber
         else if base \<in> {''VARCHAR'', ''CHAR'', ''TEXT'', ''TINYTEXT'', ''MEDIUMTEXT'', ''LONGTEXT''}
         then TString
         else if base \<in> {''BLOB'', ''TINYBLOB'', ''MEDIUMBLOB'', ''LONGBLOB''} then TString
         else if base \<in> {''BINARY'', ''VARBINARY''} then TString
         else if base \<in> {''ENUM'', ''SET'', ''JSON''} then TString
         else if base \<in> {''BIT'', ''BOOL'', ''BOOLEAN''} then TBoolean
         else if base = ''YEAR'' then TNumber
         else TUnknown))"

section \<open>ClickHouse\<close>

definition strip_wrapper :: "string \<Rightarrow> string \<Rightarrow> string option" where
  "strip_wrapper type_str wrapper =
     (if length wrapper + 2 < length type_str then
        (case str_slice type_str 0 (length wrapper) of
           None \<Rightarrow> None
         | Some pre \<Rightarrow>
             if eq_ignore_ascii_case pre wrapper
                \<and> type_str ! length wrapper = CHR ''(''
                \<and> type_str ! (length type_str - 1) = CHR '')''
             then str_slice type_str (length wrapper + 1) (length type_str - 1)
             else Some type_str)
      else Some type_str)"

definition map_clickhouse_inner_type :: "string \<Rightarrow> simple_type" where
  "map_clickhouse_inner_type inner =
     (let upper = to_uppercase inner in
      if upper \<in> {''BOOL'', ''BOOLEAN''} then TBoolean
      else if upper \<in> {''DATE'', ''DATE32''} then TDate
      else if upper = ''DATETIME'' then TTimestamp
      else if upper \<in> {''STRING'', ''UUID'', ''JSON'',
                       ''OBJECT('' @ [CHR 0x27] @ ''JSON'' @ [CHR 0x27] @ '')''} then TString
      else if starts_with upper ''INT'' \<or> starts_with upper ''UINT''
              \<or> starts_with upper ''FLOAT'' \<or> starts_with upper ''DECIMAL'' then TNumber
      else if starts_with upper ''DATETIME64'' then TTimestamp
      else if starts_with upper ''FIXEDSTRING'' \<or> starts_with upper ''ENUM'' then TString
      else if starts_with upper ''ARRAY'' \<or> starts_with upper ''MAP''
              \<or> starts_with upper ''TUPLE'' then TString
      else TUnknown)"

definition map_clickhouse_type :: "string \<Rightarrow> simple_type option" where
  "map_clickhouse_type ch_type =
     (case strip_wrapper (str_trim ch_type) ''Nullable'' of
        None \<Rightarrow> None
      | Some inner \<Rightarrow>
          (case strip_wrapper inner ''LowCardinality'' of
             None \<Rightarrow> None
           | Some inner' \<Rightarrow> Some (map_clickhouse_inner_type inner')))"

section \<open>Databricks, T-SQL and BigQuery\<close>

definition map_databricks_type :: "string \<Rightarrow> simple_type" where
  "map_databricks_type type_name =
     (let upper = str_trim (to_uppercase type_name) in
      if upper \<in> {''TINYINT'', ''SMALLINT'', ''INT'', ''INTEGER'', ''BIGINT''} then TNumber
      else if upper \<in> {''FLOAT'', ''DOUBLE'', ''DECIMAL''} then TNumber
      else if upper \<in> {''STRING'', ''CHAR'', ''VARCHAR'', ''BINARY''} then TString
      else if upper = ''BOOLEAN'' then TBoolean
      else if upper = ''DATE'' then TDate
      else if upper \<in> {''TIMESTAMP'', ''TIMESTAMP_NTZ''} then TTimestamp
      else if upper \<in> {''VOID'', ''NULL''} then TUnknown
      else if starts_with upper ''DECIMAL('' \<or> starts_with upper ''NUMERIC('' then TNumber
      else if starts_with upper ''ARRAY<'' \<or> starts_with upper ''MAP<''
              \<or> starts_with upper ''STRUCT<'' then TString
      else if starts_with upper ''VARCHAR('' \<or> starts_with upper ''CHAR('' then TString
      else TUnknown)"

definition map_tds_type :: "string \<Rightarrow> simple_type" where
  "map_tds_type type_name =
     (let base = before_paren (str_trim (to_lowercase type_name)) in
      if base \<in> {''int'', ''bigint'', ''smallint'', ''tinyint''} then TNumber
      else if base \<in> {''decimal'', ''numeric'', ''float'', ''real''} then TNumber
      else if base \<in> {''money'', ''smallmoney''} then TNumber
      else if base \<in> {''varchar'', ''nvarchar'', ''char'', ''nchar''} then TString
      else if base \<in> {''text'', ''ntext'', ''xml''} then TString
      else if base = ''uniqueidentifier'' then TString
      else if base \<in> {''binary'', ''varbinary'', ''image''} then TString
      else if base = ''date'' then TDate
      else if base = ''time'' then TTime
      else if base \<in> {''datetime'', ''datetime2'', ''smalldatetime''} then TTimestamp
      else if base = ''datetimeoffset'' then TTimestampTz
      else if base = ''bit'' then TBoolean
      else if base = ''sql_variant'' then TString
      else TUnknown)"

definition map_bigquery_type :: "string \<Rightarrow> simple_type" where
  "map_bigquery_type type_name =
     (let upper = str_trim (to_uppercase type_name) in
      if upper = ''DATE'' then TDate
      else if upper = ''DATETIME'' then TTimestamp
      else if upper = ''TIMESTAMP'' then TTimestampTz
      else if upper = ''TIME'' then TTime
      else if upper \<in> {''INT64'', ''INTEGER'', ''FLOAT64'', ''FLOAT'', ''NUMERIC'', ''BIGNUMERIC''}
      then TNumber
      else if upper \<in> {''STRING'', ''BYTES'', ''GEOGRAPHY'', ''JSON''} then TString
      else if upper \<in> {''BOOL'', ''BOOLEAN''} then TBoolean
      else if upper \<in> {''STRUCT'', ''RECORD'', ''ARRAY'', ''RANGE''} then TString
      else TUnknown)"

section \<open>Arrow data types\<close>

text \<open>
  The variants of Arrow's \<open>DataType\<close> that the sources name, with their parameters; the
  wildcard of \<open>map_arrow_type\<close> covers the rest, \<open>DtOther\<close>.
\<close>

datatype time_unit = TuSecond | TuMillisecond | TuMicrosecond | TuNanosecond

datatype data_type =
    DtNull | DtBoolean
  | DtInt8 | DtInt16 | DtInt32 | DtInt64 | DtUInt8 | DtUInt16 | DtUInt32 | DtUInt64
  | DtFloat16 | DtFloat32 | DtFloat64
  | DtDecimal128 u8 u8 | DtDecimal256 u8 u8
  | DtUtf8 | DtLargeUtf8
  | DtDate32 | DtDate64
  | DtTime32 time_unit | DtTime64 time_unit
  | DtTimestamp time_unit "string option"
  | DtDuration time_unit | DtInterval
  | DtBinary | DtLargeBinary | DtFixedSizeBinary i32
  | DtOther string

fun map_arrow_type :: "data_type \<Rightarrow> simple_type" where
  "map_arrow_type DtBoolean = TBoolean"
| "map_arrow_type DtInt8 = TNumber"
| "map_arrow_type DtInt16 = TNumber"
| "map_arrow_type DtInt32 = TNumber"
| "map_arrow_type DtInt64 = TNumber"
| "map_arrow_type DtUInt8 = TNumber"
| "map_arrow_type DtUInt16 = TNumber"
| "map_arrow_type DtUInt32 = TNumber"
| "map_arrow_type DtUInt64 = TNumber"
| "map_arrow_type DtFloat16 = TNumber"
| "map_arrow_type DtFloat32 = TNumber"
| "map_arrow_type DtFloat64 = TNumber"
| "map_arrow_type (DtDecimal128 _ _) = TNumber"
| "map_arrow_type (DtDecimal256 _ _) = TNumber"
| "map_arrow_type DtUtf8 = TString"
| "map_arrow_type DtLargeUtf8 = TString"
| "map_arrow_type DtDate32 = TDate"
| "map_arrow_type DtDate64 = TDate"
| "map_arrow_type (DtTime32 _) = TTime"
| "map_arrow_type (DtTime64 _) = TTime"
| "map_arrow_type (DtTimestamp _ None) = TTimestamp"
| "map_arrow_type (DtTimestamp _ (Some _)) = TTimestampTz"
| "map_arrow_type (DtDuration _) = TString"
| "map_arrow_type DtInterval = TString"
| "map_arrow_type DtBinary = TString"
| "map_arrow_type DtLargeBinary = TString"
| "map_arrow_type (DtFixedSizeBinary _) = TString"
| "map_arrow_type _ = TUnknown"

fun simple_type_to_arrow :: "simple_type \<Rightarrow> data_type" where
  "simple_type_to_arrow TNumber = DtFloat64"
| "simple_type_to_arrow TBoolean = DtBoolean"
| "simple_type_to_arrow TString = DtUtf8"
| "simple_type_to_arrow TUnknown = DtUtf8"
| "simple_type_to_arrow TDate = DtDate32"
| "simple_type_to_arrow TTime = DtTime64 TuMicrosecond"
| "simple_type_to_arrow TTimestamp = DtTimestamp TuMicrosecond None"
| "simple_type_to_arrow TTimestampTz = DtTimestamp TuMicrosecond (Some ''UTC'')"

section \<open>Lemmas\<close>

lemma char_upper_eq_paren [simp]:
  "char_upper c = CHR ''('' \<longleftrightarrow> c = CHR ''(''"
  "char_upper c = CHR '')'' \<longleftrightarrow> c = CHR '')''"
  by (simp_all add: char_upper_eq_nonletter is_ascii_upper_def is_ascii_lower_def)

lemma is_continuation_char_upper [simp]: "is_continuation (char_upper c) = is_continuation c"
proof (cases "is_ascii_lower c")
  case True
  from of_char_char_upper [OF True] True show ?thesis
    by (auto simp: is_continuation_def is_ascii_lower_def)
qed (simp add: char_upper_def)

lemma is_char_boundary_upper [simp]:
  "is_char_boundary (to_uppercase s) i = is_char_boundary s i"
  by (auto simp: is_char_boundary_def to_uppercase_def)

lemma length_to_uppercase [simp]: "length (to_uppercase s) = length s"
  by (simp add: to_uppercase_def)

lemma str_slice_upper:
  "str_slice (to_uppercase s) i j = map_option to_uppercase (str_slice s i j)"
  by (auto simp: str_slice_def) (auto simp: to_uppercase_def take_map drop_map)

lemma eq_ignore_case_upper [simp]:
  "eq_ignore_ascii_case (to_uppercase a) b = eq_ignore_ascii_case a b"
  by (simp add: eq_ignore_ascii_case_def to_uppercase_def o_def)

lemma strip_wrapper_upper:
  "strip_wrapper (to_uppercase s) w = map_option to_uppercase (strip_wrapper s w)"
proof (cases "length w + 2 < length s")
  case True
  then have "to_uppercase s ! length w = char_upper (s ! length w)"
    and "to_uppercase s ! (length s - 1) = char_upper (s ! (length s - 1))"
    by (simp_all add: to_uppercase_def)
  with True show ?thesis
    by (auto simp: strip_wrapper_def str_slice_upper split: option.splits)
qed (simp add: strip_wrapper_def)

lemma strip_wrapper_other:
  assumes "length w \<le> length s \<Longrightarrow> is_char_boundary s (length w)"
    and "\<not> eq_ignore_ascii_case (take (length w) s) w"
  shows "strip_wrapper s w = Some s"
  using assms by (auto simp: strip_wrapper_def str_slice_def is_char_boundary_def)

lemma strip_wrapper_wrapped:
  assumes "t \<noteq> []" and "\<not> is_continuation (hd t)"
  shows "strip_wrapper (w @ ''('' @ t @ '')'') w = Some t"
proof -
  let ?s = "w @ ''('' @ t @ '')''"
  have len: "length w + 2 < length ?s" using assms(1) by (cases t) auto
  have "?s ! length w = CHR ''(''" by (simp add: nth_append)
  then have b: "is_char_boundary ?s (length w)"
    by (simp add: is_char_boundary_def is_continuation_def)
  have s0: "str_slice ?s 0 (length w) = Some w"
    using b by (simp add: str_slice_def is_char_boundary_def)
  have last: "?s ! (length ?s - 1) = CHR '')''" by (simp add: nth_append)
  have "?s ! (length w + 1) = hd t" using assms(1) by (cases t) (simp_all add: nth_append)
  then have b1: "is_char_boundary ?s (length w + 1)"
    using assms by (simp add: is_char_boundary_def)
  have b2: "is_char_boundary ?s (length ?s - 1)"
    using last by (simp add: is_char_boundary_def is_continuation_def)
  have "str_slice ?s (length w + 1) (length ?s - 1) = Some t"
    using b1 b2 by (simp add: str_slice_def)
  with len s0 last show ?thesis
    by (simp add: strip_wrapper_def eq_ignore_ascii_case_def nth_append)
qed

section \<open>Properties\<close>

lemma map_mysql_upper: "map_mysql_type_name (to_uppercase s) = map_mysql_type_name s"
  by (simp add: map_mysql_type_name_def)

lemma map_databricks_upper: "map_databricks_type (to_uppercase s) = map_databricks_type s"
  by (simp add: map_databricks_type_def)

lemma map_tds_upper: "map_tds_type (to_uppercase s) = map_tds_type s"
  by (simp add: map_tds_type_def)

lemma map_bigquery_upper: "map_bigquery_type (to_uppercase s) = map_bigquery_type s"
  by (simp add: map_bigquery_type_def)

lemma map_clickhouse_upper: "map_clickhouse_type (to_uppercase s) = map_clickhouse_type s"
  by (simp add: map_clickhouse_type_def strip_wrapper_upper map_clickhouse_inner_type_def
        split: option.splits)

lemma eq_ignore_case_imp_upper:
  "eq_ignore_ascii_case a b \<Longrightarrow> to_uppercase a = to_uppercase b"
  by (metis eq_ignore_ascii_case_def to_lowercase_def to_uppercase_simps(4))

text \<open>
  Type-name mapping ignores ASCII case: for every text-based engine, two names that
  differ only in letter case map to the same column type (for ClickHouse, panics included).
\<close>

theorem type_name_case_insensitive:
  assumes "eq_ignore_ascii_case a b"
  shows "map_mysql_type_name a = map_mysql_type_name b
    \<and> map_databricks_type a = map_databricks_type b
    \<and> map_tds_type a = map_tds_type b
    \<and> map_bigquery_type a = map_bigquery_type b
    \<and> map_clickhouse_type a = map_clickhouse_type b"
proof -
  from assms have "to_uppercase a = to_uppercase b" by (rule eq_ignore_case_imp_upper)
  then show ?thesis
    by (metis map_mysql_upper map_databricks_upper map_tds_upper map_bigquery_upper
        map_clickhouse_upper)
qed

theorem type_name_case_insensitive_witness:
  "eq_ignore_ascii_case ''Int'' ''iNT'' \<and> map_tds_type ''Int'' = map_tds_type ''iNT''"
proof -
  have h: "eq_ignore_ascii_case ''Int'' ''iNT''" by code_simp
  show ?thesis using h type_name_case_insensitive [OF h] by simp
qed

text \<open>
  \<open>Nullable\<close> is transparent for ClickHouse: wrapping a type name that is nonempty, has no
  surrounding blanks, starts a character and is not itself \<open>Nullable(...)\<close> maps to the same
  column type as the name alone.
\<close>

theorem clickhouse_nullable_transparent:
  assumes "t \<noteq> []" and "str_trim t = t" and "\<not> is_continuation (hd t)"
    and "strip_wrapper t ''Nullable'' = Some t"
  shows "map_clickhouse_type (''Nullable'' @ ''('' @ t @ '')'') = map_clickhouse_type t"
proof -
  have "str_trim (''Nullable'' @ ''('' @ t @ '')'') = ''Nullable'' @ ''('' @ t @ '')''"
    by (rule str_trim_id) (simp_all add: is_ws_def)
  then show ?thesis
    unfolding map_clickhouse_type_def
    by (simp only: strip_wrapper_wrapped [OF assms(1,3)] assms(2,4) option.case)
qed

theorem clickhouse_nullable_transparent_witness:
  "map_clickhouse_type (''Nullable'' @ ''('' @ ''UInt8'' @ '')'') = map_clickhouse_type ''UInt8''"
proof (rule clickhouse_nullable_transparent)
  show "str_trim ''UInt8'' = ''UInt8''" by (simp add: str_simps)
  show "\<not> is_continuation (hd ''UInt8'')" by (simp add: str_simps)
  show "strip_wrapper ''UInt8'' ''Nullable'' = Some ''UInt8''"
    by (simp add: strip_wrapper_def)
qed simp

text \<open>
  The nesting ClickHouse itself uses, \<open>LowCardinality(Nullable(T))\<close>, is not unwrapped:
  whatever the inner type, the result is \<open>Unknown\<close>, because the \<open>Nullable\<close> wrapper is
  stripped before the \<open>LowCardinality\<close> one and only once.
\<close>

theorem clickhouse_low_cardinality_nullable_unknown:
  "map_clickhouse_type (''LowCardinality'' @ ''('' @ (''Nullable('' @ t @ '')'') @ '')'')
     = Some TUnknown"
proof -
  let ?n = "''Nullable('' @ t @ '')''"
  let ?s = "''LowCardinality'' @ ''('' @ ?n @ '')''"
  have trim: "str_trim ?s = ?s"
    by (rule str_trim_id) (simp_all add: is_ws_def)
  have n: "strip_wrapper ?s ''Nullable'' = Some ?s"
    by (rule strip_wrapper_other)
      (simp_all add: is_char_boundary_def is_continuation_def eq_ignore_ascii_case_def
        char_class_defs)
  have l: "strip_wrapper ?s ''LowCardinality'' = Some ?n"
    by (rule strip_wrapper_wrapped) (simp_all add: is_continuation_def)
  have "map_clickhouse_inner_type ?n = TUnknown"
    by (simp add: map_clickhouse_inner_type_def str_simps)
  with trim n l show ?thesis
    by (simp only: map_clickhouse_type_def option.case)
qed

text \<open>
  The ClickHouse mapping panics exactly on names that put a continuation byte where a
  slice ends: a trimmed name of more than ten bytes whose ninth byte is inside a character
  (such as an \<open>Enum8\<close> whose first label starts with an accented letter) panics, and a name
  made of ASCII bytes never does.
\<close>

theorem clickhouse_panic:
  "(10 < length (str_trim s) \<and> is_continuation (str_trim s ! 8) \<longrightarrow> map_clickhouse_type s = None)
   \<and> ((\<forall>c\<in>set s. \<not> is_continuation c) \<longrightarrow> map_clickhouse_type s \<noteq> None)"
proof -
  have slice: "(\<forall>c\<in>set u. \<not> is_continuation c) \<Longrightarrow> i \<le> j \<Longrightarrow> j \<le> length u \<Longrightarrow>
      str_slice u i j = Some (take (j - i) (drop i u))" for u i j
    by (auto simp: str_slice_def is_char_boundary_def)
  have strip: "\<exists>v. strip_wrapper u w = Some v \<and> set v \<subseteq> set u"
    if "\<forall>c\<in>set u. \<not> is_continuation c" for u w
    using slice [OF that]
    by (auto simp: strip_wrapper_def dest!: in_set_takeD in_set_dropD)
  have sub: "set (str_trim s) \<subseteq> set s"
    by (auto simp: str_trim_def trim_start_def trim_end_def dest!: set_dropWhileD)
  have "map_clickhouse_type s \<noteq> None" if a: "\<forall>c\<in>set s. \<not> is_continuation c"
  proof -
    from a sub obtain v where v: "strip_wrapper (str_trim s) ''Nullable'' = Some v"
      and "set v \<subseteq> set (str_trim s)" using strip by blast
    with a sub obtain v' where "strip_wrapper v ''LowCardinality'' = Some v'"
      using strip [of v] by blast
    with v show ?thesis by (simp add: map_clickhouse_type_def)
  qed
  moreover have "map_clickhouse_type s = None"
    if "10 < length (str_trim s)" and "is_continuation (str_trim s ! 8)"
  proof -
    from that have "str_slice (str_trim s) 0 8 = None"
      by (simp add: str_slice_def is_char_boundary_def)
    with that(1) have "strip_wrapper (str_trim s) ''Nullable'' = None"
      by (simp add: strip_wrapper_def numeral_eq_Suc)
    then show ?thesis by (simp add: map_clickhouse_type_def)
  qed
  ultimately show ?thesis by blast
qed

theorem clickhouse_panic_witness:
  "map_clickhouse_type (''Enum8('' @ [CHR 0x27, CHR 0xC3, CHR 0xA9, CHR 0x27] @ '' = 1)'') = None
   \<and> map_clickhouse_type ''Enum8'' \<noteq> None"
proof -
  let ?s = "''Enum8('' @ [CHR 0x27, CHR 0xC3, CHR 0xA9, CHR 0x27] @ '' = 1)''"
  have "10 < length (str_trim ?s) \<and> is_continuation (str_trim ?s ! 8)"
    by code_simp
  then have "map_clickhouse_type ?s = None"
    by (rule clickhouse_panic [THEN conjunct1, THEN mp])
  moreover have "\<forall>c\<in>set ''Enum8''. \<not> is_continuation c" by code_simp
  then have "map_clickhouse_type ''Enum8'' \<noteq> None"
    by (rule clickhouse_panic [THEN conjunct2, THEN mp])
  ultimately show ?thesis by (rule conjI)
qed

text \<open>
  Storing a column type as Arrow and mapping the Arrow type back loses only the
  distinction between \<open>String\<close> and \<open>Unknown\<close>.
\<close>

theorem arrow_type_roundtrip:
  "map_arrow_type (simple_type_to_arrow t) = (if t = TUnknown then TString else t)"
  by (cases t) simp_all

end
