(* ===== verification/Json.thy ===== *)
theory Json
  imports Prelude
begin

text \<open>
  JSON values as \<^verbatim>\<open>serde_json::Value\<close> has them, the accessors the sources use, and the
  primitive serialisers and deserialisers that derived \<^verbatim>\<open>Serialize\<close>/\<^verbatim>\<open>Deserialize\<close> code calls.

  A JSON object is a \<^verbatim>\<open>BTreeMap\<close>: an association list with strictly increasing keys
  (\<open>obj_ok\<close>). The locale \<open>object_map\<close> states what a client may use of it; it is interpreted
  on the list operations here. A deserialiser returns an option, \<^const>\<open>None\<close> for any error.
\<close>

section \<open>Objects\<close>

type_synonym 'v obj = "(string \<times> 'v) list"

definition obj_ok :: "'v obj \<Rightarrow> bool" where
  "obj_ok m = sorted_wrt (<) (map fst m)"

fun obj_insert :: "string \<Rightarrow> 'v \<Rightarrow> 'v obj \<Rightarrow> 'v obj" where
  "obj_insert k v [] = [(k, v)]"
| "obj_insert k v ((k', v') # m) =
     (if k = k' then (k, v) # m
      else if k < k' then (k, v) # (k', v') # m
      else (k', v') # obj_insert k v m)"

definition obj_remove :: "string \<Rightarrow> 'v obj \<Rightarrow> 'v obj" where
  "obj_remove k m = filter (\<lambda>(k', v). k' \<noteq> k) m"

text \<open>The contract of an object, and what a client that fills in fields gets from it.\<close>

locale object_map =
  fixes empty :: 'm
    and insert :: "string \<Rightarrow> 'v \<Rightarrow> 'm \<Rightarrow> 'm"
    and remove :: "string \<Rightarrow> 'm \<Rightarrow> 'm"
    and lookup :: "'m \<Rightarrow> string \<Rightarrow> 'v option"
    and invar :: "'m \<Rightarrow> bool"
  assumes lookup_empty: "lookup empty k = None"
    and lookup_insert: "invar m \<Longrightarrow> lookup (insert k v m) j = (if j = k then Some v else lookup m j)"
    and lookup_remove: "invar m \<Longrightarrow> lookup (remove k m) j = (if j = k then None else lookup m j)"
    and invar_empty: "invar empty"
    and invar_insert: "invar m \<Longrightarrow> invar (insert k v m)"
    and invar_remove: "invar m \<Longrightarrow> invar (remove k m)"
begin

lemma fill_invar: "invar m \<Longrightarrow> invar (fold (\<lambda>(k, v). insert k v) kvs m)"
  by (induction kvs arbitrary: m) (auto simp: invar_insert)

lemma fill_lookup:
  "invar m \<Longrightarrow> distinct (map fst kvs) \<Longrightarrow>
   lookup (fold (\<lambda>(k, v). insert k v) kvs m) j
     = (case map_of kvs j of Some v \<Rightarrow> Some v | None \<Rightarrow> lookup m j)"
proof (induction kvs arbitrary: m)
  case (Cons kv kvs)
  obtain k v where kv: "kv = (k, v)" by (cases kv)
  from Cons.prems kv have "map_of kvs k = None" by (simp add: map_of_eq_None_iff)
  with Cons kv show ?case
    by (auto simp: invar_insert lookup_insert split: option.splits)
qed simp

lemma insert_frame: "invar m \<Longrightarrow> j \<noteq> k \<Longrightarrow> lookup (insert k v m) j = lookup m j"
  by (simp add: lookup_insert)

end

lemma sorted_keys_distinct: "obj_ok m \<Longrightarrow> distinct (map fst m)"
  unfolding obj_ok_def by (induction m) (auto simp: less_le)

lemma obj_insert_keys: "set (map fst (obj_insert k v m)) = insert k (set (map fst m))"
  by (induction k v m rule: obj_insert.induct) auto

lemma obj_insert_ok: "obj_ok m \<Longrightarrow> obj_ok (obj_insert k v m)"
proof (induction k v m rule: obj_insert.induct)
  case (2 k v k' v' m)
  have keys: "fst ` set (obj_insert k v m) = insert k (fst ` set m)"
    using obj_insert_keys [of k v m] by simp
  from 2 keys show ?case
    by (auto simp: obj_ok_def dest: less_trans)
qed (simp add: obj_ok_def)

lemma obj_insert_lookup: "map_of (obj_insert k v m) j = (if j = k then Some v else map_of m j)"
  by (induction k v m rule: obj_insert.induct) auto

lemma obj_remove_lookup: "map_of (obj_remove k m) j = (if j = k then None else map_of m j)"
  by (induction m) (auto simp: obj_remove_def)

lemma obj_remove_ok: "obj_ok m \<Longrightarrow> obj_ok (obj_remove k m)"
  unfolding obj_ok_def obj_remove_def
  by (induction m) (auto simp: sorted_wrt_map)

lemma obj_ok_empty: "obj_ok []"
  by (simp add: obj_ok_def)

interpretation btree: object_map "[]" obj_insert obj_remove map_of obj_ok
  by unfold_locales
    (simp_all add: obj_insert_lookup obj_remove_lookup obj_insert_ok obj_remove_ok obj_ok_empty)

section \<open>Values\<close>

datatype number = PosInt u64 | NegInt i64 | Float f64

datatype json =
    JNull
  | JBool bool
  | JNumber number
  | JString string
  | JArray "json list"
  | JObject "(string \<times> json) list"

fun json_get :: "json \<Rightarrow> string \<Rightarrow> json option" where
  "json_get (JObject m) k = map_of m k"
| "json_get _ k = None"

fun as_str :: "json \<Rightarrow> string option" where
  "as_str (JString s) = Some s"
| "as_str _ = None"

fun as_bool :: "json \<Rightarrow> bool option" where
  "as_bool (JBool b) = Some b"
| "as_bool _ = None"

fun as_u64 :: "json \<Rightarrow> u64 option" where
  "as_u64 (JNumber (PosInt n)) = Some n"
| "as_u64 _ = None"

fun as_i64 :: "json \<Rightarrow> i64 option" where
  "as_i64 (JNumber (PosInt n)) = (if 0 \<le> sint n then Some n else None)"
| "as_i64 (JNumber (NegInt n)) = Some n"
| "as_i64 _ = None"

fun is_object :: "json \<Rightarrow> bool" where
  "is_object (JObject _) = True"
| "is_object _ = False"

fun is_string :: "json \<Rightarrow> bool" where
  "is_string (JString _) = True"
| "is_string _ = False"

text \<open>\<open>config.get(k).and_then(|v| v.as_str())\<close> and the boolean analogue.\<close>

definition get_str :: "json \<Rightarrow> string \<Rightarrow> string option" where
  "get_str j k = Option.bind (json_get j k) as_str"

definition get_bool :: "json \<Rightarrow> string \<Rightarrow> bool option" where
  "get_bool j k = Option.bind (json_get j k) as_bool"

text \<open>\<open>.filter(|s| !s.is_empty())\<close> on an optional string.\<close>

fun nonempty :: "string option \<Rightarrow> string option" where
  "nonempty (Some s) = (if s = [] then None else Some s)"
| "nonempty None = None"

text \<open>\<open>as_object_mut\<close> followed by \<open>insert\<close>, a no-op on a value that is not an object.\<close>

fun json_insert :: "string \<Rightarrow> json \<Rightarrow> json \<Rightarrow> json" where
  "json_insert k v (JObject m) = JObject (obj_insert k v m)"
| "json_insert k v j = j"

fun json_remove :: "string \<Rightarrow> json \<Rightarrow> json" where
  "json_remove k (JObject m) = JObject (obj_remove k m)"
| "json_remove k j = j"

lemma json_get_insert:
  "is_object j \<Longrightarrow> json_get (json_insert k v j) k' = (if k' = k then Some v else json_get j k')"
  by (cases j) (simp_all add: obj_insert_lookup)

lemma is_object_insert [simp]: "is_object (json_insert k v j) = is_object j"
  by (cases j) simp_all

lemma json_insert_not_object [simp]: "\<not> is_object j \<Longrightarrow> json_insert k v j = j"
  by (cases j) simp_all

section \<open>Building objects\<close>

text \<open>
  A serialised struct: the fields in order, those whose value is \<^const>\<open>None\<close> skipped
  (\<^verbatim>\<open>skip_serializing_if\<close>), inserted one by one into an empty object.
\<close>

definition present :: "(string \<times> json option) list \<Rightarrow> (string \<times> json) list" where
  "present fs = List.map_filter (\<lambda>(k, ov). map_option (Pair k) ov) fs"

definition json_obj :: "(string \<times> json option) list \<Rightarrow> json" where
  "json_obj fs = JObject (fold (\<lambda>(k, v). obj_insert k v) (present fs) [])"

lemma present_simps [simp]:
  "present [] = []"
  "present ((k, None) # fs) = present fs"
  "present ((k, Some v) # fs) = (k, v) # present fs"
  by (simp_all add: present_def map_filter_simps)

lemma present_keys: "set (map fst (present fs)) \<subseteq> set (map fst fs)"
proof (induction fs)
  case (Cons f fs)
  then show ?case by (cases f; cases "snd f") auto
qed simp

lemma present_distinct: "distinct (map fst fs) \<Longrightarrow> distinct (map fst (present fs))"
proof (induction fs)
  case (Cons f fs)
  with present_keys [of fs] show ?case by (cases f; cases "snd f") auto
qed simp

lemma present_lookup:
  "distinct (map fst fs) \<Longrightarrow> map_of (present fs) k = Option.bind (map_of fs k) (\<lambda>v. v)"
proof (induction fs)
  case (Cons f fs)
  have "fst f \<notin> set (map fst (present fs))"
    using Cons.prems present_keys [of fs] by auto
  with Cons show ?case
    by (cases f; cases "snd f") (auto simp: map_of_eq_None_iff [symmetric])
qed simp

lemma json_get_obj [simp]:
  "distinct (map fst fs) \<Longrightarrow> json_get (json_obj fs) k = Option.bind (map_of fs k) (\<lambda>v. v)"
  using btree.fill_lookup [OF btree.invar_empty present_distinct, of fs k]
  by (simp add: json_obj_def present_lookup split: option.splits)

lemma is_object_json_obj [simp]: "is_object (json_obj fs)"
  by (simp add: json_obj_def)

section \<open>Primitive (de)serialisers\<close>

definition ser_u32 :: "u32 \<Rightarrow> json" where
  "ser_u32 w = JNumber (PosInt (ucast w))"

definition ser_i64 :: "i64 \<Rightarrow> json" where
  "ser_i64 w = JNumber (if 0 \<le> sint w then PosInt w else NegInt w)"

fun de_u32 :: "json \<Rightarrow> u32 option" where
  "de_u32 (JNumber (PosInt n)) = (if unat n < 2 ^ 32 then Some (ucast n) else None)"
| "de_u32 _ = None"

fun de_opt :: "(json \<Rightarrow> 'a option) \<Rightarrow> json \<Rightarrow> 'a option option" where
  "de_opt f JNull = Some None"
| "de_opt f j = map_option Some (f j)"

fun de_list :: "(json \<Rightarrow> 'a option) \<Rightarrow> json \<Rightarrow> 'a list option" where
  "de_list f (JArray xs) = those (map f xs)"
| "de_list f _ = None"

text \<open>
  A struct comes as an object, read by field name, or as an array of at most \<open>n\<close> elements,
  read by position. A missing field falls back to \<open>dflt\<close> where the field has
  \<^verbatim>\<open>serde(default)\<close> (\<open>de_default\<close>); an \<^verbatim>\<open>Option\<close> field without it is \<^const>\<open>None\<close> when an
  object omits it (\<open>de_option\<close>); any other field is required (\<open>de_required\<close>).
\<close>

fun struct_shape :: "nat \<Rightarrow> json \<Rightarrow> bool" where
  "struct_shape n (JObject _) = True"
| "struct_shape n (JArray xs) = (length xs \<le> n)"
| "struct_shape n _ = False"

fun field_at :: "json \<Rightarrow> string \<Rightarrow> nat \<Rightarrow> json option" where
  "field_at (JObject m) k i = map_of m k"
| "field_at (JArray xs) k i = (if i < length xs then Some (xs ! i) else None)"
| "field_at _ k i = None"

definition de_required :: "(json \<Rightarrow> 'a option) \<Rightarrow> json option \<Rightarrow> 'a option" where
  "de_required f ov = Option.bind ov f"

definition de_default :: "'a \<Rightarrow> (json \<Rightarrow> 'a option) \<Rightarrow> json option \<Rightarrow> 'a option" where
  "de_default dflt f ov = (case ov of None \<Rightarrow> Some dflt | Some v \<Rightarrow> f v)"

definition de_option :: "json \<Rightarrow> (json \<Rightarrow> 'a option) \<Rightarrow> json option \<Rightarrow> 'a option option" where
  "de_option j f ov = (case ov of None \<Rightarrow> (if is_object j then Some None else None)
                       | Some v \<Rightarrow> de_opt f v)"

text \<open>A unit enum variant: its name, or an object with the name as its one key and null.\<close>

fun de_variant :: "(string \<Rightarrow> 'a option) \<Rightarrow> json \<Rightarrow> 'a option" where
  "de_variant f (JString s) = f s"
| "de_variant f (JObject [(k, JNull)]) = f k"
| "de_variant f _ = None"

lemmas de_defs = de_required_def de_default_def de_option_def

lemma field_at_object: "is_object j \<Longrightarrow> field_at j k i = json_get j k"
  by (cases j) simp_all

lemma struct_shape_object: "is_object j \<Longrightarrow> struct_shape n j"
  by (cases j) simp_all

lemma ucast_ucast_u32 [simp]: "(ucast (ucast (w :: u32) :: u64) :: u32) = w"
  by (rule bit_word_eqI) (simp add: bit_ucast_iff)

lemma unat_ucast_u32: "unat (ucast (w :: u32) :: u64) = unat w"
proof -
  have "unat w < 2 ^ 32" using unsigned_less [of w, where ?'a = nat] by simp
  then show ?thesis by (simp add: unsigned_ucast_eq take_bit_nat_eq_self_iff)
qed

lemma de_ser_u32 [simp]: "de_u32 (ser_u32 w) = Some w"
  using unsigned_less [of w, where ?'a = nat] by (simp add: ser_u32_def unat_ucast_u32)

lemma de_ser_i64 [simp]: "as_i64 (ser_i64 w) = Some w"
  by (simp add: ser_i64_def)

lemma ser_not_null [simp]: "ser_u32 w \<noteq> JNull" "ser_i64 v \<noteq> JNull"
  by (simp_all add: ser_u32_def ser_i64_def)

lemma de_opt_not_null: "j \<noteq> JNull \<Longrightarrow> de_opt f j = map_option Some (f j)"
  by (cases j) simp_all

lemma those_map_inv: "(\<And>x. x \<in> set xs \<Longrightarrow> f (g x) = Some x) \<Longrightarrow> those (map f (map g xs)) = Some xs"
  by (induction xs) auto

end
