(* ===== verification/Arrow_Builder.thy ===== *)
theory Arrow_Builder
  imports Type_Mapping Json
begin

text \<open>
  The column-wise result builder of \<^verbatim>\<open>kyomi-datasource/src/arrow_builder.rs\<close>: one typed
  builder per column, the \<open>append_*\<close> operations with their fallbacks for a column of another
  type, \<open>finish\<close> and the conversion of JSON values. Column builders hold the values appended
  so far, \<^const>\<open>None\<close> for a null. An out-of-range column index panics in Rust: the append
  operations return an option, \<^const>\<open>None\<close> for that panic.

  What the builder takes from other crates is a parameter, grouped in the record
  \<open>value_api\<close>: float conversion and printing, and the \<^verbatim>\<open>chrono\<close> parsers and printers.
\<close>

section \<open>Column builders\<close>

datatype column_builder =
    BFloat64 "f64 option list"
  | BBoolean "bool option list"
  | BUtf8 "string option list"
  | BDate32 "i32 option list"
  | BTime64Micro "i64 option list"
  | BTimestampMicro "i64 option list"
  | BTimestampMicroTz "i64 option list"

fun from_simple_type :: "simple_type \<Rightarrow> column_builder" where
  "from_simple_type TNumber = BFloat64 []"
| "from_simple_type TBoolean = BBoolean []"
| "from_simple_type TString = BUtf8 []"
| "from_simple_type TUnknown = BUtf8 []"
| "from_simple_type TDate = BDate32 []"
| "from_simple_type TTime = BTime64Micro []"
| "from_simple_type TTimestamp = BTimestampMicro []"
| "from_simple_type TTimestampTz = BTimestampMicroTz []"

fun col_append_null :: "column_builder \<Rightarrow> column_builder" where
  "col_append_null (BFloat64 xs) = BFloat64 (xs @ [None])"
| "col_append_null (BBoolean xs) = BBoolean (xs @ [None])"
| "col_append_null (BUtf8 xs) = BUtf8 (xs @ [None])"
| "col_append_null (BDate32 xs) = BDate32 (xs @ [None])"
| "col_append_null (BTime64Micro xs) = BTime64Micro (xs @ [None])"
| "col_append_null (BTimestampMicro xs) = BTimestampMicro (xs @ [None])"
| "col_append_null (BTimestampMicroTz xs) = BTimestampMicroTz (xs @ [None])"

text \<open>A finished Arrow array: its type and its values.\<close>

datatype cell = CF64 f64 | CBool bool | CStr string | CDate i32 | CTime i64 | CTs i64

record arrow_array =
  arr_type :: data_type
  arr_vals :: "cell option list"

fun col_finish :: "column_builder \<Rightarrow> arrow_array" where
  "col_finish (BFloat64 xs) = \<lparr>arr_type = DtFloat64, arr_vals = map (map_option CF64) xs\<rparr>"
| "col_finish (BBoolean xs) = \<lparr>arr_type = DtBoolean, arr_vals = map (map_option CBool) xs\<rparr>"
| "col_finish (BUtf8 xs) = \<lparr>arr_type = DtUtf8, arr_vals = map (map_option CStr) xs\<rparr>"
| "col_finish (BDate32 xs) = \<lparr>arr_type = DtDate32, arr_vals = map (map_option CDate) xs\<rparr>"
| "col_finish (BTime64Micro xs) =
     \<lparr>arr_type = DtTime64 TuMicrosecond, arr_vals = map (map_option CTime) xs\<rparr>"
| "col_finish (BTimestampMicro xs) =
     \<lparr>arr_type = DtTimestamp TuMicrosecond None, arr_vals = map (map_option CTs) xs\<rparr>"
| "col_finish (BTimestampMicroTz xs) =
     \<lparr>arr_type = DtTimestamp TuMicrosecond (Some ''UTC''), arr_vals = map (map_option CTs) xs\<rparr>"

section \<open>The result builder\<close>

text \<open>A schema is the list of its (nullable) fields.\<close>

type_synonym schema = "(string \<times> data_type) list"

record arrow_builder =
  ab_schema :: schema
  ab_builders :: "column_builder list"
  ab_row_count :: nat

definition builder_new :: "column_info list \<Rightarrow> arrow_builder" where
  "builder_new columns =
     \<lparr>ab_schema = map (\<lambda>c. (col_name c, simple_type_to_arrow (col_type c))) columns,
      ab_builders = map (\<lambda>c. from_simple_type (col_type c)) columns,
      ab_row_count = 0\<rparr>"

definition upd_col ::
  "nat \<Rightarrow> (column_builder \<Rightarrow> column_builder) \<Rightarrow> arrow_builder \<Rightarrow> arrow_builder option" where
  "upd_col i f b =
     (if i < length (ab_builders b)
      then Some (b\<lparr>ab_builders := (ab_builders b)[i := f (ab_builders b ! i)]\<rparr>) else None)"

definition append_null :: "nat \<Rightarrow> arrow_builder \<Rightarrow> arrow_builder option" where
  "append_null i b = upd_col i col_append_null b"

text \<open>
  What the sources take from the standard library's float code, from \<^verbatim>\<open>serde_json\<close>'s printer
  and from \<^verbatim>\<open>chrono\<close>. A date is its number of days since the epoch, a time of day its second
  and nanosecond, a date-time its second since the epoch (UTC) and nanosecond.
\<close>

type_synonym naive_date = i64
type_synonym naive_time = "u32 \<times> u32"
type_synonym naive_datetime = "i64 \<times> u32"

record value_api =
  f64_of_i64 :: "i64 \<Rightarrow> f64"
  f64_of_u64 :: "u64 \<Rightarrow> f64"
  f64_to_string :: "f64 \<Rightarrow> string"
  f64_parse :: "string \<Rightarrow> f64 option"
  f64_secs_to_micros :: "f64 \<Rightarrow> i64" \<comment> \<open>\<open>(f * 1_000_000.0) as i64\<close>\<close>
  json_to_string :: "json \<Rightarrow> string"
  ce_date_to_string :: "i32 \<Rightarrow> string option"
  date_to_string :: "naive_date \<Rightarrow> string"
  time_to_string :: "naive_time \<Rightarrow> string"
  naive_to_string :: "naive_datetime \<Rightarrow> string"
  utc_to_rfc3339 :: "naive_datetime \<Rightarrow> string"
  timestamp_micros :: "naive_datetime \<Rightarrow> i64"
  date_parse :: "string \<Rightarrow> naive_date option" \<comment> \<open>format \<^verbatim>\<open>%Y-%m-%d\<close>\<close>
  naive_parse :: "string \<Rightarrow> string \<Rightarrow> naive_datetime option" \<comment> \<open>text, then format\<close>
  rfc3339_parse :: "string \<Rightarrow> naive_datetime option"
  time_parse :: "string \<Rightarrow> string \<Rightarrow> naive_time option"
  naive_format_t :: "naive_datetime \<Rightarrow> string" \<comment> \<open>format \<^verbatim>\<open>%Y-%m-%dT%H:%M:%S\<close>\<close>
  f64_of_f32 :: "32 word \<Rightarrow> f64"
  f64_cents :: "i64 \<Rightarrow> f64" \<comment> \<open>\<open>v as f64 / 100.0\<close>\<close>
  f64_number :: "f64 \<Rightarrow> number option" \<comment> \<open>\<^verbatim>\<open>serde_json::Number::from_f64\<close>\<close>
  hex_lower :: "u8 list \<Rightarrow> string" \<comment> \<open>\<^verbatim>\<open>hex::encode\<close>\<close>
  utf8_lossy :: "u8 list \<Rightarrow> string"

definition append_f64 :: "value_api \<Rightarrow> nat \<Rightarrow> f64 \<Rightarrow> arrow_builder \<Rightarrow> arrow_builder option" where
  "append_f64 api i v b = upd_col i (\<lambda>c. case c of
       BFloat64 xs \<Rightarrow> BFloat64 (xs @ [Some v])
     | BUtf8 xs \<Rightarrow> BUtf8 (xs @ [Some (f64_to_string api v)])
     | _ \<Rightarrow> col_append_null c) b"

definition append_i64 :: "value_api \<Rightarrow> nat \<Rightarrow> i64 \<Rightarrow> arrow_builder \<Rightarrow> arrow_builder option" where
  "append_i64 api i v b = upd_col i (\<lambda>c. case c of
       BFloat64 xs \<Rightarrow> BFloat64 (xs @ [Some (f64_of_i64 api v)])
     | BUtf8 xs \<Rightarrow> BUtf8 (xs @ [Some (show_i64 v)])
     | _ \<Rightarrow> col_append_null c) b"

definition append_bool :: "nat \<Rightarrow> bool \<Rightarrow> arrow_builder \<Rightarrow> arrow_builder option" where
  "append_bool i v b = upd_col i (\<lambda>c. case c of
       BBoolean xs \<Rightarrow> BBoolean (xs @ [Some v])
     | BUtf8 xs \<Rightarrow> BUtf8 (xs @ [Some (if v then ''true'' else ''false'')])
     | _ \<Rightarrow> col_append_null c) b"

definition append_string ::
  "value_api \<Rightarrow> nat \<Rightarrow> string \<Rightarrow> arrow_builder \<Rightarrow> arrow_builder option" where
  "append_string api i v b = upd_col i (\<lambda>c. case c of
       BUtf8 xs \<Rightarrow> BUtf8 (xs @ [Some v])
     | BFloat64 xs \<Rightarrow> BFloat64 (xs @ [f64_parse api v])
     | BBoolean xs \<Rightarrow>
         BBoolean (xs @ [if v \<in> {''true'', ''1'', ''t'', ''yes''} then Some True
                         else if v \<in> {''false'', ''0'', ''f'', ''no''} then Some False
                         else None])
     | _ \<Rightarrow> col_append_null c) b"

definition append_date_days ::
  "value_api \<Rightarrow> nat \<Rightarrow> i32 \<Rightarrow> arrow_builder \<Rightarrow> arrow_builder option" where
  "append_date_days api i days b = upd_col i (\<lambda>c. case c of
       BDate32 xs \<Rightarrow> BDate32 (xs @ [Some days])
     | BUtf8 xs \<Rightarrow> BUtf8 (xs @ [ce_date_to_string api (days + 719163)])
     | _ \<Rightarrow> col_append_null c) b"

definition append_naive_date ::
  "value_api \<Rightarrow> nat \<Rightarrow> naive_date \<Rightarrow> arrow_builder \<Rightarrow> arrow_builder option" where
  "append_naive_date api i date b =
     (let days = ucast date in
      upd_col i (\<lambda>c. case c of
         BDate32 xs \<Rightarrow> BDate32 (xs @ [Some days])
       | BUtf8 xs \<Rightarrow> BUtf8 (xs @ [Some (date_to_string api date)])
       | _ \<Rightarrow> col_append_null c) b)"

definition append_naive_time ::
  "value_api \<Rightarrow> nat \<Rightarrow> naive_time \<Rightarrow> arrow_builder \<Rightarrow> arrow_builder option" where
  "append_naive_time api i time b =
     (let micros = ucast (fst time) * 1000000 + ucast (snd time) div 1000 in
      upd_col i (\<lambda>c. case c of
         BTime64Micro xs \<Rightarrow> BTime64Micro (xs @ [Some micros])
       | BUtf8 xs \<Rightarrow> BUtf8 (xs @ [Some (time_to_string api time)])
       | _ \<Rightarrow> col_append_null c) b)"

definition append_naive_datetime ::
  "value_api \<Rightarrow> nat \<Rightarrow> naive_datetime \<Rightarrow> arrow_builder \<Rightarrow> arrow_builder option" where
  "append_naive_datetime api i dt b =
     (let micros = timestamp_micros api dt in
      upd_col i (\<lambda>c. case c of
         BTimestampMicro xs \<Rightarrow> BTimestampMicro (xs @ [Some micros])
       | BTimestampMicroTz xs \<Rightarrow> BTimestampMicroTz (xs @ [Some micros])
       | BUtf8 xs \<Rightarrow> BUtf8 (xs @ [Some (naive_to_string api dt)])
       | _ \<Rightarrow> col_append_null c) b)"

definition append_datetime_utc ::
  "value_api \<Rightarrow> nat \<Rightarrow> naive_datetime \<Rightarrow> arrow_builder \<Rightarrow> arrow_builder option" where
  "append_datetime_utc api i dt b =
     (let micros = timestamp_micros api dt in
      upd_col i (\<lambda>c. case c of
         BTimestampMicroTz xs \<Rightarrow> BTimestampMicroTz (xs @ [Some micros])
       | BTimestampMicro xs \<Rightarrow> BTimestampMicro (xs @ [Some micros])
       | BUtf8 xs \<Rightarrow> BUtf8 (xs @ [Some (utc_to_rfc3339 api dt)])
       | _ \<Rightarrow> col_append_null c) b)"

definition append_timestamp_micros ::
  "value_api \<Rightarrow> nat \<Rightarrow> i64 \<Rightarrow> arrow_builder \<Rightarrow> arrow_builder option" where
  "append_timestamp_micros api i micros b = upd_col i (\<lambda>c. case c of
       BTimestampMicro xs \<Rightarrow> BTimestampMicro (xs @ [Some micros])
     | BTimestampMicroTz xs \<Rightarrow> BTimestampMicroTz (xs @ [Some micros])
     | BFloat64 xs \<Rightarrow> BFloat64 (xs @ [Some (f64_of_i64 api micros)])
     | BUtf8 xs \<Rightarrow> BUtf8 (xs @ [Some (show_i64 micros)])
     | _ \<Rightarrow> col_append_null c) b"

definition finish_row :: "arrow_builder \<Rightarrow> arrow_builder" where
  "finish_row b = b\<lparr>ab_row_count := ab_row_count b + 1\<rparr>"

section \<open>Finishing a batch\<close>

text \<open>
  A record batch is its schema and columns; building one and writing the IPC stream format
  are the \<^verbatim>\<open>arrow\<close> crate's, a parameter. \<open>Inl\<close> is the error's text.
\<close>

record record_batch =
  rb_schema :: schema
  rb_columns :: "arrow_array list"
  rb_num_rows :: nat

record arrow_api =
  rb_try_new :: "schema \<Rightarrow> arrow_array list \<Rightarrow> string + record_batch"
  ipc_schema :: "schema \<Rightarrow> string + u8 list"
  ipc_batch :: "schema \<Rightarrow> record_batch \<Rightarrow> string + u8 list"

definition builder_finish :: "arrow_api \<Rightarrow> arrow_builder \<Rightarrow> string + record_batch" where
  "builder_finish arrow b = rb_try_new arrow (ab_schema b) (map col_finish (ab_builders b))"

definition finish_to_ipc :: "arrow_api \<Rightarrow> arrow_builder \<Rightarrow> string + u8 list" where
  "finish_to_ipc arrow b =
     (case builder_finish arrow b of
        Inl e \<Rightarrow> Inl e
      | Inr batch \<Rightarrow> ipc_batch arrow (ab_schema b) batch)"

definition schema_to_ipc_bytes :: "arrow_api \<Rightarrow> schema \<Rightarrow> string + u8 list" where
  "schema_to_ipc_bytes arrow s = ipc_schema arrow s"

definition batch_to_ipc_bytes :: "arrow_api \<Rightarrow> record_batch \<Rightarrow> string + u8 list" where
  "batch_to_ipc_bytes arrow batch = ipc_batch arrow (rb_schema batch) batch"

section \<open>JSON values\<close>

fun as_f64 :: "value_api \<Rightarrow> json \<Rightarrow> f64 option" where
  "as_f64 api (JNumber (PosInt n)) = Some (f64_of_u64 api n)"
| "as_f64 api (JNumber (NegInt n)) = Some (f64_of_i64 api n)"
| "as_f64 api (JNumber (Float x)) = Some x"
| "as_f64 api _ = None"

abbreviation "fmt_t \<equiv> ''%Y-%m-%dT%H:%M:%S''"
abbreviation "fmt_s \<equiv> ''%Y-%m-%d %H:%M:%S''"
abbreviation "fmt_tf \<equiv> ''%Y-%m-%dT%H:%M:%S%.f''"
abbreviation "fmt_sf \<equiv> ''%Y-%m-%d %H:%M:%S%.f''"

definition json_number_to_arrow ::
  "value_api \<Rightarrow> json \<Rightarrow> arrow_builder \<Rightarrow> nat \<Rightarrow> arrow_builder option" where
  "json_number_to_arrow api value b i =
     if_some (as_f64 api value) (\<lambda>n. append_f64 api i n b)
     (if_some (as_i64 value) (\<lambda>n. append_i64 api i n b)
     (if_some (as_str value) (\<lambda>s.
        if_some (parse_i64 s) (\<lambda>n. append_i64 api i n b)
        (if_some (f64_parse api s) (\<lambda>f. append_f64 api i f b)
        (append_null i b)))
     (append_null i b)))"

definition json_timestamp_to_arrow ::
  "value_api \<Rightarrow> json \<Rightarrow> arrow_builder \<Rightarrow> nat \<Rightarrow> arrow_builder option" where
  "json_timestamp_to_arrow api value b i =
     if_some (as_str value) (\<lambda>s.
        if_some (naive_parse api s fmt_t) (\<lambda>dt. append_naive_datetime api i dt b)
        (if_some (naive_parse api s fmt_s) (\<lambda>dt. append_naive_datetime api i dt b)
        (if_some (naive_parse api s fmt_tf) (\<lambda>dt. append_naive_datetime api i dt b)
        (if_some (naive_parse api s fmt_sf) (\<lambda>dt. append_naive_datetime api i dt b)
        (if_some (rfc3339_parse api s) (\<lambda>dt. append_naive_datetime api i dt b)
        (if_some (f64_parse api s)
           (\<lambda>f. append_timestamp_micros api i (f64_secs_to_micros api f) b)
        (append_string api i s b)))))))
     (append_null i b)"

definition json_timestamptz_to_arrow ::
  "value_api \<Rightarrow> json \<Rightarrow> arrow_builder \<Rightarrow> nat \<Rightarrow> arrow_builder option" where
  "json_timestamptz_to_arrow api value b i =
     if_some (as_str value) (\<lambda>s.
        if_some (rfc3339_parse api s) (\<lambda>dt. append_datetime_utc api i dt b)
        (if_some (naive_parse api s fmt_t) (\<lambda>dt. append_datetime_utc api i dt b)
        (if_some (naive_parse api s fmt_s) (\<lambda>dt. append_datetime_utc api i dt b)
        (if_some (f64_parse api s)
           (\<lambda>f. append_timestamp_micros api i (f64_secs_to_micros api f) b)
        (append_string api i s b)))))
     (if_some (as_f64 api value)
        (\<lambda>f. append_timestamp_micros api i (f64_secs_to_micros api f) b)
     (append_null i b))"

definition json_text_to_arrow ::
  "value_api \<Rightarrow> json \<Rightarrow> arrow_builder \<Rightarrow> nat \<Rightarrow> arrow_builder option" where
  "json_text_to_arrow api value b i =
     if_some (as_str value) (\<lambda>s. append_string api i s b)
       (append_string api i (json_to_string api value) b)"

definition json_value_to_arrow ::
  "value_api \<Rightarrow> json \<Rightarrow> simple_type \<Rightarrow> arrow_builder \<Rightarrow> nat \<Rightarrow> arrow_builder option" where
  "json_value_to_arrow api value ty b i =
     (if value = JNull then append_null i b
      else case ty of
        TNumber \<Rightarrow> json_number_to_arrow api value b i
      | TBoolean \<Rightarrow>
          if_some (as_bool value) (\<lambda>v. append_bool i v b)
          (if_some (as_str value)
             (\<lambda>s. append_bool i (s = ''1'' \<or> eq_ignore_ascii_case s ''true'') b)
          (append_null i b))
      | TDate \<Rightarrow>
          if_some (as_str value) (\<lambda>s.
            if_some (date_parse api s) (\<lambda>d. append_naive_date api i d b)
            (append_string api i s b))
          (append_null i b)
      | TTimestamp \<Rightarrow> json_timestamp_to_arrow api value b i
      | TTimestampTz \<Rightarrow> json_timestamptz_to_arrow api value b i
      | TTime \<Rightarrow>
          if_some (as_str value) (\<lambda>s.
            if_some (time_parse api s ''%H:%M:%S'') (\<lambda>t. append_naive_time api i t b)
            (if_some (time_parse api s ''%H:%M:%S%.f'') (\<lambda>t. append_naive_time api i t b)
            (append_string api i s b)))
          (append_null i b)
      | TString \<Rightarrow> json_text_to_arrow api value b i
      | TUnknown \<Rightarrow> json_text_to_arrow api value b i)"

section \<open>Rows over columns\<close>

text \<open>
  The loop every row converter has: \<open>for (idx, col) in columns.iter().enumerate()\<close>, with a
  body that appends to column \<open>idx\<close>; \<open>write_row\<close> is the loop followed by \<open>finish_row\<close>.
\<close>

fun for_columns ::
  "(column_info \<Rightarrow> nat \<Rightarrow> arrow_builder \<Rightarrow> arrow_builder option) \<Rightarrow> nat \<Rightarrow> column_info list
   \<Rightarrow> arrow_builder \<Rightarrow> arrow_builder option" where
  "for_columns put idx [] b = Some b"
| "for_columns put idx (col # cols) b =
     Option.bind (put col idx b) (for_columns put (idx + 1) cols)"

definition write_row ::
  "(column_info \<Rightarrow> nat \<Rightarrow> arrow_builder \<Rightarrow> arrow_builder option) \<Rightarrow> column_info list
   \<Rightarrow> arrow_builder \<Rightarrow> arrow_builder option" where
  "write_row put columns b = map_option finish_row (for_columns put 0 columns b)"

section \<open>What one append does\<close>

definition col_vals :: "column_builder \<Rightarrow> cell option list" where
  "col_vals c = arr_vals (col_finish c)"

definition col_dt :: "column_builder \<Rightarrow> data_type" where
  "col_dt c = arr_type (col_finish c)"

definition cell_appended ::
  "nat \<Rightarrow> cell option \<Rightarrow> arrow_builder \<Rightarrow> arrow_builder \<Rightarrow> bool" where
  "cell_appended i v b b' \<longleftrightarrow>
     i < length (ab_builders b) \<and>
     ab_schema b' = ab_schema b \<and> ab_row_count b' = ab_row_count b \<and>
     (\<exists>c. ab_builders b' = (ab_builders b)[i := c] \<and>
        col_dt c = col_dt (ab_builders b ! i) \<and>
        col_vals c = col_vals (ab_builders b ! i) @ [v])"

definition appends :: "nat \<Rightarrow> arrow_builder \<Rightarrow> arrow_builder option \<Rightarrow> bool" where
  "appends i b r \<longleftrightarrow> (\<exists>b' v. r = Some b' \<and> cell_appended i v b b')"

definition appends_cell ::
  "nat \<Rightarrow> cell option \<Rightarrow> arrow_builder \<Rightarrow> arrow_builder option \<Rightarrow> bool" where
  "appends_cell i v b r \<longleftrightarrow> (\<exists>b'. r = Some b' \<and> cell_appended i v b b')"

named_theorems append_intros

lemma appends_cell_appends: "appends_cell i v b r \<Longrightarrow> appends i b r"
  by (auto simp: appends_def appends_cell_def)

lemma col_vals_simps [simp]:
  "col_vals (BFloat64 xf) = map (map_option CF64) xf"
  "col_vals (BBoolean xb) = map (map_option CBool) xb"
  "col_vals (BUtf8 xs) = map (map_option CStr) xs"
  "col_vals (BDate32 xd) = map (map_option CDate) xd"
  "col_vals (BTime64Micro xt) = map (map_option CTime) xt"
  "col_vals (BTimestampMicro xt) = map (map_option CTs) xt"
  "col_vals (BTimestampMicroTz xt) = map (map_option CTs) xt"
  by (simp_all add: col_vals_def)

lemma col_dt_simps [simp]:
  "col_dt (BFloat64 xf) = DtFloat64" "col_dt (BBoolean xb) = DtBoolean"
  "col_dt (BUtf8 xs) = DtUtf8" "col_dt (BDate32 xd) = DtDate32"
  "col_dt (BTime64Micro xt) = DtTime64 TuMicrosecond"
  "col_dt (BTimestampMicro xt) = DtTimestamp TuMicrosecond None"
  "col_dt (BTimestampMicroTz xt) = DtTimestamp TuMicrosecond (Some ''UTC'')"
  by (simp_all add: col_dt_def)

lemma upd_col_appends:
  assumes "i < length (ab_builders b)" "\<And>c. col_dt (f c) = col_dt c"
    "\<And>c. \<exists>v. col_vals (f c) = col_vals c @ [v]"
  shows "appends i b (upd_col i f b)"
  using assms by (fastforce simp: appends_def cell_appended_def upd_col_def)

lemma upd_col_appends_cell:
  assumes "i < length (ab_builders b)"
    "col_dt (f (ab_builders b ! i)) = col_dt (ab_builders b ! i)"
    "col_vals (f (ab_builders b ! i)) = col_vals (ab_builders b ! i) @ [v]"
  shows "appends_cell i v b (upd_col i f b)"
  using assms by (auto simp: appends_cell_def cell_appended_def upd_col_def)

lemmas append_defs =
  append_null_def append_f64_def append_i64_def append_bool_def append_string_def
  append_date_days_def append_naive_date_def append_naive_time_def append_naive_datetime_def
  append_datetime_utc_def append_timestamp_micros_def

lemma col_append_null_grows [simp]:
  "col_dt (col_append_null c) = col_dt c" "col_vals (col_append_null c) = col_vals c @ [None]"
  by (cases c; simp)+

text \<open>Every append operation, on a column that exists, appends one cell to it and nothing else.\<close>

lemma append_ops [append_intros]:
  assumes "i < length (ab_builders b)"
  shows "appends i b (append_null i b)" "appends i b (append_f64 api i x b)"
    "appends i b (append_i64 api i n b)" "appends i b (append_bool i v b)"
    "appends i b (append_string api i s b)" "appends i b (append_date_days api i d b)"
    "appends i b (append_naive_date api i dy b)" "appends i b (append_naive_time api i t b)"
    "appends i b (append_naive_datetime api i dt b)" "appends i b (append_datetime_utc api i dt b)"
    "appends i b (append_timestamp_micros api i n b)"
  unfolding append_defs Let_def
  by (rule upd_col_appends [OF assms]; auto split: column_builder.split)+

lemma append_null_cell [append_intros]:
  "i < length (ab_builders b) \<Longrightarrow> appends_cell i None b (append_null i b)"
  by (simp add: append_null_def upd_col_appends_cell)

definition time_micros :: "naive_time \<Rightarrow> i64" where
  "time_micros t = ucast (fst t) * 1000000 + ucast (snd t) div 1000"

text \<open>What each operation stores in a column of the type it is meant for.\<close>

lemma append_cell_ops [append_intros]:
  assumes "i < length (ab_builders b)"
  shows
    "col_dt (ab_builders b ! i) = DtFloat64 \<Longrightarrow>
       appends_cell i (Some (CF64 x)) b (append_f64 api i x b)"
    "col_dt (ab_builders b ! i) = DtFloat64 \<Longrightarrow>
       appends_cell i (Some (CF64 (f64_of_i64 api n))) b (append_i64 api i n b)"
    "col_dt (ab_builders b ! i) = DtBoolean \<Longrightarrow>
       appends_cell i (Some (CBool v)) b (append_bool i v b)"
    "col_dt (ab_builders b ! i) = DtUtf8 \<Longrightarrow>
       appends_cell i (Some (CStr s)) b (append_string api i s b)"
    "col_dt (ab_builders b ! i) = DtDate32 \<Longrightarrow>
       appends_cell i (Some (CDate (ucast dy))) b (append_naive_date api i dy b)"
    "col_dt (ab_builders b ! i) = DtTime64 TuMicrosecond \<Longrightarrow>
       appends_cell i (Some (CTime (time_micros t))) b
         (append_naive_time api i t b)"
    "col_dt (ab_builders b ! i) = DtTimestamp TuMicrosecond tz \<Longrightarrow>
       appends_cell i (Some (CTs (timestamp_micros api dt))) b (append_naive_datetime api i dt b)"
    "col_dt (ab_builders b ! i) = DtTimestamp TuMicrosecond tz \<Longrightarrow>
       appends_cell i (Some (CTs (timestamp_micros api dt))) b (append_datetime_utc api i dt b)"
    "col_dt (ab_builders b ! i) = DtTimestamp TuMicrosecond tz \<Longrightarrow>
       appends_cell i (Some (CTs n)) b (append_timestamp_micros api i n b)"
  unfolding append_defs Let_def time_micros_def
  by (rule upd_col_appends_cell [OF assms]; cases "ab_builders b ! i"; simp)+

lemma append_string_elsewhere [append_intros]:
  assumes "i < length (ab_builders b)"
    "col_dt (ab_builders b ! i) \<in> {DtDate32, DtTime64 TuMicrosecond} \<or>
     (\<exists>tz. col_dt (ab_builders b ! i) = DtTimestamp TuMicrosecond tz)"
  shows "appends_cell i None b (append_string api i s b)"
  unfolding append_string_def
  by (rule upd_col_appends_cell [OF assms(1)]; use assms(2) in \<open>cases "ab_builders b ! i"; simp\<close>)

text \<open>A branch that tries one reading and falls back on another appends if both branches do.\<close>

lemma appends_if_some [append_intros]:
  "\<lbrakk>\<And>y. x = Some y \<Longrightarrow> appends i b (f y); x = None \<Longrightarrow> appends i b e\<rbrakk>
   \<Longrightarrow> appends i b (if_some x f e)"
  by (cases x) auto

lemma json_appends [append_intros]:
  assumes "i < length (ab_builders b)"
  shows "appends i b (json_value_to_arrow api v ty b i)"
  using assms unfolding json_value_to_arrow_def json_number_to_arrow_def json_timestamp_to_arrow_def
    json_timestamptz_to_arrow_def json_text_to_arrow_def
  by (cases ty) (auto intro!: append_intros)

section \<open>The value a JSON cell stands for\<close>

text \<open>
  The reference reading of a JSON value in a column of type \<open>ty\<close>: the first reading that
  succeeds, \<^const>\<open>None\<close> for a null.
\<close>

fun first_of :: "'a option list \<Rightarrow> 'a option" where
  "first_of [] = None"
| "first_of (x # xs) = (case x of Some y \<Rightarrow> Some y | None \<Rightarrow> first_of xs)"

definition string_ts :: "value_api \<Rightarrow> simple_type \<Rightarrow> string \<Rightarrow> cell option" where
  "string_ts api ty s =
     map_option CTs (first_of
       (map (map_option (timestamp_micros api))
          (if ty = TTimestamp
           then [naive_parse api s fmt_t, naive_parse api s fmt_s, naive_parse api s fmt_tf,
                 naive_parse api s fmt_sf, rfc3339_parse api s]
           else [rfc3339_parse api s, naive_parse api s fmt_t, naive_parse api s fmt_s])
        @ [map_option (f64_secs_to_micros api) (f64_parse api s)]))"

fun string_cell :: "value_api \<Rightarrow> simple_type \<Rightarrow> string \<Rightarrow> cell option" where
  "string_cell api TNumber s =
     map_option CF64 (first_of [map_option (f64_of_i64 api) (parse_i64 s), f64_parse api s])"
| "string_cell api TBoolean s = Some (CBool (s = ''1'' \<or> eq_ignore_ascii_case s ''true''))"
| "string_cell api TDate s = map_option (\<lambda>d. CDate (ucast d)) (date_parse api s)"
| "string_cell api TTime s =
     map_option (\<lambda>t. CTime (time_micros t))
       (first_of [time_parse api s ''%H:%M:%S'', time_parse api s ''%H:%M:%S%.f''])"
| "string_cell api TString s = Some (CStr s)"
| "string_cell api TUnknown s = Some (CStr s)"
| "string_cell api ty s = string_ts api ty s"

definition json_cell :: "value_api \<Rightarrow> simple_type \<Rightarrow> json \<Rightarrow> cell option" where
  "json_cell api ty v =
     (case v of
        JNull \<Rightarrow> None
      | JString s \<Rightarrow> string_cell api ty s
      | _ \<Rightarrow>
         (if ty \<in> {TString, TUnknown} then Some (CStr (json_to_string api v))
          else if ty = TBoolean then map_option CBool (as_bool v)
          else if ty = TNumber then map_option CF64 (as_f64 api v)
          else if ty = TTimestampTz
            then map_option (\<lambda>f. CTs (f64_secs_to_micros api f)) (as_f64 api v)
          else None))"

lemma appends_cell_if_some [append_intros]:
  "\<lbrakk>\<And>y. x = Some y \<Longrightarrow> appends_cell i v b (f y); x = None \<Longrightarrow> appends_cell i v b e\<rbrakk>
   \<Longrightarrow> appends_cell i v b (if_some x f e)"
  by (cases x) auto

lemma append_i64_float [append_intros]:
  "\<lbrakk>i < length (ab_builders b); col_dt (ab_builders b ! i) = DtFloat64; v = f64_of_i64 api n\<rbrakk>
   \<Longrightarrow> appends_cell i (Some (CF64 v)) b (append_i64 api i n b)"
  by (simp add: append_cell_ops)

lemma json_string_appends_cell:
  assumes "i < length (ab_builders b)"
    "col_dt (ab_builders b ! i) = simple_type_to_arrow ty \<or>
     ty = TTimestampTz \<and> col_dt (ab_builders b ! i) = DtTimestamp TuMicrosecond None"
  shows "appends_cell i (string_cell api ty s) b (json_value_to_arrow api (JString s) ty b i)"
  using assms unfolding json_value_to_arrow_def json_number_to_arrow_def json_timestamp_to_arrow_def
    json_timestamptz_to_arrow_def json_text_to_arrow_def
  by (cases ty)
     (auto simp: string_ts_def if_some_def
           intro!: append_intros split: option.split)

lemma as_f64_number [simp]: "as_f64 api (JNumber n) \<noteq> None"
  by (cases n) auto

lemma json_other_appends_cell:
  assumes "i < length (ab_builders b)"
    "col_dt (ab_builders b ! i) = simple_type_to_arrow ty" "\<not> is_string v"
  shows "appends_cell i (json_cell api ty v) b (json_value_to_arrow api v ty b i)"
  using assms unfolding json_value_to_arrow_def json_number_to_arrow_def json_timestamp_to_arrow_def
    json_timestamptz_to_arrow_def json_text_to_arrow_def json_cell_def
  by (cases ty; cases v)
     (use as_f64_number in \<open>auto simp: if_some_def intro!: append_intros split: option.split\<close>)

lemma json_appends_cell:
  assumes "i < length (ab_builders b)"
    "col_dt (ab_builders b ! i) = simple_type_to_arrow ty"
  shows "appends_cell i (json_cell api ty v) b (json_value_to_arrow api v ty b i)"
proof (cases v)
  case (JString s)
  then show ?thesis using assms by (simp add: json_cell_def json_string_appends_cell)
qed (simp_all add: json_other_appends_cell [OF assms])

section \<open>Row writers\<close>

text \<open>
  The builder's invariant: one column per column description, of its Arrow type, and every
  column as long as the number of finished rows. \<open>row_part\<close> is the invariant inside the
  column loop, when the columns before \<open>idx\<close> already have the new row's cell.
\<close>

definition row_part :: "column_info list \<Rightarrow> nat \<Rightarrow> arrow_builder \<Rightarrow> bool" where
  "row_part cols idx b \<longleftrightarrow>
     ab_schema b = map (\<lambda>c. (col_name c, simple_type_to_arrow (col_type c))) cols \<and>
     length (ab_builders b) = length cols \<and>
     (\<forall>j < length cols. col_dt (ab_builders b ! j) = simple_type_to_arrow (col_type (cols ! j)) \<and>
        length (col_vals (ab_builders b ! j)) = ab_row_count b + (if j < idx then 1 else 0))"

abbreviation builder_ok :: "column_info list \<Rightarrow> arrow_builder \<Rightarrow> bool" where
  "builder_ok cols b \<equiv> row_part cols 0 b"

definition col_contents :: "arrow_builder \<Rightarrow> cell option list list" where
  "col_contents b = map col_vals (ab_builders b)"

fun write_rows ::
  "('row \<Rightarrow> column_info \<Rightarrow> nat \<Rightarrow> arrow_builder \<Rightarrow> arrow_builder option) \<Rightarrow> column_info list
   \<Rightarrow> 'row list \<Rightarrow> arrow_builder \<Rightarrow> arrow_builder option" where
  "write_rows put cols [] b = Some b"
| "write_rows put cols (r # rs) b =
     Option.bind (write_row (put r) cols b) (write_rows put cols rs)"

lemma builder_new_ok: "builder_ok cols (builder_new cols)"
proof -
  have "col_dt (from_simple_type t) = simple_type_to_arrow t \<and> col_vals (from_simple_type t) = []" for t
    by (cases t) auto
  then show ?thesis by (simp add: row_part_def builder_new_def)
qed

lemma builder_new_contents [simp]:
  "col_contents (builder_new cols) = replicate (length cols) []" "ab_row_count (builder_new cols) = 0"
proof -
  have "col_vals (from_simple_type t) = []" for t by (cases t) auto
  then show "col_contents (builder_new cols) = replicate (length cols) []"
    by (auto simp: col_contents_def builder_new_def intro!: nth_equalityI)
qed (simp add: builder_new_def)

lemma cell_appended_row_part:
  assumes "cell_appended idx v b b'" "row_part cols idx b"
  shows "row_part cols (Suc idx) b'" "idx < length cols"
    "col_contents b' = (col_contents b)[idx := col_contents b ! idx @ [v]]"
    "ab_row_count b' = ab_row_count b"
  using assms
  by (auto simp: cell_appended_def row_part_def col_contents_def nth_list_update map_update)

lemma finish_row_ok:
  assumes "row_part cols (length cols) b" "b' = finish_row b"
  shows "builder_ok cols b'" "col_contents b' = col_contents b" "ab_row_count b' = ab_row_count b + 1"
  using assms by (auto simp: row_part_def finish_row_def col_contents_def)

text \<open>
  The contract of a row converter: in a column of the type its description asks for, the body
  of its loop stores \<open>cell r c i\<close>, the value of the row \<open>r\<close> in that column, and touches
  nothing else, for every row the driver can return (\<open>ok\<close>).
\<close>

locale row_writer =
  fixes put :: "'row \<Rightarrow> column_info \<Rightarrow> nat \<Rightarrow> arrow_builder \<Rightarrow> arrow_builder option"
    and cell :: "'row \<Rightarrow> column_info \<Rightarrow> nat \<Rightarrow> cell option"
    and ok :: "'row \<Rightarrow> bool"
  assumes put_cell:
    "\<lbrakk>ok r; i < length (ab_builders b);
      col_dt (ab_builders b ! i) = simple_type_to_arrow (col_type c)\<rbrakk>
     \<Longrightarrow> appends_cell i (cell r c i) b (put r c i b)"
begin

lemma for_columns_fills:
  assumes "ok r" "row_part (pre @ cols) (length pre) b"
  shows "\<exists>b'. for_columns (put r) (length pre) cols b = Some b' \<and>
    row_part (pre @ cols) (length (pre @ cols)) b' \<and> ab_row_count b' = ab_row_count b \<and>
    (\<forall>j < length (pre @ cols). col_contents b' ! j = col_contents b ! j @
        (if j < length pre then [] else [cell r ((pre @ cols) ! j) j]))"
  using assms(2)
proof (induction cols arbitrary: pre b)
  case (Cons c cols)
  let ?i = "length pre"
  have i: "?i < length (ab_builders b)"
    "col_dt (ab_builders b ! ?i) = simple_type_to_arrow (col_type c)"
    using Cons.prems by (auto simp: row_part_def)
  obtain b1 where b1: "put r c ?i b = Some b1" "cell_appended ?i (cell r c ?i) b b1"
    using put_cell [OF assms(1) i] by (auto simp: appends_cell_def)
  note step = cell_appended_row_part [OF b1(2) Cons.prems]
  obtain b2 where b2: "for_columns (put r) (Suc ?i) cols b1 = Some b2"
    "row_part (pre @ c # cols) (length (pre @ c # cols)) b2" "ab_row_count b2 = ab_row_count b1"
    "\<forall>j < length (pre @ c # cols). col_contents b2 ! j = col_contents b1 ! j @
        (if j < Suc ?i then [] else [cell r ((pre @ c # cols) ! j) j])"
    using Cons.IH [of "pre @ [c]" b1] step(1) by auto
  have "?i < length (col_contents b)" using i by (simp add: col_contents_def)
  then show ?case
    using b1(1) b2 step by (auto simp: nth_list_update less_Suc_eq nth_append)
qed (use assms in auto)

lemma write_row_ok:
  assumes "ok r" "builder_ok cols b"
  shows "\<exists>b'. write_row (put r) cols b = Some b' \<and> builder_ok cols b' \<and>
    ab_row_count b' = ab_row_count b + 1 \<and>
    (\<forall>j < length cols. col_contents b' ! j = col_contents b ! j @ [cell r (cols ! j) j])"
  using for_columns_fills [of r "[]" cols b] assms finish_row_ok
  by (fastforce simp: write_row_def)

lemma write_rows_ok:
  assumes "list_all ok rs" "builder_ok cols b"
  shows "\<exists>b'. write_rows put cols rs b = Some b' \<and> builder_ok cols b' \<and>
    ab_row_count b' = ab_row_count b + length rs \<and>
    (\<forall>j < length cols. col_contents b' ! j = col_contents b ! j @ map (\<lambda>r. cell r (cols ! j) j) rs)"
  using assms
proof (induction rs arbitrary: b)
  case (Cons r rs)
  from write_row_ok [of r cols b] Cons.prems obtain b1 where b1:
    "write_row (put r) cols b = Some b1" "builder_ok cols b1" "ab_row_count b1 = ab_row_count b + 1"
    "\<forall>j < length cols. col_contents b1 ! j = col_contents b ! j @ [cell r (cols ! j) j]" by auto
  then show ?case using Cons.IH [OF _ b1(2)] Cons.prems(1) by fastforce
qed simp

end

section \<open>Complete batches\<close>

text \<open>
  What \<^verbatim>\<open>RecordBatch::try_new\<close> documents: given at least one column, arrays that match the
  fields' types and have one length, it returns the batch of these arrays.
\<close>

definition try_new_law :: "arrow_api \<Rightarrow> bool" where
  "try_new_law arrow \<longleftrightarrow>
     (\<forall>s cols n. cols \<noteq> [] \<and> map snd s = map arr_type cols \<and>
        (\<forall>c \<in> set cols. length (arr_vals c) = n) \<longrightarrow>
        rb_try_new arrow s cols = Inr \<lparr>rb_schema = s, rb_columns = cols, rb_num_rows = n\<rparr>)"

lemma builder_finish_ok:
  assumes "try_new_law arrow" "builder_ok cols b" "cols \<noteq> []"
  shows "builder_finish arrow b = Inr \<lparr>rb_schema = ab_schema b,
    rb_columns = map col_finish (ab_builders b), rb_num_rows = ab_row_count b\<rparr>"
proof -
  have "map snd (ab_schema b) = map arr_type (map col_finish (ab_builders b))"
    using assms(2) by (auto simp: row_part_def col_dt_def intro!: nth_equalityI)
  moreover have "\<forall>c \<in> set (map col_finish (ab_builders b)). length (arr_vals c) = ab_row_count b"
    using assms(2) by (auto simp: row_part_def col_vals_def in_set_conv_nth)
  moreover have "map col_finish (ab_builders b) \<noteq> []" using assms(2,3) by (auto simp: row_part_def)
  ultimately show ?thesis using assms(1) by (simp add: builder_finish_def try_new_law_def)
qed

text \<open>
  A result set arrives: from an empty builder the rows are written without a panic, the batch
  is built, and its column \<open>j\<close> has the type of the column description and, row by row, the
  value \<open>cell\<close> gives for it.
\<close>

definition rows_arrive ::
  "arrow_api \<Rightarrow> ('row \<Rightarrow> column_info \<Rightarrow> nat \<Rightarrow> arrow_builder \<Rightarrow> arrow_builder option)
   \<Rightarrow> ('row \<Rightarrow> column_info \<Rightarrow> nat \<Rightarrow> cell option) \<Rightarrow> column_info list \<Rightarrow> 'row list \<Rightarrow> bool" where
  "rows_arrive arrow put cell cols rows \<longleftrightarrow>
     (case write_rows put cols rows (builder_new cols) of
        None \<Rightarrow> False
      | Some b \<Rightarrow>
         (case builder_finish arrow b of
            Inl _ \<Rightarrow> False
          | Inr batch \<Rightarrow>
              rb_num_rows batch = length rows \<and>
              rb_schema batch = map (\<lambda>c. (col_name c, simple_type_to_arrow (col_type c))) cols \<and>
              map arr_type (rb_columns batch) = map snd (rb_schema batch) \<and>
              map arr_vals (rb_columns batch)
                = map (\<lambda>j. map (\<lambda>r. cell r (cols ! j) j) rows) [0..<length cols]))"

context row_writer
begin

lemma rows_arrive_batch:
  assumes "try_new_law arrow" "cols \<noteq> []" "list_all ok rows"
  shows "rows_arrive arrow put cell cols rows"
proof -
  obtain b where b: "write_rows put cols rows (builder_new cols) = Some b" "builder_ok cols b"
    "ab_row_count b = length rows"
    "\<forall>j < length cols. col_contents b ! j = map (\<lambda>r. cell r (cols ! j) j) rows"
    using write_rows_ok [OF assms(3) builder_new_ok [of cols]] by auto
  have "map arr_vals (map col_finish (ab_builders b))
      = map (\<lambda>j. map (\<lambda>r. cell r (cols ! j) j) rows) [0..<length cols]"
    using b(2,4) by (auto simp: row_part_def col_contents_def col_vals_def intro!: nth_equalityI)
  moreover have "map arr_type (map col_finish (ab_builders b)) = map snd (ab_schema b)"
    using b(2) by (auto simp: row_part_def col_dt_def intro!: nth_equalityI)
  ultimately show ?thesis
    using b builder_finish_ok [OF assms(1) b(2) assms(2)] by (simp add: rows_arrive_def row_part_def)
qed

end

end
