(* ===== verification/Sql_Prep.thy ===== *)
theory Sql_Prep
  imports Prelude "HOL-Library.Multiset"
begin

text \<open>
  Preparation of SQL text before it is sent to a database: stripping and pagination
  (\<open>prepare_query\<close>, \<open>prepare_query_databricks\<close> of \<^verbatim>\<open>providers/sqlx_common.rs\<close>;
  \<open>has_main_order_by\<close>, \<open>apply_tsql_pagination\<close>, \<open>hex_encode\<close> of \<^verbatim>\<open>providers/tsql_common.rs\<close>),
  quoting of literals (\<open>escape_sql_literal\<close> of \<^verbatim>\<open>kyomi-connect/src/executor.rs\<close>) and error
  positions (\<open>extract_character_position\<close>, \<open>char_position_to_line_col\<close> of
  \<^verbatim>\<open>providers/postgres.rs\<close>). Arithmetic on \<open>u32\<close> wraps, as in the release profile.
\<close>

section \<open>Stripping and LIMIT pagination\<close>

definition strip_sql :: "string \<Rightarrow> string" where
  "strip_sql sql = str_trim (trim_end_char (CHR '';'') (str_trim sql))"

definition is_select_sql :: "string \<Rightarrow> bool" where
  "is_select_sql upper = (starts_with upper ''SELECT'' \<or> starts_with upper ''WITH'')"

record prepared_query =
  pq_sql :: string
  pq_sql_stripped :: string
  pq_is_select :: bool

definition limit_offset :: "u32 \<Rightarrow> u32 \<Rightarrow> string" where
  "limit_offset l off = '' LIMIT '' @ show_word l @ '' OFFSET '' @ show_word off"

definition prepare_query :: "string \<Rightarrow> u32 option \<Rightarrow> u32 option \<Rightarrow> prepared_query" where
  "prepare_query sql limit offset =
     (let stripped = strip_sql sql;
          upper = to_uppercase stripped;
          is_select = is_select_sql upper;
          effective_limit = (case limit of None \<Rightarrow> 1000 | Some l \<Rightarrow> l);
          effective_offset = (case offset of None \<Rightarrow> 0 | Some n \<Rightarrow> n);
          paginated = (if is_select \<and> \<not> str_contains upper ''LIMIT''
                       then stripped @ limit_offset effective_limit effective_offset
                       else stripped)
      in \<lparr>pq_sql = paginated, pq_sql_stripped = stripped, pq_is_select = is_select\<rparr>)"

record prepared_query_databricks = prepared_query +
  pq_is_metadata_command :: bool

definition prepare_query_databricks ::
  "string \<Rightarrow> u32 option \<Rightarrow> u32 option \<Rightarrow> prepared_query_databricks" where
  "prepare_query_databricks sql limit offset =
     (let stripped = strip_sql sql;
          upper = to_uppercase stripped;
          is_select = is_select_sql upper;
          is_metadata = (starts_with upper ''SHOW '' \<or> starts_with upper ''DESCRIBE ''
                         \<or> starts_with upper ''DESC '');
          paginated = (case limit of
              Some lim \<Rightarrow>
                if \<not> str_contains upper ''LIMIT''
                then stripped @ limit_offset lim (case offset of None \<Rightarrow> 0 | Some n \<Rightarrow> n)
                else stripped
            | None \<Rightarrow> stripped)
      in \<lparr>pq_sql = paginated, pq_sql_stripped = stripped, pq_is_select = is_select,
          pq_is_metadata_command = is_metadata\<rparr>)"

section \<open>T-SQL pagination\<close>

text \<open>The loop over the text after the last \<open>ORDER BY\<close>: false at the first unmatched \<open>)\<close>.\<close>

fun paren_walk :: "int \<Rightarrow> string \<Rightarrow> bool" where
  "paren_walk depth [] = True"
| "paren_walk depth (c # s) =
     (if c = CHR ''('' then paren_walk (depth + 1) s
      else if c = CHR '')'' then
        (if depth - 1 < 0 then False else paren_walk (depth - 1) s)
      else paren_walk depth s)"

definition has_main_order_by :: "string \<Rightarrow> bool" where
  "has_main_order_by sql =
     (let upper = to_uppercase sql in
      case str_rfind upper ''ORDER BY'' of
        None \<Rightarrow> False
      | Some pos \<Rightarrow> paren_walk 0 (drop pos upper))"

definition apply_tsql_pagination :: "string \<Rightarrow> u32 \<Rightarrow> u32 \<Rightarrow> string" where
  "apply_tsql_pagination sql limit offset =
     (if has_main_order_by sql
      then sql @ '' OFFSET '' @ show_word offset @ '' ROWS FETCH NEXT '' @ show_word limit
             @ '' ROWS ONLY''
      else let end = offset + limit in
           ''SELECT * FROM (SELECT *, ROW_NUMBER() OVER (ORDER BY (SELECT NULL)) AS _row_num FROM (''
           @ sql @ '') AS _inner) AS _outer WHERE _row_num > '' @ show_word offset
           @ '' AND _row_num <= '' @ show_word end)"

text \<open>The SQL that both TDS entry points send.\<close>

definition tds_paginated_sql :: "u32 \<Rightarrow> string \<Rightarrow> u32 option \<Rightarrow> u32 option \<Rightarrow> string" where
  "tds_paginated_sql default_limit sql limit offset =
     (let stripped = strip_sql sql; upper = to_uppercase stripped in
      if is_select_sql upper \<and> \<not> str_contains upper ''OFFSET'' \<and> \<not> str_contains upper ''TOP''
      then apply_tsql_pagination stripped
             (case limit of None \<Rightarrow> default_limit | Some l \<Rightarrow> l)
             (case offset of None \<Rightarrow> 0 | Some n \<Rightarrow> n)
      else stripped)"

section \<open>Literals and hexadecimal\<close>

definition escape_sql_literal :: "string \<Rightarrow> string" where
  "escape_sql_literal s = concat (map (\<lambda>c. if c = CHR 0x27 then [CHR 0x27, CHR 0x27] else [c]) s)"

definition hex_digit :: "nat \<Rightarrow> char" where
  "hex_digit d = (if d < 10 then char_of (48 + d) else char_of (55 + d))"

definition hex_byte :: "u8 \<Rightarrow> string" where
  "hex_byte b = [hex_digit (unat b div 16), hex_digit (unat b mod 16)]"

definition hex_encode :: "u8 list \<Rightarrow> string" where
  "hex_encode bytes = ''0x'' @ concat (map hex_byte bytes)"

section \<open>Error positions\<close>

definition extract_character_position :: "string \<Rightarrow> nat option" where
  "extract_character_position msg =
     (let pattern = ''at character '' in
      case str_find msg pattern of
        None \<Rightarrow> None
      | Some idx \<Rightarrow>
          parse_unsigned (2 ^ 64 - 1) (takeWhile is_ascii_digit (drop (idx + length pattern) msg)))"

text \<open>\<^const>\<open>None\<close> is the panic of the slice \<open>&sql[..char_pos - 1]\<close>.\<close>

definition char_position_to_line_col ::
  "string \<Rightarrow> nat \<Rightarrow> (u32 option \<times> u32 option) option" where
  "char_position_to_line_col sql char_pos =
     (if char_pos = 0 \<or> length sql < char_pos then Some (None, None)
      else
        case str_slice sql 0 (char_pos - 1) of
          None \<Rightarrow> None
        | Some pre \<Rightarrow>
            let line = word_of_nat (count_list pre (CHR 0x0A)) + 1;
                last_newline = (case str_rfind pre [CHR 0x0A] of None \<Rightarrow> 0 | Some p \<Rightarrow> p + 1);
                column = word_of_nat (char_pos - last_newline)
            in Some (Some line, Some column))"

section \<open>Stripping: lemmas\<close>

lemma dropWhile_all_append: "(\<forall>x\<in>set xs. P x) \<Longrightarrow> dropWhile P (xs @ ys) = dropWhile P ys"
  by (induction xs) auto

lemma str_trim_pad:
  assumes core: "core \<noteq> []" "\<not> is_ws (hd core)" "\<not> is_ws (last core)"
    and ws: "\<forall>c\<in>set a. is_ws c" "\<forall>c\<in>set b. is_ws c"
  shows "str_trim (a @ core @ b) = core"
proof -
  have start: "trim_start (a @ core @ b) = core @ b"
    using ws(1) core(1,2) by (cases core) (simp_all add: trim_start_def dropWhile_all_append)
  have "dropWhile is_ws (rev (core @ b)) = rev core"
    using ws(2) core(1,3) dropWhile_hd [of "rev core" is_ws]
    by (simp add: dropWhile_all_append hd_rev)
  with start show ?thesis by (simp add: str_trim_def trim_end_def)
qed

lemma trim_end_char_replicate:
  assumes "core \<noteq> []" "last core \<noteq> c"
  shows "trim_end_char c (core @ replicate n c) = core"
proof -
  have "dropWhile (\<lambda>x. x = c) (rev (core @ replicate n c)) = rev core"
    using assms dropWhile_hd [of "rev core" "\<lambda>x. x = c"]
    by (simp add: dropWhile_all_append hd_rev)
  then show ?thesis by (simp add: trim_end_char_def)
qed

lemma strip_sql_core:
  assumes core: "core \<noteq> []" "\<not> is_ws (hd core)" "\<not> is_ws (last core)" "last core \<noteq> CHR '';''"
    and ws: "\<forall>c\<in>set a. is_ws c" "\<forall>c\<in>set b. is_ws c"
  shows "strip_sql (a @ core @ replicate n (CHR '';'') @ b) = core"
proof -
  let ?semis = "replicate n (CHR '';'')"
  have "\<not> is_ws (last (core @ ?semis))"
    using core(1,3) by (cases n) (simp_all add: is_ws_def last_append)
  then have "str_trim (a @ (core @ ?semis) @ b) = core @ ?semis"
    by (intro str_trim_pad) (use core ws in auto)
  moreover have "str_trim core = core"
    using core by (intro str_trim_id) auto
  ultimately show ?thesis
    using core by (simp add: strip_sql_def trim_end_char_replicate)
qed

lemma strip_sql_edges:
  assumes "strip_sql s \<noteq> []"
  shows "\<not> is_ws (hd (strip_sql s))" "\<not> is_ws (last (strip_sql s))"
  using str_trim_edges [of "trim_end_char (CHR '';'') (str_trim s)"] assms
  by (simp_all add: strip_sql_def)

lemma strip_sql_fixed:
  assumes "s \<noteq> [] \<Longrightarrow> \<not> is_ws (hd s)" "s \<noteq> [] \<Longrightarrow> \<not> is_ws (last s)"
    "s \<noteq> [] \<Longrightarrow> last s \<noteq> CHR '';''"
  shows "strip_sql s = s"
proof (cases "s = []")
  case False
  with strip_sql_core [of s "[]" "[]" 0] assms show ?thesis by simp
qed (simp add: strip_sql_def trim_end_char_def str_trim_def trim_start_def trim_end_def)

lemma last_show_word_digit: "is_ascii_digit (last (show_word w))"
  using show_nat_digits [of "unat w"] show_nat_not_Nil [of "unat w"]
  by (auto simp: show_word_def list_all_iff)

lemma last_limit_offset:
  "last (x @ limit_offset l n) \<noteq> CHR '';''" "\<not> is_ws (last (x @ limit_offset l n))"
proof -
  have "last (x @ limit_offset l n) = last (show_word n)"
    by (simp add: limit_offset_def show_word_def last_append)
  with last_show_word_digit [of n]
  show "last (x @ limit_offset l n) \<noteq> CHR '';''" "\<not> is_ws (last (x @ limit_offset l n))"
    by (auto simp: is_ascii_digit_def is_ws_def)
qed

lemma limit_offset_contains: "str_contains (to_uppercase (x @ limit_offset l n)) ''LIMIT''"
proof -
  have up: "to_uppercase '' LIMIT '' = '' '' @ ''LIMIT'' @ '' ''" by code_simp
  have "to_uppercase (x @ limit_offset l n)
      = (to_uppercase x @ '' '') @ ''LIMIT'' @ ('' '' @ to_uppercase (show_word l @ '' OFFSET '' @ show_word n))"
    by (simp only: limit_offset_def to_uppercase_simps append_assoc up)
  then show ?thesis unfolding str_contains_iff sublist_def by blast
qed

section \<open>Stripping and pagination: properties\<close>

text \<open>
  A SELECT (or WITH) query without LIMIT is paginated whatever blanks and trailing
  semicolons surround it: exactly one LIMIT/OFFSET clause follows the bare query, with the
  requested page or the default of 1000 rows from the start, and the query kept for counting
  is the bare one.
\<close>

theorem prepare_query_paginates:
  assumes "core \<noteq> []" "\<not> is_ws (hd core)" "\<not> is_ws (last core)" "last core \<noteq> CHR '';''"
    and "\<forall>c\<in>set a. is_ws c" "\<forall>c\<in>set b. is_ws c"
    and "is_select_sql (to_uppercase core)" "\<not> str_contains (to_uppercase core) ''LIMIT''"
  shows "prepare_query (a @ core @ replicate n (CHR '';'') @ b) limit offset =
    \<lparr>pq_sql = core @ limit_offset (case limit of None \<Rightarrow> 1000 | Some l \<Rightarrow> l)
                                 (case offset of None \<Rightarrow> 0 | Some m \<Rightarrow> m),
     pq_sql_stripped = core, pq_is_select = True\<rparr>"
proof -
  have "strip_sql (a @ core @ replicate n (CHR '';'') @ b) = core"
    by (rule strip_sql_core) (use assms in auto)
  with assms show ?thesis by (simp add: prepare_query_def Let_def)
qed

theorem prepare_query_paginates_witness:
  "prepare_query ('' '' @ ''select 1'' @ replicate 2 (CHR '';'') @ '' '') (Some 5) None =
    \<lparr>pq_sql = ''select 1'' @ limit_offset (case Some 5 of None \<Rightarrow> 1000 | Some l \<Rightarrow> l)
                 (case None of None \<Rightarrow> 0 | Some m \<Rightarrow> m),
     pq_sql_stripped = ''select 1'', pq_is_select = True\<rparr>"
proof (rule prepare_query_paginates)
  show "is_select_sql (to_uppercase ''select 1'')" by code_simp
  show "\<not> str_contains (to_uppercase ''select 1'') ''LIMIT''" by code_simp
qed (simp_all add: is_ws_def)

text \<open>
  Preparation is stable: preparing the SQL that an earlier preparation produced, with
  whatever page, changes nothing, as long as the stripped query does not still end in a
  semicolon. A second pagination clause is never added.
\<close>

theorem prepare_query_once:
  assumes "strip_sql sql \<noteq> []" "last (strip_sql sql) \<noteq> CHR '';''"
  shows "pq_sql (prepare_query (pq_sql (prepare_query sql l n)) l' n') = pq_sql (prepare_query sql l n)"
proof -
  let ?s = "strip_sql sql"
  let ?p = "?s @ limit_offset (case l of None \<Rightarrow> 1000 | Some l \<Rightarrow> l) (case n of None \<Rightarrow> 0 | Some n \<Rightarrow> n)"
  have s: "strip_sql ?s = ?s"
    by (rule strip_sql_fixed) (use assms strip_sql_edges [of sql] in auto)
  have p: "strip_sql ?p = ?p"
    by (rule strip_sql_fixed) (use assms strip_sql_edges [of sql] last_limit_offset in auto)
  have again: "pq_sql (prepare_query ?p l' n') = ?p"
    using p limit_offset_contains by (simp add: prepare_query_def Let_def)
  show ?thesis
  proof (cases "is_select_sql (to_uppercase ?s) \<and> \<not> str_contains (to_uppercase ?s) ''LIMIT''")
    case True
    then have "pq_sql (prepare_query sql l n) = ?p"
      by (simp add: prepare_query_def Let_def)
    with again show ?thesis by simp
  next
    case False
    then have "pq_sql (prepare_query sql l n) = ?s" by (auto simp: prepare_query_def Let_def)
    moreover have "pq_sql (prepare_query ?s l' n') = ?s"
      using s False by (auto simp: prepare_query_def Let_def)
    ultimately show ?thesis by simp
  qed
qed

theorem prepare_query_once_witness:
  "pq_sql (prepare_query (pq_sql (prepare_query ''SELECT 1;'' None None)) (Some 7) (Some 3))
     = pq_sql (prepare_query ''SELECT 1;'' None None)"
proof (rule prepare_query_once)
  show "strip_sql ''SELECT 1;'' \<noteq> []" by code_simp
  show "last (strip_sql ''SELECT 1;'') \<noteq> CHR '';''" by code_simp
qed

section \<open>T-SQL: properties\<close>

lemma paren_walk_iff:
  "0 \<le> d \<Longrightarrow> paren_walk d s \<longleftrightarrow>
     (\<forall>p. prefix p s \<longrightarrow> int (count_list p (CHR '')'')) \<le> d + int (count_list p (CHR ''('')))"
proof (induction d s rule: paren_walk.induct)
  case (2 d c s)
  consider (op) "c = CHR ''(''" | (cl) "c = CHR '')''" | (other) "c \<noteq> CHR ''(''" "c \<noteq> CHR '')''"
    by blast
  then show ?case
  proof cases
    case op
    with 2 show ?thesis by (simp add: all_prefix_Cons algebra_simps)
  next
    case cl
    show ?thesis
    proof (cases "d = 0")
      case True
      with cl show ?thesis by (auto simp: all_prefix_Cons intro!: exI [of _ "[]"])
    next
      case False
      with cl 2 show ?thesis by (simp add: all_prefix_Cons algebra_simps)
    qed
  next
    case other
    with 2 show ?thesis by (simp add: all_prefix_Cons)
  qed
qed simp

text \<open>
  C39. The outermost ORDER BY test is what its description says: the upper-cased text has an
  ORDER BY, and after the last one no closing parenthesis is left unmatched.
\<close>

theorem has_main_order_by_iff:
  "has_main_order_by sql \<longleftrightarrow>
     (\<exists>before after. to_uppercase sql = before @ after \<and> prefix ''ORDER BY'' after
        \<and> \<not> sublist ''ORDER BY'' (tl after)
        \<and> list_all (\<lambda>p. count_list p (CHR '')'') \<le> count_list p (CHR ''('')) (prefixes after))"
proof
  let ?u = "to_uppercase sql"
  assume "has_main_order_by sql"
  then obtain i where i: "str_rfind ?u ''ORDER BY'' = Some i" and walk: "paren_walk 0 (drop i ?u)"
    by (auto simp: has_main_order_by_def Let_def split: option.splits)
  have "?u = take i ?u @ drop i ?u" by simp
  moreover have "prefix ''ORDER BY'' (drop i ?u)" "\<not> sublist ''ORDER BY'' (tl (drop i ?u))"
    using str_rfind_Some [OF _ i] by blast+
  moreover have "list_all (\<lambda>p. count_list p (CHR '')'') \<le> count_list p (CHR ''(''))
      (prefixes (drop i ?u))"
    using walk paren_walk_iff [of 0 "drop i ?u"] by (simp add: list_all_iff in_set_prefixes)
  ultimately show "\<exists>before after. ?u = before @ after \<and> prefix ''ORDER BY'' after
      \<and> \<not> sublist ''ORDER BY'' (tl after)
      \<and> list_all (\<lambda>p. count_list p (CHR '')'') \<le> count_list p (CHR ''('')) (prefixes after)"
    by blast
next
  assume "\<exists>before after. to_uppercase sql = before @ after \<and> prefix ''ORDER BY'' after
      \<and> \<not> sublist ''ORDER BY'' (tl after)
      \<and> list_all (\<lambda>p. count_list p (CHR '')'') \<le> count_list p (CHR ''('')) (prefixes after)"
  then obtain a b where u: "to_uppercase sql = a @ b"
    and rf: "str_rfind (a @ b) ''ORDER BY'' = Some (length a)"
    and ok: "list_all (\<lambda>p. count_list p (CHR '')'') \<le> count_list p (CHR ''('')) (prefixes b)"
    using str_rfind_split [of "''ORDER BY''"] by blast
  from ok have "paren_walk 0 b"
    using paren_walk_iff [of 0 b] by (simp add: list_all_iff in_set_prefixes)
  with u rf show "has_main_order_by sql" by (simp add: has_main_order_by_def)
qed

text \<open>
  C38. The row window of the ROW_NUMBER form: the upper bound that the query text carries is
  \<open>offset + limit\<close> modulo \<open>2 ^ 32\<close>, so the window of row numbers holds exactly \<open>limit\<close> rows
  as long as the sum fits in 32 bits, and no row at all once it does not.
\<close>

theorem tsql_row_window:
  assumes "\<not> has_main_order_by sql"
  shows "\<exists>upper.
    apply_tsql_pagination sql limit offset =
      ''SELECT * FROM (SELECT *, ROW_NUMBER() OVER (ORDER BY (SELECT NULL)) AS _row_num FROM (''
      @ sql @ '') AS _inner) AS _outer WHERE _row_num > '' @ show_nat (unat offset)
      @ '' AND _row_num <= '' @ show_nat upper
    \<and> card {r. unat offset < r \<and> r \<le> upper}
        = (if unat offset + unat limit < 2 ^ 32 then unat limit else 0)"
proof (intro exI conjI)
  let ?upper = "unat (offset + limit)"
  show "apply_tsql_pagination sql limit offset =
      ''SELECT * FROM (SELECT *, ROW_NUMBER() OVER (ORDER BY (SELECT NULL)) AS _row_num FROM (''
      @ sql @ '') AS _inner) AS _outer WHERE _row_num > '' @ show_nat (unat offset)
      @ '' AND _row_num <= '' @ show_nat ?upper"
    using assms by (simp add: apply_tsql_pagination_def show_word_def Let_def)
  have "?upper = (unat offset + unat limit) mod 2 ^ 32"
    by (simp add: unat_word_ariths)
  moreover have "unat offset < 2 ^ 32" "unat limit < 2 ^ 32"
    using unsigned_less [of offset, where ?'a = nat] unsigned_less [of limit, where ?'a = nat]
    by simp_all
  moreover have "{r. unat offset < r \<and> r \<le> ?upper} = {unat offset<..?upper}" by auto
  moreover have "(a + b) mod 2 ^ 32 = (if a + b < 2 ^ 32 then a + b else a + b - 2 ^ 32)"
    if "a < 2 ^ 32" "b < 2 ^ 32" for a b :: nat
    using that by (simp add: mod_if)
  ultimately show "card {r. unat offset < r \<and> r \<le> ?upper}
      = (if unat offset + unat limit < 2 ^ 32 then unat limit else 0)"
    by (simp only: card_greaterThanAtMost) (simp split: if_split)
qed

theorem tsql_row_window_witness:
  "\<exists>upper.
    apply_tsql_pagination ''SELECT 1'' 10 4294967290 =
      ''SELECT * FROM (SELECT *, ROW_NUMBER() OVER (ORDER BY (SELECT NULL)) AS _row_num FROM (''
      @ ''SELECT 1'' @ '') AS _inner) AS _outer WHERE _row_num > '' @ show_nat (unat (4294967290 :: u32))
      @ '' AND _row_num <= '' @ show_nat upper
    \<and> card {r. unat (4294967290 :: u32) < r \<and> r \<le> upper}
        = (if unat (4294967290 :: u32) + unat (10 :: u32) < 2 ^ 32 then unat (10 :: u32) else 0)"
proof -
  have "\<not> sublist ''ORDER BY'' (to_uppercase ''SELECT 1'')" by code_simp
  then have "\<not> has_main_order_by ''SELECT 1''"
    by (simp add: has_main_order_by_def str_rfind_None [THEN iffD2])
  then show ?thesis by (rule tsql_row_window)
qed

section \<open>Literals: properties\<close>

text \<open>
  How a database reads a string literal, from the character after the opening quote: to the
  first quote that is not doubled (standard SQL), and with a backslash escaping the next
  character (the default of MySQL and ClickHouse). The result is the literal's text and the
  rest of the statement.
\<close>

fun scan_literal :: "string \<Rightarrow> (string \<times> string) option" where
  "scan_literal [] = None"
| "scan_literal (c # s) =
     (if c = CHR 0x27 then
        (case s of d # t \<Rightarrow> if d = CHR 0x27 then map_option (apfst (Cons (CHR 0x27))) (scan_literal t)
                            else Some ([], s)
         | [] \<Rightarrow> Some ([], []))
      else map_option (apfst (Cons c)) (scan_literal s))"

fun scan_literal_bs :: "string \<Rightarrow> (string \<times> string) option" where
  "scan_literal_bs [] = None"
| "scan_literal_bs (c # s) =
     (if c = CHR 0x5C then
        (case s of d # t \<Rightarrow> map_option (apfst (Cons d)) (scan_literal_bs t) | [] \<Rightarrow> None)
      else if c = CHR 0x27 then
        (case s of d # t \<Rightarrow> if d = CHR 0x27 then map_option (apfst (Cons (CHR 0x27))) (scan_literal_bs t)
                            else Some ([], s)
         | [] \<Rightarrow> Some ([], []))
      else map_option (apfst (Cons c)) (scan_literal_bs s))"

lemma escape_simps [simp]:
  "escape_sql_literal [] = []"
  "escape_sql_literal (c # s) =
     (if c = CHR 0x27 then CHR 0x27 # CHR 0x27 # escape_sql_literal s else c # escape_sql_literal s)"
  by (simp_all add: escape_sql_literal_def)

lemma escape_append: "escape_sql_literal (s @ t) = escape_sql_literal s @ escape_sql_literal t"
  by (simp add: escape_sql_literal_def)

text \<open>Characters read before the rest of a literal.\<close>

definition read_before :: "string \<Rightarrow> (string \<times> string) option \<Rightarrow> (string \<times> string) option" where
  "read_before s r = map_option (\<lambda>(t, rest). (s @ t, rest)) r"

lemma read_before_simps [simp]:
  "read_before [] r = r" "read_before s None = None"
  "map_option (apfst (Cons c)) (read_before s r) = read_before (c # s) r"
  "read_before s (map_option (apfst (Cons c)) r) = read_before (s @ [c]) r"
  "read_before s (Some (t, rest)) = Some (s @ t, rest)"
  by (cases r; auto simp: read_before_def)+

lemma scan_escaped: "scan_literal (escape_sql_literal s @ x) = read_before s (scan_literal x)"
  by (induction s) simp_all

lemma scan_bs_escaped:
  "CHR 0x5C \<notin> set s \<Longrightarrow>
   scan_literal_bs (escape_sql_literal s @ x) = read_before s (scan_literal_bs x)"
proof (induction s)
  case (Cons c s)
  then have "c \<noteq> CHR 0x5C" by auto
  with Cons show ?case by simp
qed simp



section \<open>Error positions: properties\<close>

lemma sublist_singleton: "sublist [x] xs \<longleftrightarrow> x \<in> set xs"
  by (induction xs) (auto simp: sublist_Cons_right)

lemma last_newline_split:
  fixes pre :: string
  defines "n \<equiv> (case str_rfind pre [CHR 0x0A] of None \<Rightarrow> 0 | Some p \<Rightarrow> p + 1)"
  shows "n \<le> length pre" "take n pre = [] \<or> last (take n pre) = CHR 0x0A"
    "CHR 0x0A \<notin> set (drop n pre)"
proof -
  have "n \<le> length pre \<and> (take n pre = [] \<or> last (take n pre) = CHR 0x0A)
      \<and> CHR 0x0A \<notin> set (drop n pre)"
  proof (cases "str_rfind pre [CHR 0x0A]")
    case None
    then have "CHR 0x0A \<notin> set pre" by (simp add: str_rfind_None sublist_singleton)
    with None show ?thesis by (simp add: n_def)
  next
    case (Some p)
    with str_rfind_Some [of "[CHR 0x0A]" pre p]
    have p: "prefix [CHR 0x0A] (drop p pre)" "CHR 0x0A \<notin> set (tl (drop p pre))"
      by (simp_all add: sublist_singleton)
    then have lt: "p < length pre" by (cases "p < length pre") simp_all
    with p(1) have "pre ! p = CHR 0x0A" by (simp add: Cons_nth_drop_Suc [symmetric])
    with lt have "take (Suc p) pre = take p pre @ [CHR 0x0A]" by (simp add: take_Suc_conv_app_nth)
    moreover have "drop (Suc p) pre = tl (drop p pre)" by (simp add: drop_Suc tl_drop)
    ultimately show ?thesis using Some lt p(2) by (simp add: n_def)
  qed
  then show "n \<le> length pre" "take n pre = [] \<or> last (take n pre) = CHR 0x0A"
    "CHR 0x0A \<notin> set (drop n pre)" by simp_all
qed

text \<open>
  The line and column computed for a 1-based byte position are those of that byte: the
  text before it splits into complete lines and a last line without line break, the line
  number counts the former and the column is one past the latter. When the position falls
  inside a character the computation panics.
\<close>

theorem error_position_located:
  assumes "0 < pos" "pos \<le> length sql" "length sql < 2 ^ 32"
  shows "if is_char_boundary sql (pos - 1)
    then \<exists>lines cur line col.
      take (pos - 1) sql = lines @ cur \<and> (lines = [] \<or> last lines = CHR 0x0A)
      \<and> CHR 0x0A \<notin> set cur
      \<and> char_position_to_line_col sql pos = Some (Some line, Some col)
      \<and> unat line = count_list lines (CHR 0x0A) + 1 \<and> unat col = length cur + 1
    else char_position_to_line_col sql pos = None"
proof (cases "is_char_boundary sql (pos - 1)")
  case True
  let ?pre = "take (pos - 1) sql"
  define n where "n = (case str_rfind ?pre [CHR 0x0A] of None \<Rightarrow> 0 | Some p \<Rightarrow> p + 1)"
  note split = last_newline_split [of ?pre, folded n_def]
  have len: "length ?pre = pos - 1" using assms by simp
  have slice: "str_slice sql 0 (pos - 1) = Some ?pre"
    using True assms by (simp add: str_slice_def is_char_boundary_def)
  have cnt: "count_list ?pre (CHR 0x0A) = count_list (take n ?pre) (CHR 0x0A)"
    using split(3) by (metis append_take_drop_id count_list_0_iff count_list_append add_0_right)
  have "count_list ?pre (CHR 0x0A) \<le> length ?pre" by (rule count_le_length)
  with assms len have l: "unat (word_of_nat (count_list ?pre (CHR 0x0A)) + 1 :: u32)
      = count_list ?pre (CHR 0x0A) + 1"
    by (simp add: unat_word_ariths unsigned_of_nat take_bit_nat_eq_self)
  have c: "unat (word_of_nat (pos - n) :: u32) = length (drop n ?pre) + 1"
  proof -
    have "pos - n < 2 ^ 32" using assms by simp
    then have "unat (word_of_nat (pos - n) :: u32) = pos - n"
      by (simp only: unsigned_of_nat take_bit_nat_eq_self len_of_numeral_defs) (simp add: take_bit_nat_eq_self)
    with assms len split(1) show ?thesis by simp
  qed
  have "char_position_to_line_col sql pos
      = Some (Some (word_of_nat (count_list ?pre (CHR 0x0A)) + 1), Some (word_of_nat (pos - n)))"
    using assms slice by (simp add: char_position_to_line_col_def Let_def n_def)
  moreover have "?pre = take n ?pre @ drop n ?pre" by (rule append_take_drop_id [symmetric])
  ultimately show ?thesis
    using True split(2,3) l c cnt by (metis (no_types, lifting))
next
  case False
  with assms show ?thesis
    by (simp add: char_position_to_line_col_def str_slice_def)
qed

theorem error_position_located_witness:
  "if is_char_boundary [CHR ''a'', CHR 0x0A, CHR ''b'', CHR ''c''] (4 - 1)
    then \<exists>lines cur line col.
      take (4 - 1) [CHR ''a'', CHR 0x0A, CHR ''b'', CHR ''c''] = lines @ cur
      \<and> (lines = [] \<or> last lines = CHR 0x0A) \<and> CHR 0x0A \<notin> set cur
      \<and> char_position_to_line_col [CHR ''a'', CHR 0x0A, CHR ''b'', CHR ''c''] 4
          = Some (Some line, Some col)
      \<and> unat line = count_list lines (CHR 0x0A) + 1 \<and> unat col = length cur + 1
    else char_position_to_line_col [CHR ''a'', CHR 0x0A, CHR ''b'', CHR ''c''] 4 = None"
  by (rule error_position_located) simp_all

end
