(* ===== verification/Row_Convert.thy ===== *)
theory Row_Convert
  imports Arrow_Builder Sql_Prep "HOL-Library.Signed_Division"
begin

text \<open>
  The conversion of one result row to Arrow, per engine: \<open>pg_row_to_arrow\<close> (also Redshift),
  \<open>mysql_row_to_arrow\<close>, \<open>tds_row_to_arrow_at\<close> (SQL Server and Synapse) and the JSON rows of
  ClickHouse, BigQuery, Databricks and Snowflake, with the type-name tables that only these
  providers use. A driver row is what its typed getters return: \<open>try_get::<Option<T>>(idx)\<close>
  is a function of the column index whose \<^const>\<open>None\<close> is a null value or a failed reading.
  Every converter is shown to be a row writer in the sense of \<^theory_text>\<open>row_writer\<close>, and whole result
  sets are shown to arrive in the batch column by column.
\<close>

section \<open>Type-name tables of the providers\<close>

definition pg_type_name_to_oid :: "string \<Rightarrow> u32" where
  "pg_type_name_to_oid name =
     (let n = to_uppercase name in
      if n = ''BOOL'' then 16
      else if n \<in> {''INT2'', ''SMALLINT'', ''SMALLSERIAL''} then 21
      else if n \<in> {''INT4'', ''INT'', ''INTEGER'', ''SERIAL''} then 23
      else if n \<in> {''INT8'', ''BIGINT'', ''BIGSERIAL''} then 20
      else if n = ''OID'' then 26
      else if n \<in> {''FLOAT4'', ''REAL''} then 700
      else if n \<in> {''FLOAT8'', ''DOUBLE PRECISION''} then 701
      else if n \<in> {''NUMERIC'', ''DECIMAL''} then 1700
      else if n \<in> {''CHAR'', [CHR 0x22] @ ''CHAR'' @ [CHR 0x22]} then 18
      else if n = ''NAME'' then 19
      else if n = ''TEXT'' then 25
      else if n = ''BPCHAR'' then 1042
      else if n \<in> {''VARCHAR'', ''CHARACTER VARYING''} then 1043
      else if n = ''DATE'' then 1082
      else if n \<in> {''TIME'', ''TIME WITHOUT TIME ZONE''} then 1083
      else if n \<in> {''TIMESTAMP'', ''TIMESTAMP WITHOUT TIME ZONE''} then 1114
      else if n \<in> {''TIMESTAMPTZ'', ''TIMESTAMP WITH TIME ZONE''} then 1184
      else if n = ''JSON'' then 114
      else if n = ''JSONB'' then 3802
      else if n = ''UUID'' then 2950
      else if n \<in> {''TEXT[]'', ''_TEXT''} then 1009
      else if n \<in> {''VARCHAR[]'', ''_VARCHAR''} then 1015
      else if n \<in> {''INT8[]'', ''_INT8''} then 1016
      else if n \<in> {''INT4[]'', ''_INT4''} then 1007
      else if n = ''INTERVAL'' then 1186
      else if n = ''BYTEA'' then 17
      else if n = ''MONEY'' then 790
      else 0)"

definition snowflake_type_name_to_code :: "string \<Rightarrow> i32 option" where
  "snowflake_type_name_to_code type_name =
     (let u = to_uppercase type_name in
      if u \<in> {''FIXED'', ''NUMBER'', ''DECIMAL'', ''NUMERIC'', ''INT'', ''INTEGER'', ''BIGINT'',
               ''SMALLINT'', ''TINYINT''} then Some 0
      else if u \<in> {''REAL'', ''FLOAT'', ''FLOAT4'', ''FLOAT8'', ''DOUBLE'', ''DOUBLE PRECISION''}
        then Some 1
      else if u \<in> {''TEXT'', ''VARCHAR'', ''CHAR'', ''CHARACTER'', ''STRING''} then Some 2
      else if u = ''DATE'' then Some 3
      else if u \<in> {''TIMESTAMP'', ''TIMESTAMP_NTZ'', ''DATETIME''} then Some 8
      else if u = ''VARIANT'' then Some 5
      else if u = ''TIMESTAMP_LTZ'' then Some 6
      else if u = ''TIMESTAMP_TZ'' then Some 7
      else if u = ''OBJECT'' then Some 9
      else if u = ''ARRAY'' then Some 10
      else if u \<in> {''BINARY'', ''VARBINARY''} then Some 11
      else if u = ''TIME'' then Some 12
      else if u = ''BOOLEAN'' then Some 13
      else None)"

definition map_snowflake_type_name :: "string \<Rightarrow> simple_type" where
  "map_snowflake_type_name type_name =
     (let upper = to_uppercase type_name;
          base = (case str_find upper ''('' of
                    Some paren_pos \<Rightarrow> str_trim (take paren_pos upper)
                  | None \<Rightarrow> str_trim upper)
      in if base \<in> {''NUMBER'', ''DECIMAL'', ''NUMERIC'', ''INT'', ''INTEGER'', ''BIGINT'',
                     ''SMALLINT'', ''TINYINT'', ''FLOAT'', ''DOUBLE'', ''REAL''} then TNumber
      else if base \<in> {''VARCHAR'', ''CHAR'', ''STRING'', ''TEXT'', ''BINARY'', ''VARBINARY'',
                       ''VARIANT'', ''OBJECT'', ''ARRAY''} then TString
      else if base = ''BOOLEAN'' then TBoolean
      else if base = ''DATE'' then TDate
      else if base = ''TIME'' then TTime
      else if base \<in> {''DATETIME'', ''TIMESTAMP'', ''TIMESTAMP_NTZ''} then TTimestamp
      else if base \<in> {''TIMESTAMP_LTZ'', ''TIMESTAMP_TZ''} then TTimestampTz
      else TUnknown)"

datatype column_type =
    CtNull | CtBit | CtInt1 | CtInt2 | CtInt4 | CtDatetime4 | CtFloat4 | CtMoney | CtDatetime
  | CtFloat8 | CtMoney4 | CtInt8 | CtGuid | CtIntn | CtBitn | CtDecimaln | CtNumericn | CtFloatn
  | CtDatetimen | CtDaten | CtTimen | CtDatetime2 | CtDatetimeOffsetn | CtBigVarBin | CtBigVarChar
  | CtBigBinary | CtBigChar | CtNVarchar | CtNChar | CtXml | CtUdt | CtText | CtImage | CtNText
  | CtSSVariant

fun map_column_type :: "column_type \<Rightarrow> simple_type" where
  "map_column_type CtBit = TBoolean"
| "map_column_type CtBitn = TBoolean"
| "map_column_type CtInt1 = TNumber"
| "map_column_type CtInt2 = TNumber"
| "map_column_type CtInt4 = TNumber"
| "map_column_type CtInt8 = TNumber"
| "map_column_type CtIntn = TNumber"
| "map_column_type CtFloat4 = TNumber"
| "map_column_type CtFloat8 = TNumber"
| "map_column_type CtFloatn = TNumber"
| "map_column_type CtMoney = TNumber"
| "map_column_type CtMoney4 = TNumber"
| "map_column_type CtDecimaln = TNumber"
| "map_column_type CtNumericn = TNumber"
| "map_column_type CtBigVarChar = TString"
| "map_column_type CtBigChar = TString"
| "map_column_type CtNVarchar = TString"
| "map_column_type CtNChar = TString"
| "map_column_type CtText = TString"
| "map_column_type CtNText = TString"
| "map_column_type CtXml = TString"
| "map_column_type CtUdt = TString"
| "map_column_type CtSSVariant = TString"
| "map_column_type CtBigVarBin = TString"
| "map_column_type CtBigBinary = TString"
| "map_column_type CtImage = TString"
| "map_column_type CtGuid = TString"
| "map_column_type CtDaten = TDate"
| "map_column_type CtTimen = TTime"
| "map_column_type CtDatetime = TTimestamp"
| "map_column_type CtDatetime4 = TTimestamp"
| "map_column_type CtDatetimen = TTimestamp"
| "map_column_type CtDatetime2 = TTimestamp"
| "map_column_type CtDatetimeOffsetn = TTimestampTz"
| "map_column_type CtNull = TUnknown"

section \<open>PostgreSQL rows\<close>

record pg_interval =
  iv_months :: i32
  iv_days :: i32
  iv_microseconds :: i64

text \<open>Rust's \<open>{}\<close> and \<open>{:02}\<close> of a signed integer: the width counts the sign.\<close>

definition show_int :: "int \<Rightarrow> string" where
  "show_int n = (if n < 0 then CHR ''-'' # show_nat (nat (- n)) else show_nat (nat n))"

definition show_int02 :: "int \<Rightarrow> string" where
  "show_int02 n = (if 0 \<le> n \<and> n < 10 then CHR ''0'' # show_nat (nat n) else show_int n)"

definition plural :: "int \<Rightarrow> string \<Rightarrow> string" where
  "plural n word = show_int n @ '' '' @ word @ (if \<bar>n\<bar> \<noteq> 1 then ''s'' else [])"

definition format_pg_interval :: "pg_interval \<Rightarrow> string" where
  "format_pg_interval iv =
     (let months = sint (iv_months iv); days = sint (iv_days iv);
          microseconds = sint (iv_microseconds iv);
          years = months sdiv 12; mons = months smod 12;
          total_secs = microseconds sdiv 1000000;
          hours = total_secs sdiv 3600; mins = (total_secs smod 3600) sdiv 60;
          secs = total_secs smod 60;
          parts = (if months \<noteq> 0
                   then (if years \<noteq> 0 then [plural years ''year''] else [])
                      @ (if mons \<noteq> 0 then [plural mons ''mon''] else []) else [])
                @ (if days \<noteq> 0 then [plural days ''day''] else [])
                @ (if microseconds \<noteq> 0
                   then [show_int02 hours @ '':'' @ show_int02 mins @ '':'' @ show_int02 secs]
                   else [])
      in if parts = [] then ''00:00:00'' else str_join '' '' parts)"

record pg_row =
  pg_columns :: "(string \<times> string) list" \<comment> \<open>name and type name of each column\<close>
  pg_bool :: "nat \<Rightarrow> bool option"
  pg_i32 :: "nat \<Rightarrow> i32 option"
  pg_i64 :: "nat \<Rightarrow> i64 option"
  pg_i16 :: "nat \<Rightarrow> 16 word option"
  pg_f32 :: "nat \<Rightarrow> 32 word option"
  pg_f64 :: "nat \<Rightarrow> f64 option"
  pg_decimal :: "nat \<Rightarrow> string option" \<comment> \<open>the decimal's \<open>to_string\<close>\<close>
  pg_money :: "nat \<Rightarrow> i64 option"
  pg_string :: "nat \<Rightarrow> string option"
  pg_iv :: "nat \<Rightarrow> pg_interval option"
  pg_bytes :: "nat \<Rightarrow> u8 list option"
  pg_date :: "nat \<Rightarrow> naive_date option"
  pg_time :: "nat \<Rightarrow> naive_time option"
  pg_naive :: "nat \<Rightarrow> naive_datetime option"
  pg_utc :: "nat \<Rightarrow> naive_datetime option"

definition pg_put ::
  "value_api \<Rightarrow> pg_row \<Rightarrow> column_info \<Rightarrow> nat \<Rightarrow> arrow_builder \<Rightarrow> arrow_builder option" where
  "pg_put api row col idx b =
     (case col_type col of
        TBoolean \<Rightarrow> if_some (pg_bool row idx) (\<lambda>v. append_bool idx v b) (append_null idx b)
      | TNumber \<Rightarrow>
          if_some (pg_i32 row idx) (\<lambda>v. append_i64 api idx (scast v) b)
          (if_some (pg_i64 row idx) (\<lambda>v. append_i64 api idx v b)
          (if_some (pg_i16 row idx) (\<lambda>v. append_i64 api idx (scast v) b)
          (if_some (pg_f32 row idx) (\<lambda>v. append_f64 api idx (f64_of_f32 api v) b)
          (if_some (pg_f64 row idx) (\<lambda>v. append_f64 api idx v b)
          (if_some (pg_decimal row idx)
             (\<lambda>v. if_some (f64_parse api v) (\<lambda>f. append_f64 api idx f b) (append_null idx b))
          (if_some (pg_money row idx) (\<lambda>v. append_f64 api idx (f64_cents api v) b)
          (append_null idx b)))))))
      | TString \<Rightarrow>
          if_some (pg_string row idx) (\<lambda>v. append_string api idx v b)
          (if_some (pg_iv row idx) (\<lambda>v. append_string api idx (format_pg_interval v) b)
          (if_some (pg_bytes row idx)
             (\<lambda>v. append_string api idx ([CHR 0x5C] @ ''x'' @ hex_lower api v) b)
          (append_null idx b)))
      | TDate \<Rightarrow> if_some (pg_date row idx) (\<lambda>v. append_naive_date api idx v b) (append_null idx b)
      | TTime \<Rightarrow> if_some (pg_time row idx) (\<lambda>v. append_naive_time api idx v b) (append_null idx b)
      | TTimestamp \<Rightarrow>
          if_some (pg_naive row idx) (\<lambda>v. append_naive_datetime api idx v b) (append_null idx b)
      | TTimestampTz \<Rightarrow>
          if_some (pg_utc row idx) (\<lambda>v. append_datetime_utc api idx v b) (append_null idx b)
      | TUnknown \<Rightarrow>
          if_some (pg_string row idx) (\<lambda>v. append_string api idx v b) (append_null idx b))"

definition pg_row_to_arrow ::
  "value_api \<Rightarrow> pg_row \<Rightarrow> column_info list \<Rightarrow> arrow_builder \<Rightarrow> arrow_builder option" where
  "pg_row_to_arrow api row columns b = write_row (pg_put api row) columns b"

definition redshift_row_to_arrow ::
  "value_api \<Rightarrow> pg_row \<Rightarrow> column_info list \<Rightarrow> arrow_builder \<Rightarrow> arrow_builder option" where
  "redshift_row_to_arrow api row columns b = pg_row_to_arrow api row columns b"

section \<open>MySQL rows\<close>

record mysql_row =
  my_columns :: "(string \<times> string) list"
  my_bool :: "nat \<Rightarrow> bool option"
  my_i64 :: "nat \<Rightarrow> i64 option"
  my_u64 :: "nat \<Rightarrow> u64 option"
  my_f64 :: "nat \<Rightarrow> f64 option"
  my_decimal :: "nat \<Rightarrow> string option"
  my_string :: "nat \<Rightarrow> string option"
  my_bytes :: "nat \<Rightarrow> u8 list option"
  my_date :: "nat \<Rightarrow> naive_date option"
  my_time :: "nat \<Rightarrow> naive_time option"
  my_naive :: "nat \<Rightarrow> naive_datetime option"

definition mysql_try_get_bytes_as_string :: "value_api \<Rightarrow> mysql_row \<Rightarrow> nat \<Rightarrow> string option" where
  "mysql_try_get_bytes_as_string api row idx = map_option (utf8_lossy api) (my_bytes row idx)"

definition mysql_text ::
  "value_api \<Rightarrow> mysql_row \<Rightarrow> nat \<Rightarrow> arrow_builder \<Rightarrow> arrow_builder option" where
  "mysql_text api row idx b =
     if_some (my_string row idx) (\<lambda>v. append_string api idx v b)
     (if_some (mysql_try_get_bytes_as_string api row idx) (\<lambda>s. append_string api idx s b)
     (append_null idx b))"

definition mysql_put ::
  "value_api \<Rightarrow> mysql_row \<Rightarrow> column_info \<Rightarrow> nat \<Rightarrow> arrow_builder \<Rightarrow> arrow_builder option" where
  "mysql_put api row col idx b =
     (case col_type col of
        TBoolean \<Rightarrow> if_some (my_bool row idx) (\<lambda>v. append_bool idx v b) (append_null idx b)
      | TNumber \<Rightarrow>
          if_some (my_i64 row idx) (\<lambda>v. append_i64 api idx v b)
          (if_some (my_u64 row idx) (\<lambda>v. append_f64 api idx (f64_of_u64 api v) b)
          (if_some (my_f64 row idx) (\<lambda>v. append_f64 api idx v b)
          (if_some (my_decimal row idx)
             (\<lambda>v. if_some (f64_parse api v) (\<lambda>f. append_f64 api idx f b) (append_null idx b))
          (append_null idx b))))
      | TString \<Rightarrow> mysql_text api row idx b
      | TDate \<Rightarrow> if_some (my_date row idx) (\<lambda>v. append_naive_date api idx v b) (append_null idx b)
      | TTime \<Rightarrow> if_some (my_time row idx) (\<lambda>v. append_naive_time api idx v b) (append_null idx b)
      | TTimestamp \<Rightarrow>
          if_some (my_naive row idx) (\<lambda>v. append_naive_datetime api idx v b) (append_null idx b)
      | TTimestampTz \<Rightarrow>
          if_some (my_naive row idx) (\<lambda>v. append_datetime_utc api idx v b) (append_null idx b)
      | TUnknown \<Rightarrow> mysql_text api row idx b)"

definition mysql_row_to_arrow ::
  "value_api \<Rightarrow> mysql_row \<Rightarrow> column_info list \<Rightarrow> arrow_builder \<Rightarrow> arrow_builder option" where
  "mysql_row_to_arrow api row columns b = write_row (mysql_put api row) columns b"

section \<open>T-SQL rows\<close>

record tds_row =
  tds_columns :: "(string \<times> column_type) list"
  tds_bool :: "nat \<Rightarrow> bool option"
  tds_i64 :: "nat \<Rightarrow> i64 option"
  tds_f64 :: "nat \<Rightarrow> f64 option"
  tds_i32 :: "nat \<Rightarrow> i32 option"
  tds_i16 :: "nat \<Rightarrow> 16 word option"
  tds_u8 :: "nat \<Rightarrow> u8 option"
  tds_f32 :: "nat \<Rightarrow> 32 word option"
  tds_numeric :: "nat \<Rightarrow> string option" \<comment> \<open>the numeric's \<open>Display\<close>\<close>
  tds_str :: "nat \<Rightarrow> string option"
  tds_uuid :: "nat \<Rightarrow> string option"
  tds_bytes :: "nat \<Rightarrow> u8 list option"
  tds_date :: "nat \<Rightarrow> naive_date option"
  tds_time :: "nat \<Rightarrow> naive_time option"
  tds_naive :: "nat \<Rightarrow> naive_datetime option"
  tds_utc :: "nat \<Rightarrow> naive_datetime option"

definition tds_row_to_arrow_at ::
  "value_api \<Rightarrow> tds_row \<Rightarrow> nat \<Rightarrow> nat \<Rightarrow> simple_type \<Rightarrow> arrow_builder \<Rightarrow> arrow_builder option" where
  "tds_row_to_arrow_at api row col_idx row_idx ty b =
     (case ty of
        TBoolean \<Rightarrow> if_some (tds_bool row row_idx) (\<lambda>v. append_bool col_idx v b) (append_null col_idx b)
      | TNumber \<Rightarrow>
          if_some (tds_i64 row row_idx) (\<lambda>v. append_i64 api col_idx v b)
          (if_some (tds_f64 row row_idx) (\<lambda>v. append_f64 api col_idx v b)
          (if_some (tds_i32 row row_idx) (\<lambda>v. append_i64 api col_idx (scast v) b)
          (if_some (tds_i16 row row_idx) (\<lambda>v. append_i64 api col_idx (scast v) b)
          (if_some (tds_u8 row row_idx) (\<lambda>v. append_i64 api col_idx (ucast v) b)
          (if_some (tds_f32 row row_idx) (\<lambda>v. append_f64 api col_idx (f64_of_f32 api v) b)
          (if_some (tds_numeric row row_idx)
             (\<lambda>v. if_some (f64_parse api v) (\<lambda>f. append_f64 api col_idx f b) (append_null col_idx b))
          (append_null col_idx b)))))))
      | TString \<Rightarrow>
          if_some (tds_str row row_idx) (\<lambda>v. append_string api col_idx v b)
          (if_some (tds_uuid row row_idx) (\<lambda>v. append_string api col_idx v b)
          (if_some (tds_bytes row row_idx) (\<lambda>v. append_string api col_idx (hex_encode v) b)
          (append_null col_idx b)))
      | TDate \<Rightarrow>
          if_some (tds_date row row_idx) (\<lambda>v. append_naive_date api col_idx v b) (append_null col_idx b)
      | TTime \<Rightarrow>
          if_some (tds_time row row_idx) (\<lambda>v. append_naive_time api col_idx v b) (append_null col_idx b)
      | TTimestamp \<Rightarrow>
          if_some (tds_naive row row_idx)
            (\<lambda>v. append_naive_datetime api col_idx v b) (append_null col_idx b)
      | TTimestampTz \<Rightarrow>
          if_some (tds_utc row row_idx) (\<lambda>v. append_datetime_utc api col_idx v b)
          (if_some (tds_naive row row_idx)
             (\<lambda>v. append_string api col_idx (naive_format_t api v) b)
          (append_null col_idx b))
      | TUnknown \<Rightarrow>
          if_some (tds_str row row_idx) (\<lambda>v. append_string api col_idx v b) (append_null col_idx b))"

text \<open>
  The column metadata of a result set (\<open>first_row.columns()\<close>), the sentinel column of
  \<open>ROW_NUMBER\<close> pagination, and the shift between a result column and its place in the row.
\<close>

definition tds_column_infos :: "tds_row list \<Rightarrow> column_info list" where
  "tds_column_infos rows =
     (case rows of
        [] \<Rightarrow> []
      | first_row # _ \<Rightarrow>
          map (\<lambda>(n, ct). \<lparr>col_name = n, col_type = map_column_type ct\<rparr>) (tds_columns first_row))"

fun position :: "('a \<Rightarrow> bool) \<Rightarrow> 'a list \<Rightarrow> nat option" where
  "position p [] = None"
| "position p (x # xs) = (if p x then Some 0 else map_option Suc (position p xs))"

definition row_num_idx :: "column_info list \<Rightarrow> nat option" where
  "row_num_idx columns = position (\<lambda>c. col_name c = ''_row_num'') columns"

definition filtered_columns :: "column_info list \<Rightarrow> column_info list" where
  "filtered_columns columns =
     (case row_num_idx columns of
        Some idx \<Rightarrow> map snd (filter (\<lambda>(i, _). i \<noteq> idx) (enumerate 0 columns))
      | None \<Rightarrow> columns)"

definition actual_idx :: "nat option \<Rightarrow> nat \<Rightarrow> nat" where
  "actual_idx rn i = (case rn of Some rn_idx \<Rightarrow> (if rn_idx \<le> i then i + 1 else i) | None \<Rightarrow> i)"

definition tds_put ::
  "value_api \<Rightarrow> nat option \<Rightarrow> tds_row \<Rightarrow> column_info \<Rightarrow> nat \<Rightarrow> arrow_builder
   \<Rightarrow> arrow_builder option" where
  "tds_put api rn row col i b = tds_row_to_arrow_at api row i (actual_idx rn i) (col_type col) b"

section \<open>JSON rows\<close>

definition row_get :: "json list \<Rightarrow> nat \<Rightarrow> json" where
  "row_get row idx = (if idx < length row then row ! idx else JNull)"

definition json_put ::
  "value_api \<Rightarrow> json list \<Rightarrow> column_info \<Rightarrow> nat \<Rightarrow> arrow_builder \<Rightarrow> arrow_builder option" where
  "json_put api row col idx b = json_value_to_arrow api (row_get row idx) (col_type col) b idx"

definition databricks_row_to_arrow ::
  "value_api \<Rightarrow> json list \<Rightarrow> column_info list \<Rightarrow> arrow_builder \<Rightarrow> arrow_builder option" where
  "databricks_row_to_arrow api row columns b = write_row (json_put api row) columns b"

definition snowflake_row_to_arrow ::
  "value_api \<Rightarrow> json list \<Rightarrow> column_info list \<Rightarrow> arrow_builder \<Rightarrow> arrow_builder option" where
  "snowflake_row_to_arrow api row columns b = write_row (json_put api row) columns b"

fun as_array :: "json \<Rightarrow> json list option" where
  "as_array (JArray xs) = Some xs"
| "as_array _ = None"

definition bigquery_value :: "json \<Rightarrow> nat \<Rightarrow> json" where
  "bigquery_value bq_row idx =
     (let cells = Option.bind (json_get bq_row ''f'') as_array in
      case Option.bind (Option.bind cells (\<lambda>c. if idx < length c then Some (c ! idx) else None))
             (\<lambda>cell. json_get cell ''v'') of
        Some v \<Rightarrow> v | None \<Rightarrow> JNull)"

definition bigquery_put ::
  "value_api \<Rightarrow> json \<Rightarrow> column_info \<Rightarrow> nat \<Rightarrow> arrow_builder \<Rightarrow> arrow_builder option" where
  "bigquery_put api bq_row col idx b =
     json_value_to_arrow api (bigquery_value bq_row idx) (col_type col) b idx"

definition bigquery_row_to_arrow ::
  "value_api \<Rightarrow> json \<Rightarrow> column_info list \<Rightarrow> arrow_builder \<Rightarrow> arrow_builder option" where
  "bigquery_row_to_arrow api bq_row columns b = write_row (bigquery_put api bq_row) columns b"

text \<open>
  ClickHouse timestamps: \<open>s.len() >= 19\<close> with a blank at byte 10, and the ISO 8601 form built
  from the two slices around it (a slice panics inside a character).
\<close>

definition is_bare_datetime :: "string \<Rightarrow> bool" where
  "is_bare_datetime s = (19 \<le> length s \<and> s ! 10 = CHR '' '')"

definition iso_datetime :: "bool \<Rightarrow> string \<Rightarrow> string option" where
  "iso_datetime utc s =
     Option.bind (str_slice s 0 10) (\<lambda>day.
       map_option (\<lambda>rest. day @ ''T'' @ rest @ (if utc then ''Z'' else []))
         (str_slice s 11 (length s)))"

definition clickhouse_put ::
  "value_api \<Rightarrow> bool \<Rightarrow> json list \<Rightarrow> column_info \<Rightarrow> nat \<Rightarrow> arrow_builder \<Rightarrow> arrow_builder option" where
  "clickhouse_put api server_tz_is_utc row col idx b =
     (let value = row_get row idx;
          bare = (case as_str value of Some s \<Rightarrow> is_bare_datetime s | None \<Rightarrow> False)
      in if server_tz_is_utc \<and> col_type col = TTimestamp \<and> bare
         then (case as_str value of
                 Some s \<Rightarrow> Option.bind (iso_datetime True s)
                   (\<lambda>iso. json_value_to_arrow api (JString iso) TTimestampTz b idx)
               | None \<Rightarrow> None)
         else json_value_to_arrow api value (col_type col) b idx)"

definition clickhouse_row_to_arrow ::
  "value_api \<Rightarrow> bool \<Rightarrow> json list \<Rightarrow> column_info list \<Rightarrow> arrow_builder \<Rightarrow> arrow_builder option" where
  "clickhouse_row_to_arrow api server_tz_is_utc row columns b =
     write_row (clickhouse_put api server_tz_is_utc row) columns b"

definition coerce_value_type ::
  "value_api \<Rightarrow> json \<Rightarrow> column_info option \<Rightarrow> bool \<Rightarrow> json option" where
  "coerce_value_type api value col server_tz_is_utc =
     (case (col, value) of
        (Some c, JString s) \<Rightarrow>
          (if col_type c = TNumber then
             Some (if_some (parse_i64 s)
                (\<lambda>n. JNumber (if 0 \<le> sint n then PosInt n else NegInt n))
               (if_some (f64_parse api s)
                (\<lambda>f. if_some (f64_number api f) JNumber value)
               value))
           else if col_type c = TBoolean then
             Some (if s \<in> {''1'', ''true'', ''True''} then JBool True
                   else if s \<in> {''0'', ''false'', ''False''} then JBool False
                   else value)
           else if col_type c = TTimestamp then
             (if is_bare_datetime s then map_option JString (iso_datetime server_tz_is_utc s)
              else Some value)
           else Some value)
      | _ \<Rightarrow> Some value)"

fun sanitize_null_bytes :: "json \<Rightarrow> json" where
  "sanitize_null_bytes (JString s) = JString (filter (\<lambda>c. c \<noteq> CHR 0x00) s)"
| "sanitize_null_bytes v = v"

section \<open>What a row contains\<close>

text \<open>The reference reading of a driver row, one table per engine.\<close>

definition pg_cell :: "value_api \<Rightarrow> pg_row \<Rightarrow> column_info \<Rightarrow> nat \<Rightarrow> cell option" where
  "pg_cell api r c i = (case col_type c of
       TBoolean \<Rightarrow> map_option CBool (pg_bool r i)
     | TNumber \<Rightarrow> map_option CF64 (first_of
         [map_option (\<lambda>v. f64_of_i64 api (scast v)) (pg_i32 r i), map_option (f64_of_i64 api) (pg_i64 r i),
          map_option (\<lambda>v. f64_of_i64 api (scast v)) (pg_i16 r i), map_option (f64_of_f32 api) (pg_f32 r i),
          pg_f64 r i, if pg_decimal r i = None then map_option (f64_cents api) (pg_money r i)
                      else Option.bind (pg_decimal r i) (f64_parse api)])
     | TString \<Rightarrow> map_option CStr (first_of
         [pg_string r i, map_option format_pg_interval (pg_iv r i),
          map_option (\<lambda>v. [CHR 0x5C] @ ''x'' @ hex_lower api v) (pg_bytes r i)])
     | TDate \<Rightarrow> map_option (\<lambda>d. CDate (ucast d)) (pg_date r i)
     | TTime \<Rightarrow> map_option (\<lambda>t. CTime (time_micros t)) (pg_time r i)
     | TTimestamp \<Rightarrow> map_option (\<lambda>t. CTs (timestamp_micros api t)) (pg_naive r i)
     | TTimestampTz \<Rightarrow> map_option (\<lambda>t. CTs (timestamp_micros api t)) (pg_utc r i)
     | TUnknown \<Rightarrow> map_option CStr (pg_string r i))"

definition mysql_cell :: "value_api \<Rightarrow> mysql_row \<Rightarrow> column_info \<Rightarrow> nat \<Rightarrow> cell option" where
  "mysql_cell api r c i =
     (let txt = map_option CStr (first_of [my_string r i, map_option (utf8_lossy api) (my_bytes r i)])
      in case col_type c of
       TBoolean \<Rightarrow> map_option CBool (my_bool r i)
     | TNumber \<Rightarrow> map_option CF64 (first_of
         [map_option (f64_of_i64 api) (my_i64 r i), map_option (f64_of_u64 api) (my_u64 r i),
          my_f64 r i, Option.bind (my_decimal r i) (f64_parse api)])
     | TString \<Rightarrow> txt
     | TDate \<Rightarrow> map_option (\<lambda>d. CDate (ucast d)) (my_date r i)
     | TTime \<Rightarrow> map_option (\<lambda>t. CTime (time_micros t)) (my_time r i)
     | TTimestamp \<Rightarrow> map_option (\<lambda>t. CTs (timestamp_micros api t)) (my_naive r i)
     | TTimestampTz \<Rightarrow> map_option (\<lambda>t. CTs (timestamp_micros api t)) (my_naive r i)
     | TUnknown \<Rightarrow> txt)"

text \<open>
  In the T-SQL table a \<open>datetimeoffset\<close> column readable only without its offset has no value:
  the code hands the column a string, which a timestamp column stores as a null.
\<close>

definition tds_cell ::
  "value_api \<Rightarrow> nat option \<Rightarrow> tds_row \<Rightarrow> column_info \<Rightarrow> nat \<Rightarrow> cell option" where
  "tds_cell api rn r c j = (let i = actual_idx rn j in case col_type c of
       TBoolean \<Rightarrow> map_option CBool (tds_bool r i)
     | TNumber \<Rightarrow> map_option CF64 (first_of
         [map_option (f64_of_i64 api) (tds_i64 r i), tds_f64 r i,
          map_option (\<lambda>v. f64_of_i64 api (scast v)) (tds_i32 r i),
          map_option (\<lambda>v. f64_of_i64 api (scast v)) (tds_i16 r i),
          map_option (\<lambda>v. f64_of_i64 api (ucast v)) (tds_u8 r i),
          map_option (f64_of_f32 api) (tds_f32 r i), Option.bind (tds_numeric r i) (f64_parse api)])
     | TString \<Rightarrow> map_option CStr (first_of
         [tds_str r i, tds_uuid r i, map_option hex_encode (tds_bytes r i)])
     | TDate \<Rightarrow> map_option (\<lambda>d. CDate (ucast d)) (tds_date r i)
     | TTime \<Rightarrow> map_option (\<lambda>t. CTime (time_micros t)) (tds_time r i)
     | TTimestamp \<Rightarrow> map_option (\<lambda>t. CTs (timestamp_micros api t)) (tds_naive r i)
     | TTimestampTz \<Rightarrow> map_option (\<lambda>t. CTs (timestamp_micros api t)) (tds_utc r i)
     | TUnknown \<Rightarrow> map_option CStr (tds_str r i))"

definition clickhouse_cell ::
  "value_api \<Rightarrow> bool \<Rightarrow> json list \<Rightarrow> column_info \<Rightarrow> nat \<Rightarrow> cell option" where
  "clickhouse_cell api utc r c i =
     (case row_get r i of
        JString s \<Rightarrow>
          if utc \<and> col_type c = TTimestamp \<and> is_bare_datetime s
          then string_ts api TTimestampTz (take 10 s @ ''T'' @ drop 11 s @ ''Z'')
          else string_cell api (col_type c) s
      | v \<Rightarrow> json_cell api (col_type c) v)"

lemma pg_put_cell:
  assumes "i < length (ab_builders b)"
    "col_dt (ab_builders b ! i) = simple_type_to_arrow (col_type c)"
  shows "appends_cell i (pg_cell api r c i) b (pg_put api r c i b)"
  using assms unfolding pg_put_def pg_cell_def
  by (cases "col_type c") (auto intro!: append_intros split: option.split)

lemma mysql_put_cell:
  assumes "i < length (ab_builders b)"
    "col_dt (ab_builders b ! i) = simple_type_to_arrow (col_type c)"
  shows "appends_cell i (mysql_cell api r c i) b (mysql_put api r c i b)"
  using assms unfolding mysql_put_def mysql_cell_def mysql_text_def mysql_try_get_bytes_as_string_def
  by (cases "col_type c") (auto intro!: append_intros split: option.split)

lemma tds_put_cell:
  assumes "i < length (ab_builders b)"
    "col_dt (ab_builders b ! i) = simple_type_to_arrow (col_type c)"
  shows "appends_cell i (tds_cell api rn r c i) b (tds_put api rn r c i b)"
  using assms unfolding tds_put_def tds_row_to_arrow_at_def tds_cell_def Let_def
  by (cases "col_type c") (auto intro!: append_intros split: option.split)

text \<open>Rows the ClickHouse API can return: every text is UTF-8.\<close>

definition utf8_row :: "json list \<Rightarrow> bool" where
  "utf8_row r = list_all (\<lambda>v. case v of JString s \<Rightarrow> is_utf8 s | _ \<Rightarrow> True) r"

lemma iso_datetime_utf8:
  assumes "is_utf8 s" "is_bare_datetime s"
  shows "iso_datetime utc s = Some (take 10 s @ ''T'' @ drop 11 s @ (if utc then ''Z'' else []))"
proof -
  have s: "10 < length s" "(of_char (s ! 10) :: nat) < 128" "19 \<le> length s"
    using assms(2) by (auto simp: is_bare_datetime_def)
  have "is_char_boundary s 10" "is_char_boundary s 11"
    using utf8_boundary_after_ascii [OF assms(1) s(1,2)] by simp_all
  then show ?thesis using s by (simp add: iso_datetime_def str_slice_def is_char_boundary_def)
qed

lemma row_get_utf8: "utf8_row r \<Longrightarrow> row_get r i = JString s \<Longrightarrow> is_utf8 s"
  by (auto simp: utf8_row_def row_get_def list_all_length split: if_splits json.splits)

lemma clickhouse_put_cell:
  assumes "utf8_row r" "i < length (ab_builders b)"
    "col_dt (ab_builders b ! i) = simple_type_to_arrow (col_type c)"
  shows "appends_cell i (clickhouse_cell api utc r c i) b (clickhouse_put api utc r c i b)"
proof (cases "row_get r i")
  case (JString s)
  have utf8: "is_utf8 s" using assms(1) JString by (rule row_get_utf8)
  show ?thesis
  proof (cases "utc \<and> col_type c = TTimestamp \<and> is_bare_datetime s")
    case True
    let ?iso = "take 10 s @ ''T'' @ drop 11 s @ ''Z''"
    have "appends_cell i (string_cell api TTimestampTz ?iso) b
        (json_value_to_arrow api (JString ?iso) TTimestampTz b i)"
      using assms True by (intro json_string_appends_cell) simp_all
    then show ?thesis
      using True JString iso_datetime_utf8 [OF utf8, of True]
      by (simp add: clickhouse_put_def clickhouse_cell_def)
  next
    case False
    then show ?thesis
      using assms JString json_string_appends_cell [of i b "col_type c"]
      by (auto simp: clickhouse_put_def clickhouse_cell_def)
  qed
qed (use assms json_appends_cell in \<open>auto simp: clickhouse_put_def clickhouse_cell_def\<close>)

interpretation pg_writer: row_writer "pg_put api" "pg_cell api" "\<lambda>_. True"
  by unfold_locales (rule pg_put_cell)

interpretation mysql_writer: row_writer "mysql_put api" "mysql_cell api" "\<lambda>_. True"
  by unfold_locales (rule mysql_put_cell)

interpretation tds_writer: row_writer "tds_put api rn" "tds_cell api rn" "\<lambda>_. True"
  by unfold_locales (rule tds_put_cell)

interpretation json_writer: row_writer "json_put api"
  "\<lambda>r c i. json_cell api (col_type c) (row_get r i)" "\<lambda>_. True"
  by unfold_locales (simp add: json_put_def json_appends_cell)

interpretation bigquery_writer: row_writer "bigquery_put api"
  "\<lambda>r c i. json_cell api (col_type c) (bigquery_value r i)" "\<lambda>_. True"
  by unfold_locales (simp add: bigquery_put_def json_appends_cell)

interpretation clickhouse_writer: row_writer "clickhouse_put api utc" "clickhouse_cell api utc" utf8_row
  by unfold_locales (rule clickhouse_put_cell)

section \<open>Result sets\<close>

text \<open>A concrete stand-in for the parameters, for witnesses: a batch constructor that checks
  what \<^verbatim>\<open>RecordBatch::try_new\<close> checks.\<close>

definition demo_arrow :: arrow_api where
  "demo_arrow = \<lparr>
     rb_try_new = (\<lambda>s cols. case cols of
        [] \<Rightarrow> Inl ''must either specify a row count or at least one column''
      | c # cs \<Rightarrow>
          if map snd s = map arr_type cols \<and>
             list_all (\<lambda>d. length (arr_vals d) = length (arr_vals c)) cs
          then Inr \<lparr>rb_schema = s, rb_columns = cols, rb_num_rows = length (arr_vals c)\<rparr>
          else Inl ''mismatch''),
     ipc_schema = (\<lambda>s. Inr [of_nat (length s)]),
     ipc_batch = (\<lambda>s b. Inr [of_nat (rb_num_rows b)])\<rparr>"

lemma demo_arrow_law: "try_new_law demo_arrow"
  by (auto simp: try_new_law_def demo_arrow_def list_all_iff neq_Nil_conv split: list.split)

text \<open>
  C21. PostgreSQL (also Redshift) and MySQL results arrive: whatever the rows, writing them
  into a fresh builder and finishing it gives a batch with one row per result row whose cells
  are the values the drivers return, no cell being shifted, lost or put in another column.
\<close>

theorem sqlx_rows_arrive:
  assumes "try_new_law arrow" "cols \<noteq> []"
  shows "rows_arrive arrow (pg_put api) (pg_cell api) cols pg_rows \<and>
    rows_arrive arrow (mysql_put api) (mysql_cell api) cols my_rows"
  using pg_writer.rows_arrive_batch [OF assms] mysql_writer.rows_arrive_batch [OF assms]
  by (simp add: list_all_iff)

theorem sqlx_rows_arrive_witness:
  "\<forall>api pg_rows my_rows.
    rows_arrive demo_arrow (pg_put api) (pg_cell api) [\<lparr>col_name = ''id'', col_type = TNumber\<rparr>] pg_rows \<and>
    rows_arrive demo_arrow (mysql_put api) (mysql_cell api)
      [\<lparr>col_name = ''id'', col_type = TNumber\<rparr>] my_rows"
  by (intro allI sqlx_rows_arrive demo_arrow_law) simp

text \<open>
  C22. The JSON results of Databricks, Snowflake and BigQuery arrive: every cell of the batch is
  the reference reading of the JSON value at its place, missing values being nulls.
\<close>

theorem json_rows_arrive:
  assumes "try_new_law arrow" "cols \<noteq> []"
  shows "rows_arrive arrow (json_put api)
      (\<lambda>r c i. json_cell api (col_type c) (if i < length r then r ! i else JNull)) cols rows \<and>
    rows_arrive arrow (bigquery_put api)
      (\<lambda>r c i. json_cell api (col_type c) (bigquery_value r i)) cols bq_rows"
  using json_writer.rows_arrive_batch [OF assms] bigquery_writer.rows_arrive_batch [OF assms]
  by (simp add: list_all_iff row_get_def)

theorem json_rows_arrive_witness:
  "\<forall>api rows bq_rows.
    rows_arrive demo_arrow (json_put api)
      (\<lambda>r c i. json_cell api (col_type c) (if i < length r then r ! i else JNull))
      [\<lparr>col_name = ''id'', col_type = TDate\<rparr>] rows \<and>
    rows_arrive demo_arrow (bigquery_put api)
      (\<lambda>r c i. json_cell api (col_type c) (bigquery_value r i))
      [\<lparr>col_name = ''id'', col_type = TDate\<rparr>] bq_rows"
  by (intro allI json_rows_arrive demo_arrow_law) simp

text \<open>
  C23. ClickHouse results arrive: no slice of a timestamp panics on UTF-8 text, and on a UTC
  server a bare date-time is read as its ISO 8601 form with a trailing Z.
\<close>

theorem clickhouse_rows_arrive:
  assumes "try_new_law arrow" "cols \<noteq> []" "list_all utf8_row rows"
  shows "rows_arrive arrow (clickhouse_put api utc) (clickhouse_cell api utc) cols rows"
  using clickhouse_writer.rows_arrive_batch [OF assms] .

theorem clickhouse_rows_arrive_witness:
  "\<forall>api utc. rows_arrive demo_arrow (clickhouse_put api utc) (clickhouse_cell api utc)
     [\<lparr>col_name = ''t'', col_type = TTimestamp\<rparr>] [[JString ''2026-02-15 11:02:36'']]"
  by (intro allI clickhouse_rows_arrive demo_arrow_law) (simp, code_simp)

section \<open>The row-number column\<close>

lemma position_Some: "position p xs = Some i \<Longrightarrow> i < length xs \<and> p (xs ! i)"
  by (induction xs arbitrary: i) (auto split: if_splits)

lemma filter_enumerate_index:
  "k \<le> idx \<Longrightarrow> map snd (filter (\<lambda>(i, _). i \<noteq> idx) (enumerate k xs))
     = take (idx - k) xs @ drop (Suc (idx - k)) xs"
proof (induction xs arbitrary: k)
  case (Cons x xs)
  have *: "map snd (filter (\<lambda>(i, _). i \<noteq> idx) (enumerate m ys)) = ys" if "idx < m" for m ys
    using that by (induction ys arbitrary: m) auto
  show ?case
  proof (cases "k = idx")
    case False
    with Cons.prems have "Suc k \<le> idx" "idx - k = Suc (idx - Suc k)" by simp_all
    with Cons.IH [of "Suc k"] False show ?thesis by simp
  qed (simp add: *)
qed simp

text \<open>
  C20. T-SQL results arrive with the sentinel column of ROW_NUMBER pagination removed: the
  columns of the result are those of the row set without the first column of that name, and the
  value stored in each is the one the row has at the place of the column of that name and type.
\<close>

theorem tds_rows_arrive:
  assumes "try_new_law arrow" "filtered_columns columns \<noteq> []"
  shows "rows_arrive arrow (tds_put api (row_num_idx columns))
      (\<lambda>r c i. tds_cell api None r c (actual_idx (row_num_idx columns) i))
      (filtered_columns columns) rows \<and>
    length (filtered_columns columns) + (if row_num_idx columns = None then 0 else 1) = length columns \<and>
    map (\<lambda>i. columns ! actual_idx (row_num_idx columns) i) [0..<length (filtered_columns columns)]
      = filtered_columns columns"
proof -
  have shift: "tds_cell api (row_num_idx columns)
      = (\<lambda>r c i. tds_cell api None r c (actual_idx (row_num_idx columns) i))"
    by (intro ext) (simp add: tds_cell_def actual_idx_def)
  have "rows_arrive arrow (tds_put api (row_num_idx columns))
      (tds_cell api (row_num_idx columns)) (filtered_columns columns) rows"
    using tds_writer.rows_arrive_batch [OF assms] by (simp add: list_all_iff)
  moreover have "length (filtered_columns columns) + (if row_num_idx columns = None then 0 else 1)
      = length columns \<and>
    map (\<lambda>i. columns ! actual_idx (row_num_idx columns) i) [0..<length (filtered_columns columns)]
      = filtered_columns columns"
  proof (cases "row_num_idx columns")
    case None
    then show ?thesis by (simp add: filtered_columns_def actual_idx_def map_nth)
  next
    case (Some k)
    then have k: "k < length columns" unfolding row_num_idx_def by (blast dest: position_Some)
    have f: "filtered_columns columns = take k columns @ drop (Suc k) columns"
      using Some filter_enumerate_index [of 0 k columns] by (simp add: filtered_columns_def)
    show ?thesis
      using k Some by (auto simp: f actual_idx_def nth_append intro!: nth_equalityI)
  qed
  ultimately show ?thesis unfolding shift by (rule conjI)
qed

theorem tds_rows_arrive_witness:
  "\<forall>api rows. let columns = [\<lparr>col_name = ''_row_num'', col_type = TNumber\<rparr>,
       \<lparr>col_name = ''name'', col_type = TString\<rparr>] in
    rows_arrive demo_arrow (tds_put api (row_num_idx columns))
      (\<lambda>r c i. tds_cell api None r c (actual_idx (row_num_idx columns) i))
      (filtered_columns columns) rows \<and>
    length (filtered_columns columns) + (if row_num_idx columns = None then 0 else 1) = length columns \<and>
    map (\<lambda>i. columns ! actual_idx (row_num_idx columns) i) [0..<length (filtered_columns columns)]
      = filtered_columns columns"
  unfolding Let_def by (intro allI tds_rows_arrive demo_arrow_law) code_simp

end
