(* ===== verification/Wire.thy ===== *)
theory Wire
  imports Protocol_Types Json "HOL-Library.Monad_Syntax"
begin

text \<open>
  The wire protocol of \<^verbatim>\<open>kyomi-connect-protocol/src/wire.rs\<close>: requests, their typed
  parameters, responses and catalog results, each with the JSON form the derived
  \<^verbatim>\<open>Serialize\<close> code gives it (\<open>*_to_json\<close>) and the derived reader (\<open>*_from_json\<close>).
  The byte fields of Arrow responses go through the base64 engine, a parameter:
  \<open>enc\<close> encodes, \<open>dec\<close> decodes (\<^verbatim>\<open>base64_bytes\<close> of \<^verbatim>\<open>stream.rs\<close>).
\<close>

section \<open>Requests\<close>

datatype connect_op = ExecuteQuery | DryRun | TestConnection | DiscoverCatalog

fun op_to_str :: "connect_op \<Rightarrow> string" where
  "op_to_str ExecuteQuery = ''execute_query''"
| "op_to_str DryRun = ''dry_run''"
| "op_to_str TestConnection = ''test_connection''"
| "op_to_str DiscoverCatalog = ''discover_catalog''"

definition op_of_str :: "string \<Rightarrow> connect_op option" where
  "op_of_str s =
     (if s = ''execute_query'' then Some ExecuteQuery
      else if s = ''dry_run'' then Some DryRun
      else if s = ''test_connection'' then Some TestConnection
      else if s = ''discover_catalog'' then Some DiscoverCatalog
      else None)"

record connect_request =
  req_id :: string
  req_op :: connect_op
  req_params :: "json option"
  req_streaming :: bool

definition request_to_json :: "connect_request \<Rightarrow> json" where
  "request_to_json r =
     json_obj [(''id'', Some (JString (req_id r))),
               (''op'', Some (JString (op_to_str (req_op r)))),
               (''params'', req_params r),
               (''streaming'', if req_streaming r then Some (JBool True) else None)]"

definition request_from_json :: "json \<Rightarrow> connect_request option" where
  "request_from_json j =
     (if struct_shape 4 j then
        do { i \<leftarrow> de_required as_str (field_at j ''id'' 0);
             oper \<leftarrow> de_required (de_variant op_of_str) (field_at j ''op'' 1);
             p \<leftarrow> de_option j Some (field_at j ''params'' 2);
             s \<leftarrow> de_default False as_bool (field_at j ''streaming'' 3);
             Some \<lparr>req_id = i, req_op = oper, req_params = p, req_streaming = s\<rparr> }
      else None)"

section \<open>Parameters\<close>

fun format_to_str :: "query_format \<Rightarrow> string" where
  "format_to_str Json = ''json''"
| "format_to_str Arrow = ''arrow''"

definition format_of_str :: "string \<Rightarrow> query_format option" where
  "format_of_str s =
     (if s = ''json'' then Some Json else if s = ''arrow'' then Some Arrow else None)"

record query_params =
  qp_sql :: string
  qp_limit :: "u32 option"
  qp_offset :: "u32 option"
  qp_include_total :: bool
  qp_format :: query_format
  qp_job_id :: "string option"

definition query_params_to_json :: "query_params \<Rightarrow> json" where
  "query_params_to_json p =
     json_obj [(''sql'', Some (JString (qp_sql p))),
               (''limit'', map_option ser_u32 (qp_limit p)),
               (''offset'', map_option ser_u32 (qp_offset p)),
               (''include_total'', Some (JBool (qp_include_total p))),
               (''format'', Some (JString (format_to_str (qp_format p)))),
               (''job_id'', map_option JString (qp_job_id p))]"

definition query_params_from_json :: "json \<Rightarrow> query_params option" where
  "query_params_from_json j =
     (if struct_shape 6 j then
        do { sql \<leftarrow> de_required as_str (field_at j ''sql'' 0);
             l \<leftarrow> de_option j de_u32 (field_at j ''limit'' 1);
             off \<leftarrow> de_option j de_u32 (field_at j ''offset'' 2);
             t \<leftarrow> de_required as_bool (field_at j ''include_total'' 3);
             f \<leftarrow> de_default Json (de_variant format_of_str) (field_at j ''format'' 4);
             jid \<leftarrow> de_default None (de_opt as_str) (field_at j ''job_id'' 5);
             Some \<lparr>qp_sql = sql, qp_limit = l, qp_offset = off, qp_include_total = t,
                    qp_format = f, qp_job_id = jid\<rparr> }
      else None)"

record dry_run_params =
  drp_sql :: string

definition dry_run_params_to_json :: "dry_run_params \<Rightarrow> json" where
  "dry_run_params_to_json p = json_obj [(''sql'', Some (JString (drp_sql p)))]"

definition dry_run_params_from_json :: "json \<Rightarrow> dry_run_params option" where
  "dry_run_params_from_json j =
     (if struct_shape 1 j then
        do { sql \<leftarrow> de_required as_str (field_at j ''sql'' 0); Some \<lparr>drp_sql = sql\<rparr> }
      else None)"

record discover_params =
  dcp_containers :: "string list option"
  dcp_include_public_datasets :: "bool option"
  dcp_containers_only :: bool

definition discover_params_default :: discover_params where
  "discover_params_default =
     \<lparr>dcp_containers = None, dcp_include_public_datasets = None, dcp_containers_only = False\<rparr>"

definition discover_params_to_json :: "discover_params \<Rightarrow> json" where
  "discover_params_to_json p =
     json_obj [(''containers'', map_option (JArray \<circ> map JString) (dcp_containers p)),
               (''include_public_datasets'', map_option JBool (dcp_include_public_datasets p)),
               (''containers_only'', if dcp_containers_only p then Some (JBool True) else None)]"

definition discover_params_from_json :: "json \<Rightarrow> discover_params option" where
  "discover_params_from_json j =
     (if struct_shape 3 j then
        do { cs \<leftarrow> de_default None (de_opt (de_list as_str)) (field_at j ''containers'' 0);
             pub \<leftarrow> de_default None (de_opt as_bool) (field_at j ''include_public_datasets'' 1);
             only \<leftarrow> de_default False as_bool (field_at j ''containers_only'' 2);
             Some \<lparr>dcp_containers = cs, dcp_include_public_datasets = pub,
                    dcp_containers_only = only\<rparr> }
      else None)"

section \<open>Responses\<close>

datatype response_body =
    Result json
  | ErrorBody string
  | ArrowHeader "u8 list" "column_info list" "i64 option"
  | ArrowBatch "u8 list" u32
  | ArrowComplete "i64 option" "i64 option" u32 u64 "string option"

record connect_response =
  resp_id :: string
  resp_body :: response_body

definition column_info_to_json :: "column_info \<Rightarrow> json" where
  "column_info_to_json c =
     json_obj [(''name'', Some (JString (col_name c))),
               (''type'', Some (JString (simple_as_str (col_type c))))]"

definition simple_type_from_json :: "json \<Rightarrow> simple_type option" where
  "simple_type_from_json j =
     do { s \<leftarrow> as_str j; case simple_from_str s of Inl e \<Rightarrow> None | Inr t \<Rightarrow> Some t }"

definition column_info_from_json :: "json \<Rightarrow> column_info option" where
  "column_info_from_json j =
     (if struct_shape 2 j then
        do { n \<leftarrow> de_required as_str (field_at j ''name'' 0);
             t \<leftarrow> de_required simple_type_from_json (field_at j ''type'' 1);
             Some \<lparr>col_name = n, col_type = t\<rparr> }
      else None)"

fun body_fields :: "(u8 list \<Rightarrow> string) \<Rightarrow> response_body \<Rightarrow> (string \<times> json option) list" where
  "body_fields enc (Result v) = [(''type'', Some (JString ''result'')), (''result'', Some v)]"
| "body_fields enc (ErrorBody e) =
     [(''type'', Some (JString ''error'')), (''error'', Some (JString e))]"
| "body_fields enc (ArrowHeader schema_ipc columns total_rows) =
     [(''type'', Some (JString ''arrow_header'')),
      (''schema_ipc'', Some (JString (enc schema_ipc))),
      (''columns'', Some (JArray (map column_info_to_json columns))),
      (''total_rows'', map_option ser_i64 total_rows)]"
| "body_fields enc (ArrowBatch ipc_bytes chunk_index) =
     [(''type'', Some (JString ''arrow_batch'')),
      (''ipc_bytes'', Some (JString (enc ipc_bytes))),
      (''chunk_index'', Some (ser_u32 chunk_index))]"
| "body_fields enc (ArrowComplete ms bytes chunks rows jid) =
     [(''type'', Some (JString ''arrow_complete'')),
      (''execution_time_ms'', map_option ser_i64 ms),
      (''bytes_processed'', map_option ser_i64 bytes),
      (''total_chunks'', Some (ser_u32 chunks)),
      (''total_rows_returned'', Some (JNumber (PosInt rows))),
      (''job_id'', map_option JString jid)]"

definition response_to_json :: "(u8 list \<Rightarrow> string) \<Rightarrow> connect_response \<Rightarrow> json" where
  "response_to_json enc r =
     json_obj ((''id'', Some (JString (resp_id r))) # body_fields enc (resp_body r))"

text \<open>The variant tag: its snake-case name, or its position.\<close>

fun body_tag :: "json \<Rightarrow> nat option" where
  "body_tag (JString s) =
     (if s = ''result'' then Some 0 else if s = ''error'' then Some 1
      else if s = ''arrow_header'' then Some 2 else if s = ''arrow_batch'' then Some 3
      else if s = ''arrow_complete'' then Some 4 else None)"
| "body_tag (JNumber (PosInt n)) = (if unat n < 5 then Some (unat n) else None)"
| "body_tag _ = None"

definition body_from_json :: "(string \<Rightarrow> u8 list option) \<Rightarrow> json \<Rightarrow> response_body option" where
  "body_from_json dec j =
     do { tag \<leftarrow> de_required body_tag (json_get j ''type'');
          if tag = 0 then map_option Result (json_get j ''result'')
          else if tag = 1 then
            map_option ErrorBody (de_required as_str (json_get j ''error''))
          else if tag = 2 then
            do { s \<leftarrow> de_required as_str (json_get j ''schema_ipc''); bs \<leftarrow> dec s;
                 cs \<leftarrow> de_required (de_list column_info_from_json) (json_get j ''columns'');
                 n \<leftarrow> de_option j as_i64 (json_get j ''total_rows'');
                 Some (ArrowHeader bs cs n) }
          else if tag = 3 then
            do { s \<leftarrow> de_required as_str (json_get j ''ipc_bytes''); bs \<leftarrow> dec s;
                 i \<leftarrow> de_required de_u32 (json_get j ''chunk_index'');
                 Some (ArrowBatch bs i) }
          else
            do { ms \<leftarrow> de_option j as_i64 (json_get j ''execution_time_ms'');
                 by \<leftarrow> de_option j as_i64 (json_get j ''bytes_processed'');
                 n \<leftarrow> de_required de_u32 (json_get j ''total_chunks'');
                 rs \<leftarrow> de_required as_u64 (json_get j ''total_rows_returned'');
                 jid \<leftarrow> de_option j as_str (json_get j ''job_id'');
                 Some (ArrowComplete ms by n rs jid) } }"

definition response_from_json ::
  "(string \<Rightarrow> u8 list option) \<Rightarrow> json \<Rightarrow> connect_response option" where
  "response_from_json dec j =
     (if is_object j then
        do { i \<leftarrow> de_required as_str (json_get j ''id'');
             b \<leftarrow> body_from_json dec j;
             Some \<lparr>resp_id = i, resp_body = b\<rparr> }
      else None)"

section \<open>Catalog\<close>

record catalog_column =
  cc_name :: string
  cc_native_type :: string
  cc_description :: "string option"

record catalog_table =
  ct_name :: string
  ct_native_type :: "string option"
  ct_columns :: "catalog_column list"

record catalog_container =
  cn_name :: string
  cn_tables :: "catalog_table list"

record catalog_result =
  cr_containers :: "catalog_container list"
  cr_errors :: "string list"

definition catalog_column_to_json :: "catalog_column \<Rightarrow> json" where
  "catalog_column_to_json c =
     json_obj [(''name'', Some (JString (cc_name c))),
               (''native_type'', Some (JString (cc_native_type c))),
               (''description'', map_option JString (cc_description c))]"

definition catalog_table_to_json :: "catalog_table \<Rightarrow> json" where
  "catalog_table_to_json t =
     json_obj [(''name'', Some (JString (ct_name t))),
               (''native_type'', map_option JString (ct_native_type t)),
               (''columns'', Some (JArray (map catalog_column_to_json (ct_columns t))))]"

definition catalog_container_to_json :: "catalog_container \<Rightarrow> json" where
  "catalog_container_to_json c =
     json_obj [(''name'', Some (JString (cn_name c))),
               (''tables'', Some (JArray (map catalog_table_to_json (cn_tables c))))]"

definition catalog_result_to_json :: "catalog_result \<Rightarrow> json" where
  "catalog_result_to_json r =
     json_obj [(''containers'', Some (JArray (map catalog_container_to_json (cr_containers r)))),
               (''errors'', Some (JArray (map JString (cr_errors r))))]"

definition catalog_column_from_json :: "json \<Rightarrow> catalog_column option" where
  "catalog_column_from_json j =
     (if struct_shape 3 j then
        do { n \<leftarrow> de_required as_str (field_at j ''name'' 0);
             t \<leftarrow> de_required as_str (field_at j ''native_type'' 1);
             d \<leftarrow> de_option j as_str (field_at j ''description'' 2);
             Some \<lparr>cc_name = n, cc_native_type = t, cc_description = d\<rparr> }
      else None)"

definition catalog_table_from_json :: "json \<Rightarrow> catalog_table option" where
  "catalog_table_from_json j =
     (if struct_shape 3 j then
        do { n \<leftarrow> de_required as_str (field_at j ''name'' 0);
             t \<leftarrow> de_option j as_str (field_at j ''native_type'' 1);
             cs \<leftarrow> de_required (de_list catalog_column_from_json) (field_at j ''columns'' 2);
             Some \<lparr>ct_name = n, ct_native_type = t, ct_columns = cs\<rparr> }
      else None)"

definition catalog_container_from_json :: "json \<Rightarrow> catalog_container option" where
  "catalog_container_from_json j =
     (if struct_shape 2 j then
        do { n \<leftarrow> de_required as_str (field_at j ''name'' 0);
             ts \<leftarrow> de_required (de_list catalog_table_from_json) (field_at j ''tables'' 1);
             Some \<lparr>cn_name = n, cn_tables = ts\<rparr> }
      else None)"

definition catalog_result_from_json :: "json \<Rightarrow> catalog_result option" where
  "catalog_result_from_json j =
     (if struct_shape 2 j then
        do { cs \<leftarrow> de_required (de_list catalog_container_from_json) (field_at j ''containers'' 0);
             es \<leftarrow> de_default [] (de_list as_str) (field_at j ''errors'' 1);
             Some \<lparr>cr_containers = cs, cr_errors = es\<rparr> }
      else None)"

section \<open>Round trips\<close>

text \<open>Reading back a field that was written: the facts every round trip rests on.\<close>

lemmas read_back = field_at_object struct_shape_object de_defs

lemma op_of_to_str [simp]: "op_of_str (op_to_str p) = Some p"
  by (cases p) (simp_all add: op_of_str_def)

lemma format_of_to_str [simp]: "format_of_str (format_to_str f) = Some f"
  by (cases f) (simp_all add: format_of_str_def)

lemma de_opt_ser [simp]:
  "de_opt de_u32 (ser_u32 w) = Some (Some w)"
  "de_opt as_i64 (ser_i64 v) = Some (Some v)"
  by (simp_all add: de_opt_not_null)

lemma those_strings [simp]: "those (map (as_str \<circ> JString) ss) = Some ss"
  using those_map_inv [of ss as_str JString] by simp

lemma column_info_read_back [simp]: "column_info_from_json (column_info_to_json c) = Some c"
  by (simp add: column_info_from_json_def column_info_to_json_def read_back
      simple_type_from_json_def)

lemma catalog_column_read_back [simp]:
  "catalog_column_from_json (catalog_column_to_json c) = Some c"
  by (cases "cc_description c")
    (simp_all add: catalog_column_from_json_def catalog_column_to_json_def read_back)

lemma catalog_table_read_back [simp]:
  "catalog_table_from_json (catalog_table_to_json t) = Some t"
  using those_map_inv [of "ct_columns t" catalog_column_from_json catalog_column_to_json]
  by (cases "ct_native_type t")
    (simp_all add: catalog_table_from_json_def catalog_table_to_json_def read_back)

lemma catalog_container_read_back [simp]:
  "catalog_container_from_json (catalog_container_to_json c) = Some c"
  using those_map_inv [of "cn_tables c" catalog_table_from_json catalog_table_to_json]
  by (simp add: catalog_container_from_json_def catalog_container_to_json_def read_back)

text \<open>
  C36. A request survives the wire: reading back the JSON of a request gives the same
  request, except that explicit null parameters come back as no parameters.
\<close>

theorem request_roundtrip:
  "request_from_json (request_to_json r)
     = Some (if req_params r = Some JNull then r\<lparr>req_params := None\<rparr> else r)"
  by (cases "req_params r"; cases "the (req_params r)")
    (simp_all add: request_from_json_def request_to_json_def read_back)

lemma query_params_read_back: "query_params_from_json (query_params_to_json q) = Some q"
  by (cases "qp_limit q"; cases "qp_offset q"; cases "qp_job_id q")
    (simp_all add: query_params_from_json_def query_params_to_json_def read_back)

lemma request_read_back:
  "req_params r \<noteq> Some JNull \<Longrightarrow> request_from_json (request_to_json r) = Some r"
  by (cases "req_params r"; cases "the (req_params r)")
    (simp_all add: request_from_json_def request_to_json_def read_back)

lemma discover_params_read_back:
  "discover_params_from_json (discover_params_to_json p) = Some p"
  by (cases "dcp_containers p"; cases "dcp_include_public_datasets p")
    (simp_all add: discover_params_from_json_def discover_params_to_json_def read_back)

text \<open>
  The parameters of every operation survive the wire, whatever optional fields are
  present.
\<close>

theorem params_roundtrip:
  "query_params_from_json (query_params_to_json q) = Some q
   \<and> dry_run_params_from_json (dry_run_params_to_json d) = Some d
   \<and> discover_params_from_json (discover_params_to_json p) = Some p"
proof (intro conjI)
  show "query_params_from_json (query_params_to_json q) = Some q"
    by (rule query_params_read_back)
  show "dry_run_params_from_json (dry_run_params_to_json d) = Some d"
    by (simp add: dry_run_params_from_json_def dry_run_params_to_json_def read_back)
  show "discover_params_from_json (discover_params_to_json p) = Some p"
    by (rule discover_params_read_back)
qed

lemma response_read_back:
  assumes base64: "\<And>bs. dec (enc bs) = Some bs"
  shows "response_from_json dec (response_to_json enc r) = Some r"
proof (cases "resp_body r")
  case (ArrowHeader s cs n)
  then show ?thesis
    using those_map_inv [of cs column_info_from_json column_info_to_json]
    by (cases n) (simp_all add: response_from_json_def response_to_json_def body_from_json_def
        read_back base64)
next
  case (ArrowComplete ms pb n rs jid)
  then show ?thesis
    by (cases ms; cases pb; cases jid)
      (simp_all add: response_from_json_def response_to_json_def body_from_json_def read_back)
qed (simp_all add: response_from_json_def response_to_json_def body_from_json_def read_back base64)

text \<open>
  C35. A response survives the wire, given a base64 engine that decodes what it encodes:
  the identifier and every field of every kind of body come back unchanged.
\<close>

theorem response_roundtrip:
  assumes "\<And>bs. dec (enc bs) = Some bs"
  shows "response_from_json dec (response_to_json enc r) = Some r"
  by (rule response_read_back [OF assms])

theorem response_roundtrip_witness:
  "response_from_json (\<lambda>s. Some (map (\<lambda>c. word_of_nat (of_char c)) s))
     (response_to_json (map (\<lambda>w. char_of (unat w)))
        \<lparr>resp_id = ''r1'', resp_body = ArrowBatch [1, 255] 7\<rparr>)
   = Some \<lparr>resp_id = ''r1'', resp_body = ArrowBatch [1, 255] 7\<rparr>"
proof (rule response_roundtrip)
  have "word_of_nat (of_char (char_of (unat w))) = w" for w :: u8
    using unsigned_less [of w, where ?'a = nat] by simp
  then show "Some (map (\<lambda>c. word_of_nat (of_char c)) (map (\<lambda>w. char_of (unat w)) bs)) = Some bs"
    for bs :: "u8 list"
    by (simp add: o_def)
qed

text \<open>
  A catalog survives the wire, and a result from an agent that predates the error list
  still reads, with no errors.
\<close>

theorem catalog_roundtrip:
  "catalog_result_from_json (catalog_result_to_json r) = Some r
   \<and> catalog_result_from_json
        (json_obj [(''containers'', Some (JArray (map catalog_container_to_json (cr_containers r))))])
      = Some (r\<lparr>cr_errors := []\<rparr>)"
  using those_map_inv [of "cr_containers r" catalog_container_from_json catalog_container_to_json]
  by (simp add: catalog_result_from_json_def catalog_result_to_json_def read_back)

text \<open>
  Query parameters from an older backend read as before: without a format they ask for
  JSON, without a job identifier they carry none, and the other fields are unaffected.
\<close>

theorem query_params_defaults:
  "query_params_from_json
     (json_obj [(''sql'', Some (JString sql)), (''limit'', map_option ser_u32 l),
                (''include_total'', Some (JBool t))])
   = Some \<lparr>qp_sql = sql, qp_limit = l, qp_offset = None, qp_include_total = t,
            qp_format = Json, qp_job_id = None\<rparr>"
  by (cases l) (simp_all add: query_params_from_json_def read_back)

end
