(* ===== verification/Query_Result.thy ===== *)
theory Query_Result
  imports Row_Convert Wire
begin

text \<open>
  The result types of \<^verbatim>\<open>kyomi-datasource/src/provider.rs\<close>, the streaming event of
  \<^verbatim>\<open>kyomi-connect-protocol/src/stream.rs\<close>, and \<open>query_result_to_arrow_stream\<close> of
  \<^verbatim>\<open>kyomi-datasource/src/stream.rs\<close>, which turns a buffered result into an event stream.
\<close>

section \<open>Results\<close>

record query_result =
  qr_status :: query_status
  qr_columns :: "column_info list option"
  qr_total_rows :: "i64 option"
  qr_has_more :: bool
  qr_bytes_processed :: "i64 option"
  qr_execution_time_ms :: "i64 option"
  qr_error :: "string option"
  qr_record_batch :: "record_batch option"
  qr_job_id :: "string option"

definition success_empty :: query_result where
  "success_empty = \<lparr>qr_status = Success, qr_columns = None, qr_total_rows = None,
     qr_has_more = False, qr_bytes_processed = None, qr_execution_time_ms = None,
     qr_error = None, qr_record_batch = None, qr_job_id = None\<rparr>"

definition qr_error_result :: "string \<Rightarrow> query_result" where
  "qr_error_result message = \<lparr>qr_status = Error, qr_columns = None, qr_total_rows = None,
     qr_has_more = False, qr_bytes_processed = None, qr_execution_time_ms = None,
     qr_error = Some message, qr_record_batch = None, qr_job_id = None\<rparr>"

text \<open>
  \<open>QueryResult\<close>'s JSON form: absent options are explicit nulls, and the record batch and the
  job id are skipped (\<open>#[serde(skip)]\<close>).
\<close>

definition opt_json :: "('a \<Rightarrow> json) \<Rightarrow> 'a option \<Rightarrow> json" where
  "opt_json f x = (case x of None \<Rightarrow> JNull | Some v \<Rightarrow> f v)"

definition query_result_to_json :: "query_result \<Rightarrow> json" where
  "query_result_to_json r = json_obj
     [(''status'', Some (JString (status_as_str (qr_status r)))),
      (''columns'', Some (opt_json (\<lambda>cs. JArray (map column_info_to_json cs)) (qr_columns r))),
      (''total_rows'', Some (opt_json ser_i64 (qr_total_rows r))),
      (''has_more'', Some (JBool (qr_has_more r))),
      (''bytes_processed'', Some (opt_json ser_i64 (qr_bytes_processed r))),
      (''execution_time_ms'', Some (opt_json ser_i64 (qr_execution_time_ms r))),
      (''error'', Some (opt_json JString (qr_error r)))]"

record dry_run_result =
  dr_valid :: bool
  dr_message :: string
  dr_line :: "u32 option"
  dr_column :: "u32 option"

definition dry_run_success :: "string \<Rightarrow> dry_run_result" where
  "dry_run_success message =
     \<lparr>dr_valid = True, dr_message = message, dr_line = None, dr_column = None\<rparr>"

definition dry_run_failure :: "string \<Rightarrow> u32 option \<Rightarrow> u32 option \<Rightarrow> dry_run_result" where
  "dry_run_failure message line column =
     \<lparr>dr_valid = False, dr_message = message, dr_line = line, dr_column = column\<rparr>"

definition dry_run_result_to_json :: "dry_run_result \<Rightarrow> json" where
  "dry_run_result_to_json r = json_obj
     [(''valid'', Some (JBool (dr_valid r))), (''message'', Some (JString (dr_message r))),
      (''line'', Some (opt_json ser_u32 (dr_line r))),
      (''column'', Some (opt_json ser_u32 (dr_column r)))]"

record discovery_result =
  di_items :: "string list"
  di_error :: "string option"

fun cell_str :: "cell option \<Rightarrow> string option" where
  "cell_str (Some (CStr s)) = Some s"
| "cell_str _ = None"

definition extract_string_col_from_batch :: "record_batch option \<Rightarrow> nat \<Rightarrow> string list" where
  "extract_string_col_from_batch batch col_idx =
     (case batch of
        None \<Rightarrow> []
      | Some b \<Rightarrow>
          if length (rb_columns b) \<le> col_idx then []
          else let col = rb_columns b ! col_idx in
            if arr_type col = DtUtf8 then List.map_filter cell_str (arr_vals col) else [])"

section \<open>Streaming events\<close>

datatype arrow_stream_event =
    Schema "u8 list" "column_info list" "i64 option"
      \<comment> \<open>\<open>schema_ipc\<close>, \<open>columns\<close>, \<open>total_rows\<close>\<close>
  | Batch "u8 list" u32 \<comment> \<open>\<open>ipc_bytes\<close>, \<open>chunk_index\<close>\<close>
  | Complete "i64 option" "i64 option" u32 u64
      \<comment> \<open>\<open>execution_time_ms\<close>, \<open>bytes_processed\<close>, \<open>total_chunks\<close>, \<open>total_rows_returned\<close>\<close>

type_synonym message = "error + arrow_stream_event"

definition query_result_to_arrow_stream ::
  "arrow_api \<Rightarrow> query_result \<Rightarrow> error + message list" where
  "query_result_to_arrow_stream arrow result =
     (if qr_status result = Error
      then Inl (Provider (case qr_error result of Some e \<Rightarrow> e | None \<Rightarrow> ''Query execution failed''))
      else
        let columns = (case qr_columns result of Some c \<Rightarrow> c | None \<Rightarrow> []) in
        case qr_record_batch result of
          Some batch \<Rightarrow>
            (case schema_to_ipc_bytes arrow (rb_schema batch) of
               Inl e \<Rightarrow> Inl (Internal (''Arrow schema serialization error: '' @ e))
             | Inr schema_ipc \<Rightarrow>
                 (case batch_to_ipc_bytes arrow batch of
                    Inl e \<Rightarrow> Inl (Internal (''Arrow batch serialization error: '' @ e))
                  | Inr ipc_bytes \<Rightarrow>
                      Inr [Inr (Schema schema_ipc columns (qr_total_rows result)),
                           Inr (Batch ipc_bytes 0),
                           Inr (Complete (qr_execution_time_ms result) (qr_bytes_processed result)
                                 1 (of_nat (rb_num_rows batch)))]))
        | None \<Rightarrow>
            (case schema_to_ipc_bytes arrow (ab_schema (builder_new columns)) of
               Inl e \<Rightarrow> Inl (Internal (''Arrow schema serialization error: '' @ e))
             | Inr schema_ipc \<Rightarrow>
                 Inr [Inr (Schema schema_ipc columns (qr_total_rows result)),
                      Inr (Complete (qr_execution_time_ms result) (qr_bytes_processed result) 0 0)]))"

section \<open>The event protocol\<close>

text \<open>
  The contract of an event stream, \<open>Schema\<close> \<open>\<rightarrow>\<close> \<open>Batch*\<close> \<open>\<rightarrow>\<close> \<open>Complete\<close>, as a state
  machine: batches are numbered from 0 in order (modulo \<open>2^32\<close>), \<open>Complete\<close> states their
  number, an error may come at any point and nothing follows an error or \<open>Complete\<close>.
  \<open>proto_run\<close> is \<^const>\<open>None\<close> when a message is out of order.
\<close>

datatype phase = Init | Open nat | Closed

fun proto_step :: "phase \<Rightarrow> message \<Rightarrow> phase option" where
  "proto_step Closed m = None"
| "proto_step p (Inl e) = Some Closed"
| "proto_step Init (Inr (Schema _ _ _)) = Some (Open 0)"
| "proto_step (Open k) (Inr (Batch _ i)) = (if i = of_nat k then Some (Open (k + 1)) else None)"
| "proto_step (Open k) (Inr (Complete _ _ n _)) = (if n = of_nat k then Some Closed else None)"
| "proto_step p (Inr _) = None"

fun proto_run :: "phase \<Rightarrow> message list \<Rightarrow> phase option" where
  "proto_run p [] = Some p"
| "proto_run p (m # ms) = Option.bind (proto_step p m) (\<lambda>q. proto_run q ms)"

definition stream_phase :: "message list \<Rightarrow> phase option" where
  "stream_phase ms = proto_run Init ms"

definition well_ordered :: "message list \<Rightarrow> bool" where
  "well_ordered ms \<longleftrightarrow> stream_phase ms \<noteq> None"

lemma proto_run_append: "proto_run p (ms @ ns) = Option.bind (proto_run p ms) (\<lambda>q. proto_run q ns)"
  by (induction ms arbitrary: p) (auto split: bind_split)

lemma stream_phase_snoc: "stream_phase (ms @ [m]) = Option.bind (stream_phase ms) (\<lambda>p. proto_step p m)"
  by (simp add: stream_phase_def proto_run_append)

section \<open>Lemmas on results\<close>

lemma query_result_json_fields:
  "json_get (query_result_to_json r) ''status'' = Some (JString (status_as_str (qr_status r)))"
  "json_get (query_result_to_json r) ''error'' = Some (opt_json JString (qr_error r))"
  by (simp_all add: query_result_to_json_def)

lemma extract_string_col_none [simp]: "extract_string_col_from_batch None i = []"
  by (simp add: extract_string_col_from_batch_def)

end
