(* ===== verification/Stream_Driver.thy ===== *)
theory Stream_Driver
  imports Query_Result
begin

text \<open>
  The streaming drivers: \<open>drive_sqlx_stream_arrow\<close> of \<^verbatim>\<open>providers/sqlx_common.rs\<close>
  (PostgreSQL, MySQL, Redshift) and \<open>execute_tds_stream_arrow\<close> of
  \<^verbatim>\<open>providers/tsql_common.rs\<close> (SQL Server, Synapse). The task that drives a stream sends its
  events into a channel; a receiver that goes away makes every later send fail. The control
  flow of such a task is written with \<open>flow\<close>: continue with a value, stop (an early
  \<open>return\<close>), panic, or run out of fuel where a loop may not end.
\<close>

section \<open>The channel\<close>

text \<open>
  \<open>ch_budget\<close> is the number of further sends the receiver accepts before it is dropped,
  \<^const>\<open>None\<close> when it reads to the end.
\<close>

record chan =
  ch_sent :: "message list"
  ch_budget :: "nat option"

definition chan_send :: "message \<Rightarrow> chan \<Rightarrow> bool \<times> chan" where
  "chan_send m ch =
     (case ch_budget ch of
        None \<Rightarrow> (True, ch\<lparr>ch_sent := ch_sent ch @ [m]\<rparr>)
      | Some n \<Rightarrow>
          if n = 0 then (False, ch)
          else (True, ch\<lparr>ch_sent := ch_sent ch @ [m], ch_budget := Some (n - 1)\<rparr>))"

datatype 'a flow = Go 'a chan | Stop chan | Panic | OutOfFuel chan

fun bind_flow :: "'a flow \<Rightarrow> ('a \<Rightarrow> chan \<Rightarrow> 'b flow) \<Rightarrow> 'b flow" where
  "bind_flow (Go a ch) f = f a ch"
| "bind_flow (Stop ch) f = Stop ch"
| "bind_flow Panic f = Panic"
| "bind_flow (OutOfFuel ch) f = OutOfFuel ch"

text \<open>
  \<open>if tx.send(m).await.is_err() { return; }\<close>, then \<open>let _ = tx.send(m).await;\<close>, then
  \<open>let _ = tx.send(Err(e)).await; return;\<close>, and a call that may panic.
\<close>

definition send_or_stop :: "message \<Rightarrow> chan \<Rightarrow> unit flow" where
  "send_or_stop m ch = (case chan_send m ch of (True, ch') \<Rightarrow> Go () ch' | (False, ch') \<Rightarrow> Stop ch')"

definition send_quiet :: "message \<Rightarrow> chan \<Rightarrow> unit flow" where
  "send_quiet m ch = Go () (snd (chan_send m ch))"

definition fail_stream :: "string \<Rightarrow> chan \<Rightarrow> 'a flow" where
  "fail_stream msg ch = Stop (snd (chan_send (Inl (Internal msg)) ch))"

fun may_panic :: "'a option \<Rightarrow> chan \<Rightarrow> 'a flow" where
  "may_panic (Some a) ch = Go a ch"
| "may_panic None ch = Panic"

section \<open>Events\<close>

definition emit_schema ::
  "arrow_api \<Rightarrow> column_info list \<Rightarrow> i64 option \<Rightarrow> chan \<Rightarrow> unit flow" where
  "emit_schema arrow columns total_rows ch =
     (case schema_to_ipc_bytes arrow (ab_schema (builder_new columns)) of
        Inl e \<Rightarrow> fail_stream (''Arrow schema serialization error: '' @ e) ch
      | Inr bytes \<Rightarrow> send_or_stop (Inr (Schema bytes columns total_rows)) ch)"

definition emit_batch :: "arrow_api \<Rightarrow> arrow_builder \<Rightarrow> u32 \<Rightarrow> chan \<Rightarrow> unit flow" where
  "emit_batch arrow builder k ch =
     (case finish_to_ipc arrow builder of
        Inl e \<Rightarrow> fail_stream (''Arrow IPC serialization error: '' @ e) ch
      | Inr bytes \<Rightarrow> send_or_stop (Inr (Batch bytes k)) ch)"

definition emit_complete :: "i64 \<Rightarrow> u32 \<Rightarrow> u64 \<Rightarrow> chan \<Rightarrow> unit flow" where
  "emit_complete elapsed chunks rows ch =
     send_quiet (Inr (Complete (Some elapsed) None chunks rows)) ch"

section \<open>The sqlx driver\<close>

text \<open>One item of the row stream: a row, an error, or no answer in time.\<close>

datatype 'r row_item = RowOk 'r | RowErr string | RowTimeout

record drive_state =
  ds_columns :: "column_info list"
  ds_columns_ready :: bool
  ds_builder :: "arrow_builder option"
  ds_chunk_index :: u32
  ds_total_rows_returned :: u64

definition drive_start :: drive_state where
  "drive_start = \<lparr>ds_columns = [], ds_columns_ready = False, ds_builder = None,
     ds_chunk_index = 0, ds_total_rows_returned = 0\<rparr>"

text \<open>The first row fixes the columns, and the schema is sent.\<close>

definition drive_schema ::
  "arrow_api \<Rightarrow> i64 option \<Rightarrow> column_info list \<Rightarrow> drive_state \<Rightarrow> chan \<Rightarrow> drive_state flow" where
  "drive_schema arrow total_rows row_columns st ch =
     (if ds_columns_ready st then Go st ch
      else bind_flow (emit_schema arrow row_columns total_rows ch)
        (\<lambda>_. Go (st\<lparr>ds_columns := row_columns, ds_columns_ready := True,
                   ds_builder := Some (builder_new row_columns)\<rparr>)))"

text \<open>One row: convert it, and send a batch when the builder is full.\<close>

definition drive_row ::
  "arrow_api \<Rightarrow> i64 option \<Rightarrow> nat \<Rightarrow> ('r \<Rightarrow> column_info list)
   \<Rightarrow> ('r \<Rightarrow> column_info list \<Rightarrow> arrow_builder \<Rightarrow> arrow_builder option)
   \<Rightarrow> 'r \<Rightarrow> drive_state \<Rightarrow> chan \<Rightarrow> drive_state flow" where
  "drive_row arrow total_rows chunk_size extract_columns convert row st0 ch0 =
     bind_flow (drive_schema arrow total_rows (extract_columns row) st0 ch0) (\<lambda>st ch1.
     bind_flow (may_panic (Option.bind (ds_builder st) (convert row (ds_columns st))) ch1) (\<lambda>b ch2.
       let st' = st\<lparr>ds_builder := Some b, ds_total_rows_returned := ds_total_rows_returned st + 1\<rparr> in
       if chunk_size \<le> ab_row_count b
       then bind_flow (emit_batch arrow b (ds_chunk_index st') ch2)
              (\<lambda>_. Go (st'\<lparr>ds_builder := Some (builder_new (ds_columns st')),
                         ds_chunk_index := ds_chunk_index st' + 1\<rparr>))
       else Go st' ch2))"

text \<open>The end of the rows: a schema if none was sent, the remaining rows, the summary.\<close>

definition drive_end ::
  "arrow_api \<Rightarrow> i64 option \<Rightarrow> i64 \<Rightarrow> drive_state \<Rightarrow> chan \<Rightarrow> unit flow" where
  "drive_end arrow total_rows elapsed st ch0 =
     bind_flow (if ds_columns_ready st then Go () ch0 else emit_schema arrow [] total_rows ch0) (\<lambda>_ ch1.
     bind_flow
       (case ds_builder st of
          Some b \<Rightarrow>
            if 0 < ab_row_count b
            then bind_flow (emit_batch arrow b (ds_chunk_index st) ch1) (\<lambda>_. Go (ds_chunk_index st + 1))
            else Go (ds_chunk_index st) ch1
        | None \<Rightarrow> Go (ds_chunk_index st) ch1)
       (\<lambda>n. emit_complete elapsed n (ds_total_rows_returned st)))"

fun drive_loop ::
  "arrow_api \<Rightarrow> i64 option \<Rightarrow> nat \<Rightarrow> i64 \<Rightarrow> ('r \<Rightarrow> column_info list)
   \<Rightarrow> ('r \<Rightarrow> column_info list \<Rightarrow> arrow_builder \<Rightarrow> arrow_builder option)
   \<Rightarrow> 'r row_item list \<Rightarrow> drive_state \<Rightarrow> chan \<Rightarrow> unit flow" where
  "drive_loop arrow total_rows chunk_size elapsed extract_columns convert [] st ch =
     drive_end arrow total_rows elapsed st ch"
| "drive_loop arrow total_rows chunk_size elapsed extract_columns convert (RowErr e # items) st ch =
     fail_stream (''Query error: '' @ e) ch"
| "drive_loop arrow total_rows chunk_size elapsed extract_columns convert (RowTimeout # items) st ch =
     fail_stream ''Query timed out after 120s'' ch"
| "drive_loop arrow total_rows chunk_size elapsed extract_columns convert (RowOk row # items) st ch =
     bind_flow (drive_row arrow total_rows chunk_size extract_columns convert row st ch)
       (drive_loop arrow total_rows chunk_size elapsed extract_columns convert items)"

definition drive_sqlx_stream_arrow ::
  "arrow_api \<Rightarrow> i64 option \<Rightarrow> nat \<Rightarrow> i64 \<Rightarrow> ('r \<Rightarrow> column_info list)
   \<Rightarrow> ('r \<Rightarrow> column_info list \<Rightarrow> arrow_builder \<Rightarrow> arrow_builder option)
   \<Rightarrow> 'r row_item list \<Rightarrow> chan \<Rightarrow> unit flow" where
  "drive_sqlx_stream_arrow arrow total_rows chunk_size elapsed extract_columns convert items ch =
     drive_loop arrow total_rows chunk_size elapsed extract_columns convert items drive_start ch"

section \<open>The T-SQL driver\<close>

text \<open>
  \<open>query\<close> is the TDS client: the rows of the first result set, or the error's text. The query
  error, the time-out and the error while collecting rows are told apart in the message.
  \<open>TdsStalled\<close> is no outcome at all: the time-out covers neither the wait for the one connection,
  which is behind a mutex, nor \<open>into_first_result\<close>, which reads the rows.
\<close>

datatype tds_reply = TdsRows "tds_row list" | TdsQueryErr string | TdsTimeout | TdsCollectErr string
  | TdsStalled

record batch_state =
  bs_builder :: arrow_builder
  bs_chunk_index :: u32
  bs_total_rows_returned :: u64

fun tds_rows ::
  "arrow_api \<Rightarrow> value_api \<Rightarrow> nat option \<Rightarrow> column_info list \<Rightarrow> nat \<Rightarrow> tds_row list
   \<Rightarrow> batch_state \<Rightarrow> chan \<Rightarrow> batch_state flow" where
  "tds_rows arrow api rn columns chunk_size [] st ch = Go st ch"
| "tds_rows arrow api rn columns chunk_size (row # rows) st ch =
     bind_flow (may_panic (write_row (tds_put api rn row) columns (bs_builder st)) ch) (\<lambda>b ch1.
       let st' = st\<lparr>bs_builder := b, bs_total_rows_returned := bs_total_rows_returned st + 1\<rparr> in
       if chunk_size \<le> ab_row_count b
       then bind_flow (emit_batch arrow b (bs_chunk_index st') ch1)
              (\<lambda>_. tds_rows arrow api rn columns chunk_size rows
                    (st'\<lparr>bs_builder := builder_new columns, bs_chunk_index := bs_chunk_index st' + 1\<rparr>))
       else tds_rows arrow api rn columns chunk_size rows st' ch1)"

definition tds_finish :: "arrow_api \<Rightarrow> i64 \<Rightarrow> batch_state \<Rightarrow> chan \<Rightarrow> unit flow" where
  "tds_finish arrow elapsed st ch =
     bind_flow
       (if 0 < ab_row_count (bs_builder st)
        then bind_flow (emit_batch arrow (bs_builder st) (bs_chunk_index st) ch)
               (\<lambda>_. Go (bs_chunk_index st + 1))
        else Go (bs_chunk_index st) ch)
       (\<lambda>n. emit_complete elapsed n (bs_total_rows_returned st))"

definition execute_tds_stream_arrow ::
  "arrow_api \<Rightarrow> value_api \<Rightarrow> (string \<Rightarrow> tds_reply) \<Rightarrow> string \<Rightarrow> u32 option \<Rightarrow> u32 option
   \<Rightarrow> u32 option \<Rightarrow> string \<Rightarrow> i64 \<Rightarrow> chan \<Rightarrow> unit flow" where
  "execute_tds_stream_arrow arrow api query sql limit offset chunk_size provider_name elapsed ch =
     (let effective_chunk_size = unat (case chunk_size of Some n \<Rightarrow> n | None \<Rightarrow> 10000);
          paginated_sql = tds_paginated_sql 10000 sql limit offset in
      case query paginated_sql of
        TdsQueryErr e \<Rightarrow> fail_stream (provider_name @ '' query error: '' @ e) ch
      | TdsTimeout \<Rightarrow> fail_stream (provider_name @ '' query timed out after 120s'') ch
      | TdsCollectErr e \<Rightarrow> fail_stream (provider_name @ '' result collection error: '' @ e) ch
      | TdsStalled \<Rightarrow> OutOfFuel ch
      | TdsRows rows \<Rightarrow>
          (let columns = tds_column_infos rows; rn = row_num_idx columns;
               fcols = filtered_columns columns in
           bind_flow (emit_schema arrow fcols None ch) (\<lambda>_ ch1.
           bind_flow (tds_rows arrow api rn fcols effective_chunk_size rows
                \<lparr>bs_builder = builder_new fcols, bs_chunk_index = 0, bs_total_rows_returned = 0\<rparr> ch1)
             (tds_finish arrow elapsed))))"

section \<open>Protocol safety\<close>

text \<open>
  A small program logic for streams. \<open>at_phase p\<close>: the messages sent so far leave the protocol
  in phase \<open>p\<close>, or the receiver is gone. A stream that has ended is well ordered, and closed
  if the receiver was still there. \<open>flow_ok Q f\<close>: \<open>f\<close> continues with \<open>Q\<close> or has ended so.
\<close>

definition at_phase :: "phase \<Rightarrow> chan \<Rightarrow> bool" where
  "at_phase p ch \<longleftrightarrow>
     stream_phase (ch_sent ch) = Some p \<or> ch_budget ch = Some 0 \<and> well_ordered (ch_sent ch)"

definition stream_ended :: "chan \<Rightarrow> bool" where
  "stream_ended ch \<longleftrightarrow> well_ordered (ch_sent ch) \<and>
     (ch_budget ch = None \<longrightarrow> stream_phase (ch_sent ch) = Some Closed)"

fun flow_ok :: "('a \<Rightarrow> chan \<Rightarrow> bool) \<Rightarrow> 'a flow \<Rightarrow> bool" where
  "flow_ok Q (Go a ch) = Q a ch"
| "flow_ok Q (Stop ch) = stream_ended ch"
| "flow_ok Q Panic = True"
| "flow_ok Q (OutOfFuel ch) = well_ordered (ch_sent ch)"

named_theorems flow_intros

lemma flow_ok_bind [flow_intros]:
  "\<lbrakk>flow_ok Q f; \<And>a ch. Q a ch \<Longrightarrow> flow_ok R (g a ch)\<rbrakk> \<Longrightarrow> flow_ok R (bind_flow f g)"
  by (cases f) auto

lemma chan_send_phase:
  assumes "at_phase p ch" "proto_step p m = Some q" "chan_send m ch = (sent, ch')"
  shows "at_phase q ch'" "\<not> sent \<Longrightarrow> stream_ended ch'"
    "ch_budget ch' = None \<longleftrightarrow> ch_budget ch = None" "sent \<Longrightarrow> ch_budget ch \<noteq> Some 0"
  using assms
  by (auto simp: chan_send_def at_phase_def stream_ended_def well_ordered_def stream_phase_snoc
      split: option.splits if_splits)

lemma at_phase_closed_ended: "at_phase Closed ch \<Longrightarrow> stream_ended ch"
  by (auto simp: at_phase_def stream_ended_def well_ordered_def)

lemma fail_stream_ok [flow_intros]:
  assumes "at_phase p ch" "p \<noteq> Closed"
  shows "flow_ok Q (fail_stream msg ch)"
proof -
  have "proto_step p (Inl (Internal msg)) = Some Closed" using assms(2) by (cases p) auto
  then show ?thesis
    using chan_send_phase(1) [OF assms(1)] at_phase_closed_ended
    by (simp add: fail_stream_def) (metis prod.collapse)
qed

lemma send_or_stop_ok:
  "\<lbrakk>at_phase p ch; proto_step p m = Some q\<rbrakk> \<Longrightarrow> flow_ok (\<lambda>_. at_phase q) (send_or_stop m ch)"
  using chan_send_phase [of p ch m q]
  by (cases "chan_send m ch") (auto simp: send_or_stop_def split: bool.splits)

text \<open>Inside the stream, after \<open>i\<close> batches (as the counter of the source counts them).\<close>

definition at_open :: "u32 \<Rightarrow> chan \<Rightarrow> bool" where
  "at_open i ch \<longleftrightarrow> (\<exists>k. at_phase (Open k) ch \<and> i = of_nat k)"

lemma fail_init_ok [flow_intros]: "at_phase Init ch \<Longrightarrow> flow_ok Q (fail_stream msg ch)"
  by (rule fail_stream_ok [of Init]) simp_all

lemma fail_open_ok [flow_intros]: "at_open i ch \<Longrightarrow> flow_ok Q (fail_stream msg ch)"
  by (auto simp: at_open_def intro: fail_stream_ok)

lemma at_phase_ordered: "at_phase p ch \<Longrightarrow> well_ordered (ch_sent ch)"
  by (auto simp: at_phase_def well_ordered_def)

lemma at_open_ordered: "at_open i ch \<Longrightarrow> well_ordered (ch_sent ch)"
  by (auto simp: at_open_def intro: at_phase_ordered)

lemma flow_ok_mono: "\<lbrakk>flow_ok Q f; \<And>a ch. Q a ch \<Longrightarrow> R a ch\<rbrakk> \<Longrightarrow> flow_ok R f"
  by (cases f) auto

lemma emit_schema_ok [flow_intros]:
  assumes "at_phase Init ch"
  shows "flow_ok (\<lambda>_. at_open 0) (emit_schema arrow columns tot ch)"
proof -
  have "flow_ok (\<lambda>_. at_phase (Open 0)) (emit_schema arrow columns tot ch)"
    using assms by (auto simp: emit_schema_def split: sum.split intro!: send_or_stop_ok fail_stream_ok)
  then show ?thesis by (rule flow_ok_mono) (auto simp: at_open_def intro: exI [of _ 0])
qed

lemma emit_batch_ok [flow_intros]:
  assumes "at_open i ch"
  shows "flow_ok (\<lambda>_. at_open (i + 1)) (emit_batch arrow b i ch)"
proof -
  obtain k where k: "at_phase (Open k) ch" "i = of_nat k" using assms by (auto simp: at_open_def)
  then have "flow_ok (\<lambda>_. at_phase (Open (Suc k))) (emit_batch arrow b i ch)"
    by (auto simp: emit_batch_def split: sum.split intro!: send_or_stop_ok fail_stream_ok)
  then show ?thesis
    by (rule flow_ok_mono) (auto simp: at_open_def k(2) intro!: exI [of _ "Suc k"])
qed

lemma emit_complete_ok [flow_intros]:
  assumes "at_open n ch"
  shows "flow_ok (\<lambda>_. at_phase Closed) (emit_complete elapsed n rows ch)"
proof -
  obtain k where k: "at_phase (Open k) ch" "n = of_nat k" using assms by (auto simp: at_open_def)
  then show ?thesis
    using chan_send_phase(1) [OF k(1), of "Inr (Complete (Some elapsed) None n rows)" Closed]
    by (simp add: emit_complete_def send_quiet_def) (metis prod.collapse)
qed

lemma may_panic_ok [flow_intros]:
  "(\<And>a. x = Some a \<Longrightarrow> Q a ch) \<Longrightarrow> flow_ok Q (may_panic x ch)"
  by (cases x) auto

text \<open>The state of the sqlx driver between two rows.\<close>

definition drive_inv :: "drive_state \<Rightarrow> chan \<Rightarrow> bool" where
  "drive_inv st ch \<longleftrightarrow>
     (if ds_columns_ready st then at_open (ds_chunk_index st) ch
      else at_phase Init ch \<and> ds_chunk_index st = 0 \<and> ds_builder st = None)"

lemma drive_schema_ok:
  assumes "drive_inv st ch"
  shows "flow_ok (\<lambda>st. at_open (ds_chunk_index st)) (drive_schema arrow tot cols st ch) \<and>
    flow_ok (\<lambda>st _. ds_columns_ready st) (drive_schema arrow tot cols st ch)"
  using assms unfolding drive_schema_def
  by (auto simp: drive_inv_def intro!: flow_ok_bind [OF emit_schema_ok])

lemma flow_ok_conj: "flow_ok Q f \<and> flow_ok R f \<longleftrightarrow> flow_ok (\<lambda>a ch. Q a ch \<and> R a ch) f"
  by (cases f) auto

lemma drive_row_ok:
  assumes "drive_inv st ch"
  shows "flow_ok drive_inv (drive_row arrow tot n extract_columns convert row st ch)"
  unfolding drive_row_def
  by (rule flow_ok_bind [OF drive_schema_ok [OF assms, unfolded flow_ok_conj]],
      rule flow_ok_bind [OF may_panic_ok [of _ "\<lambda>_ ch1. at_open i ch1" for i]])
     (auto simp: Let_def drive_inv_def intro!: flow_ok_bind [OF emit_batch_ok])

lemma drive_end_ok:
  assumes "drive_inv st ch"
  shows "flow_ok (\<lambda>_. at_phase Closed) (drive_end arrow tot elapsed st ch)"
  unfolding drive_end_def
proof (rule flow_ok_bind [of "\<lambda>_. at_open (ds_chunk_index st)"])
  show "flow_ok (\<lambda>_. at_open (ds_chunk_index st))
      (if ds_columns_ready st then Go () ch else emit_schema arrow [] tot ch)"
    using assms by (auto simp: drive_inv_def intro: emit_schema_ok split: if_splits)
next
  fix a ch1 assume open1: "at_open (ds_chunk_index st) ch1"
  show "flow_ok (\<lambda>_. at_phase Closed)
     (bind_flow
       (case ds_builder st of
          Some b \<Rightarrow>
            if 0 < ab_row_count b
            then bind_flow (emit_batch arrow b (ds_chunk_index st) ch1) (\<lambda>_. Go (ds_chunk_index st + 1))
            else Go (ds_chunk_index st) ch1
        | None \<Rightarrow> Go (ds_chunk_index st) ch1)
       (\<lambda>n. emit_complete elapsed n (ds_total_rows_returned st)))"
    by (rule flow_ok_bind [of at_open])
       (auto split: option.split intro!: flow_ok_bind [OF emit_batch_ok [OF open1]] open1
          intro: emit_complete_ok)
qed

lemma drive_loop_ok:
  "drive_inv st ch \<Longrightarrow>
   flow_ok (\<lambda>_. at_phase Closed) (drive_loop arrow tot n elapsed extract_columns convert items st ch)"
proof (induction items arbitrary: st ch)
  case (Cons item items)
  have fail: "flow_ok (\<lambda>_. at_phase Closed) (fail_stream msg ch)" for msg
    using Cons.prems by (auto simp: drive_inv_def split: if_splits intro: fail_init_ok fail_open_ok)
  show ?case
    by (cases item) (auto intro: fail flow_ok_bind [OF drive_row_ok [OF Cons.prems] Cons.IH])
qed (auto intro: drive_end_ok)

text \<open>
  The T-SQL driver's loop.
\<close>

lemma tds_rows_ok:
  "at_open (bs_chunk_index st) ch \<Longrightarrow>
   flow_ok (\<lambda>st. at_open (bs_chunk_index st)) (tds_rows arrow api rn cols n rows st ch)"
proof (induction rows arbitrary: st ch)
  case (Cons row rows)
  then show ?case
    unfolding tds_rows.simps
    by (intro flow_ok_bind [of "\<lambda>_ ch1. ch1 = ch"] may_panic_ok)
       (auto simp: Let_def intro!: flow_ok_bind [OF emit_batch_ok] Cons.IH)
qed auto

lemma tds_finish_ok:
  "at_open (bs_chunk_index st) ch \<Longrightarrow> flow_ok (\<lambda>_. at_phase Closed) (tds_finish arrow elapsed st ch)"
  unfolding tds_finish_def
  by (rule flow_ok_bind [of at_open])
     (auto intro!: flow_ok_bind [OF emit_batch_ok] intro: emit_complete_ok)

lemma tds_stream_ok:
  assumes "at_phase Init ch"
  shows "flow_ok (\<lambda>_. at_phase Closed)
    (execute_tds_stream_arrow arrow api query sql limit offset n name elapsed ch)"
  unfolding execute_tds_stream_arrow_def Let_def
  by (auto split: tds_reply.split intro!: fail_init_ok [OF assms] flow_ok_bind [OF emit_schema_ok [OF assms]]
        flow_ok_bind [OF tds_rows_ok] intro: tds_finish_ok at_phase_ordered [OF assms])

text \<open>How a stream ends: it never hangs in the middle and, read to the end, is closed.\<close>

fun flow_ended :: "'a flow \<Rightarrow> bool" where
  "flow_ended (Go _ ch) = stream_ended ch"
| "flow_ended (Stop ch) = stream_ended ch"
| "flow_ended Panic = True"
| "flow_ended (OutOfFuel ch) = well_ordered (ch_sent ch)"

lemma flow_ok_ended: "flow_ok (\<lambda>_. at_phase Closed) f \<Longrightarrow> flow_ended f"
  by (cases f) (auto intro: at_phase_closed_ended)

lemma fresh_chan_phase: "at_phase Init \<lparr>ch_sent = [], ch_budget = n\<rparr>"
  by (simp add: at_phase_def stream_phase_def)

text \<open>
  C8. The streaming drivers keep the event protocol, whatever the rows, the errors, the
  serializer and the receiver do: a Schema, then Batch events numbered 0, 1, 2, ..., then
  Complete with their number, or an error at any point, and nothing after it; a receiver that
  reads to the end always finds the stream closed by Complete or by an error.
\<close>

theorem drivers_keep_protocol:
  "flow_ended (drive_sqlx_stream_arrow arrow total_rows chunk_size elapsed extract_columns convert items
      \<lparr>ch_sent = [], ch_budget = n\<rparr>) \<and>
   flow_ended (execute_tds_stream_arrow arrow api query sql limit offset chunk provider_name elapsed
      \<lparr>ch_sent = [], ch_budget = n\<rparr>)"
proof -
  have "drive_inv drive_start \<lparr>ch_sent = [], ch_budget = n\<rparr>"
    by (simp add: drive_inv_def drive_start_def fresh_chan_phase)
  then show ?thesis
    unfolding drive_sqlx_stream_arrow_def
    using flow_ok_ended [OF drive_loop_ok] flow_ok_ended [OF tds_stream_ok [OF fresh_chan_phase]] by blast
qed

section \<open>No panic, and a receiver that stays\<close>

text \<open>
  \<open>sound_flow Q f\<close>: started with a receiver that reads to the end, \<open>f\<close> does not panic, keeps
  that receiver, and continues only with values that satisfy \<open>Q\<close>.
\<close>

fun sound_flow :: "('a \<Rightarrow> bool) \<Rightarrow> 'a flow \<Rightarrow> bool" where
  "sound_flow Q (Go a ch) = (Q a \<and> ch_budget ch = None)"
| "sound_flow Q (Stop ch) = (ch_budget ch = None)"
| "sound_flow Q Panic = False"
| "sound_flow Q (OutOfFuel ch) = False"

lemma sound_bind:
  "\<lbrakk>sound_flow Q f; \<And>a ch. \<lbrakk>Q a; ch_budget ch = None\<rbrakk> \<Longrightarrow> sound_flow R (g a ch)\<rbrakk>
   \<Longrightarrow> sound_flow R (bind_flow f g)"
  by (cases f) auto

lemma sound_emit:
  assumes "ch_budget ch = None"
  shows "sound_flow Q (fail_stream msg ch)" "sound_flow (\<lambda>_. True) (send_or_stop m ch)"
    "sound_flow (\<lambda>_. True) (emit_schema arrow cols tot ch)"
    "sound_flow (\<lambda>_. True) (emit_batch arrow b i ch)"
    "sound_flow (\<lambda>_. True) (emit_complete elapsed n rows ch)"
  using assms
  by (auto simp: fail_stream_def send_or_stop_def emit_schema_def emit_batch_def emit_complete_def
      send_quiet_def chan_send_def split: sum.split)

definition drive_built :: "drive_state \<Rightarrow> bool" where
  "drive_built st \<longleftrightarrow>
     (ds_columns_ready st \<longrightarrow> (\<exists>b. ds_builder st = Some b \<and> builder_ok (ds_columns st) b))"

context row_writer
begin

lemma drive_row_sound:
  assumes conv: "\<And>r cols b. convert r cols b = write_row (put r) cols b"
    and "drive_built st" "ch_budget ch = None" "ok row"
  shows "sound_flow drive_built (drive_row arrow tot n extract_columns convert row st ch)"
proof -
  have schema: "sound_flow (\<lambda>st. ds_columns_ready st \<and> drive_built st)
      (drive_schema arrow tot (extract_columns row) st ch)"
    using assms(2,3) unfolding drive_schema_def
    by (auto simp: drive_built_def builder_new_ok intro!: sound_bind [OF sound_emit(3)])
  have convert: "sound_flow (\<lambda>b. builder_ok (ds_columns st1) b)
      (may_panic (Option.bind (ds_builder st1) (convert row (ds_columns st1))) ch1)"
    if "ds_columns_ready st1 \<and> drive_built st1" "ch_budget ch1 = None" for st1 ch1
  proof -
    from that(1) obtain b where b: "ds_builder st1 = Some b" "builder_ok (ds_columns st1) b"
      by (auto simp: drive_built_def)
    from write_row_ok [OF assms(4) b(2)] that(2) b(1) show ?thesis by (auto simp: conv)
  qed
  show ?thesis
    unfolding drive_row_def
    by (rule sound_bind [OF schema], rule sound_bind [OF convert])
       (auto simp: Let_def drive_built_def builder_new_ok intro!: sound_bind [OF sound_emit(4)])
qed

lemma drive_loop_sound:
  assumes conv: "\<And>r cols b. convert r cols b = write_row (put r) cols b"
    and "drive_built st" "ch_budget ch = None" "\<And>r. ok r"
  shows "sound_flow (\<lambda>_. True) (drive_loop arrow tot n elapsed extract_columns convert items st ch)"
  using assms(2,3)
proof (induction items arbitrary: st ch)
  case Nil
  have "sound_flow (\<lambda>_. True) (drive_end arrow tot elapsed st ch)"
    unfolding drive_end_def
    by (rule sound_bind [where Q = "\<lambda>_. True"], use Nil in \<open>simp add: sound_emit\<close>,
        rule sound_bind [where Q = "\<lambda>_. True"])
       (auto split: option.split simp: sound_emit intro!: sound_bind [OF sound_emit(4)])
  then show ?case by simp
next
  case (Cons item items)
  then show ?case
    by (cases item)
       (auto simp: sound_emit intro: sound_bind [OF drive_row_sound [OF conv _ _ assms(4)] Cons.IH])
qed

end

lemma tds_rows_sound:
  "\<lbrakk>builder_ok cols (bs_builder st); ch_budget ch = None\<rbrakk> \<Longrightarrow>
   sound_flow (\<lambda>_. True) (tds_rows arrow api rn cols n rows st ch)"
proof (induction rows arbitrary: st ch)
  case (Cons row rows)
  have put: "sound_flow (\<lambda>b. builder_ok cols b)
      (may_panic (write_row (tds_put api rn row) cols (bs_builder st)) ch)"
    using tds_writer.write_row_ok [OF TrueI Cons.prems(1), where r = row] Cons.prems(2)
    by (metis may_panic.simps(1) sound_flow.simps(1))
  show ?case
    unfolding tds_rows.simps
    by (rule sound_bind [OF put])
       (auto simp: Let_def builder_new_ok intro!: Cons.IH sound_bind [OF sound_emit(4)])
qed simp

lemma tds_stream_sound:
  assumes "query (tds_paginated_sql 10000 sql limit offset) \<noteq> TdsStalled" "ch_budget ch = None"
  shows "sound_flow (\<lambda>_. True)
    (execute_tds_stream_arrow arrow api query sql limit offset chunk_size name elapsed ch)"
proof -
  have finish: "sound_flow (\<lambda>_. True) (tds_finish arrow elapsed st ch')" if "ch_budget ch' = None" for st ch'
    unfolding tds_finish_def
    by (rule sound_bind [where Q = "\<lambda>_. True"])
       (use that in \<open>auto simp: sound_emit intro!: sound_bind [OF sound_emit(4)]\<close>)
  show ?thesis
    unfolding execute_tds_stream_arrow_def Let_def
    using assms
    by (auto split: tds_reply.split simp: sound_emit builder_new_ok
        intro!: sound_bind [OF sound_emit(3)] sound_bind [OF tds_rows_sound] finish)
qed

section \<open>What a complete stream contains\<close>

text \<open>Splitting rows into chunks of \<open>n\<close>; the drivers treat a chunk size of 0 as 1.\<close>

function chunks :: "nat \<Rightarrow> 'a list \<Rightarrow> 'a list list" where
  "chunks n xs = (if xs = [] then [] else take (max 1 n) xs # chunks n (drop (max 1 n) xs))"
  by auto
termination by (relation "measure (\<lambda>(n, xs). length xs)") auto

lemmas chunks_unfold = chunks.simps
declare chunks.simps [simp del]

lemma chunks_empty [simp]: "chunks n [] = []"
  by (simp add: chunks_unfold)

lemma chunks_full:
  "length xs = max 1 n \<Longrightarrow> chunks n (xs @ ys) = xs # chunks n ys"
  by (auto simp: chunks_unfold [of n "xs @ ys"])

lemma chunks_short:
  "\<lbrakk>xs \<noteq> []; length xs \<le> max 1 n\<rbrakk> \<Longrightarrow> chunks n xs = [xs]"
  by (simp add: chunks_unfold [of n xs])

lemma concat_chunks [simp]: "concat (chunks n xs) = xs"
  by (induction n xs rule: chunks.induct) (simp add: chunks_unfold [of _ "xs" for xs])

lemma chunks_bounds:
  "list_all (\<lambda>c. c \<noteq> [] \<and> length c \<le> max 1 n) (chunks n xs)"
proof (induction n xs rule: chunks.induct)
  case (1 n xs)
  then show ?case by (cases "xs = []") (auto simp: chunks_unfold [of n xs])
qed

text \<open>The batches of a stream: the IPC bytes of each group of rows, numbered from \<open>k\<close>.\<close>

definition rows_bytes ::
  "arrow_api \<Rightarrow> ('row \<Rightarrow> column_info \<Rightarrow> nat \<Rightarrow> arrow_builder \<Rightarrow> arrow_builder option)
   \<Rightarrow> column_info list \<Rightarrow> 'row list \<Rightarrow> u8 list" where
  "rows_bytes arrow put cols rows =
     (case write_rows put cols rows (builder_new cols) of
        None \<Rightarrow> []
      | Some b \<Rightarrow> (case finish_to_ipc arrow b of Inl _ \<Rightarrow> [] | Inr bytes \<Rightarrow> bytes))"

fun batch_events ::
  "arrow_api \<Rightarrow> ('row \<Rightarrow> column_info \<Rightarrow> nat \<Rightarrow> arrow_builder \<Rightarrow> arrow_builder option)
   \<Rightarrow> column_info list \<Rightarrow> nat \<Rightarrow> 'row list list \<Rightarrow> message list" where
  "batch_events arrow put cols k [] = []"
| "batch_events arrow put cols k (rs # rss) =
     Inr (Batch (rows_bytes arrow put cols rs) (of_nat k)) # batch_events arrow put cols (k + 1) rss"

text \<open>What the drivers need of the IPC writer into memory: it succeeds.\<close>

definition ipc_law :: "arrow_api \<Rightarrow> bool" where
  "ipc_law arrow \<longleftrightarrow>
     (\<forall>s. \<exists>bytes. ipc_schema arrow s = Inr bytes) \<and>
     (\<forall>s b. \<exists>bytes. ipc_batch arrow s b = Inr bytes)"

lemma demo_ipc_law: "ipc_law demo_arrow"
  by (simp add: ipc_law_def demo_arrow_def)

definition schema_event :: "arrow_api \<Rightarrow> column_info list \<Rightarrow> i64 option \<Rightarrow> message" where
  "schema_event arrow cols tot =
     Inr (Schema (case ipc_schema arrow (ab_schema (builder_new cols)) of Inr bytes \<Rightarrow> bytes | Inl _ \<Rightarrow> [])
            cols tot)"

definition stream_of ::
  "arrow_api \<Rightarrow> ('row \<Rightarrow> column_info \<Rightarrow> nat \<Rightarrow> arrow_builder \<Rightarrow> arrow_builder option)
   \<Rightarrow> column_info list \<Rightarrow> i64 option \<Rightarrow> i64 \<Rightarrow> 'row list list \<Rightarrow> message list" where
  "stream_of arrow put cols tot elapsed groups =
     schema_event arrow cols tot # batch_events arrow put cols 0 groups @
     [Inr (Complete (Some elapsed) None (of_nat (length groups)) (of_nat (length (concat groups))))]"

abbreviation reader :: "message list \<Rightarrow> chan" where
  "reader ms \<equiv> \<lparr>ch_sent = ms, ch_budget = None\<rparr>"

lemma reader_send [simp]:
  "send_or_stop m (reader ms) = Go () (reader (ms @ [m]))"
  "send_quiet m (reader ms) = Go () (reader (ms @ [m]))"
  by (simp_all add: send_or_stop_def send_quiet_def chan_send_def)

lemma emit_schema_reader:
  "ipc_law arrow \<Longrightarrow>
   emit_schema arrow cols tot (reader ms) = Go () (reader (ms @ [schema_event arrow cols tot]))"
  unfolding ipc_law_def emit_schema_def schema_event_def schema_to_ipc_bytes_def
  by (metis (no_types, lifting) old.sum.simps(6) reader_send(1))

lemma write_rows_snoc:
  "write_rows put cols (rs @ [r]) b = Option.bind (write_rows put cols rs b) (write_row (put r) cols)"
proof (induction rs arbitrary: b)
  case (Cons r' rs)
  show ?case by (cases "write_row (put r') cols b") (simp_all add: Cons.IH)
next
  case Nil
  show ?case by (cases "write_row (put r) cols b") simp_all
qed

text \<open>A builder that holds the rows \<open>rs\<close> of the chunk under construction.\<close>

definition pending ::
  "('row \<Rightarrow> column_info \<Rightarrow> nat \<Rightarrow> arrow_builder \<Rightarrow> arrow_builder option) \<Rightarrow> ('row \<Rightarrow> bool)
   \<Rightarrow> column_info list \<Rightarrow> 'row list \<Rightarrow> arrow_builder \<Rightarrow> bool" where
  "pending put ok cols rs b \<longleftrightarrow> write_rows put cols rs (builder_new cols) = Some b \<and> list_all ok rs"

lemma pending_start: "pending put ok cols [] (builder_new cols)"
  by (simp add: pending_def)

context row_writer
begin

lemma pending_ok:
  assumes "pending put ok cols rs b"
  shows "builder_ok cols b" "ab_row_count b = length rs"
  using assms write_rows_ok [OF _ builder_new_ok, of rs cols] by (auto simp: pending_def)

lemma pending_row:
  assumes "pending put ok cols rs b" "ok r"
  obtains b' where "write_row (put r) cols b = Some b'" "pending put ok cols (rs @ [r]) b'"
    "ab_row_count b' = Suc (length rs)"
proof -
  obtain b' where b': "write_row (put r) cols b = Some b'" "ab_row_count b' = ab_row_count b + 1"
    using write_row_ok [OF assms(2) pending_ok(1) [OF assms(1)]] by blast
  then have "pending put ok cols (rs @ [r]) b'"
    using assms by (simp add: pending_def write_rows_snoc)
  with b' that pending_ok(2) [OF assms(1)] show thesis by simp
qed

lemma pending_emit:
  assumes "try_new_law arrow" "ipc_law arrow" "cols \<noteq> []" "pending put ok cols rs b"
  shows "emit_batch arrow b k (reader ms)
    = Go () (reader (ms @ [Inr (Batch (rows_bytes arrow put cols rs) k)]))"
proof -
  obtain bytes where "finish_to_ipc arrow b = Inr bytes"
    using builder_finish_ok [OF assms(1) pending_ok(1) [OF assms(4)] assms(3)] assms(2)
    unfolding ipc_law_def finish_to_ipc_def by (metis sum.simps(6))
  then show ?thesis
    using assms(4) by (simp add: emit_batch_def rows_bytes_def pending_def)
qed

end

text \<open>
  The end of a stream whose last chunk holds \<open>pend\<close> rows, \<open>k\<close> batches and \<open>t\<close> rows after it
  began: what both drivers still send for the remaining \<open>rows\<close>.
\<close>

definition stream_rest ::
  "arrow_api \<Rightarrow> ('row \<Rightarrow> column_info \<Rightarrow> nat \<Rightarrow> arrow_builder \<Rightarrow> arrow_builder option)
   \<Rightarrow> column_info list \<Rightarrow> nat \<Rightarrow> i64 \<Rightarrow> nat \<Rightarrow> u64 \<Rightarrow> 'row list \<Rightarrow> 'row list \<Rightarrow> message list" where
  "stream_rest arrow put cols n elapsed k t pend rows =
     batch_events arrow put cols k (chunks n (pend @ rows)) @
     [Inr (Complete (Some elapsed) None (of_nat (k + length (chunks n (pend @ rows))))
             (t + of_nat (length rows)))]"

lemma stream_rest_flush:
  "length (pend @ [r]) = max 1 n \<Longrightarrow>
   stream_rest arrow put cols n elapsed k t pend (r # rows)
     = Inr (Batch (rows_bytes arrow put cols (pend @ [r])) (of_nat k))
       # stream_rest arrow put cols n elapsed (k + 1) (t + 1) [] rows"
  using chunks_full [of "pend @ [r]" n rows] by (simp add: stream_rest_def add.assoc)

lemma stream_rest_keep:
  "stream_rest arrow put cols n elapsed k (t + 1) (pend @ [r]) rows
     = stream_rest arrow put cols n elapsed k t pend (r # rows)"
  by (simp add: stream_rest_def add.assoc)

lemma tds_rows_stream:
  assumes laws: "try_new_law arrow" "ipc_law arrow" "cols \<noteq> []"
    and "pending (tds_put api rn) (\<lambda>_. True) cols pend (bs_builder st)" "length pend < max 1 n"
    "bs_chunk_index st = of_nat k"
  shows "bind_flow (tds_rows arrow api rn cols n rows st (reader ms)) (tds_finish arrow elapsed)
    = Go () (reader (ms @ stream_rest arrow (tds_put api rn) cols n elapsed k
        (bs_total_rows_returned st) pend rows))"
  using assms(4-)
proof (induction rows arbitrary: st ms pend k)
  case Nil
  note count = tds_writer.pending_ok(2) [OF Nil.prems(1)]
    and emit = tds_writer.pending_emit [OF laws Nil.prems(1)]
  show ?case
    using Nil.prems(2,3)
    by (cases "pend = []")
       (simp_all add: tds_finish_def count emit emit_complete_def stream_rest_def chunks_short)
next
  case (Cons r rows)
  obtain b where b: "write_row (tds_put api rn r) cols (bs_builder st) = Some b"
    "pending (tds_put api rn) (\<lambda>_. True) cols (pend @ [r]) b" "ab_row_count b = Suc (length pend)"
    using tds_writer.pending_row [OF Cons.prems(1)] by auto
  note emit = tds_writer.pending_emit [OF laws b(2)]
  let ?t = "bs_total_rows_returned st + 1"
  show ?case
  proof (cases "n \<le> Suc (length pend)")
    case True
    then have full: "length (pend @ [r]) = max 1 n" using Cons.prems(2) by auto
    let ?st = "st\<lparr>bs_total_rows_returned := ?t, bs_builder := builder_new cols,
      bs_chunk_index := bs_chunk_index st + 1\<rparr>"
    have "bs_chunk_index ?st = of_nat (k + 1)" using Cons.prems(3) by simp
    from Cons.IH [of "[]" ?st "k + 1", OF _ _ this] show ?thesis
      using b(1,3) True emit Cons.prems(3) by (simp add: pending_start stream_rest_flush [OF full])
  next
    case False
    let ?st = "st\<lparr>bs_builder := b, bs_total_rows_returned := ?t\<rparr>"
    from Cons.IH [of "pend @ [r]" ?st k ms] show ?thesis
      using b False Cons.prems(3) by (simp add: stream_rest_keep)
  qed
qed

context row_writer
begin

lemma drive_end_stream:
  assumes laws: "try_new_law arrow" "ipc_law arrow" "cols \<noteq> []"
    and "ds_columns_ready st" "ds_builder st = Some b" "pending put ok cols pend b"
    "length pend < max 1 n" "ds_chunk_index st = of_nat k"
  shows "drive_end arrow tot elapsed st (reader ms)
    = Go () (reader (ms @ stream_rest arrow put cols n elapsed k (ds_total_rows_returned st) pend []))"
  using assms pending_ok(2) [OF assms(6)] pending_emit [OF laws assms(6)]
  by (cases "pend = []")
     (simp_all add: drive_end_def emit_complete_def stream_rest_def chunks_short)

lemma drive_loop_stream:
  assumes laws: "try_new_law arrow" "ipc_law arrow" "cols \<noteq> []"
    and conv: "\<And>r b. convert r cols b = write_row (put r) cols b"
    and st: "ds_columns_ready st" "ds_columns st = cols" "ds_builder st = Some b"
      "pending put ok cols pend b" "length pend < max 1 n" "ds_chunk_index st = of_nat k"
    and "list_all ok rows"
  shows "drive_loop arrow tot n elapsed extract_columns convert (map RowOk rows) st (reader ms)
    = Go () (reader (ms @ stream_rest arrow put cols n elapsed k
        (ds_total_rows_returned st) pend rows))"
  using st assms(11)
proof (induction rows arbitrary: st b ms pend k)
  case Nil
  then show ?case by (simp add: drive_end_stream [OF laws])
next
  case (Cons r rows)
  obtain b' where b': "write_row (put r) cols b = Some b'"
    "pending put ok cols (pend @ [r]) b'" "ab_row_count b' = Suc (length pend)"
    using pending_row [OF Cons.prems(4)] Cons.prems(7) by auto
  note emit = pending_emit [OF laws b'(2)]
  let ?t = "ds_total_rows_returned st + 1"
  show ?case
  proof (cases "n \<le> Suc (length pend)")
    case True
    then have full: "length (pend @ [r]) = max 1 n" using Cons.prems(5) by auto
    let ?st = "st\<lparr>ds_total_rows_returned := ?t, ds_builder := Some (builder_new cols),
      ds_chunk_index := ds_chunk_index st + 1\<rparr>"
    have "ds_chunk_index ?st = of_nat (k + 1)" using Cons.prems(6) by simp
    from Cons.IH [of ?st _ "[]" "k + 1", OF _ _ _ pending_start _ this] show ?thesis
      using b' True emit Cons.prems
      by (simp add: drive_row_def drive_schema_def conv Let_def stream_rest_flush [OF full])
  next
    case False
    let ?st = "st\<lparr>ds_builder := Some b', ds_total_rows_returned := ?t\<rparr>"
    from Cons.IH [of ?st b' "pend @ [r]" k ms] show ?thesis
      using b' False Cons.prems
      by (simp add: drive_row_def drive_schema_def conv Let_def stream_rest_keep)
  qed
qed

text \<open>The columns of a row set: those of its first row.\<close>

lemma drive_stream:
  assumes laws: "try_new_law arrow" "ipc_law arrow" "rows \<noteq> [] \<Longrightarrow> cols \<noteq> []"
    and conv: "\<And>r b. convert r cols b = write_row (put r) cols b"
    and cols: "cols = (case rows of [] \<Rightarrow> [] | r # _ \<Rightarrow> extract_columns r)" and ok: "list_all ok rows"
  shows "drive_sqlx_stream_arrow arrow tot n elapsed extract_columns convert (map RowOk rows) (reader [])
    = Go () (reader (stream_of arrow put cols tot elapsed (chunks n rows)))"
proof (cases rows)
  case Nil
  then show ?thesis
    using cols by (simp add: drive_sqlx_stream_arrow_def drive_end_def drive_start_def
        emit_schema_reader [OF laws(2)] emit_complete_def stream_of_def)
next
  case (Cons r rs)
  then have cols': "cols = extract_columns r" "cols \<noteq> []" using cols laws(3) by simp_all
  let ?st = "drive_start\<lparr>ds_columns := cols, ds_columns_ready := True, ds_builder := Some (builder_new cols)\<rparr>"
  have *: "drive_row arrow tot n extract_columns convert r drive_start (reader [])
      = drive_row arrow tot n extract_columns convert r ?st (reader [schema_event arrow cols tot])"
    by (simp add: drive_row_def drive_schema_def emit_schema_reader [OF laws(2)] cols'(1) [symmetric]
        drive_start_def)
  have "drive_sqlx_stream_arrow arrow tot n elapsed extract_columns convert (map RowOk rows) (reader [])
      = drive_loop arrow tot n elapsed extract_columns convert (map RowOk rows) ?st
          (reader [schema_event arrow cols tot])"
    by (simp add: drive_sqlx_stream_arrow_def Cons *)
  also have "\<dots> = Go () (reader ([schema_event arrow cols tot] @ stream_rest arrow put cols n elapsed 0 0 [] rows))"
    using drive_loop_stream [where arrow = arrow and cols = cols and convert = convert
        and b = "builder_new cols" and st = ?st and pend = "[]" and k = 0
        and ms = "[schema_event arrow cols tot]", OF laws(1,2) cols'(2) conv] ok
    by (simp add: drive_start_def pending_start)
  finally show ?thesis
    by (simp add: stream_of_def stream_rest_def)
qed

end

lemma tds_stream:
  assumes laws: "try_new_law arrow" "ipc_law arrow"
    and query: "query (tds_paginated_sql 10000 sql limit offset) = TdsRows rows"
    and cols: "columns = tds_column_infos rows"
      "rows \<noteq> [] \<Longrightarrow> filtered_columns columns \<noteq> []"
  shows "execute_tds_stream_arrow arrow api query sql limit offset chunk_size name elapsed (reader [])
    = Go () (reader (stream_of arrow (tds_put api (row_num_idx columns)) (filtered_columns columns)
        None elapsed (chunks (unat (case chunk_size of Some n \<Rightarrow> n | None \<Rightarrow> 10000)) rows)))"
proof (cases rows)
  case Nil
  then have "filtered_columns columns = []"
    using cols(1) by (simp add: tds_column_infos_def filtered_columns_def row_num_idx_def)
  then show ?thesis
    using query Nil cols(1)
    by (simp add: execute_tds_stream_arrow_def Let_def emit_schema_reader [OF laws(2)]
        tds_finish_def emit_complete_def stream_of_def)
next
  case (Cons r rs)
  let ?f = "filtered_columns columns" and ?rn = "row_num_idx columns"
  let ?n = "unat (case chunk_size of Some n \<Rightarrow> n | None \<Rightarrow> 10000)"
  have "?f \<noteq> []" using cols Cons by simp
  then have "bind_flow (tds_rows arrow api ?rn ?f ?n rows
        \<lparr>bs_builder = builder_new ?f, bs_chunk_index = 0, bs_total_rows_returned = 0\<rparr>
        (reader [schema_event arrow ?f None])) (tds_finish arrow elapsed)
    = Go () (reader ([schema_event arrow ?f None]
        @ stream_rest arrow (tds_put api ?rn) ?f ?n elapsed 0 0 [] rows))"
    using tds_rows_stream [OF laws, where cols = ?f and pend = "[]" and k = 0
        and st = "\<lparr>bs_builder = builder_new ?f, bs_chunk_index = 0, bs_total_rows_returned = 0\<rparr>"]
    by (simp add: pending_start)
  then show ?thesis
    using query by (simp add: execute_tds_stream_arrow_def Let_def cols(1) [symmetric]
        emit_schema_reader [OF laws(2)] stream_of_def stream_rest_def)
qed

end
