(* ===== verification/Sql_Providers.thy ===== *)
theory Sql_Providers
  imports Stream_Driver
begin

text \<open>
  The providers that speak a database protocol: PostgreSQL, MySQL and Redshift over
  \<^verbatim>\<open>sqlx\<close> and SQL Server and Synapse over \<^verbatim>\<open>tiberius\<close>: \<open>test_connection\<close>,
  \<open>execute_query\<close>, \<open>execute_query_stream_arrow\<close>, \<open>dry_run\<close> and the catalog listings.
  The connection pool is a parameter, the record of the answers it gives; a regular-expression
  match (\<^verbatim>\<open>regex\<close> crate) is the parameter \<open>rx pattern text group\<close>. Computations that can
  panic return an option.
\<close>

section \<open>The pool\<close>

record sqlx_error =
  se_display :: string
  se_db_message :: "string option" \<comment> \<open>the message of a database error\<close>

datatype 'a reply = Reply 'a | ReplyErr sqlx_error | ReplyTimeout

record 'r sqlx_pool =
  pool_fetch_all :: "string \<Rightarrow> 'r list reply"
  pool_fetch :: "string \<Rightarrow> 'r row_item list"
  pool_scalar :: "string \<Rightarrow> i64 reply"
  pool_execute :: "string \<Rightarrow> unit reply"

type_synonym regex = "string \<Rightarrow> string \<Rightarrow> nat \<Rightarrow> string option"

definition parse_u32 :: "string \<Rightarrow> u32 option" where
  "parse_u32 s = map_option of_nat (parse_unsigned (2 ^ 32 - 1) s)"

text \<open>The patterns, with a backslash (code 5C) before each class letter.\<close>

definition mysql_line_re :: string where
  "mysql_line_re = ''(?i)at line ('' @ [CHR 0x5C] @ ''d+)''"

definition redshift_line_re :: string where
  "redshift_line_re = ''(?i)LINE'' @ [CHR 0x5C] @ ''s+('' @ [CHR 0x5C] @ ''d+):''"

definition redshift_position_re :: string where
  "redshift_position_re = ''(?i)Position:'' @ [CHR 0x5C] @ ''s*('' @ [CHR 0x5C] @ ''d+)''"

definition tsql_line_re :: string where
  "tsql_line_re = ''(?i)Line'' @ [CHR 0x5C] @ ''s+('' @ [CHR 0x5C] @ ''d+)''"

definition sqlx_test_connection :: "string \<Rightarrow> 'r sqlx_pool \<Rightarrow> bool result" where
  "sqlx_test_connection label pool =
     (case pool_execute pool ''SELECT 1'' of
        Reply _ \<Rightarrow> Inr True
      | ReplyErr e \<Rightarrow> Inl (Internal (label @ '' test connection failed: '' @ se_display e))
      | ReplyTimeout \<Rightarrow> Inl (Internal (label @ '' test connection timed out'')))"

definition get_total_count :: "'r sqlx_pool \<Rightarrow> string \<Rightarrow> i64 option" where
  "get_total_count pool sql =
     (case pool_scalar pool (''SELECT COUNT(*) FROM ('' @ sql @ '') AS _count_subquery'') of
        Reply n \<Rightarrow> Some n | ReplyErr _ \<Rightarrow> None | ReplyTimeout \<Rightarrow> None)"

section \<open>Building a result\<close>

definition query_failed :: "i64 \<Rightarrow> string \<Rightarrow> query_result" where
  "query_failed elapsed msg =
     \<lparr>qr_status = Error, qr_columns = None, qr_total_rows = None, qr_has_more = False,
      qr_bytes_processed = None, qr_execution_time_ms = Some elapsed, qr_error = Some msg,
      qr_record_batch = None, qr_job_id = None\<rparr>"

text \<open>The rows go into one batch; a batch that cannot be built is dropped.\<close>

definition query_succeeded ::
  "arrow_api \<Rightarrow> ('r \<Rightarrow> column_info \<Rightarrow> nat \<Rightarrow> arrow_builder \<Rightarrow> arrow_builder option)
   \<Rightarrow> column_info list \<Rightarrow> 'r list \<Rightarrow> i64 option \<Rightarrow> u32 \<Rightarrow> i64 \<Rightarrow> query_result option" where
  "query_succeeded arrow put columns rows total_rows effective_limit elapsed =
     (let built = (if columns = [] then Some None
                   else map_option Some (write_rows put columns rows (builder_new columns))) in
      map_option (\<lambda>arrow_builder.
        let record_batch = Option.bind arrow_builder (\<lambda>b. case builder_finish arrow b of
                Inr batch \<Rightarrow> Some batch | Inl _ \<Rightarrow> None);
            row_count = (case record_batch of Some b \<Rightarrow> rb_num_rows b | None \<Rightarrow> 0)
        in \<lparr>qr_status = Success, qr_columns = Some columns, qr_total_rows = total_rows,
            qr_has_more = (row_count = unat effective_limit), qr_bytes_processed = None,
            qr_execution_time_ms = Some elapsed, qr_error = None,
            qr_record_batch = record_batch, qr_job_id = None\<rparr>) built)"

text \<open>
  The body the three sqlx providers share: \<open>column_infos\<close> reads the columns off the first row.
\<close>

definition sqlx_execute_query ::
  "arrow_api \<Rightarrow> ('r \<Rightarrow> column_info list)
   \<Rightarrow> ('r \<Rightarrow> column_info \<Rightarrow> nat \<Rightarrow> arrow_builder \<Rightarrow> arrow_builder option)
   \<Rightarrow> 'r sqlx_pool \<Rightarrow> i64 \<Rightarrow> string \<Rightarrow> u32 option \<Rightarrow> u32 option \<Rightarrow> bool
   \<Rightarrow> query_result result option" where
  "sqlx_execute_query arrow column_infos put pool elapsed sql limit offset include_total =
     (let prepared = prepare_query sql limit offset;
          total_rows = (if pq_is_select prepared \<and> include_total
                        then get_total_count pool (pq_sql_stripped prepared) else None);
          effective_limit = (case limit of Some l \<Rightarrow> l | None \<Rightarrow> 1000) in
      case pool_fetch_all pool (pq_sql prepared) of
        ReplyErr e \<Rightarrow> Some (Inr (query_failed elapsed (se_display e)))
      | ReplyTimeout \<Rightarrow> Some (Inr (query_failed elapsed ''Query timed out after 120s''))
      | Reply rows \<Rightarrow>
          (let columns = (case rows of [] \<Rightarrow> [] | first_row # _ \<Rightarrow> column_infos first_row) in
           map_option Inr
             (query_succeeded arrow put columns rows total_rows effective_limit elapsed)))"

definition sqlx_stream ::
  "arrow_api \<Rightarrow> ('r \<Rightarrow> column_info list)
   \<Rightarrow> ('r \<Rightarrow> column_info list \<Rightarrow> arrow_builder \<Rightarrow> arrow_builder option)
   \<Rightarrow> 'r sqlx_pool \<Rightarrow> i64 \<Rightarrow> string \<Rightarrow> u32 option \<Rightarrow> u32 option \<Rightarrow> bool \<Rightarrow> u32 option
   \<Rightarrow> chan \<Rightarrow> unit flow" where
  "sqlx_stream arrow column_infos convert pool elapsed sql limit offset include_total chunk_size ch =
     (let chunk = unat (case chunk_size of Some n \<Rightarrow> n | None \<Rightarrow> 100);
          prepared = prepare_query sql limit offset;
          total_rows = (if pq_is_select prepared \<and> include_total
                        then get_total_count pool (pq_sql_stripped prepared) else None)
      in drive_sqlx_stream_arrow arrow total_rows chunk elapsed column_infos convert
           (pool_fetch pool (pq_sql prepared)) ch)"

text \<open>A listing runs a query and returns the texts of its first column.\<close>

definition list_names :: "string \<Rightarrow> query_result result option \<Rightarrow> discovery_result option" where
  "list_names what res =
     map_option (\<lambda>r. case r of
        Inr result \<Rightarrow>
          \<lparr>di_items = extract_string_col_from_batch (qr_record_batch result) 0, di_error = None\<rparr>
      | Inl e \<Rightarrow> \<lparr>di_items = [], di_error = Some (''Failed to list '' @ what @ '': '' @ error_to_string e)\<rparr>)
     res"

section \<open>PostgreSQL\<close>

definition pg_column_infos :: "pg_row \<Rightarrow> column_info list" where
  "pg_column_infos row =
     map (\<lambda>(n, ty). \<lparr>col_name = n, col_type = map_postgres_type_oid (pg_type_name_to_oid ty)\<rparr>)
       (pg_columns row)"

definition pg_execute_query ::
  "arrow_api \<Rightarrow> value_api \<Rightarrow> pg_row sqlx_pool \<Rightarrow> i64 \<Rightarrow> string \<Rightarrow> u32 option \<Rightarrow> u32 option \<Rightarrow> bool
   \<Rightarrow> query_result result option" where
  "pg_execute_query arrow api pool = sqlx_execute_query arrow pg_column_infos (pg_put api) pool"

definition pg_stream_arrow ::
  "arrow_api \<Rightarrow> value_api \<Rightarrow> pg_row sqlx_pool \<Rightarrow> i64 \<Rightarrow> string \<Rightarrow> u32 option \<Rightarrow> u32 option \<Rightarrow> bool
   \<Rightarrow> u32 option \<Rightarrow> chan \<Rightarrow> unit flow" where
  "pg_stream_arrow arrow api pool = sqlx_stream arrow pg_column_infos (pg_row_to_arrow api) pool"

definition parse_pg_error_position ::
  "sqlx_error \<Rightarrow> string \<Rightarrow> (u32 option \<times> u32 option) option" where
  "parse_pg_error_position err sql =
     (case se_db_message err of
        None \<Rightarrow> Some (None, None)
      | Some msg \<Rightarrow>
          if_some (extract_character_position msg) (char_position_to_line_col sql)
          (if_some (extract_character_position (se_display err)) (char_position_to_line_col sql)
          (Some (None, None))))"

definition pg_dry_run :: "pg_row sqlx_pool \<Rightarrow> string \<Rightarrow> dry_run_result result option" where
  "pg_dry_run pool sql =
     (case pool_fetch_all pool (''EXPLAIN '' @ sql) of
        Reply _ \<Rightarrow> Some (Inr (dry_run_success ''Query valid''))
      | ReplyErr e \<Rightarrow>
          map_option (\<lambda>(line, column). Inr (dry_run_failure (se_display e) line column))
            (parse_pg_error_position e sql)
      | ReplyTimeout \<Rightarrow> Some (Inr (dry_run_failure ''Dry run timed out after 30s'' None None)))"

definition pg_list_databases ::
  "arrow_api \<Rightarrow> value_api \<Rightarrow> pg_row sqlx_pool \<Rightarrow> i64 \<Rightarrow> discovery_result option" where
  "pg_list_databases arrow api pool elapsed =
     list_names ''PostgreSQL databases''
       (pg_execute_query arrow api pool elapsed
         (''SELECT datname FROM pg_database '' @ ''WHERE datistemplate = false '' @ ''ORDER BY datname'')
         None None False)"

definition pg_list_schemas ::
  "arrow_api \<Rightarrow> value_api \<Rightarrow> pg_row sqlx_pool \<Rightarrow> i64 \<Rightarrow> discovery_result option" where
  "pg_list_schemas arrow api pool elapsed =
     list_names ''PostgreSQL schemas''
       (pg_execute_query arrow api pool elapsed
         (''SELECT schema_name FROM information_schema.schemata ''
          @ ''WHERE schema_name NOT IN ('pg_catalog', 'information_schema', 'pg_toast') ''
          @ ''ORDER BY schema_name'')
         None None False)"

definition pg_test_connection :: "pg_row sqlx_pool \<Rightarrow> bool result" where
  "pg_test_connection pool = sqlx_test_connection ''PostgreSQL'' pool"

section \<open>MySQL\<close>

definition mysql_column_infos :: "mysql_row \<Rightarrow> column_info list" where
  "mysql_column_infos row =
     map (\<lambda>(n, ty). \<lparr>col_name = n, col_type = map_mysql_type_name ty\<rparr>) (my_columns row)"

definition mysql_test_connection :: "mysql_row sqlx_pool \<Rightarrow> bool result" where
  "mysql_test_connection pool = sqlx_test_connection ''MySQL'' pool"

definition mysql_execute_query ::
  "arrow_api \<Rightarrow> value_api \<Rightarrow> mysql_row sqlx_pool \<Rightarrow> i64 \<Rightarrow> string \<Rightarrow> u32 option \<Rightarrow> u32 option \<Rightarrow> bool
   \<Rightarrow> query_result result option" where
  "mysql_execute_query arrow api pool =
     sqlx_execute_query arrow mysql_column_infos (mysql_put api) pool"

definition mysql_stream_arrow ::
  "arrow_api \<Rightarrow> value_api \<Rightarrow> mysql_row sqlx_pool \<Rightarrow> i64 \<Rightarrow> string \<Rightarrow> u32 option \<Rightarrow> u32 option \<Rightarrow> bool
   \<Rightarrow> u32 option \<Rightarrow> chan \<Rightarrow> unit flow" where
  "mysql_stream_arrow arrow api pool =
     sqlx_stream arrow mysql_column_infos (mysql_row_to_arrow api) pool"

definition parse_mysql_error_line :: "regex \<Rightarrow> sqlx_error \<Rightarrow> u32 option" where
  "parse_mysql_error_line rx err =
     Option.bind (rx mysql_line_re (se_display err) 1) parse_u32"

definition mysql_dry_run :: "regex \<Rightarrow> mysql_row sqlx_pool \<Rightarrow> string \<Rightarrow> dry_run_result result" where
  "mysql_dry_run rx pool sql =
     (case pool_fetch_all pool (''EXPLAIN '' @ sql) of
        Reply _ \<Rightarrow> Inr (dry_run_success ''Query valid'')
      | ReplyErr e \<Rightarrow> Inr (dry_run_failure (se_display e) (parse_mysql_error_line rx e) None)
      | ReplyTimeout \<Rightarrow> Inr (dry_run_failure ''Dry run timed out after 30s'' None None))"

definition mysql_list_schemas ::
  "arrow_api \<Rightarrow> value_api \<Rightarrow> mysql_row sqlx_pool \<Rightarrow> i64 \<Rightarrow> discovery_result option" where
  "mysql_list_schemas arrow api pool elapsed =
     list_names ''MySQL databases''
       (mysql_execute_query arrow api pool elapsed
         (''SELECT SCHEMA_NAME FROM information_schema.SCHEMATA ''
          @ ''WHERE SCHEMA_NAME NOT IN ('information_schema', 'mysql', 'performance_schema', 'sys') ''
          @ ''ORDER BY SCHEMA_NAME'')
         None None False)"

definition mysql_list_databases ::
  "arrow_api \<Rightarrow> value_api \<Rightarrow> mysql_row sqlx_pool \<Rightarrow> i64 \<Rightarrow> discovery_result option" where
  "mysql_list_databases arrow api pool elapsed = mysql_list_schemas arrow api pool elapsed"

section \<open>Redshift\<close>

definition redshift_column_infos :: "pg_row \<Rightarrow> column_info list" where
  "redshift_column_infos row =
     map (\<lambda>(n, ty). \<lparr>col_name = n, col_type = map_redshift_type_code (pg_type_name_to_oid ty)\<rparr>)
       (pg_columns row)"

definition redshift_test_connection :: "pg_row sqlx_pool \<Rightarrow> bool result" where
  "redshift_test_connection pool = sqlx_test_connection ''Redshift'' pool"

definition redshift_execute_query ::
  "arrow_api \<Rightarrow> value_api \<Rightarrow> pg_row sqlx_pool \<Rightarrow> i64 \<Rightarrow> string \<Rightarrow> u32 option \<Rightarrow> u32 option \<Rightarrow> bool
   \<Rightarrow> query_result result option" where
  "redshift_execute_query arrow api pool =
     sqlx_execute_query arrow redshift_column_infos (pg_put api) pool"

definition redshift_stream_arrow ::
  "arrow_api \<Rightarrow> value_api \<Rightarrow> pg_row sqlx_pool \<Rightarrow> i64 \<Rightarrow> string \<Rightarrow> u32 option \<Rightarrow> u32 option \<Rightarrow> bool
   \<Rightarrow> u32 option \<Rightarrow> chan \<Rightarrow> unit flow" where
  "redshift_stream_arrow arrow api pool =
     sqlx_stream arrow redshift_column_infos (redshift_row_to_arrow api) pool"

definition parse_redshift_error_position ::
  "regex \<Rightarrow> sqlx_error \<Rightarrow> string \<Rightarrow> (u32 option \<times> u32 option) option" where
  "parse_redshift_error_position rx err sql =
     (let msg = se_display err in
      if_some (Option.bind (rx redshift_line_re msg 1) parse_u32)
        (\<lambda>line. Some (Some line, None))
      (if_some (Option.bind (rx redshift_position_re msg 1) (parse_unsigned (2 ^ 64 - 1)))
        (char_position_to_line_col sql)
      (if_some (extract_character_position msg) (char_position_to_line_col sql)
      (Some (None, None)))))"

definition redshift_dry_run ::
  "regex \<Rightarrow> pg_row sqlx_pool \<Rightarrow> string \<Rightarrow> dry_run_result result option" where
  "redshift_dry_run rx pool sql =
     (case pool_fetch_all pool (''EXPLAIN '' @ sql) of
        Reply _ \<Rightarrow> Some (Inr (dry_run_success ''Query valid''))
      | ReplyErr e \<Rightarrow>
          map_option (\<lambda>(line, column). Inr (dry_run_failure (se_display e) line column))
            (parse_redshift_error_position rx e sql)
      | ReplyTimeout \<Rightarrow> Some (Inr (dry_run_failure ''Dry run timed out after 30s'' None None)))"

definition redshift_list_schemas ::
  "arrow_api \<Rightarrow> value_api \<Rightarrow> pg_row sqlx_pool \<Rightarrow> i64 \<Rightarrow> discovery_result option" where
  "redshift_list_schemas arrow api pool elapsed =
     list_names ''Redshift schemas''
       (redshift_execute_query arrow api pool elapsed
         (''SELECT schema_name FROM information_schema.schemata ''
          @ ''WHERE schema_name NOT IN ('pg_catalog', 'pg_internal', 'information_schema', 'pg_toast') ''
          @ ''AND schema_name NOT LIKE 'pg_temp_%' ''
          @ ''ORDER BY schema_name'')
         None None False)"

section \<open>SQL Server and Synapse\<close>

text \<open>
  \<open>tds_count_row\<close>: the first row of the count query, \<^const>\<open>None\<close> when it fails or takes too long.
  A query, a test and a dry run are \<^const>\<open>None\<close> when the reply stalls.
\<close>

record tds_client =
  tds_query :: "string \<Rightarrow> tds_reply"
  tds_count_row :: "string \<Rightarrow> tds_row option"

definition get_tds_total_count :: "tds_client \<Rightarrow> string \<Rightarrow> i64 option" where
  "get_tds_total_count client sql =
     Option.bind (tds_count_row client (''SELECT COUNT(*) FROM ('' @ sql @ '') AS _count_subquery''))
       (\<lambda>row. if_some (tds_i32 row 0) (\<lambda>v. Some (scast v)) (tds_i64 row 0))"

definition execute_tds_query ::
  "arrow_api \<Rightarrow> value_api \<Rightarrow> tds_client \<Rightarrow> i64 \<Rightarrow> string \<Rightarrow> u32 option \<Rightarrow> u32 option \<Rightarrow> bool
   \<Rightarrow> query_result result option" where
  "execute_tds_query arrow api client elapsed sql limit offset include_total =
     (let stripped = strip_sql sql;
          total_rows = (if is_select_sql (to_uppercase stripped) \<and> include_total
                        then get_tds_total_count client stripped else None);
          effective_limit = (case limit of Some l \<Rightarrow> l | None \<Rightarrow> 1000) in
      case tds_query client (tds_paginated_sql 1000 sql limit offset) of
        TdsQueryErr e \<Rightarrow> Some (Inr (query_failed elapsed e))
      | TdsTimeout \<Rightarrow> Some (Inr (query_failed elapsed ''Query timed out after 120s''))
      | TdsCollectErr e \<Rightarrow> Some (Inr (query_failed elapsed e))
      | TdsStalled \<Rightarrow> None
      | TdsRows rows \<Rightarrow>
          (let columns = tds_column_infos rows in
           map_option Inr
             (query_succeeded arrow (tds_put api (row_num_idx columns)) (filtered_columns columns) rows
               total_rows effective_limit elapsed)))"

definition tds_test_connection :: "string \<Rightarrow> tds_client \<Rightarrow> bool result option" where
  "tds_test_connection label client =
     (case tds_query client ''SELECT 1'' of
        TdsRows _ \<Rightarrow> Some (Inr True)
      | TdsTimeout \<Rightarrow> Some (Inl (Internal (label @ '' test connection timed out'')))
      | TdsQueryErr e \<Rightarrow> Some (Inl (Internal (label @ '' test connection failed: '' @ e)))
      | TdsCollectErr e \<Rightarrow> Some (Inl (Internal (label @ '' test connection failed: '' @ e)))
      | TdsStalled \<Rightarrow> None)"

definition parse_tsql_error_line :: "regex \<Rightarrow> string \<Rightarrow> u32 option" where
  "parse_tsql_error_line rx msg = Option.bind (rx tsql_line_re msg 1) parse_u32"

definition tds_dry_run_reply :: "regex \<Rightarrow> tds_reply \<Rightarrow> dry_run_result option" where
  "tds_dry_run_reply rx reply =
     (case reply of
        TdsRows _ \<Rightarrow> Some (dry_run_success ''Query valid'')
      | TdsQueryErr e \<Rightarrow> Some (dry_run_failure e (parse_tsql_error_line rx e) None)
      | TdsCollectErr e \<Rightarrow> Some (dry_run_failure e (parse_tsql_error_line rx e) None)
      | TdsTimeout \<Rightarrow> Some (dry_run_failure ''Dry run timed out after 30s'' None None)
      | TdsStalled \<Rightarrow> None)"

definition sqlserver_test_connection :: "tds_client \<Rightarrow> bool result option" where
  "sqlserver_test_connection client = tds_test_connection ''SQL Server'' client"

definition sqlserver_dry_run :: "regex \<Rightarrow> tds_client \<Rightarrow> string \<Rightarrow> dry_run_result result option" where
  "sqlserver_dry_run rx client sql =
     map_option Inr (tds_dry_run_reply rx (tds_query client (''SET NOEXEC ON; '' @ sql @ ''; SET NOEXEC OFF;'')))"

definition sqlserver_list_databases ::
  "arrow_api \<Rightarrow> value_api \<Rightarrow> tds_client \<Rightarrow> i64 \<Rightarrow> discovery_result option" where
  "sqlserver_list_databases arrow api client elapsed =
     list_names ''SQL Server databases''
       (execute_tds_query arrow api client elapsed
         (''SELECT name FROM sys.databases '' @ ''WHERE state = 0 ''
          @ ''AND name NOT IN ('master', 'tempdb', 'model', 'msdb') '' @ ''ORDER BY name'')
         None None False)"

definition tds_schemas_sql :: string where
  "tds_schemas_sql =
     ''SELECT schema_name FROM INFORMATION_SCHEMA.SCHEMATA ''
     @ ''WHERE schema_name NOT IN ('sys', 'INFORMATION_SCHEMA', 'guest', ''
     @ '''db_owner', 'db_accessadmin', 'db_securityadmin', ''
     @ '''db_ddladmin', 'db_backupoperator', 'db_datareader', ''
     @ '''db_datawriter', 'db_denydatareader', 'db_denydatawriter') ''
     @ ''ORDER BY schema_name''"

definition sqlserver_list_schemas ::
  "arrow_api \<Rightarrow> value_api \<Rightarrow> tds_client \<Rightarrow> i64 \<Rightarrow> discovery_result option" where
  "sqlserver_list_schemas arrow api client elapsed =
     list_names ''SQL Server schemas''
       (execute_tds_query arrow api client elapsed tds_schemas_sql None None False)"

definition synapse_test_connection :: "tds_client \<Rightarrow> bool result option" where
  "synapse_test_connection client = tds_test_connection ''Azure Synapse'' client"

definition synapse_dry_run :: "regex \<Rightarrow> tds_client \<Rightarrow> string \<Rightarrow> dry_run_result result option" where
  "synapse_dry_run rx client sql =
     map_option Inr (tds_dry_run_reply rx (tds_query client
       (''EXEC sp_describe_first_result_set @tsql = N'' @ [CHR 0x27] @ escape_sql_literal sql @ [CHR 0x27])))"

definition synapse_list_databases ::
  "arrow_api \<Rightarrow> value_api \<Rightarrow> tds_client \<Rightarrow> i64 \<Rightarrow> discovery_result option" where
  "synapse_list_databases arrow api client elapsed =
     list_names ''Synapse databases''
       (execute_tds_query arrow api client elapsed
         (''SELECT name FROM sys.databases '' @ ''WHERE state = 0 '' @ ''ORDER BY name'')
         None None False)"

definition synapse_list_schemas ::
  "arrow_api \<Rightarrow> value_api \<Rightarrow> tds_client \<Rightarrow> i64 \<Rightarrow> discovery_result option" where
  "synapse_list_schemas arrow api client elapsed =
     list_names ''Synapse schemas''
       (execute_tds_query arrow api client elapsed tds_schemas_sql None None False)"

section \<open>The contract of a query\<close>

text \<open>
  What the callers of \<open>execute_query\<close> rely on: the call returns, a result with an error
  message has status \<open>Error\<close> and no batch, any other has status \<open>Success\<close>.
\<close>

definition result_ok :: "query_result \<Rightarrow> bool" where
  "result_ok r \<longleftrightarrow> (qr_status r = Error \<longleftrightarrow> qr_error r \<noteq> None) \<and>
     (qr_status r = Error \<longrightarrow> qr_record_batch r = None \<and> qr_columns r = None \<and> \<not> qr_has_more r)"

locale query_provider =
  fixes execute :: "string \<Rightarrow> u32 option \<Rightarrow> u32 option \<Rightarrow> bool \<Rightarrow> query_result result option"
  assumes execute_returns: "\<exists>r. execute sql limit offset tot = Some (Inr r) \<and> result_ok r"
begin

lemma listing_has_no_error:
  "\<exists>items. list_names what (execute sql limit offset tot) = Some \<lparr>di_items = items, di_error = None\<rparr>"
  using execute_returns [of sql limit offset tot] by (auto simp: list_names_def)

lemma listing_after_error:
  assumes "execute sql limit offset tot = Some (Inr r)" "qr_status r = Error"
  shows "list_names what (execute sql limit offset tot) = Some \<lparr>di_items = [], di_error = None\<rparr>"
  using assms execute_returns [of sql limit offset tot]
  by (auto simp: list_names_def result_ok_def)

lemma error_becomes_stream_error:
  assumes "execute sql limit offset tot = Some (Inr r)" "qr_status r = Error"
  obtains msg where "qr_error r = Some msg" "query_result_to_arrow_stream arrow r = Inl (Provider msg)"
  using assms execute_returns [of sql limit offset tot]
  by (auto simp: result_ok_def query_result_to_arrow_stream_def)

end

lemma query_failed_ok [simp]: "result_ok (query_failed elapsed msg)"
  by (simp add: result_ok_def query_failed_def)

context row_writer
begin

lemma query_succeeded_ok:
  assumes "list_all ok rows"
  shows "\<exists>r. query_succeeded arrow put cols rows tot lim elapsed = Some r \<and> result_ok r \<and>
    qr_status r = Success \<and> qr_columns r = Some cols \<and> qr_total_rows r = tot"
proof (cases "cols = []")
  case False
  then show ?thesis
    using write_rows_ok [OF assms builder_new_ok [of cols]]
    by (auto simp: query_succeeded_def Let_def result_ok_def)
qed (simp add: query_succeeded_def result_ok_def)

lemma query_succeeded_batch:
  assumes "try_new_law arrow" "cols \<noteq> []" "list_all ok rows"
  shows "\<exists>r batch. query_succeeded arrow put cols rows tot lim elapsed = Some r \<and>
    qr_status r = Success \<and> qr_columns r = Some cols \<and>
    qr_record_batch r = Some batch \<and> rb_num_rows batch = length rows \<and>
    map arr_type (rb_columns batch) = map (\<lambda>c. simple_type_to_arrow (col_type c)) cols \<and>
    map arr_vals (rb_columns batch) = map (\<lambda>j. map (\<lambda>r. cell r (cols ! j) j) rows) [0..<length cols] \<and>
    result_ok r \<and> (qr_has_more r \<longleftrightarrow> length rows = unat lim)"
  using rows_arrive_batch [OF assms] assms(2)
  by (auto simp: rows_arrive_def query_succeeded_def result_ok_def o_def split: option.splits sum.splits)

lemma sqlx_execute_batch:
  assumes "try_new_law arrow"
    "pool_fetch_all pool (pq_sql (prepare_query sql limit offset)) = Reply (row # rows)"
    "infos row \<noteq> []" "list_all ok (row # rows)"
  shows "\<exists>r batch. sqlx_execute_query arrow infos put pool elapsed sql limit offset tot = Some (Inr r) \<and>
    qr_status r = Success \<and> qr_columns r = Some (infos row) \<and>
    qr_record_batch r = Some batch \<and> rb_num_rows batch = length (row # rows) \<and>
    map arr_type (rb_columns batch) = map (\<lambda>c. simple_type_to_arrow (col_type c)) (infos row) \<and>
    map arr_vals (rb_columns batch)
      = map (\<lambda>j. map (\<lambda>r. cell r (infos row ! j) j) (row # rows)) [0..<length (infos row)] \<and>
    result_ok r \<and> (qr_has_more r \<longleftrightarrow> length (row # rows) = unat (case limit of Some l \<Rightarrow> l | None \<Rightarrow> 1000))"
proof -
  let ?lim = "case limit of Some l \<Rightarrow> l | None \<Rightarrow> 1000"
  obtain total_rows where *: "sqlx_execute_query arrow infos put pool elapsed sql limit offset tot
      = map_option Inr (query_succeeded arrow put (infos row) (row # rows) total_rows ?lim elapsed)"
    using assms(2) by (simp add: sqlx_execute_query_def Let_def)
  show ?thesis
    using query_succeeded_batch [OF assms(1,3,4), of total_rows ?lim elapsed] unfolding * by auto
qed

lemma sqlx_execute_returns:
  assumes "\<And>sql rows. pool_fetch_all pool sql = Reply rows \<Longrightarrow> list_all ok rows"
  shows "\<exists>r. sqlx_execute_query arrow infos put pool elapsed sql limit offset tot = Some (Inr r) \<and>
    result_ok r"
proof (cases "pool_fetch_all pool (pq_sql (prepare_query sql limit offset))")
  case (Reply rows)
  then show ?thesis
    using query_succeeded_ok [OF assms [OF Reply]]
    by (fastforce simp: sqlx_execute_query_def Let_def)
qed (simp_all add: sqlx_execute_query_def)

end

text \<open>A server whose replies all arrive, over a connection that gets free.\<close>

definition tds_answers :: "tds_client \<Rightarrow> bool" where
  "tds_answers client \<longleftrightarrow> (\<forall>sql. tds_query client sql \<noteq> TdsStalled)"

lemma execute_tds_query_returns:
  "tds_answers client \<Longrightarrow>
   \<exists>r. execute_tds_query arrow api client elapsed sql limit offset tot = Some (Inr r) \<and> result_ok r"
proof (cases "tds_query client (tds_paginated_sql 1000 sql limit offset)")
  case (TdsRows rows)
  have "list_all (\<lambda>_. True) rows" by (simp add: list_all_iff)
  from tds_writer.query_succeeded_ok [OF this] show ?thesis
    using TdsRows by (fastforce simp: execute_tds_query_def Let_def)
qed (simp_all add: execute_tds_query_def tds_answers_def)

interpretation pg_queries: query_provider "pg_execute_query arrow api pool elapsed"
  unfolding pg_execute_query_def
  by unfold_locales (rule pg_writer.sqlx_execute_returns, simp add: list_all_iff)

interpretation mysql_queries: query_provider "mysql_execute_query arrow api pool elapsed"
  unfolding mysql_execute_query_def
  by unfold_locales (rule mysql_writer.sqlx_execute_returns, simp add: list_all_iff)

interpretation redshift_queries: query_provider "redshift_execute_query arrow api pool elapsed"
  unfolding redshift_execute_query_def
  by unfold_locales (rule pg_writer.sqlx_execute_returns, simp add: list_all_iff)

lemma tds_queries: "tds_answers client \<Longrightarrow> query_provider (execute_tds_query arrow api client elapsed)"
  by unfold_locales (rule execute_tds_query_returns)

section \<open>Properties\<close>

text \<open>
  A query never panics and never fails as a call: for every server answer the PostgreSQL,
  MySQL, Redshift and, where the replies arrive at all, the T-SQL providers return a result in which an error message, the status
  Error and the absence of a batch go together.
\<close>

theorem queries_return:
  "(\<exists>r. pg_execute_query arrow api pg elapsed sql limit offset tot = Some (Inr r) \<and> result_ok r) \<and>
   (\<exists>r. mysql_execute_query arrow api my elapsed sql limit offset tot = Some (Inr r) \<and> result_ok r) \<and>
   (\<exists>r. redshift_execute_query arrow api rs elapsed sql limit offset tot = Some (Inr r) \<and> result_ok r) \<and>
   (tds_answers tds \<longrightarrow>
      (\<exists>r. execute_tds_query arrow api tds elapsed sql limit offset tot = Some (Inr r) \<and> result_ok r))"
  by (intro conjI impI pg_queries.execute_returns mysql_queries.execute_returns
      redshift_queries.execute_returns execute_tds_query_returns)

text \<open>
  A catalog listing never reports an error: when the server rejects the listing query, the
  PostgreSQL and SQL Server listings return an empty list with no error, the same answer as
  for a server without databases.
\<close>

theorem listing_hides_errors:
  "(\<exists>items. pg_list_databases arrow api pg elapsed = Some \<lparr>di_items = items, di_error = None\<rparr>) \<and>
   (\<exists>items. pg_list_schemas arrow api pg elapsed = Some \<lparr>di_items = items, di_error = None\<rparr>) \<and>
   (\<exists>items. mysql_list_databases arrow api my elapsed = Some \<lparr>di_items = items, di_error = None\<rparr>) \<and>
   (\<exists>items. redshift_list_schemas arrow api pg elapsed = Some \<lparr>di_items = items, di_error = None\<rparr>) \<and>
   (tds_answers tds \<longrightarrow>
      (\<exists>items. sqlserver_list_databases arrow api tds elapsed = Some \<lparr>di_items = items, di_error = None\<rparr>) \<and>
      (\<exists>items. synapse_list_databases arrow api tds elapsed = Some \<lparr>di_items = items, di_error = None\<rparr>))"
  unfolding pg_list_databases_def pg_list_schemas_def mysql_list_databases_def mysql_list_schemas_def
    redshift_list_schemas_def sqlserver_list_databases_def synapse_list_databases_def
  by (intro conjI impI pg_queries.listing_has_no_error mysql_queries.listing_has_no_error
      redshift_queries.listing_has_no_error query_provider.listing_has_no_error [OF tds_queries])

text \<open>
  A PostgreSQL query whose rows have columns gives a batch with exactly these rows, cell by
  cell, and \<open>has_more\<close> says whether the page is full.
\<close>

theorem pg_query_batch:
  assumes "try_new_law arrow"
    "pool_fetch_all pool (pq_sql (prepare_query sql limit offset)) = Reply (row # rows)"
    "pg_columns row \<noteq> []"
  shows "\<exists>r batch. pg_execute_query arrow api pool elapsed sql limit offset tot = Some (Inr r) \<and>
    qr_status r = Success \<and> qr_columns r = Some (pg_column_infos row) \<and>
    qr_record_batch r = Some batch \<and> rb_num_rows batch = length (row # rows) \<and>
    map arr_vals (rb_columns batch)
      = map (\<lambda>j. map (\<lambda>r. pg_cell api r (pg_column_infos row ! j) j) (row # rows))
          [0..<length (pg_columns row)] \<and>
    (qr_has_more r \<longleftrightarrow> length (row # rows) = unat (case limit of Some l \<Rightarrow> l | None \<Rightarrow> 1000))"
proof -
  have cols: "pg_column_infos row \<noteq> []" "length (pg_column_infos row) = length (pg_columns row)"
    using assms(3) by (simp_all add: pg_column_infos_def)
  have "list_all (\<lambda>_. True) (row # rows)" by (simp add: list_all_iff)
  from pg_writer.sqlx_execute_batch [where infos = pg_column_infos, OF assms(1,2) cols(1) this]
  show ?thesis unfolding pg_execute_query_def cols(2) by blast
qed

text \<open>What a pool delivers through the sqlx driver, read to the end.\<close>

context row_writer
begin

lemma sqlx_stream_rows:
  assumes "try_new_law arrow" "ipc_law arrow" "infos row \<noteq> []"
    and conv: "\<And>r cols b. convert r cols b = write_row (put r) cols b"
    and rows: "pool_fetch pool (pq_sql (prepare_query sql limit offset)) = map RowOk (row # rows)"
      "list_all ok (row # rows)"
  shows "sqlx_stream arrow infos convert pool elapsed sql limit offset False chunk_size (reader [])
    = Go () (reader (stream_of arrow put (infos row) None elapsed
        (chunks (unat (case chunk_size of Some n \<Rightarrow> n | None \<Rightarrow> 100)) (row # rows))))"
  unfolding sqlx_stream_def Let_def rows(1)
  by (simp only: simp_thms if_False, rule drive_stream) (use assms in simp_all)

end

lemma sqlx_columns:
  "pg_columns row \<noteq> [] \<Longrightarrow> pg_column_infos row \<noteq> []"
  "my_columns my_row \<noteq> [] \<Longrightarrow> mysql_column_infos my_row \<noteq> []"
  by (simp_all add: pg_column_infos_def mysql_column_infos_def)

lemma pg_stream_rows:
  assumes "try_new_law arrow" "ipc_law arrow" "pg_columns row \<noteq> []"
    "pool_fetch pg (pq_sql (prepare_query sql limit offset)) = map RowOk (row # rows)"
  shows "pg_stream_arrow arrow api pg elapsed sql limit offset False chunk_size (reader [])
    = Go () (reader (stream_of arrow (pg_put api) (pg_column_infos row) None elapsed
        (chunks (unat (case chunk_size of Some n \<Rightarrow> n | None \<Rightarrow> 100)) (row # rows))))"
  unfolding pg_stream_arrow_def
  by (rule pg_writer.sqlx_stream_rows)
     (use assms sqlx_columns in \<open>simp_all add: pg_row_to_arrow_def list_all_iff\<close>)

lemma mysql_stream_rows:
  assumes "try_new_law arrow" "ipc_law arrow" "my_columns row \<noteq> []"
    "pool_fetch my (pq_sql (prepare_query sql limit offset)) = map RowOk (row # rows)"
  shows "mysql_stream_arrow arrow api my elapsed sql limit offset False chunk_size (reader [])
    = Go () (reader (stream_of arrow (mysql_put api) (mysql_column_infos row) None elapsed
        (chunks (unat (case chunk_size of Some n \<Rightarrow> n | None \<Rightarrow> 100)) (row # rows))))"
  unfolding mysql_stream_arrow_def
  by (rule mysql_writer.sqlx_stream_rows)
     (use assms sqlx_columns in \<open>simp_all add: mysql_row_to_arrow_def list_all_iff\<close>)

text \<open>
  C10. The streams of the sqlx providers deliver a result completely: a receiver that reads to
  the end gets the schema, the rows in order split into chunks of the requested size (100 by
  default, 0 counting as 1), and a summary with the number of chunks and rows.
\<close>

theorem sqlx_streams_complete:
  assumes "try_new_law arrow" "ipc_law arrow" "pg_columns row \<noteq> []" "my_columns my_row \<noteq> []"
    "prepared = prepare_query sql limit offset"
    "pool_fetch pg (pq_sql prepared) = map RowOk (row # rows)"
    "pool_fetch my (pq_sql prepared) = map RowOk (my_row # my_rows)"
    "n = unat (case chunk_size of Some n \<Rightarrow> n | None \<Rightarrow> 100)"
  shows "pg_stream_arrow arrow api pg elapsed sql limit offset False chunk_size (reader [])
      = Go () (reader (stream_of arrow (pg_put api) (pg_column_infos row) None elapsed
          (chunks n (row # rows)))) \<and>
    mysql_stream_arrow arrow api my elapsed sql limit offset False chunk_size (reader [])
      = Go () (reader (stream_of arrow (mysql_put api) (mysql_column_infos my_row) None elapsed
          (chunks n (my_row # my_rows))))"
  using assms by (simp add: pg_stream_rows mysql_stream_rows)

text \<open>A concrete row and pool, for witnesses.\<close>

definition demo_pg_row :: pg_row where
  "demo_pg_row = \<lparr>pg_columns = [(''id'', ''INT4'')], pg_bool = Map.empty, pg_i32 = [0 \<mapsto> 7],
     pg_i64 = Map.empty, pg_i16 = Map.empty, pg_f32 = Map.empty, pg_f64 = Map.empty,
     pg_decimal = Map.empty, pg_money = Map.empty, pg_string = Map.empty, pg_iv = Map.empty,
     pg_bytes = Map.empty, pg_date = Map.empty, pg_time = Map.empty, pg_naive = Map.empty,
     pg_utc = Map.empty\<rparr>"

definition demo_mysql_row :: mysql_row where
  "demo_mysql_row = \<lparr>my_columns = [(''id'', ''INT'')], my_bool = Map.empty, my_i64 = [0 \<mapsto> 7],
     my_u64 = Map.empty, my_f64 = Map.empty, my_decimal = Map.empty, my_string = Map.empty,
     my_bytes = Map.empty, my_date = Map.empty, my_time = Map.empty, my_naive = Map.empty\<rparr>"

definition demo_tds_row :: tds_row where
  "demo_tds_row = \<lparr>tds_columns = [(''id'', CtInt4), (''_row_num'', CtInt8)], tds_bool = Map.empty,
     tds_i64 = [1 \<mapsto> 1], tds_f64 = Map.empty, tds_i32 = [0 \<mapsto> 7], tds_i16 = Map.empty,
     tds_u8 = Map.empty, tds_f32 = Map.empty, tds_numeric = Map.empty, tds_str = Map.empty,
     tds_uuid = Map.empty, tds_bytes = Map.empty, tds_date = Map.empty, tds_time = Map.empty,
     tds_naive = Map.empty, tds_utc = Map.empty\<rparr>"

definition demo_pool :: "'r list \<Rightarrow> sqlx_error \<Rightarrow> 'r sqlx_pool" where
  "demo_pool rows err =
     \<lparr>pool_fetch_all = (\<lambda>sql. if take 7 sql = ''EXPLAIN'' then ReplyErr err else Reply rows),
      pool_fetch = (\<lambda>_. map RowOk rows), pool_scalar = (\<lambda>_. Reply (of_nat (length rows))),
      pool_execute = (\<lambda>_. Reply ())\<rparr>"

definition demo_error :: sqlx_error where
  "demo_error = \<lparr>se_display = ''error'', se_db_message = Some ''syntax error at character 10''\<rparr>"

theorem pg_query_batch_witness:
  "\<forall>api. \<exists>r batch. pg_execute_query demo_arrow api (demo_pool [demo_pg_row] demo_error) 5
      ''SELECT id FROM t'' None None False = Some (Inr r) \<and>
    qr_status r = Success \<and> qr_columns r = Some (pg_column_infos demo_pg_row) \<and>
    qr_record_batch r = Some batch \<and> rb_num_rows batch = length [demo_pg_row] \<and>
    map arr_vals (rb_columns batch)
      = map (\<lambda>j. map (\<lambda>r. pg_cell api r (pg_column_infos demo_pg_row ! j) j) [demo_pg_row])
          [0..<length (pg_columns demo_pg_row)] \<and>
    (qr_has_more r \<longleftrightarrow> length [demo_pg_row] = unat (case None of Some l \<Rightarrow> l | None \<Rightarrow> (1000 :: u32)))"
proof
  have "pool_fetch_all (demo_pool [demo_pg_row] demo_error)
      (pq_sql (prepare_query ''SELECT id FROM t'' None None)) = Reply [demo_pg_row]"
  proof -
    have "take 7 (pq_sql (prepare_query ''SELECT id FROM t'' None None)) \<noteq> ''EXPLAIN''" by code_simp
    then show ?thesis by (simp add: demo_pool_def)
  qed
  moreover have "pg_columns demo_pg_row \<noteq> []" by (simp add: demo_pg_row_def)
  ultimately show "\<exists>r batch. pg_execute_query demo_arrow api (demo_pool [demo_pg_row] demo_error) 5
      ''SELECT id FROM t'' None None False = Some (Inr r) \<and>
    qr_status r = Success \<and> qr_columns r = Some (pg_column_infos demo_pg_row) \<and>
    qr_record_batch r = Some batch \<and> rb_num_rows batch = length [demo_pg_row] \<and>
    map arr_vals (rb_columns batch)
      = map (\<lambda>j. map (\<lambda>r. pg_cell api r (pg_column_infos demo_pg_row ! j) j) [demo_pg_row])
          [0..<length (pg_columns demo_pg_row)] \<and>
    (qr_has_more r \<longleftrightarrow> length [demo_pg_row] = unat (case None of Some l \<Rightarrow> l | None \<Rightarrow> (1000 :: u32)))"
    for api by (rule pg_query_batch [OF demo_arrow_law])
qed

theorem sqlx_streams_complete_witness:
  "\<forall>api. pg_stream_arrow demo_arrow api (demo_pool [demo_pg_row, demo_pg_row] demo_error) 5
        ''SELECT 1'' None None False (Some 1) (reader [])
      = Go () (reader (stream_of demo_arrow (pg_put api) (pg_column_infos demo_pg_row) None 5
          (chunks 1 [demo_pg_row, demo_pg_row]))) \<and>
    mysql_stream_arrow demo_arrow api (demo_pool [demo_mysql_row] demo_error) 5
        ''SELECT 1'' None None False (Some 1) (reader [])
      = Go () (reader (stream_of demo_arrow (mysql_put api) (mysql_column_infos demo_mysql_row) None 5
          (chunks 1 [demo_mysql_row])))"
  by (intro allI sqlx_streams_complete demo_arrow_law demo_ipc_law)
     (simp_all add: demo_pg_row_def demo_mysql_row_def demo_pool_def)

text \<open>
  C11. The T-SQL stream delivers a result completely, the sentinel column removed: schema, rows in
  order in chunks of the requested size (10000 by default, 0 counting as 1), summary.
\<close>

theorem tds_stream_complete:
  assumes "try_new_law arrow" "ipc_law arrow"
    "query (tds_paginated_sql 10000 sql limit offset) = TdsRows rows"
    "columns = tds_column_infos rows" "rows \<noteq> [] \<Longrightarrow> filtered_columns columns \<noteq> []"
  shows "execute_tds_stream_arrow arrow api query sql limit offset chunk_size name elapsed (reader [])
    = Go () (reader (stream_of arrow (tds_put api (row_num_idx columns)) (filtered_columns columns)
        None elapsed (chunks (unat (case chunk_size of Some n \<Rightarrow> n | None \<Rightarrow> 10000)) rows)))"
  using assms by (rule tds_stream)

theorem tds_stream_complete_witness:
  "\<forall>api. execute_tds_stream_arrow demo_arrow api (\<lambda>_. TdsRows [demo_tds_row, demo_tds_row]) ''SELECT 1''
      None None (Some 1) ''SQL Server'' 5 (reader [])
    = Go () (reader (stream_of demo_arrow
        (tds_put api (row_num_idx (tds_column_infos [demo_tds_row, demo_tds_row])))
        (filtered_columns (tds_column_infos [demo_tds_row, demo_tds_row])) None 5
        (chunks (unat (case Some 1 of Some n \<Rightarrow> n | None \<Rightarrow> (10000 :: u32))) [demo_tds_row, demo_tds_row])))"
  by (intro allI tds_stream_complete demo_arrow_law demo_ipc_law)
     (simp_all add: demo_tds_row_def tds_column_infos_def filtered_columns_def row_num_idx_def)

text \<open>
  The error position of a PostgreSQL dry run is that of the EXPLAIN statement, not of the
  query: when the server reports character \<open>p\<close> of the statement it was sent, the result says
  column \<open>p\<close> although the character at fault is the one at column \<open>p - 8\<close> of the query.
\<close>

theorem dry_run_position_shifted:
  assumes "CHR 0x0A \<notin> set sql" "pool_fetch_all pool (''EXPLAIN '' @ sql) = ReplyErr err"
    "se_db_message err = Some msg" "extract_character_position msg = Some p"
    "8 < p" "p \<le> length sql" "is_char_boundary sql (p - 1)"
  shows "pg_dry_run pool sql = Some (Inr (dry_run_failure (se_display err) (Some 1) (Some (of_nat p)))) \<and>
    (''EXPLAIN '' @ sql) ! (p - 1) = sql ! (p - 8 - 1)"
proof -
  have slice: "str_slice sql 0 (p - 1) = Some (take (p - 1) sql)"
    using assms(6,7) by (simp add: str_slice_def is_char_boundary_def)
  have nl: "CHR 0x0A \<notin> set (take (p - 1) sql)" using assms(1) by (meson in_set_takeD)
  then have "count_list (take (p - 1) sql) (CHR 0x0A) = 0" "str_rfind (take (p - 1) sql) [CHR 0x0A] = None"
    using set_mono_sublist [of "[CHR 0x0A]"] by (auto simp: str_rfind_None)
  then have "char_position_to_line_col sql p = Some (Some 1, Some (of_nat p))"
    using slice assms(5,6) by (simp add: char_position_to_line_col_def)
  then have "pg_dry_run pool sql
      = Some (Inr (dry_run_failure (se_display err) (Some 1) (Some (of_nat p))))"
    using assms(2,3,4) by (simp add: pg_dry_run_def parse_pg_error_position_def)
  moreover have "(''EXPLAIN '' @ sql) ! (p - 1) = sql ! (p - 8 - 1)"
    using assms(5) by (simp add: nth_append numeral_eq_Suc)
  ultimately show ?thesis ..
qed

theorem dry_run_position_shifted_witness:
  "pg_dry_run (demo_pool [demo_pg_row] demo_error) ''SELEC FROM users''
      = Some (Inr (dry_run_failure (se_display demo_error) (Some 1) (Some (of_nat 10)))) \<and>
    (''EXPLAIN '' @ ''SELEC FROM users'') ! (10 - 1) = ''SELEC FROM users'' ! (10 - 8 - 1)"
proof (rule dry_run_position_shifted)
  show "CHR 0x0A \<notin> set ''SELEC FROM users''" by code_simp
  show "pool_fetch_all (demo_pool [demo_pg_row] demo_error) (''EXPLAIN '' @ ''SELEC FROM users'')
      = ReplyErr demo_error" by (simp add: demo_pool_def)
  show "se_db_message demo_error = Some ''syntax error at character 10''" by (simp add: demo_error_def)
  show "extract_character_position ''syntax error at character 10'' = Some 10"
  proof -
    have "str_find ''syntax error at character 10'' ''at character '' = Some 13" by code_simp
    moreover have "takeWhile is_ascii_digit (drop (13 + length ''at character '')
        ''syntax error at character 10'') = show_nat 10" by code_simp
    ultimately show ?thesis
      using parse_show_nat [of 10 "2 ^ 64 - 1"] by (simp add: extract_character_position_def)
  qed
  show "(10::nat) \<le> length ''SELEC FROM users''" by simp
  show "is_char_boundary ''SELEC FROM users'' (10 - 1)" by code_simp
qed simp

end
