(* ===== verification/Executor.thy ===== *)
theory Executor
  imports Sql_Providers
begin

text \<open>
  The command executor of \<^verbatim>\<open>kyomi-connect/src/executor.rs\<close>: a request from the server becomes
  one or more responses, by way of the datasource provider. A provider is the record of its
  trait methods; an event stream is the list of the messages it yields to its end. The outer
  option of a result is \<^const>\<open>None\<close> for a panic or a call that never returns; \<open>anyhow\<close> errors are their text. The text of
  a \<^verbatim>\<open>serde_json\<close> error is the parameter \<open>serde_err\<close>.
\<close>

section \<open>Providers\<close>

record provider =
  pv_test_connection :: "bool result option"
  pv_execute_query ::
    "string \<Rightarrow> u32 option \<Rightarrow> u32 option \<Rightarrow> bool \<Rightarrow> string option \<Rightarrow> query_result result option"
  pv_dry_run :: "string \<Rightarrow> dry_run_result result option"
  pv_stream_arrow ::
    "string \<Rightarrow> u32 option \<Rightarrow> u32 option \<Rightarrow> bool \<Rightarrow> u32 option \<Rightarrow> message list result option"

text \<open>The PostgreSQL and SQL Server providers as the executor sees them.\<close>

fun stream_read :: "unit flow \<Rightarrow> message list result option" where
  "stream_read (Go _ ch) = Some (Inr (ch_sent ch))"
| "stream_read (Stop ch) = Some (Inr (ch_sent ch))"
| "stream_read Panic = None"
| "stream_read (OutOfFuel ch) = None"

definition pg_provider :: "arrow_api \<Rightarrow> value_api \<Rightarrow> pg_row sqlx_pool \<Rightarrow> i64 \<Rightarrow> provider" where
  "pg_provider arrow api pool elapsed =
     \<lparr>pv_test_connection = Some (pg_test_connection pool),
      pv_execute_query = (\<lambda>sql limit offset tot _. pg_execute_query arrow api pool elapsed sql limit offset tot),
      pv_dry_run = pg_dry_run pool,
      pv_stream_arrow = (\<lambda>sql limit offset tot chunk.
        stream_read (pg_stream_arrow arrow api pool elapsed sql limit offset tot chunk (reader [])))\<rparr>"

definition mysql_provider ::
  "arrow_api \<Rightarrow> value_api \<Rightarrow> regex \<Rightarrow> mysql_row sqlx_pool \<Rightarrow> i64 \<Rightarrow> provider" where
  "mysql_provider arrow api rx pool elapsed =
     \<lparr>pv_test_connection = Some (mysql_test_connection pool),
      pv_execute_query = (\<lambda>sql limit offset tot _. mysql_execute_query arrow api pool elapsed sql limit offset tot),
      pv_dry_run = (\<lambda>sql. Some (mysql_dry_run rx pool sql)),
      pv_stream_arrow = (\<lambda>sql limit offset tot chunk.
        stream_read (mysql_stream_arrow arrow api pool elapsed sql limit offset tot chunk (reader [])))\<rparr>"

definition sqlserver_provider ::
  "arrow_api \<Rightarrow> value_api \<Rightarrow> regex \<Rightarrow> tds_client \<Rightarrow> i64 \<Rightarrow> provider" where
  "sqlserver_provider arrow api rx client elapsed =
     \<lparr>pv_test_connection = sqlserver_test_connection client,
      pv_execute_query = (\<lambda>sql limit offset tot _. execute_tds_query arrow api client elapsed sql limit offset tot),
      pv_dry_run = sqlserver_dry_run rx client,
      pv_stream_arrow = (\<lambda>sql limit offset tot chunk.
        stream_read (execute_tds_stream_arrow arrow api (tds_query client) sql limit offset chunk
          ''SQL Server'' elapsed (reader [])))\<rparr>"

text \<open>The trait's default stream: the buffered result as a stream.\<close>

definition default_stream ::
  "arrow_api \<Rightarrow> (string \<Rightarrow> u32 option \<Rightarrow> u32 option \<Rightarrow> bool \<Rightarrow> string option \<Rightarrow> query_result result option)
   \<Rightarrow> string \<Rightarrow> u32 option \<Rightarrow> u32 option \<Rightarrow> bool \<Rightarrow> u32 option \<Rightarrow> message list result option" where
  "default_stream arrow execute sql limit offset include_total chunk_size =
     map_option (\<lambda>r. case r of Inl e \<Rightarrow> Inl e | Inr result \<Rightarrow> query_result_to_arrow_stream arrow result)
       (execute sql limit offset include_total None)"

section \<open>Queries\<close>

definition STREAMING_THRESHOLD :: u32 where
  "STREAMING_THRESHOLD = 1000"

definition respond :: "string \<Rightarrow> response_body \<Rightarrow> connect_response" where
  "respond request_id body = \<lparr>resp_id = request_id, resp_body = body\<rparr>"

fun stream_responses :: "string \<Rightarrow> message list \<Rightarrow> connect_response list" where
  "stream_responses request_id [] = []"
| "stream_responses request_id (Inr (Schema schema_ipc columns total_rows) # ms) =
     respond request_id (ArrowHeader schema_ipc columns total_rows) # stream_responses request_id ms"
| "stream_responses request_id (Inr (Batch ipc_bytes chunk_index) # ms) =
     respond request_id (ArrowBatch ipc_bytes chunk_index) # stream_responses request_id ms"
| "stream_responses request_id (Inr (Complete ms' bytes n rows) # ms) =
     respond request_id (ArrowComplete ms' bytes n rows None) # stream_responses request_id ms"
| "stream_responses request_id (Inl e # ms) = [respond request_id (ErrorBody (error_to_string e))]"

definition execute_query_streaming_arrow ::
  "provider \<Rightarrow> string \<Rightarrow> query_params \<Rightarrow> connect_response list option" where
  "execute_query_streaming_arrow pv request_id params =
     map_option (\<lambda>r. case r of
         Inl e \<Rightarrow> [respond request_id (ErrorBody (error_to_string e))]
       | Inr ms \<Rightarrow> stream_responses request_id ms)
     (pv_stream_arrow pv (qp_sql params) (qp_limit params) (qp_offset params) (qp_include_total params) None)"

definition buffered_responses ::
  "arrow_api \<Rightarrow> string \<Rightarrow> query_format \<Rightarrow> query_result \<Rightarrow> connect_response list" where
  "buffered_responses arrow request_id fmt result =
     (case (fmt, qr_record_batch result) of
        (Arrow, Some batch) \<Rightarrow>
          (case schema_to_ipc_bytes arrow (rb_schema batch) of
             Inl e \<Rightarrow> [respond request_id (ErrorBody (''Arrow schema serialization failed: '' @ e))]
           | Inr schema_ipc \<Rightarrow>
               (case batch_to_ipc_bytes arrow batch of
                  Inl e \<Rightarrow> [respond request_id (ErrorBody (''Arrow batch serialization failed: '' @ e))]
                | Inr ipc_bytes \<Rightarrow>
                    [respond request_id (ArrowHeader schema_ipc
                       (case qr_columns result of Some c \<Rightarrow> c | None \<Rightarrow> []) (qr_total_rows result)),
                     respond request_id (ArrowBatch ipc_bytes 0),
                     respond request_id (ArrowComplete (qr_execution_time_ms result)
                       (qr_bytes_processed result) 1 (of_nat (rb_num_rows batch)) (qr_job_id result))]))
      | _ \<Rightarrow> [respond request_id (Result (query_result_to_json result))])"

definition use_streaming :: "query_params \<Rightarrow> bool" where
  "use_streaming params =
     (case qp_limit params of Some limit \<Rightarrow> \<not> limit \<le> STREAMING_THRESHOLD | None \<Rightarrow> True)"

text \<open>\<open>params.ok_or_else(..).and_then(serde_json::from_value)\<close>.\<close>

definition read_params ::
  "(json \<Rightarrow> string) \<Rightarrow> string \<Rightarrow> (json \<Rightarrow> 'p option) \<Rightarrow> json option \<Rightarrow> string + 'p" where
  "read_params serde_err missing from_json params =
     (case params of
        None \<Rightarrow> Inl missing
      | Some v \<Rightarrow> (case from_json v of None \<Rightarrow> Inl (serde_err v) | Some p \<Rightarrow> Inr p))"

definition handle_execute_query_maybe_stream ::
  "arrow_api \<Rightarrow> (json \<Rightarrow> string) \<Rightarrow> provider \<Rightarrow> string \<Rightarrow> json option \<Rightarrow> connect_response list option" where
  "handle_execute_query_maybe_stream arrow serde_err pv request_id params =
     (case read_params serde_err ''execute_query requires params'' query_params_from_json params of
        Inl e \<Rightarrow> Some [respond request_id (ErrorBody e)]
      | Inr p \<Rightarrow>
          if \<not> use_streaming p then
            map_option (\<lambda>r. case r of
                Inl e \<Rightarrow> [respond request_id (ErrorBody (error_to_string e))]
              | Inr result \<Rightarrow> buffered_responses arrow request_id (qp_format p) result)
            (pv_execute_query pv (qp_sql p) (qp_limit p) (qp_offset p) (qp_include_total p) (qp_job_id p))
          else execute_query_streaming_arrow pv request_id p)"

definition handle_test_connection :: "provider \<Rightarrow> (string + json) option" where
  "handle_test_connection pv =
     map_option (\<lambda>r. case r of Inl e \<Rightarrow> Inl (error_to_string e) | Inr ok \<Rightarrow> Inr (JBool ok))
       (pv_test_connection pv)"

definition database_reachable :: "provider \<Rightarrow> (string + bool) option" where
  "database_reachable pv =
     map_option (\<lambda>r. case r of Inl e \<Rightarrow> Inl (error_to_string e) | Inr ok \<Rightarrow> Inr ok)
       (pv_test_connection pv)"

definition handle_dry_run ::
  "(json \<Rightarrow> string) \<Rightarrow> provider \<Rightarrow> json option \<Rightarrow> (string + json) option" where
  "handle_dry_run serde_err pv params =
     (case read_params serde_err ''dry_run requires params'' dry_run_params_from_json params of
        Inl e \<Rightarrow> Some (Inl e)
      | Inr p \<Rightarrow>
          map_option (\<lambda>r. case r of
              Inl e \<Rightarrow> Inl (error_to_string e)
            | Inr result \<Rightarrow> Inr (dry_run_result_to_json result))
          (pv_dry_run pv (drp_sql p)))"

section \<open>Catalog discovery\<close>

definition ensure_query_ok :: "query_result \<Rightarrow> string \<Rightarrow> string option" where
  "ensure_query_ok result context_msg =
     (if qr_status result = Error \<or> qr_error result \<noteq> None
      then Some (context_msg @ '': '' @
        (case qr_error result of Some e \<Rightarrow> e | None \<Rightarrow> ''query failed with no error message''))
      else None)"

definition REDSHIFT_SYSTEM_SCHEMAS :: "string list" where
  "REDSHIFT_SYSTEM_SCHEMAS =
     [''pg_catalog'', ''pg_internal'', ''information_schema'', ''pg_toast'', ''pg_automv'',
      ''pg_auto_copy'', ''pg_mv'', ''pg_s3'', ''catalog_history'']"

definition REDSHIFT_SYSTEM_SCHEMA_PREFIXES :: "string list" where
  "REDSHIFT_SYSTEM_SCHEMA_PREFIXES = [''pg_temp_'']"

definition is_redshift_system_schema :: "string \<Rightarrow> bool" where
  "is_redshift_system_schema name =
     (let lower = to_lowercase name in
      list_ex (\<lambda>s. lower = s) REDSHIFT_SYSTEM_SCHEMAS \<or>
      list_ex (\<lambda>p. starts_with lower p) REDSHIFT_SYSTEM_SCHEMA_PREFIXES)"

definition filter_containers_to_scope :: "string list \<Rightarrow> string list option \<Rightarrow> string list" where
  "filter_containers_to_scope containers scope =
     (case scope of
        Some sc \<Rightarrow>
          if sc \<noteq> [] then filter (\<lambda>name. list_ex (\<lambda>s. eq_ignore_ascii_case s name) sc) containers
          else containers
      | None \<Rightarrow> containers)"

definition quoted :: "string \<Rightarrow> string" where
  "quoted s = [CHR 0x27] @ escape_sql_literal s @ [CHR 0x27]"

text \<open>One discovery query: call, check, read the batch; \<open>read\<close> may panic on a missing column.\<close>

definition discovery_query ::
  "provider \<Rightarrow> string \<Rightarrow> string \<Rightarrow> (record_batch option \<Rightarrow> 'a option) \<Rightarrow> (string + 'a) option" where
  "discovery_query pv sql context_msg readb =
     Option.bind (pv_execute_query pv sql None None False None) (\<lambda>r. case r of
        Inl e \<Rightarrow> Some (Inl (context_msg @ '': '' @ error_to_string e))
      | Inr result \<Rightarrow>
          (case ensure_query_ok result context_msg of
             Some e \<Rightarrow> Some (Inl e)
           | None \<Rightarrow> map_option Inr (readb (qr_record_batch result))))"

definition containers_sql :: "string \<Rightarrow> string option" where
  "containers_sql db_type =
     (if db_type = ''postgres'' then Some
        (''SELECT schema_name FROM information_schema.schemata ''
         @ ''WHERE schema_name NOT IN ('pg_catalog', 'information_schema', 'pg_toast') ''
         @ ''ORDER BY schema_name'')
      else if db_type = ''redshift'' then Some
        (''SELECT schema_name FROM svv_all_schemas ''
         @ ''WHERE database_name = current_database() ''
         @ ''AND schema_name NOT IN ('information_schema', 'pg_catalog', 'pg_internal', 'pg_toast', ''
         @ '''pg_automv', 'pg_auto_copy', 'pg_mv', 'pg_s3', 'catalog_history') ''
         @ ''ORDER BY schema_name'')
      else if db_type = ''mysql'' then Some
        (''SELECT SCHEMA_NAME FROM information_schema.SCHEMATA ''
         @ ''WHERE SCHEMA_NAME NOT IN ('mysql', 'information_schema', 'performance_schema', 'sys') ''
         @ ''ORDER BY SCHEMA_NAME'')
      else if db_type = ''clickhouse'' then Some
        (''SELECT name FROM system.databases ''
         @ ''WHERE name NOT IN ('system', 'INFORMATION_SCHEMA', 'information_schema') ''
         @ ''ORDER BY name'')
      else if db_type = ''sqlserver'' \<or> db_type = ''synapse'' then Some
        (''SELECT SCHEMA_NAME FROM INFORMATION_SCHEMA.SCHEMATA ''
         @ ''WHERE SCHEMA_NAME NOT IN ('sys', 'INFORMATION_SCHEMA', 'guest') ''
         @ ''ORDER BY SCHEMA_NAME'')
      else None)"

definition discover_containers :: "provider \<Rightarrow> string \<Rightarrow> (string + string list) option" where
  "discover_containers pv db_type =
     (case containers_sql db_type of
        None \<Rightarrow> Some (Inl (''Unsupported database type for catalog discovery: '' @ db_type))
      | Some sql \<Rightarrow>
          discovery_query pv sql ''Failed to list containers'' (\<lambda>batch.
            let items = extract_string_col_from_batch batch 0 in
            Some (if db_type = ''redshift''
                  then filter (\<lambda>n. \<not> is_redshift_system_schema n) items else items)))"

definition tables_sql :: "string \<Rightarrow> string \<Rightarrow> string option" where
  "tables_sql db_type container =
     (if db_type = ''postgres'' \<or> db_type = ''redshift'' then Some
        (''SELECT table_name, table_type FROM information_schema.tables ''
         @ ''WHERE table_schema = '' @ quoted container @ '' ORDER BY table_name'')
      else if db_type = ''mysql'' then Some
        (''SELECT TABLE_NAME, TABLE_TYPE FROM information_schema.TABLES ''
         @ ''WHERE TABLE_SCHEMA = '' @ quoted container @ '' ORDER BY TABLE_NAME'')
      else if db_type = ''clickhouse'' then Some
        (''SELECT name, engine FROM system.tables ''
         @ ''WHERE database = '' @ quoted container @ '' ORDER BY name'')
      else if db_type = ''sqlserver'' \<or> db_type = ''synapse'' then Some
        (''SELECT TABLE_NAME, TABLE_TYPE FROM INFORMATION_SCHEMA.TABLES ''
         @ ''WHERE TABLE_SCHEMA = '' @ quoted container @ '' ORDER BY TABLE_NAME'')
      else None)"

text \<open>\<open>batch.column(i)\<close> panics out of range; the down-cast fails unless it is a text column.\<close>

definition column_texts :: "record_batch \<Rightarrow> nat \<Rightarrow> string option list option option" where
  "column_texts batch i =
     (if i < length (rb_columns batch)
      then Some (let col = rb_columns batch ! i in
                 if arr_type col = DtUtf8 then Some (map cell_str (arr_vals col)) else None)
      else None)"

definition read_tables :: "record_batch option \<Rightarrow> (string \<times> string) list option" where
  "read_tables batch =
     (case batch of
        None \<Rightarrow> Some []
      | Some b \<Rightarrow>
          do { names \<leftarrow> column_texts b 0; types \<leftarrow> column_texts b 1;
               Some (case (names, types) of
                 (Some ns, Some ts) \<Rightarrow>
                   List.map_filter (\<lambda>i. map_option (\<lambda>n.
                       (n, case ts ! i of Some t \<Rightarrow> t | None \<Rightarrow> ''TABLE'')) (ns ! i))
                     [0..<rb_num_rows b]
               | _ \<Rightarrow> []) })"

definition discover_tables ::
  "provider \<Rightarrow> string \<Rightarrow> string \<Rightarrow> (string + (string \<times> string) list) option" where
  "discover_tables pv db_type container =
     (case tables_sql db_type container of
        None \<Rightarrow> Some (Inl (''Unsupported database type: '' @ db_type))
      | Some sql \<Rightarrow>
          discovery_query pv sql
            (''Failed to list tables in '' @ [CHR 0x27] @ container @ [CHR 0x27]) read_tables)"

definition columns_sql :: "string \<Rightarrow> string \<Rightarrow> string \<Rightarrow> string option" where
  "columns_sql db_type container table =
     (if db_type = ''postgres'' \<or> db_type = ''redshift'' then Some
        (''SELECT column_name, data_type, '' @ quoted [] @ '' as description ''
         @ ''FROM information_schema.columns ''
         @ ''WHERE table_schema = '' @ quoted container @ '' AND table_name = '' @ quoted table
         @ '' ORDER BY ordinal_position'')
      else if db_type = ''mysql'' then Some
        (''SELECT COLUMN_NAME, DATA_TYPE, COLUMN_COMMENT ''
         @ ''FROM information_schema.COLUMNS ''
         @ ''WHERE TABLE_SCHEMA = '' @ quoted container @ '' AND TABLE_NAME = '' @ quoted table
         @ '' ORDER BY ORDINAL_POSITION'')
      else if db_type = ''clickhouse'' then Some
        (''SELECT name, type, comment ''
         @ ''FROM system.columns ''
         @ ''WHERE database = '' @ quoted container @ '' AND table = '' @ quoted table
         @ '' ORDER BY position'')
      else if db_type = ''sqlserver'' \<or> db_type = ''synapse'' then Some
        (''SELECT COLUMN_NAME, DATA_TYPE, '' @ quoted [] @ '' as description ''
         @ ''FROM INFORMATION_SCHEMA.COLUMNS ''
         @ ''WHERE TABLE_SCHEMA = '' @ quoted container @ '' AND TABLE_NAME = '' @ quoted table
         @ '' ORDER BY ORDINAL_POSITION'')
      else None)"

definition read_columns :: "record_batch option \<Rightarrow> catalog_column list option" where
  "read_columns batch =
     (case batch of
        None \<Rightarrow> Some []
      | Some b \<Rightarrow>
          do { names \<leftarrow> column_texts b 0; types \<leftarrow> column_texts b 1; descs \<leftarrow> column_texts b 2;
               Some (case (names, types, descs) of
                 (Some ns, Some ts, Some ds) \<Rightarrow>
                   List.map_filter (\<lambda>i. map_option (\<lambda>n.
                       \<lparr>cc_name = n,
                        cc_native_type = (case ts ! i of Some t \<Rightarrow> t | None \<Rightarrow> ''unknown''),
                        cc_description = (case ds ! i of Some d \<Rightarrow> if d = [] then None else Some d
                                                       | None \<Rightarrow> None)\<rparr>) (ns ! i))
                     [0..<rb_num_rows b]
               | _ \<Rightarrow> []) })"

definition discover_columns ::
  "provider \<Rightarrow> string \<Rightarrow> string \<Rightarrow> string \<Rightarrow> (string + catalog_column list) option" where
  "discover_columns pv db_type container table =
     (case columns_sql db_type container table of
        None \<Rightarrow> Some (Inl (''Unsupported database type: '' @ db_type))
      | Some sql \<Rightarrow>
          discovery_query pv sql
            (''Failed to list columns for '' @ [CHR 0x27] @ container @ ''.'' @ table @ [CHR 0x27])
            read_columns)"

text \<open>The crawl: a failing container or table is skipped and its error recorded.\<close>

fun crawl_tables ::
  "(string \<Rightarrow> (string + catalog_column list) option) \<Rightarrow> (string \<times> string) list
   \<Rightarrow> (catalog_table list \<times> string list) option" where
  "crawl_tables columns [] = Some ([], [])"
| "crawl_tables columns ((table_name, table_type) # tables) =
     do { r \<leftarrow> columns table_name;
          (ts, es) \<leftarrow> crawl_tables columns tables;
          Some (case r of
             Inl e \<Rightarrow> (ts, e # es)
           | Inr cols \<Rightarrow>
               (\<lparr>ct_name = table_name, ct_native_type = Some table_type, ct_columns = cols\<rparr> # ts, es)) }"

fun crawl_containers ::
  "(string \<Rightarrow> (string + (string \<times> string) list) option)
   \<Rightarrow> (string \<Rightarrow> string \<Rightarrow> (string + catalog_column list) option)
   \<Rightarrow> string list \<Rightarrow> (catalog_container list \<times> string list) option" where
  "crawl_containers tables columns [] = Some ([], [])"
| "crawl_containers tables columns (container_name # containers) =
     do { r \<leftarrow> tables container_name;
          (case r of
             Inl e \<Rightarrow>
               do { (cs, es) \<leftarrow> crawl_containers tables columns containers; Some (cs, e # es) }
           | Inr tbls \<Rightarrow>
               do { (ts, es') \<leftarrow> crawl_tables (columns container_name) tbls;
                    (cs, es) \<leftarrow> crawl_containers tables columns containers;
                    Some (\<lparr>cn_name = container_name, cn_tables = ts\<rparr> # cs, es' @ es) }) }"

definition handle_discover_catalog ::
  "(json \<Rightarrow> string) \<Rightarrow> provider \<Rightarrow> string \<Rightarrow> json option \<Rightarrow> (string + json) option" where
  "handle_discover_catalog serde_err pv db_type params =
     (case (case params of
              None \<Rightarrow> Inr discover_params_default
            | Some v \<Rightarrow> (case discover_params_from_json v of
                None \<Rightarrow> Inl (''invalid discover_catalog params: '' @ serde_err v) | Some p \<Rightarrow> Inr p)) of
        Inl e \<Rightarrow> Some (Inl e)
      | Inr p \<Rightarrow>
          Option.bind (discover_containers pv db_type) (\<lambda>r. case r of
             Inl e \<Rightarrow> Some (Inl e)
           | Inr found \<Rightarrow>
               let containers = filter_containers_to_scope found (dcp_containers p) in
               if dcp_containers_only p
               then Some (Inr (catalog_result_to_json
                  \<lparr>cr_containers = map (\<lambda>name. \<lparr>cn_name = name, cn_tables = []\<rparr>) containers,
                   cr_errors = []\<rparr>))
               else do { (cs, errors) \<leftarrow> crawl_containers (discover_tables pv db_type)
                           (discover_columns pv db_type) containers;
                         Some (if containers \<noteq> [] \<and> cs = []
                           then Inl (''discover_catalog failed for every container (''
                                @ show_nat (length containers) @ '' attempted): '' @ str_join ''; '' errors)
                           else Inr (catalog_result_to_json \<lparr>cr_containers = cs, cr_errors = errors\<rparr>)) }))"

section \<open>Requests\<close>

definition execute ::
  "arrow_api \<Rightarrow> (json \<Rightarrow> string) \<Rightarrow> provider \<Rightarrow> string \<Rightarrow> connect_request \<Rightarrow> connect_response list option" where
  "execute arrow serde_err pv db_type request =
     (let request_id = req_id request;
          single = map_option (\<lambda>r. [respond request_id (case r of
                      Inr value \<Rightarrow> Result value | Inl e \<Rightarrow> ErrorBody e)]) in
      case req_op request of
        ExecuteQuery \<Rightarrow> handle_execute_query_maybe_stream arrow serde_err pv request_id (req_params request)
      | TestConnection \<Rightarrow> single (handle_test_connection pv)
      | DryRun \<Rightarrow> single (handle_dry_run serde_err pv (req_params request))
      | DiscoverCatalog \<Rightarrow> single (handle_discover_catalog serde_err pv db_type (req_params request)))"

section \<open>Replies\<close>

text \<open>
  A complete reply: one result or one error, or an Arrow header, batches numbered from 0 and a
  final \<open>ArrowComplete\<close> that counts them (or an error instead), all under the request's id.
  \<open>reply_seq None\<close> reads from the start, \<open>reply_seq (Some k)\<close> after the header and \<open>k\<close> batches.
\<close>

fun reply_seq :: "nat option \<Rightarrow> response_body list \<Rightarrow> bool" where
  "reply_seq None [Result _] = True"
| "reply_seq None (ArrowHeader _ _ _ # bs) = reply_seq (Some 0) bs"
| "reply_seq p [ErrorBody _] = True"
| "reply_seq (Some k) (ArrowBatch _ i # bs) = (i = of_nat k \<and> reply_seq (Some (k + 1)) bs)"
| "reply_seq (Some k) [ArrowComplete _ _ n _ _] = (n = of_nat k)"
| "reply_seq _ _ = False"

definition complete_reply :: "string \<Rightarrow> connect_response list \<Rightarrow> bool" where
  "complete_reply i rs \<longleftrightarrow> list_all (\<lambda>r. resp_id r = i) rs \<and> reply_seq None (map resp_body rs)"

lemma respond_simps [simp]: "resp_id (respond i b) = i" "resp_body (respond i b) = b"
  by (simp_all add: respond_def)

lemma complete_reply_single [simp]:
  "complete_reply i [respond i (Result v)]" "complete_reply i [respond i (ErrorBody e)]"
  by (simp_all add: complete_reply_def)

lemma complete_reply_case [simp]:
  "complete_reply i [respond i (case r of Inr v \<Rightarrow> Result v | Inl e \<Rightarrow> ErrorBody e)]"
  by (cases r) simp_all

fun phase_reply :: "phase \<Rightarrow> nat option" where
  "phase_reply (Open k) = Some k"
| "phase_reply _ = None"

lemma proto_run_closed_iff: "proto_run Closed ms = Some Closed \<longleftrightarrow> ms = []"
  by (cases ms) auto

lemma stream_responses_seq:
  "\<lbrakk>proto_run p ms = Some Closed; p \<noteq> Closed\<rbrakk> \<Longrightarrow>
   reply_seq (phase_reply p) (map resp_body (stream_responses i ms))"
proof (induction i ms arbitrary: p rule: stream_responses.induct)
  case (2 i schema_ipc columns total_rows ms)
  then show ?case by (cases p) (auto dest: 2(1) [of "Open 0"])
next
  case (3 i ipc_bytes k ms)
  then show ?case by (cases p) (auto dest: 3(1) [of "Open (Suc n)" for n] split: if_splits)
next
  case (4 i t bytes n rows ms)
  then show ?case by (cases p) (auto simp: proto_run_closed_iff split: if_splits)
next
  case (5 i e ms)
  then show ?case by (cases p) auto
qed auto

lemma stream_responses_id: "list_all (\<lambda>r. resp_id r = i) (stream_responses i ms)"
  by (induction i ms rule: stream_responses.induct) auto

lemma stream_responses_complete:
  "stream_phase ms = Some Closed \<Longrightarrow> complete_reply i (stream_responses i ms)"
  using stream_responses_seq [of Init ms i]
  by (simp add: complete_reply_def stream_responses_id stream_phase_def)

lemma buffered_responses_complete: "complete_reply i (buffered_responses arrow i fmt r)"
  by (cases fmt) (auto simp: buffered_responses_def complete_reply_def split: option.split sum.split)

text \<open>What the executor relies on: a stream that is read to its end is closed.\<close>

locale stream_provider =
  fixes pv :: provider
  assumes stream_closed:
    "pv_stream_arrow pv sql limit offset tot chunk = Some (Inr ms) \<Longrightarrow> stream_phase ms = Some Closed"
begin

lemma execute_complete:
  assumes "execute arrow serde_err pv db_type request = Some rs"
  shows "complete_reply (req_id request) rs"
proof (cases "req_op request")
  case ExecuteQuery
  then have h: "handle_execute_query_maybe_stream arrow serde_err pv (req_id request) (req_params request)
      = Some rs" using assms by (simp add: execute_def)
  show ?thesis
  proof (cases "read_params serde_err ''execute_query requires params'' query_params_from_json
      (req_params request)")
    case (Inr p)
    show ?thesis
    proof (cases "use_streaming p")
      case True
      then obtain r where r: "pv_stream_arrow pv (qp_sql p) (qp_limit p) (qp_offset p)
            (qp_include_total p) None = Some r"
        "rs = (case r of Inl e \<Rightarrow> [respond (req_id request) (ErrorBody (error_to_string e))]
                        | Inr ms \<Rightarrow> stream_responses (req_id request) ms)"
        using h Inr
        by (auto simp: handle_execute_query_maybe_stream_def execute_query_streaming_arrow_def)
      then show ?thesis by (cases r) (auto intro: stream_responses_complete stream_closed)
    next
      case False
      then obtain q where "rs = (case q of Inl e \<Rightarrow> [respond (req_id request) (ErrorBody (error_to_string e))]
          | Inr result \<Rightarrow> buffered_responses arrow (req_id request) (qp_format p) result)"
        using h Inr by (auto simp: handle_execute_query_maybe_stream_def)
      then show ?thesis by (cases q) (auto intro: buffered_responses_complete)
    qed
  qed (use h in \<open>auto simp: handle_execute_query_maybe_stream_def\<close>)
qed (use assms in \<open>auto simp: execute_def Let_def\<close>)

end

locale total_provider = stream_provider +
  assumes execute_total: "\<exists>r. pv_execute_query pv sql limit offset tot job = Some r"
    and stream_total: "\<exists>r. pv_stream_arrow pv sql limit offset tot chunk = Some r"
    and test_total: "\<exists>r. pv_test_connection pv = Some r"
begin

lemma query_answered:
  assumes "req_op request \<in> {ExecuteQuery, TestConnection}"
  shows "\<exists>rs. execute arrow serde_err pv db_type request = Some rs \<and>
    complete_reply (req_id request) rs"
proof -
  have "\<exists>rs. execute arrow serde_err pv db_type request = Some rs"
  proof (cases "req_op request")
    case ExecuteQuery
    show ?thesis
    proof (cases "read_params serde_err ''execute_query requires params'' query_params_from_json
        (req_params request)")
      case (Inr p)
      then show ?thesis
        using ExecuteQuery
          execute_total [of "qp_sql p" "qp_limit p" "qp_offset p" "qp_include_total p" "qp_job_id p"]
          stream_total [of "qp_sql p" "qp_limit p" "qp_offset p" "qp_include_total p" None]
        by (auto simp: execute_def handle_execute_query_maybe_stream_def
            execute_query_streaming_arrow_def Let_def)
    qed (use ExecuteQuery in \<open>simp add: execute_def handle_execute_query_maybe_stream_def\<close>)
  qed (use assms test_total in \<open>auto simp: execute_def handle_test_connection_def\<close>)
  then show ?thesis using execute_complete by blast
qed

end

text \<open>The providers modelled in full keep this contract.\<close>

lemma stream_read_sound:
  assumes "sound_flow Q f"
  shows "\<exists>ms. stream_read f = Some (Inr ms)"
  using assms by (cases f) auto

lemma stream_read_closed:
  assumes "sound_flow Q f" "flow_ended f" "stream_read f = Some (Inr ms)"
  shows "stream_phase ms = Some Closed"
  using assms by (cases f) (auto simp: stream_ended_def)

lemma drive_start_built: "drive_built drive_start"
  by (simp add: drive_built_def drive_start_def)

lemma drive_start_inv: "drive_inv drive_start (reader [])"
  by (simp add: drive_inv_def drive_start_def at_phase_def stream_phase_def)

lemma sqlx_flow_ended: "flow_ended (sqlx_stream arrow infos convert pool elapsed sql limit offset tot chunk (reader []))"
  unfolding sqlx_stream_def drive_sqlx_stream_arrow_def Let_def
  by (rule flow_ok_ended [OF drive_loop_ok [OF drive_start_inv]])

lemma pg_stream_sound:
  "sound_flow (\<lambda>_. True) (pg_stream_arrow arrow api pool elapsed sql limit offset tot chunk (reader []))"
  unfolding pg_stream_arrow_def sqlx_stream_def drive_sqlx_stream_arrow_def Let_def
  by (rule pg_writer.drive_loop_sound) (simp_all add: pg_row_to_arrow_def drive_start_built)

lemma mysql_stream_sound:
  "sound_flow (\<lambda>_. True) (mysql_stream_arrow arrow api pool elapsed sql limit offset tot chunk (reader []))"
  unfolding mysql_stream_arrow_def sqlx_stream_def drive_sqlx_stream_arrow_def Let_def
  by (rule mysql_writer.drive_loop_sound) (simp_all add: mysql_row_to_arrow_def drive_start_built)

lemma pg_flow_ended:
  "flow_ended (pg_stream_arrow arrow api pool elapsed sql limit offset tot chunk (reader []))"
  unfolding pg_stream_arrow_def by (rule sqlx_flow_ended)

lemma mysql_flow_ended:
  "flow_ended (mysql_stream_arrow arrow api pool elapsed sql limit offset tot chunk (reader []))"
  unfolding mysql_stream_arrow_def by (rule sqlx_flow_ended)

interpretation pg_exec: total_provider "pg_provider arrow api pool elapsed"
proof unfold_locales
  fix sql limit offset tot chunk ms job
  show "stream_phase ms = Some Closed"
    if "pv_stream_arrow (pg_provider arrow api pool elapsed) sql limit offset tot chunk = Some (Inr ms)"
    using that stream_read_closed [OF pg_stream_sound pg_flow_ended] by (simp add: pg_provider_def)
  show "\<exists>r. pv_execute_query (pg_provider arrow api pool elapsed) sql limit offset tot job = Some r"
    using pg_queries.execute_returns by (fastforce simp: pg_provider_def)
  show "\<exists>r. pv_stream_arrow (pg_provider arrow api pool elapsed) sql limit offset tot chunk = Some r"
    using stream_read_sound [OF pg_stream_sound] by (fastforce simp: pg_provider_def)
  show "\<exists>r. pv_test_connection (pg_provider arrow api pool elapsed) = Some r" by (simp add: pg_provider_def)
qed

interpretation mysql_exec: total_provider "mysql_provider arrow api rx pool elapsed"
proof unfold_locales
  fix sql limit offset tot chunk ms job
  show "stream_phase ms = Some Closed"
    if "pv_stream_arrow (mysql_provider arrow api rx pool elapsed) sql limit offset tot chunk = Some (Inr ms)"
    using that stream_read_closed [OF mysql_stream_sound mysql_flow_ended]
    by (simp add: mysql_provider_def)
  show "\<exists>r. pv_execute_query (mysql_provider arrow api rx pool elapsed) sql limit offset tot job = Some r"
    using mysql_queries.execute_returns by (fastforce simp: mysql_provider_def)
  show "\<exists>r. pv_stream_arrow (mysql_provider arrow api rx pool elapsed) sql limit offset tot chunk = Some r"
    using stream_read_sound [OF mysql_stream_sound] by (fastforce simp: mysql_provider_def)
  show "\<exists>r. pv_test_connection (mysql_provider arrow api rx pool elapsed) = Some r" by (simp add: mysql_provider_def)
qed

lemma tds_stream_closed:
  assumes "stream_read (execute_tds_stream_arrow arrow api query sql limit offset chunk name elapsed (reader []))
    = Some (Inr ms)"
  shows "stream_phase ms = Some Closed"
proof -
  have "query (tds_paginated_sql 10000 sql limit offset) \<noteq> TdsStalled"
    using assms by (auto simp: execute_tds_stream_arrow_def Let_def)
  then show ?thesis
    using stream_read_closed [OF tds_stream_sound [where query = query] flow_ok_ended [OF tds_stream_ok [OF fresh_chan_phase]] assms]
    by simp
qed

interpretation sqlserver_exec: stream_provider "sqlserver_provider arrow api rx client elapsed"
  by unfold_locales (rule tds_stream_closed, simp add: sqlserver_provider_def)

lemma tds_stream_reads:
  assumes "tds_answers client"
  obtains ms where "stream_read (execute_tds_stream_arrow arrow api (tds_query client) sql limit offset
     chunk name elapsed (reader [])) = Some (Inr ms)"
  using assms stream_read_sound [OF tds_stream_sound [where query = "tds_query client" and ch = "reader []"
      and sql = sql and limit = limit and offset = offset and chunk_size = chunk and name = name
      and arrow = arrow and api = api and elapsed = elapsed]]
  by (auto simp: tds_answers_def)

lemma tds_test_answers: "tds_answers client \<Longrightarrow> \<exists>r. tds_test_connection label client = Some r"
  by (cases "tds_query client ''SELECT 1''") (simp_all add: tds_answers_def tds_test_connection_def)

lemma sqlserver_total:
  assumes "tds_answers client"
  shows "total_provider (sqlserver_provider arrow api rx client elapsed)"
proof unfold_locales
  fix sql limit offset tot chunk job
  show "\<exists>r. pv_execute_query (sqlserver_provider arrow api rx client elapsed) sql limit offset tot job = Some r"
    using execute_tds_query_returns [OF assms] by (fastforce simp: sqlserver_provider_def)
  show "\<exists>r. pv_stream_arrow (sqlserver_provider arrow api rx client elapsed) sql limit offset tot chunk = Some r"
    by (rule tds_stream_reads [OF assms]) (auto simp: sqlserver_provider_def)
  show "\<exists>r. pv_test_connection (sqlserver_provider arrow api rx client elapsed) = Some r"
    using tds_test_answers [OF assms] by (simp add: sqlserver_provider_def sqlserver_test_connection_def)
qed

section \<open>Catalog discovery\<close>

text \<open>
  The reference crawl: every container whose tables can be listed, with every table whose columns
  can be listed, in order; and all the errors met on the way.
\<close>

definition container_tables ::
  "(string \<Rightarrow> string + catalog_column list) \<Rightarrow> (string \<times> string) list \<Rightarrow> catalog_table list" where
  "container_tables C tbls = List.map_filter (\<lambda>(t, ty). case C t of
      Inl _ \<Rightarrow> None
    | Inr cols \<Rightarrow> Some \<lparr>ct_name = t, ct_native_type = Some ty, ct_columns = cols\<rparr>) tbls"

definition crawl_result ::
  "(string \<Rightarrow> string + (string \<times> string) list) \<Rightarrow> (string \<Rightarrow> string \<Rightarrow> string + catalog_column list)
   \<Rightarrow> string list \<Rightarrow> catalog_container list" where
  "crawl_result T C cs = List.map_filter (\<lambda>c. case T c of
      Inl _ \<Rightarrow> None
    | Inr tbls \<Rightarrow> Some \<lparr>cn_name = c, cn_tables = container_tables (C c) tbls\<rparr>) cs"

definition table_errors :: "(string \<Rightarrow> string + catalog_column list) \<Rightarrow> (string \<times> string) list \<Rightarrow> string list" where
  "table_errors C tbls = List.map_filter (\<lambda>(t, _). case C t of Inl e \<Rightarrow> Some e | Inr _ \<Rightarrow> None) tbls"

definition crawl_errors ::
  "(string \<Rightarrow> string + (string \<times> string) list) \<Rightarrow> (string \<Rightarrow> string \<Rightarrow> string + catalog_column list)
   \<Rightarrow> string list \<Rightarrow> string list" where
  "crawl_errors T C cs =
     concat (map (\<lambda>c. case T c of Inl e \<Rightarrow> [e] | Inr tbls \<Rightarrow> table_errors (C c) tbls) cs)"

lemma crawl_tables_result:
  "\<forall>t \<in> fst ` set tbls. columns t = Some (C t) \<Longrightarrow>
   crawl_tables columns tbls = Some (container_tables C tbls, table_errors C tbls)"
  by (induction columns tbls rule: crawl_tables.induct)
     (auto simp: container_tables_def table_errors_def List.map_filter_simps split: sum.split)

lemma crawl_containers_result:
  assumes "\<forall>c \<in> set cs. tables c = Some (T c) \<and>
     (\<forall>tbls. T c = Inr tbls \<longrightarrow> (\<forall>t \<in> fst ` set tbls. columns c t = Some (C c t)))"
  shows "crawl_containers tables columns cs = Some (crawl_result T C cs, crawl_errors T C cs)"
  using assms
proof (induction cs)
  case (Cons c cs)
  then show ?case
    by (cases "T c")
       (auto simp: crawl_result_def crawl_errors_def List.map_filter_simps crawl_tables_result [of _ _ "C c"])
qed (simp add: crawl_result_def crawl_errors_def List.map_filter_simps)

text \<open>
  C9. Catalog discovery tolerates failures: with the containers found and filtered to the scope,
  the reply is the catalog of all containers and tables that could be read, with every error met,
  and it is an error only if there are containers and all of them failed.
\<close>

theorem discovery_tolerant:
  assumes "discover_containers pv db_type = Some (Inr found)"
    "containers = filter_containers_to_scope found scope"
    "\<forall>c \<in> set containers. discover_tables pv db_type c = Some (T c) \<and>
       (\<forall>tbls. T c = Inr tbls \<longrightarrow>
          (\<forall>t \<in> fst ` set tbls. discover_columns pv db_type c t = Some (C c t)))"
    "params = discover_params_to_json
       \<lparr>dcp_containers = scope, dcp_include_public_datasets = pub, dcp_containers_only = False\<rparr>"
  shows "handle_discover_catalog serde_err pv db_type (Some params) = Some
    (if containers \<noteq> [] \<and> (\<forall>c \<in> set containers. \<exists>e. T c = Inl e)
     then Inl (''discover_catalog failed for every container ('' @ show_nat (length containers)
            @ '' attempted): '' @ str_join ''; '' (crawl_errors T C containers))
     else Inr (catalog_result_to_json
            \<lparr>cr_containers = crawl_result T C containers, cr_errors = crawl_errors T C containers\<rparr>))"
proof -
  have "discover_params_from_json params
      = Some \<lparr>dcp_containers = scope, dcp_include_public_datasets = pub, dcp_containers_only = False\<rparr>"
    unfolding assms(4) by (rule discover_params_read_back)
  moreover have "crawl_result T C containers = [] \<longleftrightarrow> (\<forall>c \<in> set containers. \<exists>e. T c = Inl e)"
    by (induction containers) (auto simp: crawl_result_def List.map_filter_simps split: sum.splits)
  ultimately show ?thesis
    using assms(1,2) crawl_containers_result [OF assms(3)]
    by (auto simp: handle_discover_catalog_def Let_def)
qed

text \<open>A provider with one readable and one forbidden schema, for the witness.\<close>

definition text_batch :: "string list list \<Rightarrow> record_batch" where
  "text_batch cols = \<lparr>rb_schema = map (\<lambda>_. (''c'', DtUtf8)) cols,
     rb_columns = map (\<lambda>c. \<lparr>arr_type = DtUtf8, arr_vals = map (\<lambda>s. Some (CStr s)) c\<rparr>) cols,
     rb_num_rows = (case cols of [] \<Rightarrow> 0 | c # _ \<Rightarrow> length c)\<rparr>"

definition demo_catalog :: provider where
  "demo_catalog =
     \<lparr>pv_test_connection = Some (Inr True),
      pv_execute_query = (\<lambda>sql _ _ _ _.
        if Some sql = containers_sql ''postgres''
        then Some (Inr (success_empty\<lparr>qr_record_batch := Some (text_batch [[''a'', ''b'']])\<rparr>))
        else if Some sql = tables_sql ''postgres'' ''a''
        then Some (Inr (success_empty\<lparr>qr_record_batch := Some (text_batch [[], []])\<rparr>))
        else Some (Inr (qr_error_result ''permission denied''))),
      pv_dry_run = (\<lambda>_. None), pv_stream_arrow = (\<lambda>_ _ _ _ _. None)\<rparr>"

abbreviation demo_T :: "string \<Rightarrow> string + (string \<times> string) list" where
  "demo_T \<equiv> (\<lambda>c. if c = ''a'' then Inr [] else Inl
     (''Failed to list tables in '' @ [CHR 0x27] @ c @ [CHR 0x27] @ '': permission denied''))"

lemma demo_catalog_containers:
  "discover_containers demo_catalog ''postgres'' = Some (Inr [''a'', ''b''])"
proof -
  obtain sql where "containers_sql ''postgres'' = Some sql" by (simp add: containers_sql_def)
  then show ?thesis
    by (simp add: discover_containers_def discovery_query_def demo_catalog_def ensure_query_ok_def
        success_empty_def text_batch_def extract_string_col_from_batch_def List.map_filter_simps)
qed

lemma demo_catalog_tables:
  "discover_tables demo_catalog ''postgres'' ''a'' = Some (demo_T ''a'')"
  "discover_tables demo_catalog ''postgres'' ''b'' = Some (demo_T ''b'')"
proof -
  obtain c a b where q: "containers_sql ''postgres'' = Some c" "tables_sql ''postgres'' ''a'' = Some a"
    "tables_sql ''postgres'' ''b'' = Some b"
    by (simp add: containers_sql_def tables_sql_def)
  have ne: "a \<noteq> c" "b \<noteq> c" "b \<noteq> a"
    using q by (auto simp: containers_sql_def tables_sql_def quoted_def escape_sql_literal_def)
  show "discover_tables demo_catalog ''postgres'' ''a'' = Some (demo_T ''a'')"
    using q ne by (simp add: discover_tables_def discovery_query_def demo_catalog_def ensure_query_ok_def
        success_empty_def text_batch_def read_tables_def column_texts_def List.map_filter_simps)
  show "discover_tables demo_catalog ''postgres'' ''b'' = Some (demo_T ''b'')"
    using q ne by (simp add: discover_tables_def discovery_query_def demo_catalog_def ensure_query_ok_def
        qr_error_result_def)
qed

theorem discovery_tolerant_witness:
  "handle_discover_catalog (\<lambda>_. ''bad'') demo_catalog ''postgres'' (Some (discover_params_to_json
      \<lparr>dcp_containers = None, dcp_include_public_datasets = None, dcp_containers_only = False\<rparr>)) = Some
    (if [''a'', ''b''] \<noteq> [] \<and> (\<forall>c \<in> set [''a'', ''b'']. \<exists>e. demo_T c = Inl e)
     then Inl (''discover_catalog failed for every container ('' @ show_nat (length [''a'', ''b''])
            @ '' attempted): '' @ str_join ''; '' (crawl_errors demo_T (\<lambda>_ _. Inr []) [''a'', ''b'']))
     else Inr (catalog_result_to_json
            \<lparr>cr_containers = crawl_result demo_T (\<lambda>_ _. Inr []) [''a'', ''b''],
             cr_errors = crawl_errors demo_T (\<lambda>_ _. Inr []) [''a'', ''b'']\<rparr>))"
proof (rule discovery_tolerant [OF demo_catalog_containers _ _ refl])
  show "[''a'', ''b''] = filter_containers_to_scope [''a'', ''b''] None"
    by (simp add: filter_containers_to_scope_def)
  show "\<forall>c \<in> set [''a'', ''b'']. discover_tables demo_catalog ''postgres'' c = Some (demo_T c) \<and>
     (\<forall>tbls. demo_T c = Inr tbls \<longrightarrow>
        (\<forall>t \<in> fst ` set tbls. discover_columns demo_catalog ''postgres'' c t = Some (Inr [])))"
    using demo_catalog_tables by simp
qed

text \<open>A catalog row of a PostgreSQL server: one text column.\<close>

definition catalog_row :: "string \<Rightarrow> pg_row" where
  "catalog_row s = demo_pg_row\<lparr>pg_columns := [(''schema_name'', ''NAME'')], pg_i32 := Map.empty,
     pg_string := [0 \<mapsto> s]\<rparr>"

lemma containers_sql_paginated:
  "\<exists>sql. containers_sql ''postgres'' = Some sql \<and>
     pq_sql (prepare_query sql None None) = sql @ '' LIMIT 1000 OFFSET 0''"
proof -
  have "map_option (\<lambda>sql. pq_sql (prepare_query sql None None)) (containers_sql ''postgres'')
      = map_option (\<lambda>sql. sql @ '' LIMIT 1000 OFFSET 0'') (containers_sql ''postgres'')"
    by code_simp
  then show ?thesis by (auto simp: containers_sql_def)
qed

lemma catalog_row_cell: "pg_cell api (catalog_row s) \<lparr>col_name = ''schema_name'', col_type = TString\<rparr> 0
    = Some (CStr s)"
  by (simp add: pg_cell_def catalog_row_def)

lemma catalog_row_infos:
  "pg_column_infos (catalog_row s) = [\<lparr>col_name = ''schema_name'', col_type = TString\<rparr>]"
proof -
  have "map_postgres_type_oid (pg_type_name_to_oid ''NAME'') = TString" by code_simp
  then show ?thesis by (simp add: pg_column_infos_def catalog_row_def)
qed

text \<open>
  Container discovery over PostgreSQL sees at most 1000 schemas: on a server that honours the
  LIMIT clause it returns the first 1000 names and reports no error for the rest.
\<close>

theorem discovery_truncated:
  assumes "try_new_law arrow" "containers_sql ''postgres'' = Some sql" "names \<noteq> []"
    "pool_fetch_all pool (sql @ '' LIMIT 1000 OFFSET 0'') = Reply (map catalog_row (take 1000 names))"
  shows "discover_containers (pg_provider arrow api pool elapsed) ''postgres''
    = Some (Inr (take 1000 names))"
proof -
  let ?rows = "map catalog_row (take 1000 names)" and ?c = "\<lparr>col_name = ''schema_name'', col_type = TString\<rparr>"
  have rows: "?rows = catalog_row (hd names) # tl ?rows" using assms(3) by (cases names) simp_all
  have fetch: "pool_fetch_all pool (pq_sql (prepare_query sql None None))
      = Reply (catalog_row (hd names) # tl ?rows)"
    using assms(2,4) containers_sql_paginated rows by auto
  obtain r batch where r: "pg_execute_query arrow api pool elapsed sql None None False = Some (Inr r)"
    "qr_status r = Success" "qr_record_batch r = Some batch" "result_ok r"
    "map arr_type (rb_columns batch) = [DtUtf8]"
    "map arr_vals (rb_columns batch) = [map (\<lambda>r. pg_cell api r ?c 0) ?rows]"
  proof -
    have "list_all (\<lambda>_. True) (catalog_row (hd names) # tl ?rows)" by (simp add: list_all_iff)
    note batch = pg_writer.sqlx_execute_batch [where infos = pg_column_infos, OF assms(1) fetch _ this]
    show thesis
      using that batch [where api = api and elapsed = elapsed and tot = False]
      unfolding pg_execute_query_def rows [symmetric] catalog_row_infos by auto
  qed
  obtain col where col: "rb_columns batch = [col]" using r(5) by auto
  have "arr_type col = DtUtf8" "arr_vals col = map (\<lambda>s. Some (CStr s)) (take 1000 names)"
    using r(5,6) col by (simp_all add: catalog_row_cell o_def)
  then have "extract_string_col_from_batch (Some batch) 0 = take 1000 names"
    by (simp add: extract_string_col_from_batch_def col List.map_filter_def o_def)
  moreover have "ensure_query_ok r ''Failed to list containers'' = None"
    using r(2,4) by (simp add: ensure_query_ok_def result_ok_def)
  ultimately show ?thesis
    using r(1,3) assms(2)
    by (simp add: discover_containers_def discovery_query_def pg_provider_def)
qed

theorem discovery_truncated_witness:
  "\<exists>sql pool. containers_sql ''postgres'' = Some sql \<and>
    (\<forall>api. discover_containers (pg_provider demo_arrow api pool 5) ''postgres''
      = Some (Inr (take 1000 [''public'', ''sales''])))"
proof -
  obtain sql where sql: "containers_sql ''postgres'' = Some sql" by (simp add: containers_sql_def)
  define pool where "pool = \<lparr>pool_fetch_all = (\<lambda>_. Reply (map catalog_row (take 1000 [''public'', ''sales'']))),
    pool_fetch = (\<lambda>_. []), pool_scalar = (\<lambda>_. ReplyTimeout), pool_execute = (\<lambda>_. ReplyTimeout)\<rparr>"
  have "discover_containers (pg_provider demo_arrow api pool 5) ''postgres''
      = Some (Inr (take 1000 [''public'', ''sales'']))" for api
    by (rule discovery_truncated [OF demo_arrow_law sql]) (simp_all add: pool_def)
  with sql show ?thesis by blast
qed

section \<open>A buffered result read back\<close>

text \<open>
  What a reader of Arrow responses takes from them: it decodes the header and every batch, checks
  that the batches are numbered from 0 and that the summary counts them.
\<close>

record arrow_reading =
  ra_schema :: schema
  ra_columns :: "column_info list"
  ra_total_rows :: "i64 option"
  ra_batches :: "record_batch list"
  ra_execution_time :: "i64 option"
  ra_bytes :: "i64 option"
  ra_rows :: u64

fun read_batches ::
  "(u8 list \<Rightarrow> record_batch option) \<Rightarrow> nat \<Rightarrow> response_body list
   \<Rightarrow> (record_batch list \<times> i64 option \<times> i64 option \<times> u64) option" where
  "read_batches dec k [ArrowComplete time bytes n rows _] =
     (if n = of_nat k then Some ([], time, bytes, rows) else None)"
| "read_batches dec k (ArrowBatch ipc i # rest) =
     (if i = of_nat k
      then do { b \<leftarrow> dec ipc; (bs, summary) \<leftarrow> read_batches dec (k + 1) rest; Some (b # bs, summary) }
      else None)"
| "read_batches dec k _ = None"

fun read_arrow ::
  "(u8 list \<Rightarrow> schema option) \<Rightarrow> (u8 list \<Rightarrow> record_batch option) \<Rightarrow> response_body list
   \<Rightarrow> arrow_reading option" where
  "read_arrow dec_schema dec (ArrowHeader ipc columns total_rows # rest) =
     do { s \<leftarrow> dec_schema ipc; (bs, time, bytes, rows) \<leftarrow> read_batches dec 0 rest;
          Some \<lparr>ra_schema = s, ra_columns = columns, ra_total_rows = total_rows, ra_batches = bs,
                ra_execution_time = time, ra_bytes = bytes, ra_rows = rows\<rparr> }"
| "read_arrow dec_schema dec _ = None"

text \<open>What a successful result says, whichever way it is sent.\<close>

definition reading_of :: "query_result \<Rightarrow> arrow_reading" where
  "reading_of r =
     (let columns = (case qr_columns r of Some c \<Rightarrow> c | None \<Rightarrow> []) in
      \<lparr>ra_schema = (case qr_record_batch r of Some b \<Rightarrow> rb_schema b
          | None \<Rightarrow> map (\<lambda>c. (col_name c, simple_type_to_arrow (col_type c))) columns),
       ra_columns = columns, ra_total_rows = qr_total_rows r,
       ra_batches = (case qr_record_batch r of Some b \<Rightarrow> [b] | None \<Rightarrow> []),
       ra_execution_time = qr_execution_time_ms r, ra_bytes = qr_bytes_processed r,
       ra_rows = (case qr_record_batch r of Some b \<Rightarrow> of_nat (rb_num_rows b) | None \<Rightarrow> 0)\<rparr>)"

text \<open>The documented use of the Arrow IPC format: what its writer writes, its reader reads back.\<close>

definition ipc_reads_back ::
  "arrow_api \<Rightarrow> (u8 list \<Rightarrow> schema option) \<Rightarrow> (u8 list \<Rightarrow> record_batch option) \<Rightarrow> bool" where
  "ipc_reads_back arrow dec_schema dec \<longleftrightarrow>
     (\<forall>s ipc. ipc_schema arrow s = Inr ipc \<longrightarrow> dec_schema ipc = Some s) \<and>
     (\<forall>b ipc. ipc_batch arrow (rb_schema b) b = Inr ipc \<longrightarrow> dec ipc = Some b)"

lemma builder_new_schema: "ab_schema (builder_new cols) = map (\<lambda>c. (col_name c, simple_type_to_arrow (col_type c))) cols"
  by (simp add: builder_new_def)

text \<open>The first error the IPC writer reports for a result: for its schema, then for its batch.\<close>

definition ipc_failure :: "arrow_api \<Rightarrow> query_result \<Rightarrow> string option" where
  "ipc_failure arrow r =
     (case ipc_schema arrow (ra_schema (reading_of r)) of
        Inl e \<Rightarrow> Some (''Arrow schema serialization error: '' @ e)
      | Inr _ \<Rightarrow>
          (case qr_record_batch r of
             None \<Rightarrow> None
           | Some b \<Rightarrow> (case ipc_batch arrow (rb_schema b) b of
                Inl e \<Rightarrow> Some (''Arrow batch serialization error: '' @ e) | Inr _ \<Rightarrow> None)))"

lemma buffered_stream_reading:
  assumes "ipc_reads_back arrow dec_schema dec" "qr_status r = Success" "ipc_failure arrow r = None"
  obtains ms where "query_result_to_arrow_stream arrow r = Inr ms" "stream_phase ms = Some Closed"
    "read_arrow dec_schema dec (map resp_body (stream_responses i ms)) = Some (reading_of r)"
  using assms
  by (cases "qr_record_batch r")
     (auto simp: query_result_to_arrow_stream_def ipc_failure_def reading_of_def ipc_reads_back_def Let_def
        schema_to_ipc_bytes_def batch_to_ipc_bytes_def stream_phase_def builder_new_schema split: sum.splits)

text \<open>
  C24. A buffered result says the same whichever way it is sent. For a provider that keeps the
  trait's default stream, the responses to a streamed query are complete, and reading them back
  gives exactly what the buffered result holds: its schema, columns, total count, batch, times and
  number of rows. The responses of the buffered path in Arrow format read back as the same. A
  failed query and a result that cannot be serialized become one error with its message.
\<close>

theorem buffered_result_read_back:
  assumes stream: "pv_stream_arrow pv = default_stream arrow (pv_execute_query pv)"
    and result: "pv_execute_query pv (qp_sql p) (qp_limit p) (qp_offset p) (qp_include_total p) None = Some (Inr r)"
    and ipc: "ipc_reads_back arrow dec_schema dec"
  shows "\<exists>rs. execute_query_streaming_arrow pv i p = Some rs \<and> complete_reply i rs \<and>
    (case qr_status r of
       Error \<Rightarrow> rs = [respond i (ErrorBody (case qr_error r of Some e \<Rightarrow> e | None \<Rightarrow> ''Query execution failed''))]
     | Success \<Rightarrow>
         (case ipc_failure arrow r of
            Some e \<Rightarrow> rs = [respond i (ErrorBody e)]
          | None \<Rightarrow>
              read_arrow dec_schema dec (map resp_body rs) = Some (reading_of r) \<and>
              (qr_record_batch r \<noteq> None \<longrightarrow>
                 read_arrow dec_schema dec (map resp_body (buffered_responses arrow i Arrow r))
                   = Some (reading_of r))))"
proof -
  have run: "execute_query_streaming_arrow pv i p = Some (case query_result_to_arrow_stream arrow r of
      Inl e \<Rightarrow> [respond i (ErrorBody (error_to_string e))] | Inr ms \<Rightarrow> stream_responses i ms)"
    using stream result by (simp add: execute_query_streaming_arrow_def default_stream_def)
  show ?thesis
  proof (cases "qr_status r")
    case Error
    then show ?thesis using run by (simp add: query_result_to_arrow_stream_def)
  next
    case ok: Success
    show ?thesis
    proof (cases "ipc_failure arrow r")
      case None
      then obtain ms where ms: "query_result_to_arrow_stream arrow r = Inr ms" "stream_phase ms = Some Closed"
        "read_arrow dec_schema dec (map resp_body (stream_responses i ms)) = Some (reading_of r)"
        using buffered_stream_reading [OF ipc ok] by blast
      have "read_arrow dec_schema dec (map resp_body (buffered_responses arrow i Arrow r)) = Some (reading_of r)"
        if "qr_record_batch r = Some b" for b
        using that None ipc
        by (auto simp: buffered_responses_def ipc_failure_def reading_of_def ipc_reads_back_def
            schema_to_ipc_bytes_def batch_to_ipc_bytes_def split: sum.splits)
      then show ?thesis using run ms stream_responses_complete [OF ms(2)] ok None by auto
    next
      case (Some e)
      then have "query_result_to_arrow_stream arrow r = Inl (Internal e)"
        using ok
        by (auto simp: query_result_to_arrow_stream_def ipc_failure_def reading_of_def Let_def
            schema_to_ipc_bytes_def batch_to_ipc_bytes_def builder_new_schema split: option.splits sum.splits)
      then show ?thesis using run ok Some by simp
    qed
  qed
qed

text \<open>A provider with the default stream and one result, for the witness.\<close>

definition demo_ipc :: arrow_api where
  "demo_ipc = demo_arrow\<lparr>
     ipc_schema := (\<lambda>s. if s = [(''c'', DtUtf8)] then Inr [1] else Inl ''unsupported''),
     ipc_batch := (\<lambda>s b. if b = text_batch [[''a'']] then Inr [2] else Inl ''unsupported'')\<rparr>"

definition demo_buffered :: query_result where
  "demo_buffered = success_empty\<lparr>qr_columns := Some [\<lparr>col_name = ''c'', col_type = TString\<rparr>],
     qr_total_rows := Some 7, qr_record_batch := Some (text_batch [[''a'']])\<rparr>"

definition demo_default :: provider where
  "demo_default =
     \<lparr>pv_test_connection = Some (Inr True), pv_execute_query = (\<lambda>_ _ _ _ _. Some (Inr demo_buffered)),
      pv_dry_run = (\<lambda>_. None),
      pv_stream_arrow = default_stream demo_ipc (\<lambda>_ _ _ _ _. Some (Inr demo_buffered))\<rparr>"

theorem buffered_result_read_back_witness:
  "\<forall>p. \<exists>rs. execute_query_streaming_arrow demo_default ''r'' p = Some rs \<and>
     read_arrow (\<lambda>ipc. if ipc = [1] then Some [(''c'', DtUtf8)] else None)
       (\<lambda>ipc. if ipc = [2] then Some (text_batch [[''a'']]) else None) (map resp_body rs) = Some (reading_of demo_buffered)"
proof
  fix p
  let ?s = "\<lambda>ipc. if ipc = [1] then Some [(''c'', DtUtf8)] else None"
  let ?b = "\<lambda>ipc. if ipc = [2] then Some (text_batch [[''a'']]) else None"
  have "ipc_reads_back demo_ipc ?s ?b" by (simp add: ipc_reads_back_def demo_ipc_def)
  moreover have "ipc_failure demo_ipc demo_buffered = None" "qr_status demo_buffered = Success"
    by (simp_all add: ipc_failure_def demo_ipc_def demo_buffered_def reading_of_def success_empty_def text_batch_def)
  ultimately show "\<exists>rs. execute_query_streaming_arrow demo_default ''r'' p = Some rs \<and>
      read_arrow ?s ?b (map resp_body rs) = Some (reading_of demo_buffered)"
    using buffered_result_read_back [of demo_default demo_ipc p demo_buffered ?s ?b "''r''"]
    by (auto simp: demo_default_def)
qed

end
