(* ===== verification/Clickhouse.thy ===== *)
theory Clickhouse
  imports Sql_Providers
begin

text \<open>
  The ClickHouse provider of \<^verbatim>\<open>providers/clickhouse.rs\<close> over its HTTP interface: buffered
  queries, the paginated stream, dry run, listing and connection test. The server is a parameter
  that answers the posted SQL; parsing JSON text and percent-encoding are parameters too.
  The stream's page loop has no bound of its own, so it takes fuel; how much is enough for a
  table is part of what is shown.
\<close>

section \<open>HTTP\<close>

text \<open>
  The body is \<^const>\<open>None\<close> when it never ends: the time-outs cover the head of a response only.
\<close>

record http_response =
  hr_status :: nat
  hr_body :: "string option"
  hr_summary :: "string option" \<comment> \<open>the \<^verbatim>\<open>x-clickhouse-summary\<close> header\<close>

datatype http_reply = HttpOk http_response | HttpErr string | HttpTimeout

definition is_success :: "http_response \<Rightarrow> bool" where
  "is_success r = (200 \<le> hr_status r \<and> hr_status r < 300)"

record http_server =
  sv_post :: "string \<Rightarrow> string \<Rightarrow> http_reply" \<comment> \<open>URL, then body\<close>
  sv_json :: "string \<Rightarrow> string + json" \<comment> \<open>\<^verbatim>\<open>serde_json::from_str\<close>\<close>
  sv_urlencode :: "string \<Rightarrow> string" \<comment> \<open>\<^verbatim>\<open>utf8_percent_encode\<close>\<close>

record clickhouse_provider =
  cp_base_url :: string
  cp_database :: string
  cp_server_tz_is_utc :: bool

definition clickhouse_url :: "http_server \<Rightarrow> clickhouse_provider \<Rightarrow> string option \<Rightarrow> string" where
  "clickhouse_url sv cp format =
     cp_base_url cp @ ''/?database='' @ sv_urlencode sv (cp_database cp) @
     (case format of Some fmt \<Rightarrow> ''&default_format='' @ fmt | None \<Rightarrow> [])"

definition execute_http ::
  "http_server \<Rightarrow> clickhouse_provider \<Rightarrow> string \<Rightarrow> string option \<Rightarrow> http_response result" where
  "execute_http sv cp sql format =
     (case sv_post sv (clickhouse_url sv cp format) sql of
        HttpOk r \<Rightarrow> Inr r
      | HttpErr e \<Rightarrow> Inl (Internal (''ClickHouse HTTP request failed: '' @ e))
      | HttpTimeout \<Rightarrow> Inl (Internal ''ClickHouse query timed out after 120s''))"

definition clickhouse_test_connection :: "http_server \<Rightarrow> clickhouse_provider \<Rightarrow> bool result option" where
  "clickhouse_test_connection sv cp =
     (case sv_post sv (clickhouse_url sv cp None) ''SELECT 1'' of
        HttpTimeout \<Rightarrow> Some (Inl (Internal ''ClickHouse test connection timed out''))
      | HttpErr e \<Rightarrow> Some (Inl (Internal (''ClickHouse test connection failed: '' @ e)))
      | HttpOk r \<Rightarrow>
          if is_success r then Some (Inr True)
          else map_option (\<lambda>body. Inl (Internal (''ClickHouse test connection failed: '' @ body))) (hr_body r))"

section \<open>Reading a page\<close>

definition get_array :: "json \<Rightarrow> string \<Rightarrow> json list" where
  "get_array j k = (case Option.bind (json_get j k) as_array of Some xs \<Rightarrow> xs | None \<Rightarrow> [])"

definition get_str_or :: "string \<Rightarrow> json \<Rightarrow> string \<Rightarrow> string" where
  "get_str_or dflt j k = (case get_str j k of Some s \<Rightarrow> s | None \<Rightarrow> dflt)"

text \<open>The type mapping may panic (an option); \<open>those\<close> collects the columns.\<close>

definition meta_columns :: "json \<Rightarrow> column_info list option" where
  "meta_columns parsed =
     those (map (\<lambda>col. map_option (\<lambda>t. \<lparr>col_name = get_str_or ''?'' col ''name'', col_type = t\<rparr>)
        (map_clickhouse_type (get_str_or [] col ''type''))) (get_array parsed ''meta''))"

definition data_rows :: "json \<Rightarrow> json list list" where
  "data_rows parsed =
     map (\<lambda>row. map sanitize_null_bytes (case as_array row of Some a \<Rightarrow> a | None \<Rightarrow> []))
       (get_array parsed ''data'')"

definition coerce_row ::
  "value_api \<Rightarrow> column_info list \<Rightarrow> bool \<Rightarrow> json list \<Rightarrow> json list option" where
  "coerce_row api columns utc row =
     those (map (\<lambda>(i, v). coerce_value_type api v
        (if i < length columns then Some (columns ! i) else None) utc) (enumerate 0 row))"

definition bytes_of_summary :: "http_server \<Rightarrow> http_response \<Rightarrow> i64 option" where
  "bytes_of_summary sv r =
     Option.bind (hr_summary r) (\<lambda>s. case sv_json sv s of
        Inl _ \<Rightarrow> None
      | Inr v \<Rightarrow>
          if_some (Option.bind (Option.bind (json_get v ''read_bytes'') as_str) parse_i64) Some
            (Option.bind (json_get v ''read_bytes'') as_i64))"

section \<open>Buffered queries\<close>

text \<open>\<^const>\<open>None\<close> is a panic of the conversion, or a body that never ends.\<close>

definition clickhouse_execute_query ::
  "arrow_api \<Rightarrow> value_api \<Rightarrow> http_server \<Rightarrow> clickhouse_provider \<Rightarrow> i64 \<Rightarrow> string \<Rightarrow> u32 option
   \<Rightarrow> u32 option \<Rightarrow> bool \<Rightarrow> query_result result option" where
  "clickhouse_execute_query arrow api sv cp elapsed sql limit offset include_total =
     (let prepared = prepare_query sql limit offset;
          effective_limit = (case limit of Some l \<Rightarrow> l | None \<Rightarrow> 1000) in
      case execute_http sv cp (pq_sql prepared) (Some ''JSONCompact'') of
        Inl e \<Rightarrow> Some (Inr (query_failed elapsed (error_to_string e)))
      | Inr r \<Rightarrow>
          Option.bind (hr_body r) (\<lambda>body.
          if \<not> is_success r then Some (Inr (query_failed elapsed body))
          else case sv_json sv body of
            Inl e \<Rightarrow> Some (Inr (query_failed elapsed (''Failed to parse ClickHouse response: '' @ e)))
          | Inr parsed \<Rightarrow>
              Option.bind (meta_columns parsed) (\<lambda>columns.
              Option.bind (those (map (coerce_row api columns (cp_server_tz_is_utc cp)) (data_rows parsed)))
                (\<lambda>rows.
                   map_option (\<lambda>res. Inr (res\<lparr>qr_bytes_processed := bytes_of_summary sv r\<rparr>))
                     (query_succeeded arrow (clickhouse_put api (cp_server_tz_is_utc cp)) columns rows
                       (if include_total
                        then Option.bind (json_get parsed ''rows_before_limit_at_least'') as_i64 else None)
                       effective_limit elapsed)))))"

definition clickhouse_line_col_re :: string where
  "clickhouse_line_col_re =
     ''(?i)'' @ [CHR 0x5C] @ ''(line'' @ [CHR 0x5C] @ ''s+('' @ [CHR 0x5C] @ ''d+),'' @ [CHR 0x5C]
     @ ''s*col'' @ [CHR 0x5C] @ ''s+('' @ [CHR 0x5C] @ ''d+)'' @ [CHR 0x5C] @ '')''"

definition clickhouse_line_re :: string where
  "clickhouse_line_re =
     ''(?i)'' @ [CHR 0x5C] @ ''(line'' @ [CHR 0x5C] @ ''s+('' @ [CHR 0x5C] @ ''d+)'' @ [CHR 0x5C] @ '')''"

definition clickhouse_position_re :: string where
  "clickhouse_position_re = ''(?i)at position'' @ [CHR 0x5C] @ ''s+('' @ [CHR 0x5C] @ ''d+)''"

definition parse_clickhouse_error_location ::
  "regex \<Rightarrow> string \<Rightarrow> string \<Rightarrow> (u32 option \<times> u32 option) option" where
  "parse_clickhouse_error_location rx error_msg sql =
     if_some (Option.bind (rx clickhouse_line_col_re error_msg 1) parse_u32)
       (\<lambda>line. Some (Some line, Option.bind (rx clickhouse_line_col_re error_msg 2) parse_u32))
     (if_some (Option.bind (rx clickhouse_line_re error_msg 1) parse_u32)
       (\<lambda>line. Some (Some line, None))
     (if_some (Option.bind (rx clickhouse_position_re error_msg 1) (parse_unsigned (2 ^ 64 - 1)))
       (\<lambda>pos. char_position_to_line_col sql pos)
     (Some (None, None))))"

definition clickhouse_dry_run ::
  "regex \<Rightarrow> http_server \<Rightarrow> clickhouse_provider \<Rightarrow> string \<Rightarrow> dry_run_result result option" where
  "clickhouse_dry_run rx sv cp sql =
     (case execute_http sv cp (''EXPLAIN '' @ sql) None of
        Inr r \<Rightarrow>
          if is_success r then Some (Inr (dry_run_success ''Query valid''))
          else Option.bind (hr_body r) (\<lambda>body.
                 map_option (\<lambda>(line, column). Inr (dry_run_failure body line column))
                   (parse_clickhouse_error_location rx body sql))
      | Inl e \<Rightarrow> Some (Inr (dry_run_failure (error_to_string e) None None)))"

definition clickhouse_list_databases ::
  "arrow_api \<Rightarrow> value_api \<Rightarrow> http_server \<Rightarrow> clickhouse_provider \<Rightarrow> i64 \<Rightarrow> discovery_result option" where
  "clickhouse_list_databases arrow api sv cp elapsed =
     list_names ''ClickHouse databases''
       (clickhouse_execute_query arrow api sv cp elapsed
         (''SELECT name FROM system.databases ''
          @ ''WHERE name NOT IN ('system', 'INFORMATION_SCHEMA', 'information_schema') ''
          @ ''ORDER BY name'')
         None None False)"

section \<open>The paginated stream\<close>

record ch_state =
  cs_offset :: u64
  cs_columns :: "column_info list"
  cs_schema_sent :: bool
  cs_chunk_index :: u32
  cs_total_rows :: u64

definition ch_start :: ch_state where
  "ch_start = \<lparr>cs_offset = 0, cs_columns = [], cs_schema_sent = False, cs_chunk_index = 0,
     cs_total_rows = 0\<rparr>"

text \<open>The request: the parsed page, or the end of the stream.\<close>

definition ch_fetch :: "http_server \<Rightarrow> clickhouse_provider \<Rightarrow> string \<Rightarrow> chan \<Rightarrow> json flow" where
  "ch_fetch sv cp paginated_sql ch =
     (case sv_post sv (clickhouse_url sv cp (Some ''JSONCompact'')) paginated_sql of
        HttpErr e \<Rightarrow> fail_stream (''ClickHouse HTTP request failed: '' @ e) ch
      | HttpTimeout \<Rightarrow> fail_stream ''ClickHouse query timed out after 120s'' ch
      | HttpOk r \<Rightarrow>
     (case hr_body r of
        None \<Rightarrow> OutOfFuel ch
      | Some body \<Rightarrow>
          if \<not> is_success r then fail_stream (''ClickHouse query error: '' @ body) ch
          else case sv_json sv body of
            Inl e \<Rightarrow> fail_stream (''Failed to parse ClickHouse response: '' @ e) ch
          | Inr parsed \<Rightarrow> Go parsed ch))"

text \<open>The first page fixes the columns; a later page must have as many.\<close>

definition ch_schema :: "arrow_api \<Rightarrow> column_info list \<Rightarrow> ch_state \<Rightarrow> chan \<Rightarrow> ch_state flow" where
  "ch_schema arrow page_columns st ch =
     (if \<not> cs_schema_sent st
      then bind_flow (emit_schema arrow page_columns None ch)
             (\<lambda>_. Go (st\<lparr>cs_columns := page_columns, cs_schema_sent := True\<rparr>))
      else if length page_columns \<noteq> length (cs_columns st)
      then fail_stream ''ClickHouse schema changed between result pages'' ch
      else Go st ch)"

definition ch_page ::
  "arrow_api \<Rightarrow> value_api \<Rightarrow> bool \<Rightarrow> json list list \<Rightarrow> ch_state \<Rightarrow> chan \<Rightarrow> ch_state flow" where
  "ch_page arrow api utc raw_rows st ch =
     (if raw_rows = [] then Go st ch
      else bind_flow (may_panic (write_rows (clickhouse_put api utc) (cs_columns st) raw_rows
                        (builder_new (cs_columns st))) ch) (\<lambda>b ch1.
           bind_flow (emit_batch arrow b (cs_chunk_index st) ch1)
             (\<lambda>_. Go (st\<lparr>cs_chunk_index := cs_chunk_index st + 1,
                         cs_total_rows := cs_total_rows st + of_nat (length raw_rows),
                         cs_offset := cs_offset st + of_nat (length raw_rows)\<rparr>))))"

definition ch_page_sql :: "string \<Rightarrow> u32 \<Rightarrow> u64 \<Rightarrow> string" where
  "ch_page_sql sql page_size offset =
     sql @ '' LIMIT '' @ show_word page_size @ '' OFFSET '' @ show_word offset"

fun ch_loop ::
  "nat \<Rightarrow> arrow_api \<Rightarrow> value_api \<Rightarrow> http_server \<Rightarrow> clickhouse_provider \<Rightarrow> string \<Rightarrow> bool \<Rightarrow> u32
   \<Rightarrow> ch_state \<Rightarrow> chan \<Rightarrow> ch_state flow" where
  "ch_loop 0 arrow api sv cp sql paged page_size st ch = OutOfFuel ch"
| "ch_loop (Suc fuel) arrow api sv cp sql paged page_size st ch =
     (let paginated_sql = (if paged
            then ch_page_sql sql page_size (cs_offset st) else sql) in
      bind_flow (ch_fetch sv cp paginated_sql ch) (\<lambda>parsed ch1.
      bind_flow (may_panic (meta_columns parsed) ch1) (\<lambda>page_columns ch2.
      bind_flow (ch_schema arrow page_columns st ch2) (\<lambda>st1 ch3.
      bind_flow (ch_page arrow api (cp_server_tz_is_utc cp) (data_rows parsed) st1 ch3) (\<lambda>st2 ch4.
        if length (data_rows parsed) < unat page_size \<or> \<not> paged then Go st2 ch4
        else ch_loop fuel arrow api sv cp sql paged page_size st2 ch4)))))"

definition clickhouse_stream_arrow ::
  "nat \<Rightarrow> arrow_api \<Rightarrow> value_api \<Rightarrow> http_server \<Rightarrow> clickhouse_provider \<Rightarrow> i64 \<Rightarrow> string
   \<Rightarrow> u32 option \<Rightarrow> u32 option \<Rightarrow> bool \<Rightarrow> u32 option \<Rightarrow> chan \<Rightarrow> unit flow" where
  "clickhouse_stream_arrow fuel arrow api sv cp elapsed sql limit offset include_total chunk_size ch =
     (let page_size = (case chunk_size of Some n \<Rightarrow> n | None \<Rightarrow> 10000);
          sql_stripped = strip_sql sql;
          sql_upper = to_uppercase sql_stripped;
          paged = (is_select_sql sql_upper \<and> \<not> str_contains sql_upper ''LIMIT'') in
      bind_flow (ch_loop fuel arrow api sv cp sql_stripped paged page_size ch_start ch) (\<lambda>st ch1.
      bind_flow
        (if cs_schema_sent st then Go () ch1
         else case schema_to_ipc_bytes arrow (ab_schema (builder_new [])) of
           Inl e \<Rightarrow> fail_stream (''Arrow schema serialization error: '' @ e) ch1
         | Inr bytes \<Rightarrow> send_quiet (Inr (Schema bytes [] None)) ch1)
        (\<lambda>_. emit_complete elapsed (cs_chunk_index st) (cs_total_rows st))))"

section \<open>Protocol safety\<close>

text \<open>Between two pages: nothing sent yet, or the schema and \<open>cs_chunk_index\<close> batches.\<close>

definition ch_inv :: "ch_state \<Rightarrow> chan \<Rightarrow> bool" where
  "ch_inv st ch \<longleftrightarrow>
     (if cs_schema_sent st then at_open (cs_chunk_index st) ch
      else at_phase Init ch \<and> cs_chunk_index st = 0)"

lemma ch_inv_fail: "ch_inv st ch \<Longrightarrow> flow_ok Q (fail_stream msg ch)"
  by (auto simp: ch_inv_def split: if_splits intro: fail_init_ok fail_open_ok)

lemma ch_inv_ordered: "ch_inv st ch \<Longrightarrow> well_ordered (ch_sent ch)"
  by (auto simp: ch_inv_def split: if_splits intro: at_phase_ordered at_open_ordered)

lemma ch_fetch_ok:
  assumes "ch_inv st ch"
  shows "flow_ok (\<lambda>_. ch_inv st) (ch_fetch sv cp sql ch)"
  using assms by (auto simp: ch_fetch_def split: http_reply.split option.split sum.split intro: ch_inv_fail ch_inv_ordered)

lemma ch_schema_ok:
  assumes "ch_inv st ch"
  shows "flow_ok (\<lambda>st ch. cs_schema_sent st \<and> ch_inv st ch) (ch_schema arrow cols st ch)"
  unfolding ch_schema_def
  using assms by (auto simp: ch_inv_def intro!: flow_ok_bind [OF emit_schema_ok] fail_open_ok)

lemma ch_page_ok:
  assumes "cs_schema_sent st" "ch_inv st ch"
  shows "flow_ok (\<lambda>st ch. cs_schema_sent st \<and> ch_inv st ch) (ch_page arrow api utc rows st ch)"
proof (cases "rows = []")
  case False
  have "flow_ok (\<lambda>_ ch1. ch1 = ch)
      (may_panic (write_rows (clickhouse_put api utc) (cs_columns st) rows (builder_new (cs_columns st))) ch)"
    by (rule may_panic_ok) simp
  then show ?thesis
    using assms False unfolding ch_page_def
    by (auto simp: ch_inv_def intro!: flow_ok_bind [of "\<lambda>_ ch1. ch1 = ch"] flow_ok_bind [OF emit_batch_ok])
qed (use assms in \<open>simp add: ch_page_def\<close>)

lemma ch_loop_ok:
  "ch_inv st ch \<Longrightarrow>
   flow_ok (\<lambda>st ch. cs_schema_sent st \<and> ch_inv st ch) (ch_loop fuel arrow api sv cp sql paged n st ch)"
proof (induction fuel arbitrary: st ch)
  case 0
  then show ?case by (auto simp: ch_inv_def split: if_splits intro: at_open_ordered at_phase_ordered)
next
  case (Suc fuel)
  have meta: "flow_ok (\<lambda>_. ch_inv st) (may_panic x ch1)" if "ch_inv st ch1" for x :: "'x option" and ch1
    by (rule may_panic_ok) (rule that)
  have rec: "flow_ok (\<lambda>st ch. cs_schema_sent st \<and> ch_inv st ch)
      (if c then Go st2 ch2 else ch_loop fuel arrow api sv cp sql paged n st2 ch2)"
    if "cs_schema_sent st2 \<and> ch_inv st2 ch2" for c st2 ch2
    using that Suc.IH by (cases c) simp_all
  show ?case
    unfolding ch_loop.simps Let_def
    by (rule flow_ok_bind [OF ch_fetch_ok [OF Suc.prems]], rule flow_ok_bind [OF meta], assumption,
        rule flow_ok_bind [OF ch_schema_ok], assumption, rule flow_ok_bind [OF ch_page_ok])
       (simp_all only: rec)
qed

lemma clickhouse_stream_ok:
  assumes "at_phase Init ch"
  shows "flow_ok (\<lambda>_. at_phase Closed)
    (clickhouse_stream_arrow fuel arrow api sv cp elapsed sql limit offset tot n ch)"
proof -
  have "ch_inv ch_start ch" using assms by (simp add: ch_inv_def ch_start_def)
  then show ?thesis
    unfolding clickhouse_stream_arrow_def Let_def
    by (rule flow_ok_bind [OF ch_loop_ok]) (auto simp: ch_inv_def intro: emit_complete_ok)
qed

section \<open>What the stream delivers\<close>

text \<open>
  A server that holds a table of rows and answers \<open>LIMIT p OFFSET k\<close> with its page: the
  documented behaviour of ClickHouse for a query with a stable order.
\<close>

definition serves_table ::
  "http_server \<Rightarrow> clickhouse_provider \<Rightarrow> string \<Rightarrow> u32 \<Rightarrow> column_info list \<Rightarrow> json list list \<Rightarrow> bool" where
  "serves_table sv cp sql p cols table \<longleftrightarrow>
     (\<forall>k. \<exists>r body parsed.
        sv_post sv (clickhouse_url sv cp (Some ''JSONCompact''))
          (sql @ '' LIMIT '' @ show_word p @ '' OFFSET '' @ show_nat k) = HttpOk r
        \<and> is_success r \<and> hr_body r = Some body \<and> sv_json sv body = Inr parsed
        \<and> meta_columns parsed = Some cols \<and> data_rows parsed = take (unat p) (drop k table))"

lemma show_word_of_nat: "n < 2 ^ 64 \<Longrightarrow> show_word (of_nat n :: u64) = show_nat n"
  by (simp add: show_word_def unsigned_of_nat take_bit_nat_eq_self)

lemma serves_page:
  assumes "serves_table sv cp sql p cols table" "k < 2 ^ 64"
  obtains parsed where
    "\<And>ch. ch_fetch sv cp (ch_page_sql sql p (of_nat k)) ch
       = Go parsed ch"
    "meta_columns parsed = Some cols" "data_rows parsed = take (unat p) (drop k table)"
proof -
  obtain r body parsed where r: "sv_post sv (clickhouse_url sv cp (Some ''JSONCompact''))
      (sql @ '' LIMIT '' @ show_word p @ '' OFFSET '' @ show_nat k) = HttpOk r"
    "is_success r" "hr_body r = Some body" "sv_json sv body = Inr parsed"
    "meta_columns parsed = Some cols" "data_rows parsed = take (unat p) (drop k table)"
    using assms(1) unfolding serves_table_def by blast
  show thesis
    by (rule that [OF _ r(5,6)]) (simp only: ch_fetch_def ch_page_sql_def show_word_of_nat [OF assms(2)] r(1-4) http_reply.simps
        option.simps sum.simps if_False not_True_eq_False)
qed

text \<open>The schema of the first page.\<close>

lemma ch_loop_first:
  assumes "ipc_law arrow" "serves_table sv cp sql p cols table"
  shows "ch_loop (Suc fuel) arrow api sv cp sql True p ch_start (reader [])
    = ch_loop (Suc fuel) arrow api sv cp sql True p
        (ch_start\<lparr>cs_columns := cols, cs_schema_sent := True\<rparr>) (reader [schema_event arrow cols None])"
proof -
  obtain parsed where fetch: "\<And>ch. ch_fetch sv cp
      (ch_page_sql sql p 0) ch = Go parsed ch"
    and "meta_columns parsed = Some cols"
    by (rule serves_page [OF assms(2), of 0]) simp_all
  then show ?thesis
    by (simp add: ch_start_def fetch ch_schema_def emit_schema_reader [OF assms(1)])
qed

lemma ch_loop_stream:
  assumes laws: "try_new_law arrow" "ipc_law arrow" "cols \<noteq> []"
    and serves: "serves_table sv cp sql p cols table" and "0 < p" "length table < 2 ^ 64"
    and "list_all utf8_row table"
    and "(length table - k) div unat p < fuel" "k \<le> length table" "cs_schema_sent st"
      "cs_columns st = cols" "cs_chunk_index st = of_nat j" "cs_offset st = of_nat k"
      "cs_total_rows st = of_nat k"
  shows "ch_loop fuel arrow api sv cp sql True p st (reader ms)
    = Go (st\<lparr>cs_chunk_index := of_nat (j + length (chunks (unat p) (drop k table))),
             cs_total_rows := of_nat (length table), cs_offset := of_nat (length table)\<rparr>)
         (reader (ms @ batch_events arrow (clickhouse_put api (cp_server_tz_is_utc cp)) cols j
           (chunks (unat p) (drop k table))))"
  using assms(8-)
proof (induction fuel arbitrary: st ms j k)
  case (Suc fuel)
  let ?put = "clickhouse_put api (cp_server_tz_is_utc cp)" and ?p = "unat p"
  let ?page = "take ?p (drop k table)"
  have p: "0 < ?p" using assms(5) by (simp add: word_less_nat_alt)
  have "k < 2 ^ 64" using Suc.prems(2) assms(6) by linarith
  from serves_page [OF serves this] obtain parsed where
    fetch: "\<And>ch. ch_fetch sv cp (ch_page_sql sql p (cs_offset st)) ch = Go parsed ch"
    and parsed: "meta_columns parsed = Some cols" "data_rows parsed = ?page"
    using Suc.prems(6) by metis
  have unfold: "ch_loop (Suc fuel) arrow api sv cp sql True p st (reader ms)
    = bind_flow (ch_page arrow api (cp_server_tz_is_utc cp) ?page st (reader ms))
        (\<lambda>st ch. if length ?page < ?p then Go st ch else ch_loop fuel arrow api sv cp sql True p st ch)"
    using parsed Suc.prems(3,4) by (simp add: fetch ch_schema_def)
  show ?case
  proof (cases "?page = []")
    case True
    then have k: "k = length table" using p Suc.prems(2) by auto
    have "ch_loop (Suc fuel) arrow api sv cp sql True p st (reader ms) = Go st (reader ms)"
      unfolding unfold using True p by (simp add: ch_page_def)
    moreover have "st\<lparr>cs_chunk_index := of_nat j, cs_total_rows := of_nat k, cs_offset := of_nat k\<rparr> = st"
      using Suc.prems(5-) by (cases st) simp
    ultimately show ?thesis using k by simp
  next
    case False
    have utf8: "list_all utf8_row ?page"
      using assms(7) by (auto simp: list_all_iff dest: in_set_takeD in_set_dropD)
    obtain b where b: "write_rows ?put cols ?page (builder_new cols) = Some b"
      using clickhouse_writer.write_rows_ok [OF utf8 builder_new_ok] by blast
    then have "pending ?put utf8_row cols ?page b" using utf8 by (simp add: pending_def)
    note emit = clickhouse_writer.pending_emit [OF laws this]
    let ?k = "k + length ?page"
    let ?st = "st\<lparr>cs_chunk_index := of_nat (j + 1), cs_total_rows := of_nat ?k, cs_offset := of_nat ?k\<rparr>"
    have step: "ch_loop (Suc fuel) arrow api sv cp sql True p st (reader ms)
      = (let ms' = ms @ [Inr (Batch (rows_bytes arrow ?put cols ?page) (of_nat j))] in
         if length ?page < ?p then Go ?st (reader ms')
         else ch_loop fuel arrow api sv cp sql True p ?st (reader ms'))"
      unfolding unfold ch_page_def Suc.prems(4)
      using Suc.prems(5-) b False by (simp add: emit Let_def add.commute)
    have chunk: "chunks ?p (drop k table) = ?page # chunks ?p (drop ?k table)"
      using False p by (subst chunks_unfold) (auto simp: max_def ac_simps min_def)
    show ?thesis
    proof (cases "length ?page < ?p")
      case True
      then have "?k = length table" using Suc.prems(2) by auto
      then show ?thesis using True step chunk by simp
    next
      case False
      then have k: "?k \<le> length table" "length ?page = ?p" using Suc.prems(2) by (auto simp: min_def)
      have "(length table - ?k) div ?p < fuel"
        using Suc.prems(1) k p le_div_geq [of ?p "length table - k"] by simp
      from Suc.IH [OF this k(1), of ?st "j + 1"] show ?thesis
        using Suc.prems(3,4) False chunk step by (simp add: Let_def)
    qed
  qed
qed simp

text \<open>
  C12. A ClickHouse stream of an unpaginated SELECT ends and delivers the whole table: from a
  server that answers LIMIT p OFFSET k with that page of a table, after length div p + 1 requests
  the reader has got the schema, the rows in order in batches of p, and a summary with their
  exact number. The limit and the offset the caller passed have no effect on it.
\<close>

theorem clickhouse_stream_complete:
  assumes laws: "try_new_law arrow" "ipc_law arrow" "cols \<noteq> []"
    and p: "p = (case chunk_size of Some n \<Rightarrow> n | None \<Rightarrow> 10000)" "0 < p"
    and sel: "is_select_sql (to_uppercase (strip_sql sql))"
      "\<not> str_contains (to_uppercase (strip_sql sql)) ''LIMIT''"
    and table: "serves_table sv cp (strip_sql sql) p cols table" "length table < 2 ^ 64"
      "list_all utf8_row table"
    and fuel: "length table div unat p < fuel"
  shows "clickhouse_stream_arrow fuel arrow api sv cp elapsed sql limit offset tot chunk_size (reader [])
    = Go () (reader (stream_of arrow (clickhouse_put api (cp_server_tz_is_utc cp)) cols None elapsed
        (chunks (unat p) table)))"
proof -
  obtain fuel' where f: "fuel = Suc fuel'" using fuel by (cases fuel) auto
  let ?st = "ch_start\<lparr>cs_columns := cols, cs_schema_sent := True\<rparr>"
  have "ch_loop fuel arrow api sv cp (strip_sql sql) True p ch_start (reader [])
    = Go (?st\<lparr>cs_chunk_index := of_nat (0 + length (chunks (unat p) (drop 0 table))),
             cs_total_rows := of_nat (length table), cs_offset := of_nat (length table)\<rparr>)
         (reader ([schema_event arrow cols None] @ batch_events arrow
           (clickhouse_put api (cp_server_tz_is_utc cp)) cols 0 (chunks (unat p) (drop 0 table))))"
    unfolding f ch_loop_first [OF laws(2) table(1)]
    by (rule ch_loop_stream [OF laws table(1) p(2) table(2,3)])
       (use fuel f in \<open>simp_all add: ch_start_def\<close>)
  then show ?thesis
    using sel unfolding clickhouse_stream_arrow_def p(1) [symmetric] Let_def
    by (simp add: emit_complete_def stream_of_def)
qed

text \<open>A server with a table of one row, for the witness.\<close>

definition demo_page :: "json list list \<Rightarrow> json" where
  "demo_page rows = json_obj
     [(''meta'', Some (JArray [json_obj [(''name'', Some (JString ''n'')), (''type'', Some (JString ''String''))]])),
      (''data'', Some (JArray (map JArray rows)))]"

definition demo_clickhouse :: http_server where
  "demo_clickhouse =
     \<lparr>sv_post = (\<lambda>_ body. HttpOk \<lparr>hr_status = 200, hr_body = Some body, hr_summary = None\<rparr>),
      sv_json = (\<lambda>body. Inr (demo_page (if body = ch_page_sql ''SELECT n FROM t'' 10 0
         then [[JString ''x'']] else []))),
      sv_urlencode = (\<lambda>s. s)\<rparr>"

lemma demo_clickhouse_serves:
  "serves_table demo_clickhouse cp ''SELECT n FROM t'' 10 [\<lparr>col_name = ''n'', col_type = TString\<rparr>]
     [[JString ''x'']]"
proof -
  have meta: "meta_columns (demo_page []) = Some [\<lparr>col_name = ''n'', col_type = TString\<rparr>]"
    "meta_columns (demo_page [[JString ''x'']]) = Some [\<lparr>col_name = ''n'', col_type = TString\<rparr>]"
    "data_rows (demo_page []) = []" "data_rows (demo_page [[JString ''x'']]) = [[JString ''x'']]"
    by code_simp+
  have "show_word (0 :: u64) = show_nat 0" by (simp add: show_word_def)
  then have "(''SELECT n FROM t'' @ '' LIMIT '' @ show_word (10 :: u32) @ '' OFFSET '' @ show_nat k
      = ch_page_sql ''SELECT n FROM t'' 10 0) = (k = 0)" for k
    by (simp only: ch_page_sql_def same_append_eq show_nat_inject)
  then show ?thesis
    unfolding serves_table_def
    by (auto simp: demo_clickhouse_def is_success_def meta)
qed

theorem clickhouse_stream_complete_witness:
  "\<forall>api elapsed. clickhouse_stream_arrow 1 demo_arrow api demo_clickhouse
      \<lparr>cp_base_url = ''http://h:8123'', cp_database = ''default'', cp_server_tz_is_utc = True\<rparr>
      elapsed ''SELECT n FROM t;'' (Some 0) None False (Some 10) (reader [])
    = Go () (reader (stream_of demo_arrow (clickhouse_put api True)
        [\<lparr>col_name = ''n'', col_type = TString\<rparr>] None elapsed [[[JString ''x'']]]))"
proof -
  have strip: "strip_sql ''SELECT n FROM t;'' = ''SELECT n FROM t''"
    "is_select_sql (to_uppercase ''SELECT n FROM t'')"
    "\<not> str_contains (to_uppercase ''SELECT n FROM t'') ''LIMIT''"
    "list_all utf8_row [[JString ''x'']]" by code_simp+
  have c: "chunks (unat (10 :: u32)) [[JString ''x'']] = [[[JString ''x'']]]"
    by (rule chunks_short) simp_all
  show ?thesis
    using clickhouse_stream_complete [OF demo_arrow_law demo_ipc_law, of
        "[\<lparr>col_name = ''n'', col_type = TString\<rparr>]" 10 "Some 10" "''SELECT n FROM t;''" demo_clickhouse
        "\<lparr>cp_base_url = ''http://h:8123'', cp_database = ''default'', cp_server_tz_is_utc = True\<rparr>"
        "[[JString ''x'']]" 1]
      demo_clickhouse_serves strip c by simp
qed

end
