(* ===== verification/Rest_Api.thy ===== *)
theory Rest_Api
  imports Sql_Providers
begin

text \<open>
  What the REST warehouses (Snowflake, Databricks, BigQuery) share: requests and replies of an
  HTTP API that speaks JSON, requests with and without a time-out, the poll loop that waits for a
  statement to finish, and the batches of a stream that come one result page at a time.
  The service is a parameter: what it replies to a request sent at a time, and after how long.
\<close>

section \<open>Requests\<close>

datatype rest_body = Get | PostJson json | PostForm "(string \<times> string) list"

record rest_request =
  rq_url :: string
  rq_body :: rest_body
  rq_token :: "string option"
  rq_token_type :: "string option"

datatype rest_reply = RestJson nat json | RestNotJson nat string | RestErr string
  \<comment> \<open>status and body; status and the parse error of the body; a transport error\<close>

text \<open>
  What comes back for a request, with times in milliseconds: nothing ever, or an answer whose head
  comes after some time and whose body takes some more, \<^const>\<open>None\<close> when it never ends.
\<close>

datatype 'r outcome = Silent | Answered 'r nat "nat option"

type_synonym rest_service = "rest_request \<Rightarrow> nat \<Rightarrow> rest_reply outcome"

text \<open>A computation that takes time; \<^const>\<open>None\<close> is one that never returns.\<close>

type_synonym 'a timed = "('a \<times> nat) option"

definition DATASOURCE_TIMEOUT_QUERY :: nat where
  "DATASOURCE_TIMEOUT_QUERY = 120000"

definition DATASOURCE_TIMEOUT_CONNECT :: nat where
  "DATASOURCE_TIMEOUT_CONNECT = 30000"

definition DATASOURCE_TIMEOUT_DRY_RUN :: nat where
  "DATASOURCE_TIMEOUT_DRY_RUN = 30000"

text \<open>A request without a time-out.\<close>

definition ask_untimed :: "rest_service \<Rightarrow> rest_request \<Rightarrow> nat \<Rightarrow> rest_reply timed" where
  "ask_untimed sv rq now =
     (case sv rq now of
        Silent \<Rightarrow> None
      | Answered r d b \<Rightarrow> map_option (\<lambda>b. (r, d + b)) b)"

text \<open>
  \<open>tokio::time::timeout(limit, request.send())\<close>, then the body: the time-out, an inner
  \<^const>\<open>None\<close>, is for the head of the answer only.
\<close>

definition await :: "nat \<Rightarrow> 'r outcome \<Rightarrow> nat \<Rightarrow> 'r option timed" where
  "await limit answer now =
     (case answer of
        Silent \<Rightarrow> Some (None, now + limit)
      | Answered r d b \<Rightarrow>
          if limit < d then Some (None, now + limit) else map_option (\<lambda>b. (Some r, now + d + b)) b)"

definition ask_within :: "nat \<Rightarrow> rest_service \<Rightarrow> rest_request \<Rightarrow> nat \<Rightarrow> rest_reply option timed" where
  "ask_within limit sv rq now = await limit (sv rq now) now"

text \<open>A time-out around the request and the reading of its body: always an outcome.\<close>

definition ask_whole :: "nat \<Rightarrow> rest_service \<Rightarrow> rest_request \<Rightarrow> nat \<Rightarrow> rest_reply option \<times> nat" where
  "ask_whole limit sv rq now =
     (case sv rq now of
        Answered r d (Some b) \<Rightarrow>
          if d + b \<le> limit then (Some r, now + d + b) else (None, now + limit)
      | _ \<Rightarrow> (None, now + limit))"

definition OAUTH_REFRESH_TIMEOUT :: nat where
  "OAUTH_REFRESH_TIMEOUT = 30000"

definition is_error_status :: "nat \<Rightarrow> bool" where
  "is_error_status status \<longleftrightarrow> 400 \<le> status \<and> status < 600"

definition is_success_status :: "nat \<Rightarrow> bool" where
  "is_success_status status \<longleftrightarrow> 200 \<le> status \<and> status < 300"

section \<open>Reading replies\<close>

fun json_path :: "json \<Rightarrow> string list \<Rightarrow> json option" where
  "json_path j [] = Some j"
| "json_path j (k # ks) = Option.bind (json_get j k) (\<lambda>v. json_path v ks)"

definition path_str :: "json \<Rightarrow> string list \<Rightarrow> string option" where
  "path_str j ks = Option.bind (json_path j ks) as_str"

definition path_str_or :: "string \<Rightarrow> json \<Rightarrow> string list \<Rightarrow> string" where
  "path_str_or dflt j ks = (case path_str j ks of Some s \<Rightarrow> s | None \<Rightarrow> dflt)"

definition path_array :: "json \<Rightarrow> string list \<Rightarrow> json list" where
  "path_array j ks = (case Option.bind (json_path j ks) as_array of Some xs \<Rightarrow> xs | None \<Rightarrow> [])"

text \<open>A JSON array of rows; a row that is not an array is empty.\<close>

definition json_rows :: "json list \<Rightarrow> json list list" where
  "json_rows data = map (\<lambda>row. case as_array row of Some a \<Rightarrow> a | None \<Rightarrow> []) data"

text \<open>A count that is a JSON string or a JSON number.\<close>

definition str_or_i64 :: "json \<Rightarrow> i64 option" where
  "str_or_i64 v = if_some (Option.bind (as_str v) parse_i64) Some (as_i64 v)"

definition i64_or_str :: "json \<Rightarrow> i64 option" where
  "i64_or_str v = if_some (as_i64 v) Some (Option.bind (as_str v) parse_i64)"

section \<open>Waiting for a statement\<close>

text \<open>
  The poll loop of the three providers: check the deadline, sleep, ask, and go on while the
  statement runs. \<open>ask t\<close> is the poll sent at time \<open>t\<close>.
\<close>

datatype 'a poll_answer = PollDone 'a | PollFail string | PollAgain

definition POLL_INTERVAL :: nat where
  "POLL_INTERVAL = 500"

function poll_loop ::
  "string \<Rightarrow> (nat \<Rightarrow> 'a poll_answer timed) \<Rightarrow> nat \<Rightarrow> nat \<Rightarrow> 'a result timed" where
  "poll_loop expired ask deadline now =
     (if deadline < now then Some (Inl (Internal expired), now)
      else case ask (now + POLL_INTERVAL) of
        None \<Rightarrow> None
      | Some (PollDone a, d) \<Rightarrow> Some (Inr a, now + POLL_INTERVAL + d)
      | Some (PollFail e, d) \<Rightarrow> Some (Inl (Internal e), now + POLL_INTERVAL + d)
      | Some (PollAgain, d) \<Rightarrow> poll_loop expired ask deadline (now + POLL_INTERVAL + d))"
  by pat_completeness auto

termination
  by (relation "measure (\<lambda>(expired, ask, deadline, now). Suc deadline - now)")
     (auto simp: POLL_INTERVAL_def)

lemmas poll_loop_unfold = poll_loop.simps
declare poll_loop.simps [simp del]

section \<open>Streaming result pages\<close>

text \<open>The counters of a stream: \<open>chunk_index\<close> and \<open>total_rows_returned\<close>.\<close>

type_synonym page_counts = "u32 \<times> u64"

definition emit_page ::
  "arrow_api \<Rightarrow> ('r \<Rightarrow> column_info \<Rightarrow> nat \<Rightarrow> arrow_builder \<Rightarrow> arrow_builder option)
   \<Rightarrow> column_info list \<Rightarrow> 'r list \<Rightarrow> page_counts \<Rightarrow> chan \<Rightarrow> page_counts flow" where
  "emit_page arrow put columns rows counts ch =
     (if rows = [] then Go counts ch
      else bind_flow (may_panic (write_rows put columns rows (builder_new columns)) ch) (\<lambda>b ch1.
           bind_flow (emit_batch arrow b (fst counts) ch1)
             (\<lambda>_. Go (fst counts + 1, snd counts + of_nat (length rows)))))"

text \<open>A step that takes time and may fail, inside a stream.\<close>

definition flow_timed :: "'a result timed \<Rightarrow> chan \<Rightarrow> ('a \<times> nat) flow" where
  "flow_timed r ch =
     (case r of
        None \<Rightarrow> OutOfFuel ch
      | Some (Inl e, _) \<Rightarrow> Stop (snd (chan_send (Inl e) ch))
      | Some (Inr a, now) \<Rightarrow> Go (a, now) ch)"

section \<open>Laws of the poll loop\<close>

text \<open>
  A poll either hangs or is answered, whatever the answer says. If none hangs and the answers take
  a bounded time, the loop returns within the deadline and one more poll; if the next one hangs,
  it never returns.
\<close>

locale poller =
  fixes ask :: "nat \<Rightarrow> 'a poll_answer timed" and hangs :: "nat \<Rightarrow> bool" and delay :: "nat \<Rightarrow> nat"
  assumes answers: "\<not> hangs t \<Longrightarrow> \<exists>p. ask t = Some (p, delay t)"
    and silent: "hangs t \<Longrightarrow> ask t = None"
begin

lemma poll_returns:
  assumes live: "\<And>t. \<not> hangs t" "\<And>t. delay t \<le> limit"
    and "now \<le> deadline + POLL_INTERVAL + limit"
  shows "\<exists>r t. poll_loop expired ask deadline now = Some (r, t)
    \<and> t \<le> deadline + POLL_INTERVAL + limit"
  using assms(3)
proof (induction "Suc deadline - now" arbitrary: now rule: less_induct)
  case less
  show ?case
  proof (cases "deadline < now")
    case True
    then show ?thesis using less.prems by (subst poll_loop_unfold) simp
  next
    case False
    let ?d = "delay (now + POLL_INTERVAL)"
    obtain p where p: "ask (now + POLL_INTERVAL) = Some (p, ?d)" using answers live(1) by blast
    let ?now = "now + POLL_INTERVAL + ?d"
    have bound: "?now \<le> deadline + POLL_INTERVAL + limit"
      using False live(2) [of "now + POLL_INTERVAL"] by linarith
    moreover have "Suc deadline - ?now < Suc deadline - now" using False by (simp add: POLL_INTERVAL_def)
    ultimately have "\<exists>r t. poll_loop expired ask deadline ?now = Some (r, t)
        \<and> t \<le> deadline + POLL_INTERVAL + limit"
      using less.hyps by blast
    then show ?thesis using False p bound by (subst poll_loop_unfold) (cases p; simp)
  qed
qed

lemma poll_hangs:
  "\<lbrakk>now \<le> deadline; hangs (now + POLL_INTERVAL)\<rbrakk> \<Longrightarrow> poll_loop expired ask deadline now = None"
  using silent by (subst poll_loop_unfold) simp

end

text \<open>The time of an answer without a time-out and with one.\<close>

definition untimed_delay :: "rest_service \<Rightarrow> rest_request \<Rightarrow> nat \<Rightarrow> nat" where
  "untimed_delay sv rq t = (case ask_untimed sv rq t of None \<Rightarrow> 0 | Some (_, d) \<Rightarrow> d)"

definition timed_delay :: "nat \<Rightarrow> rest_service \<Rightarrow> rest_request \<Rightarrow> nat \<Rightarrow> nat" where
  "timed_delay limit sv rq t = (case ask_within limit sv rq t of None \<Rightarrow> 0 | Some (_, t') \<Rightarrow> t' - t)"

lemma poll_finishes:
  assumes "\<And>t. t < T \<Longrightarrow> \<exists>d \<le> delay. ask t = Some (PollAgain, d)"
    "\<And>t. T \<le> t \<Longrightarrow> \<exists>d. ask t = Some (PollDone a, d)"
    "T + delay \<le> deadline" "now \<le> deadline"
  shows "\<exists>t. poll_loop expired ask deadline now = Some (Inr a, t)"
  using assms(4)
proof (induction "deadline - now" arbitrary: now rule: less_induct)
  case less
  show ?case
  proof (cases "T \<le> now + POLL_INTERVAL")
    case True
    then obtain d where "ask (now + POLL_INTERVAL) = Some (PollDone a, d)" using assms(2) by blast
    then show ?thesis using less.prems by (subst poll_loop_unfold) simp
  next
    case False
    then obtain d where d: "d \<le> delay" "ask (now + POLL_INTERVAL) = Some (PollAgain, d)"
      using assms(1) [of "now + POLL_INTERVAL"] by auto
    have now': "now + POLL_INTERVAL + d \<le> deadline" using False d(1) assms(3) by linarith
    moreover have "deadline - (now + POLL_INTERVAL + d) < deadline - now"
      using now' by (simp add: POLL_INTERVAL_def)
    ultimately show ?thesis
      using less.hyps d(2) less.prems by (subst poll_loop_unfold) simp
  qed
qed

section \<open>Laws of the pages\<close>

text \<open>A request that always gets the same whole reply within the time-out.\<close>

definition prompt :: "rest_service \<Rightarrow> rest_request \<Rightarrow> rest_reply \<Rightarrow> bool" where
  "prompt sv rq r \<longleftrightarrow>
     (\<forall>t. \<exists>d b. d + b \<le> DATASOURCE_TIMEOUT_QUERY \<and> sv rq t = Answered r d (Some b))"

lemma prompt_ask:
  assumes "prompt sv rq r"
  obtains d where "ask_within DATASOURCE_TIMEOUT_QUERY sv rq now = Some (Some r, now + d)"
    "ask_whole DATASOURCE_TIMEOUT_QUERY sv rq now = (Some r, now + d)"
proof -
  obtain d b where "d + b \<le> DATASOURCE_TIMEOUT_QUERY" "sv rq now = Answered r d (Some b)"
    using assms unfolding prompt_def by blast
  then show thesis
    by (intro that [of "d + b"]) (simp_all add: ask_within_def await_def ask_whole_def)
qed

text \<open>A service whose answers all end, once they begin, within \<open>reading\<close> milliseconds.\<close>

definition bodies_end :: "rest_service \<Rightarrow> nat \<Rightarrow> bool" where
  "bodies_end sv reading \<longleftrightarrow>
     (\<forall>rq t. case sv rq t of
        Silent \<Rightarrow> True
      | Answered r d b \<Rightarrow> (case b of None \<Rightarrow> False | Some n \<Rightarrow> n \<le> reading))"

lemma ask_within_returns:
  assumes "bodies_end sv reading"
  obtains r t where "ask_within limit sv rq now = Some (r, t)" "now \<le> t" "t \<le> now + limit + reading"
proof -
  have "case sv rq now of Silent \<Rightarrow> True | Answered r d b \<Rightarrow> (case b of None \<Rightarrow> False | Some n \<Rightarrow> n \<le> reading)"
    using assms unfolding bodies_end_def by blast
  then show thesis
    by (intro that [of "fst (the (ask_within limit sv rq now))" "snd (the (ask_within limit sv rq now))"])
       (auto simp: ask_within_def await_def split: outcome.splits option.splits)
qed

lemma send_error_ok:
  assumes "at_phase p ch" "p \<noteq> Closed"
  shows "flow_ok Q (Stop (snd (chan_send (Inl e) ch)))"
proof -
  have "proto_step p (Inl e) = Some Closed" using assms(2) by (cases p) auto
  then show ?thesis
    using chan_send_phase(1) [OF assms(1)] at_phase_closed_ended by simp (metis prod.collapse)
qed

lemma flow_timed_phase:
  assumes "at_phase p ch" "p \<noteq> Closed"
  shows "flow_ok (\<lambda>_. at_phase p) (flow_timed r ch)"
  using assms(1) send_error_ok [OF assms] at_phase_ordered [OF assms(1)]
  by (auto simp: flow_timed_def split: option.split prod.split sum.split)

lemma flow_timed_init: "at_phase Init ch \<Longrightarrow> flow_ok (\<lambda>_. at_phase Init) (flow_timed r ch)"
  by (rule flow_timed_phase) simp_all

lemma flow_timed_open:
  assumes "at_open i ch"
  shows "flow_ok (\<lambda>_. at_open i) (flow_timed r ch)"
proof -
  obtain k where k: "at_phase (Open k) ch" "i = of_nat k" using assms by (auto simp: at_open_def)
  have "flow_ok (\<lambda>_. at_phase (Open k)) (flow_timed r ch)" using k(1) by (rule flow_timed_phase) simp
  then show ?thesis by (rule flow_ok_mono) (auto simp: at_open_def k(2))
qed

lemma flow_timed_simps [simp]:
  "flow_timed (Some (Inr a, t)) ch = Go (a, t) ch"
  "flow_timed (Some (Inl e, t)) ch = Stop (snd (chan_send (Inl e) ch))"
  "flow_timed None ch = OutOfFuel ch"
  by (simp_all add: flow_timed_def)

lemma emit_page_ok:
  assumes "at_open (fst counts) ch"
  shows "flow_ok (\<lambda>c. at_open (fst c)) (emit_page arrow put cols rows counts ch)"
  unfolding emit_page_def
  using assms
  by (auto intro!: flow_ok_bind [of "\<lambda>_ ch1. ch1 = ch"] may_panic_ok flow_ok_bind [OF emit_batch_ok])

lemma send_complete_ok:
  assumes "at_open n ch"
  shows "flow_ok (\<lambda>_. at_phase Closed) (send_quiet (Inr (Complete elapsed bytes n rows)) ch)"
proof -
  obtain k where k: "at_phase (Open k) ch" "n = of_nat k" using assms by (auto simp: at_open_def)
  then show ?thesis
    using chan_send_phase(1) [OF k(1), of "Inr (Complete elapsed bytes n rows)" Closed]
    by (simp add: send_quiet_def) (metis prod.collapse)
qed

text \<open>The pages that make batches: those with rows.\<close>

definition full_pages :: "'r list list \<Rightarrow> 'r list list" where
  "full_pages pages = filter (\<lambda>p. p \<noteq> []) pages"

lemma full_pages_simps [simp]:
  "full_pages [] = []" "full_pages ([] # ps) = full_pages ps"
  "full_pages ((r # rs) # ps) = (r # rs) # full_pages ps"
  by (simp_all add: full_pages_def)

lemma full_pages_Cons: "full_pages (p # ps) = full_pages [p] @ full_pages ps"
  by (simp add: full_pages_def)

lemma concat_full_pages [simp]: "concat (full_pages ps) = concat ps"
  by (induction ps) (auto simp: full_pages_def)

lemma batch_events_append:
  "batch_events arrow put cols k (xs @ ys)
     = batch_events arrow put cols k xs @ batch_events arrow put cols (k + length xs) ys"
  by (induction xs arbitrary: k) simp_all

context row_writer
begin

lemma emit_page_reader:
  assumes "try_new_law arrow" "ipc_law arrow" "cols \<noteq> []" "list_all ok rows"
  shows "emit_page arrow put cols rows (of_nat k, t) (reader ms)
    = Go (of_nat (k + length (full_pages [rows])), t + of_nat (length rows))
        (reader (ms @ batch_events arrow put cols k (full_pages [rows])))"
proof (cases rows)
  case (Cons r rs)
  obtain b where b: "write_rows put cols rows (builder_new cols) = Some b"
    using write_rows_ok [OF assms(4) builder_new_ok] by blast
  then have "pending put ok cols rows b" using assms(4) by (simp add: pending_def)
  from pending_emit [OF assms(1-3) this] show ?thesis
    using b Cons by (simp add: emit_page_def add.commute)
qed (simp add: emit_page_def)

end

end
