(* ===== verification/Snowflake.thy ===== *)
theory Snowflake
  imports Rest_Api
begin

text \<open>
  The Snowflake provider of \<^verbatim>\<open>providers/snowflake.rs\<close>: the three ways to authenticate,
  statements submitted over the SQL API and polled while they run, results in numbered
  partitions. Key parsing, hashing and signing (the \<^verbatim>\<open>rsa\<close>, \<^verbatim>\<open>sha2\<close>,
  \<^verbatim>\<open>base64\<close> and \<^verbatim>\<open>jsonwebtoken\<close> crates) are parameters.
\<close>

section \<open>Authentication\<close>

datatype auth_type = SessionOrOAuth | KeypairJwt

record snowflake_provider =
  sn_account :: string
  sn_token :: string
  sn_auth_type :: auth_type
  sn_warehouse :: "string option"
  sn_database :: "string option"
  sn_schema :: "string option"
  sn_role :: "string option"

record 'k rsa_api =
  rsa_pkcs8_encrypted_pem :: "string \<Rightarrow> string \<Rightarrow> string + 'k"
  rsa_pkcs1_pem :: "string \<Rightarrow> string + 'k"
  rsa_pkcs8_pem :: "string \<Rightarrow> string + 'k"
  rsa_public_der :: "'k \<Rightarrow> string + u8 list"
  rsa_export_pem :: "'k \<Rightarrow> string + string"
  rsa_sha256 :: "u8 list \<Rightarrow> u8 list"
  rsa_base64 :: "u8 list \<Rightarrow> string"
  jwt_key_error :: "string \<Rightarrow> string option" \<comment> \<open>\<^verbatim>\<open>EncodingKey::from_rsa_pem\<close>\<close>
  jwt_encode :: "string \<Rightarrow> json \<Rightarrow> string + string"

definition JWT_LIFETIME_SECS :: i64 where
  "JWT_LIFETIME_SECS = 60"

definition parse_rsa_private_key :: "'k rsa_api \<Rightarrow> string \<Rightarrow> string option \<Rightarrow> 'k result" where
  "parse_rsa_private_key rsa pem_str passphrase =
     (let trimmed = str_trim pem_str in
      if str_contains trimmed ''ENCRYPTED PRIVATE KEY''
      then (case passphrase of
              None \<Rightarrow> Inl (Provider ''Private key is encrypted but no passphrase was provided'')
            | Some password \<Rightarrow>
                (case rsa_pkcs8_encrypted_pem rsa trimmed password of
                   Inl e \<Rightarrow> Inl (Internal (''Failed to decrypt PKCS#8 private key: '' @ e))
                 | Inr k \<Rightarrow> Inr k))
      else if str_contains trimmed ''RSA PRIVATE KEY''
      then (case rsa_pkcs1_pem rsa trimmed of
              Inl e \<Rightarrow> Inl (Internal (''Failed to parse PKCS#1 RSA private key: '' @ e))
            | Inr k \<Rightarrow> Inr k)
      else (case rsa_pkcs8_pem rsa trimmed of
              Inl e \<Rightarrow> Inl (Internal (''Failed to parse PKCS#8 private key: '' @ e))
            | Inr k \<Rightarrow> Inr k))"

definition compute_public_key_fingerprint :: "'k rsa_api \<Rightarrow> 'k \<Rightarrow> string result" where
  "compute_public_key_fingerprint rsa k =
     (case rsa_public_der rsa k of
        Inl e \<Rightarrow> Inl (Internal (''Failed to encode public key as DER: '' @ e))
      | Inr der \<Rightarrow> Inr (rsa_base64 rsa (rsa_sha256 rsa der)))"

definition build_qualified_name :: "string \<Rightarrow> string \<Rightarrow> string" where
  "build_qualified_name account username =
     map (\<lambda>c. if c = CHR ''.'' then CHR ''-'' else c) (to_uppercase account) @ ''.''
     @ to_uppercase username"

definition jwt_claims :: "string \<Rightarrow> string \<Rightarrow> i64 \<Rightarrow> json" where
  "jwt_claims qualified_name fingerprint now = json_obj
     [(''iss'', Some (JString (qualified_name @ ''.SHA256:'' @ fingerprint))),
      (''sub'', Some (JString qualified_name)), (''iat'', Some (ser_i64 now)),
      (''exp'', Some (ser_i64 (now + JWT_LIFETIME_SECS)))]"

definition generate_keypair_jwt ::
  "'k rsa_api \<Rightarrow> i64 \<Rightarrow> string \<Rightarrow> string \<Rightarrow> string \<Rightarrow> string option \<Rightarrow> string result" where
  "generate_keypair_jwt rsa now account username pem passphrase =
     (case parse_rsa_private_key rsa pem passphrase of
        Inl e \<Rightarrow> Inl e
      | Inr k \<Rightarrow>
     (case compute_public_key_fingerprint rsa k of
        Inl e \<Rightarrow> Inl e
      | Inr fingerprint \<Rightarrow>
     (case rsa_export_pem rsa k of
        Inl e \<Rightarrow> Inl (Internal (''Failed to export private key as PKCS#8 PEM: '' @ e))
      | Inr key_pem \<Rightarrow>
     (case jwt_key_error rsa key_pem of
        Some e \<Rightarrow> Inl (Internal (''Failed to create JWT encoding key: '' @ e))
      | None \<Rightarrow>
     (case jwt_encode rsa key_pem (jwt_claims (build_qualified_name account username) fingerprint now) of
        Inl e \<Rightarrow> Inl (Internal (''Failed to sign Snowflake JWT: '' @ e))
      | Inr jwt \<Rightarrow> Inr jwt)))))"

definition login_password ::
  "rest_service \<Rightarrow> string \<Rightarrow> string \<Rightarrow> string \<Rightarrow> nat \<Rightarrow> string result option" where
  "login_password sv account username password now =
     (case ask_within DATASOURCE_TIMEOUT_CONNECT sv
        \<lparr>rq_url = ''https://'' @ account @ ''.snowflakecomputing.com/session/v1/login-request'',
         rq_body = PostJson (json_obj [(''data'', Some (json_obj
           [(''LOGIN_NAME'', Some (JString username)), (''PASSWORD'', Some (JString password)),
            (''ACCOUNT_NAME'', Some (JString account))]))]),
         rq_token = None, rq_token_type = None\<rparr> now of
        None \<Rightarrow> None
      | Some (None, _) \<Rightarrow> Some (Inl (Internal ''Snowflake login timed out after 30s''))
      | Some (Some (RestErr e), _) \<Rightarrow> Some (Inl (Internal (''Snowflake login request failed: '' @ e)))
      | Some (Some (RestNotJson _ e), _) \<Rightarrow> Some (Inl (Internal (''Failed to parse Snowflake login response: '' @ e)))
      | Some (Some (RestJson _ body), _) \<Rightarrow>
          if get_bool body ''success'' \<noteq> Some True
          then Some (Inl (Internal (path_str_or ''Snowflake login failed'' body [''message''])))
          else (case path_str body [''data'', ''token''] of
                  None \<Rightarrow> Some (Inl (Internal ''Snowflake login response missing token''))
                | Some token \<Rightarrow> Some (Inr token)))"

text \<open>
  The method is the first whose secret is there: OAuth, key pair, password. \<^const>\<open>None\<close> is a login
  whose reply never ends.
\<close>

definition snowflake_new ::
  "'k rsa_api \<Rightarrow> rest_service \<Rightarrow> json \<Rightarrow> json \<Rightarrow> i64 \<Rightarrow> nat \<Rightarrow> snowflake_provider result option" where
  "snowflake_new rsa sv config credentials utc now =
     (case get_str config ''account'' of
        None \<Rightarrow> Some (Inl (Provider ''Snowflake account is required''))
      | Some account \<Rightarrow>
     (let provider = (\<lambda>token ty. \<lparr>sn_account = account, sn_token = token, sn_auth_type = ty,
            sn_warehouse = get_str config ''warehouse'', sn_database = get_str config ''database'',
            sn_schema = get_str config ''schema'', sn_role = get_str config ''role''\<rparr>) in
      if_some (nonempty (get_str credentials ''oauth_access_token''))
        (\<lambda>token. Some (Inr (provider token SessionOrOAuth)))
     (if_some (nonempty (get_str credentials ''private_key''))
        (\<lambda>pem. case get_str credentials ''username'' of
            None \<Rightarrow> Some (Inl (Provider ''Snowflake requires username for key-pair authentication''))
          | Some username \<Rightarrow>
              (case generate_keypair_jwt rsa utc account username pem
                      (nonempty (get_str credentials ''private_key_passphrase'')) of
                 Inl e \<Rightarrow> Some (Inl e)
               | Inr jwt \<Rightarrow> Some (Inr (provider jwt KeypairJwt))))
     (case get_str credentials ''username'' of
        None \<Rightarrow> Some (Inl (Provider ''Snowflake requires username for password authentication''))
      | Some username \<Rightarrow>
     (case get_str credentials ''password'' of
        None \<Rightarrow> Some (Inl (Provider ''Snowflake requires password for password authentication''))
      | Some password \<Rightarrow>
     map_option (\<lambda>r. case r of
        Inl e \<Rightarrow> Inl e
      | Inr token \<Rightarrow> Inr (provider token SessionOrOAuth))
     (login_password sv account username password now))))))"

section \<open>Statements\<close>

definition sf_statements_url :: "snowflake_provider \<Rightarrow> string" where
  "sf_statements_url sp = ''https://'' @ sn_account sp @ ''.snowflakecomputing.com/api/v2/statements''"

definition sf_request :: "snowflake_provider \<Rightarrow> string \<Rightarrow> rest_body \<Rightarrow> rest_request" where
  "sf_request sp url body =
     \<lparr>rq_url = url, rq_body = body, rq_token = Some (sn_token sp),
      rq_token_type = (if sn_auth_type sp = KeypairJwt then Some ''KEYPAIR_JWT'' else None)\<rparr>"

definition sf_statement_body :: "snowflake_provider \<Rightarrow> string \<Rightarrow> json" where
  "sf_statement_body sp sql = json_obj
     [(''statement'', Some (JString sql)), (''timeout'', Some (JNumber (PosInt 120))),
      (''warehouse'', map_option JString (sn_warehouse sp)),
      (''database'', map_option JString (sn_database sp)),
      (''schema'', map_option JString (sn_schema sp)), (''role'', map_option JString (sn_role sp))]"

definition sf_code :: "json \<Rightarrow> string" where
  "sf_code body = path_str_or [] body [''code'']"

text \<open>The body of a poll; its HTTP status is not looked at.\<close>

definition sf_poll_body :: "json \<Rightarrow> json poll_answer" where
  "sf_poll_body body =
     (if sf_code body = ''333334'' then PollAgain
      else if path_str_or [] body [''status''] = ''FAILED_WITH_ERROR''
      then PollFail (path_str_or ''Snowflake statement failed'' body [''message''])
      else PollDone body)"

definition sf_poll_reply :: "rest_reply \<Rightarrow> json poll_answer" where
  "sf_poll_reply r = (case r of
      RestErr e \<Rightarrow> PollFail (''Snowflake poll failed: '' @ e)
    | RestNotJson _ e \<Rightarrow> PollFail (''Failed to parse Snowflake poll response: '' @ e)
    | RestJson _ body \<Rightarrow> sf_poll_body body)"

definition sf_poll :: "rest_service \<Rightarrow> rest_request \<Rightarrow> nat \<Rightarrow> json poll_answer timed" where
  "sf_poll sv rq t = map_option (\<lambda>(r, d). (sf_poll_reply r, d)) (ask_untimed sv rq t)"

interpretation sf_poller: poller "sf_poll sv rq" "\<lambda>t. ask_untimed sv rq t = None" "untimed_delay sv rq"
  by unfold_locales (auto simp: sf_poll_def untimed_delay_def)

definition SF_POLL_TIMEOUT :: nat where
  "SF_POLL_TIMEOUT = 120000"

definition poll_statement_url ::
  "rest_service \<Rightarrow> snowflake_provider \<Rightarrow> string \<Rightarrow> nat \<Rightarrow> json result timed" where
  "poll_statement_url sv sp url now =
     poll_loop ''Snowflake statement polling timed out'' (sf_poll sv (sf_request sp url Get))
       (now + SF_POLL_TIMEOUT) now"

definition sf_poll_statement ::
  "rest_service \<Rightarrow> snowflake_provider \<Rightarrow> string \<Rightarrow> nat \<Rightarrow> json result timed" where
  "sf_poll_statement sv sp handle now =
     poll_statement_url sv sp (sf_statements_url sp @ ''/'' @ handle) now"

definition sf_submit_statement ::
  "rest_service \<Rightarrow> snowflake_provider \<Rightarrow> string \<Rightarrow> nat \<Rightarrow> json result timed" where
  "sf_submit_statement sv sp sql now =
     (case ask_within DATASOURCE_TIMEOUT_QUERY sv
        (sf_request sp (sf_statements_url sp) (PostJson (sf_statement_body sp sql))) now of
        None \<Rightarrow> None
      | Some (None, t) \<Rightarrow> Some (Inl (Internal ''Snowflake statement timed out after 120s''), t)
      | Some (Some (RestErr e), t) \<Rightarrow> Some (Inl (Internal (''Snowflake HTTP request failed: '' @ e)), t)
      | Some (Some (RestNotJson _ e), t) \<Rightarrow> Some (Inl (Internal (''Failed to parse Snowflake response: '' @ e)), t)
      | Some (Some (RestJson status body), t) \<Rightarrow>
          if is_error_status status
          then Some (Inl (Internal (path_str_or ''Unknown Snowflake error'' body [''message''])), t)
          else if sf_code body = ''333334''
          then if_some (get_str body ''statementHandle'') (\<lambda>handle. sf_poll_statement sv sp handle t)
              (if_some (get_str body ''statementStatusUrl'') (\<lambda>url. poll_statement_url sv sp url t)
              (Some (Inr body, t)))
          else Some (Inr body, t))"

section \<open>Results\<close>

definition sf_column_type :: "json \<Rightarrow> simple_type" where
  "sf_column_type col =
     (case get_str col ''type'' of
        None \<Rightarrow> TUnknown
      | Some ty \<Rightarrow>
          (case snowflake_type_name_to_code ty of
             Some code \<Rightarrow> map_snowflake_type_code code
           | None \<Rightarrow> map_snowflake_type_name ty))"

definition sf_columns :: "json \<Rightarrow> column_info list" where
  "sf_columns body =
     map (\<lambda>col. \<lparr>col_name = path_str_or ''?'' col [''name''], col_type = sf_column_type col\<rparr>)
       (path_array body [''resultSetMetaData'', ''rowType''])"

definition sf_rows :: "json \<Rightarrow> json list list" where
  "sf_rows body = json_rows (path_array body [''data''])"

definition snowflake_test_connection ::
  "rest_service \<Rightarrow> snowflake_provider \<Rightarrow> nat \<Rightarrow> bool result timed" where
  "snowflake_test_connection sv sp now =
     map_option (\<lambda>(r, t). (case r of
        Inr _ \<Rightarrow> Inr True
      | Inl e \<Rightarrow> Inl (Internal (''Snowflake test connection failed: '' @ error_to_string e)), t))
     (sf_submit_statement sv sp ''SELECT 1'' now)"

definition snowflake_total_count ::
  "rest_service \<Rightarrow> snowflake_provider \<Rightarrow> string \<Rightarrow> nat \<Rightarrow> i64 option timed" where
  "snowflake_total_count sv sp sql now =
     map_option (\<lambda>(r, t). (case r of
        Inl _ \<Rightarrow> None
      | Inr body \<Rightarrow>
          (case path_array body [''data''] of
             row # _ \<Rightarrow> (case as_array row of Some (v # _) \<Rightarrow> i64_or_str v | _ \<Rightarrow> None)
           | [] \<Rightarrow> None), t))
     (sf_submit_statement sv sp (''SELECT COUNT(*) FROM ('' @ sql @ '') AS _count_subquery'') now)"

definition snowflake_execute_query ::
  "arrow_api \<Rightarrow> value_api \<Rightarrow> rest_service \<Rightarrow> snowflake_provider \<Rightarrow> i64 \<Rightarrow> string
   \<Rightarrow> u32 option \<Rightarrow> u32 option \<Rightarrow> bool \<Rightarrow> nat \<Rightarrow> query_result option timed" where
  "snowflake_execute_query arrow api sv sp elapsed sql limit offset include_total now =
     (let prepared = prepare_query sql limit offset in
      Option.bind
        (if pq_is_select prepared \<and> include_total
         then snowflake_total_count sv sp (pq_sql_stripped prepared) now else Some (None, now))
        (\<lambda>(total_rows, t0).
      map_option (\<lambda>(r, t1).
        (case r of
           Inl e \<Rightarrow> Some (query_failed elapsed (error_to_string e))
         | Inr body \<Rightarrow>
             query_succeeded arrow (json_put api) (sf_columns body) (sf_rows body) total_rows
               (case limit of Some l \<Rightarrow> l | None \<Rightarrow> 1000) elapsed, t1))
        (sf_submit_statement sv sp (pq_sql prepared) t0)))"

definition snowflake_line_re :: string where
  "snowflake_line_re = ''(?i)line'' @ [CHR 0x5C] @ ''s+('' @ [CHR 0x5C] @ ''d+)''"

definition parse_snowflake_error_line :: "regex \<Rightarrow> string \<Rightarrow> u32 option" where
  "parse_snowflake_error_line rx msg = Option.bind (rx snowflake_line_re msg 1) parse_u32"

definition snowflake_dry_run ::
  "regex \<Rightarrow> rest_service \<Rightarrow> snowflake_provider \<Rightarrow> string \<Rightarrow> nat \<Rightarrow> dry_run_result timed" where
  "snowflake_dry_run rx sv sp sql now =
     map_option (\<lambda>(r, t). (case r of
        Inr _ \<Rightarrow> dry_run_success ''Query valid''
      | Inl e \<Rightarrow> dry_run_failure (error_to_string e)
                  (parse_snowflake_error_line rx (error_to_string e)) None, t))
     (sf_submit_statement sv sp (''EXPLAIN '' @ sql) now)"

definition snowflake_list_databases ::
  "arrow_api \<Rightarrow> value_api \<Rightarrow> rest_service \<Rightarrow> snowflake_provider \<Rightarrow> i64 \<Rightarrow> nat
   \<Rightarrow> discovery_result option timed" where
  "snowflake_list_databases arrow api sv sp elapsed now =
     map_option (\<lambda>(res, t). (map_option (\<lambda>result.
        \<lparr>di_items = sort (filter (\<lambda>name. to_uppercase name \<noteq> ''SNOWFLAKE''
             \<and> to_uppercase name \<noteq> ''SNOWFLAKE_SAMPLE_DATA'')
           (extract_string_col_from_batch (qr_record_batch result) 1)), di_error = None\<rparr>) res, t))
     (snowflake_execute_query arrow api sv sp elapsed ''SHOW DATABASES'' None None False now)"

definition snowflake_list_warehouses ::
  "arrow_api \<Rightarrow> value_api \<Rightarrow> rest_service \<Rightarrow> snowflake_provider \<Rightarrow> i64 \<Rightarrow> nat
   \<Rightarrow> discovery_result option timed" where
  "snowflake_list_warehouses arrow api sv sp elapsed now =
     map_option (\<lambda>(res, t). (map_option (\<lambda>result.
        \<lparr>di_items = sort (extract_string_col_from_batch (qr_record_batch result) 0), di_error = None\<rparr>) res, t))
     (snowflake_execute_query arrow api sv sp elapsed ''SHOW WAREHOUSES'' None None False now)"

section \<open>The stream\<close>

text \<open>The polls of a stream have a time-out of their own, for the head of the reply.\<close>

definition sf_stream_poll :: "rest_service \<Rightarrow> rest_request \<Rightarrow> nat \<Rightarrow> json poll_answer timed" where
  "sf_stream_poll sv rq t =
     (case ask_within DATASOURCE_TIMEOUT_QUERY sv rq t of
        None \<Rightarrow> None
      | Some (None, t') \<Rightarrow> Some (PollFail ''Snowflake poll timed out after 120s'', t' - t)
      | Some (Some r, t') \<Rightarrow> Some (sf_poll_reply r, t' - t))"

definition sf_stream_statement ::
  "rest_service \<Rightarrow> snowflake_provider \<Rightarrow> string \<Rightarrow> nat \<Rightarrow> json result timed" where
  "sf_stream_statement sv sp sql now =
     (case ask_within DATASOURCE_TIMEOUT_QUERY sv
        (sf_request sp (sf_statements_url sp) (PostJson (sf_statement_body sp sql))) now of
        None \<Rightarrow> None
      | Some (None, t) \<Rightarrow> Some (Inl (Internal ''Snowflake statement timed out after 120s''), t)
      | Some (Some (RestErr e), t) \<Rightarrow> Some (Inl (Internal (''Snowflake HTTP request failed: '' @ e)), t)
      | Some (Some (RestNotJson _ e), t) \<Rightarrow> Some (Inl (Internal (''Failed to parse Snowflake response: '' @ e)), t)
      | Some (Some (RestJson status body), t) \<Rightarrow>
          if is_error_status status
          then Some (Inl (Internal (path_str_or ''Unknown Snowflake error'' body [''message''])), t)
          else if sf_code body = ''333334''
          then (case get_str body ''statementHandle'' of
                  None \<Rightarrow> Some (Inl (Internal ''Snowflake response missing statementHandle''), t)
                | Some handle \<Rightarrow>
                    poll_loop ''Snowflake statement polling timed out''
                      (sf_stream_poll sv (sf_request sp (sf_statements_url sp @ ''/'' @ handle) Get))
                      (t + SF_POLL_TIMEOUT) t)
          else Some (Inr body, t))"

definition partition_count :: "json \<Rightarrow> nat" where
  "partition_count body =
     max 1 (case Option.bind (json_path body [''resultSetMetaData'', ''partitionInfo'']) as_array of
              Some arr \<Rightarrow> length arr | None \<Rightarrow> 1)"

definition partition_url :: "snowflake_provider \<Rightarrow> string \<Rightarrow> nat \<Rightarrow> string" where
  "partition_url sp handle i =
     sf_statements_url sp @ ''/'' @ handle @ ''/result?partition='' @ show_nat i"

definition fetch_partition ::
  "rest_service \<Rightarrow> snowflake_provider \<Rightarrow> nat \<Rightarrow> string option \<Rightarrow> nat \<Rightarrow> nat \<Rightarrow> json result timed" where
  "fetch_partition sv sp ncols handle_opt i now =
     (case handle_opt of
        None \<Rightarrow> Some (Inl (Internal ''Snowflake: missing statementHandle for multi-partition fetch''), now)
      | Some handle \<Rightarrow>
     (case ask_within DATASOURCE_TIMEOUT_QUERY sv (sf_request sp (partition_url sp handle i) Get) now of
        None \<Rightarrow> None
      | Some (None, t) \<Rightarrow>
          Some (Inl (Internal (''Snowflake partition '' @ show_nat i @ '' fetch timed out after 120s'')), t)
      | Some (Some (RestErr e), t) \<Rightarrow>
          Some (Inl (Internal (''Snowflake partition '' @ show_nat i @ '' fetch failed: '' @ e)), t)
      | Some (Some (RestNotJson _ e), t) \<Rightarrow>
          Some (Inl (Internal (''Failed to parse Snowflake partition '' @ show_nat i @ '': '' @ e)), t)
      | Some (Some (RestJson status body), t) \<Rightarrow>
          if is_error_status status
          then Some (Inl (Internal (''Snowflake partition '' @ show_nat i @ '': ''
                 @ path_str_or ''Snowflake partition fetch failed'' body [''message''])), t)
          else if (case Option.bind (json_path body [''resultSetMetaData'', ''rowType'']) as_array of
                     Some arr \<Rightarrow> length arr | None \<Rightarrow> ncols) \<noteq> ncols
          then Some (Inl (Internal ''Snowflake schema changed between partitions''), t)
          else Some (Inr body, t)))"

fun stream_partitions ::
  "arrow_api \<Rightarrow> value_api \<Rightarrow> rest_service \<Rightarrow> snowflake_provider \<Rightarrow> column_info list \<Rightarrow> string option
   \<Rightarrow> nat list \<Rightarrow> page_counts \<Rightarrow> nat \<Rightarrow> chan \<Rightarrow> page_counts flow" where
  "stream_partitions arrow api sv sp columns handle_opt [] counts now ch = Go counts ch"
| "stream_partitions arrow api sv sp columns handle_opt (i # is) counts now ch =
     bind_flow (flow_timed (fetch_partition sv sp (length columns) handle_opt i now) ch) (\<lambda>(body, t) ch1.
     bind_flow (emit_page arrow (json_put api) columns (sf_rows body) counts ch1)
       (\<lambda>counts'. stream_partitions arrow api sv sp columns handle_opt is counts' t))"

definition snowflake_stream_arrow ::
  "arrow_api \<Rightarrow> value_api \<Rightarrow> rest_service \<Rightarrow> snowflake_provider \<Rightarrow> i64 \<Rightarrow> string
   \<Rightarrow> u32 option \<Rightarrow> u32 option \<Rightarrow> bool \<Rightarrow> u32 option \<Rightarrow> nat \<Rightarrow> chan \<Rightarrow> unit flow" where
  "snowflake_stream_arrow arrow api sv sp elapsed sql limit offset include_total chunk_size now ch =
     bind_flow (flow_timed (sf_stream_statement sv sp sql now) ch) (\<lambda>(body, t) ch1.
     bind_flow (emit_schema arrow (sf_columns body) None ch1) (\<lambda>_ ch2.
     bind_flow (emit_page arrow (json_put api) (sf_columns body) (sf_rows body) (0, 0) ch2) (\<lambda>counts ch3.
     bind_flow (stream_partitions arrow api sv sp (sf_columns body) (get_str body ''statementHandle'')
         [1 ..< partition_count body] counts t ch3)
       (\<lambda>counts. emit_complete elapsed (fst counts) (snd counts)))))"

interpretation sf_stream_poller: poller "sf_stream_poll sv rq"
    "\<lambda>t. ask_within DATASOURCE_TIMEOUT_QUERY sv rq t = None" "timed_delay DATASOURCE_TIMEOUT_QUERY sv rq"
  by unfold_locales (auto simp: sf_stream_poll_def timed_delay_def split: option.split)

section \<open>Protocol safety\<close>

lemma stream_partitions_ok:
  "at_open (fst counts) ch \<Longrightarrow>
   flow_ok (\<lambda>c. at_open (fst c)) (stream_partitions arrow api sv sp cols handle is counts now ch)"
proof (induction "is" arbitrary: counts now ch)
  case (Cons i "is")
  then show ?case
    unfolding stream_partitions.simps
    by (auto intro!: flow_ok_bind [OF flow_timed_open [OF Cons.prems]] flow_ok_bind [OF emit_page_ok] Cons.IH)
qed simp

lemma snowflake_stream_ok:
  assumes "at_phase Init ch"
  shows "flow_ok (\<lambda>_. at_phase Closed)
    (snowflake_stream_arrow arrow api sv sp elapsed sql limit offset tot n now ch)"
  unfolding snowflake_stream_arrow_def
  by (auto intro!: flow_ok_bind [OF flow_timed_init [OF assms]] flow_ok_bind [OF emit_schema_ok]
      flow_ok_bind [OF emit_page_ok] flow_ok_bind [OF stream_partitions_ok] intro: emit_complete_ok)

section \<open>What a statement delivers\<close>

text \<open>Partition \<open>i\<close> of a statement holds the rows \<open>page\<close>, with the columns of the first one.\<close>

definition partition_page ::
  "rest_service \<Rightarrow> snowflake_provider \<Rightarrow> nat \<Rightarrow> string \<Rightarrow> nat \<Rightarrow> json list list \<Rightarrow> bool" where
  "partition_page sv sp ncols handle i page \<longleftrightarrow>
     (\<exists>body. prompt sv (sf_request sp (partition_url sp handle i) Get) (RestJson 200 body) \<and>
        sf_rows body = page \<and>
        (case Option.bind (json_path body [''resultSetMetaData'', ''rowType'']) as_array of
           Some arr \<Rightarrow> length arr = ncols | None \<Rightarrow> True))"

lemma fetch_partition_page:
  assumes "partition_page sv sp ncols handle i page"
  shows "\<exists>body d. fetch_partition sv sp ncols (Some handle) i now = Some (Inr body, now + d) \<and>
    sf_rows body = page"
proof -
  obtain body where body: "prompt sv (sf_request sp (partition_url sp handle i) Get) (RestJson 200 body)"
    "sf_rows body = page"
    "case Option.bind (json_path body [''resultSetMetaData'', ''rowType'']) as_array of
       Some arr \<Rightarrow> length arr = ncols | None \<Rightarrow> True"
    using assms by (auto simp: partition_page_def)
  obtain d where "ask_within DATASOURCE_TIMEOUT_QUERY sv (sf_request sp (partition_url sp handle i) Get) now
      = Some (Some (RestJson 200 body), now + d)" by (rule prompt_ask [OF body(1)])
  then have "fetch_partition sv sp ncols (Some handle) i now = Some (Inr body, now + d)"
    using body(3) by (simp add: fetch_partition_def is_error_status_def split: option.splits)
  then show ?thesis using body(2) by blast
qed

lemma stream_partitions_reader:
  assumes laws: "try_new_law arrow" "ipc_law arrow" "cols \<noteq> []"
    and "list_all2 (partition_page sv sp (length cols) handle) is pages"
  shows "stream_partitions arrow api sv sp cols (Some handle) is (of_nat k, t) now (reader ms)
    = Go (of_nat (k + length (full_pages pages)), t + of_nat (length (concat pages)))
        (reader (ms @ batch_events arrow (json_put api) cols k (full_pages pages)))"
  using assms(4)
proof (induction "is" pages arbitrary: k t now ms rule: list_all2_induct)
  case (Cons i "is" page pages)
  obtain body d where "fetch_partition sv sp (length cols) (Some handle) i now = Some (Inr body, now + d)"
    "sf_rows body = page"
    using fetch_partition_page [OF Cons.hyps(1)] by blast
  then have "stream_partitions arrow api sv sp cols (Some handle) (i # is) (of_nat k, t) now (reader ms)
      = stream_partitions arrow api sv sp cols (Some handle) is
          (of_nat (k + length (full_pages [page])), t + of_nat (length page)) (now + d)
          (reader (ms @ batch_events arrow (json_put api) cols k (full_pages [page])))"
    using json_writer.emit_page_reader [OF laws, of page] by (simp add: list_all_iff)
  also have "\<dots> = Go (of_nat (k + length (full_pages [page]) + length (full_pages pages)),
        t + of_nat (length page) + of_nat (length (concat pages)))
      (reader ((ms @ batch_events arrow (json_put api) cols k (full_pages [page]))
        @ batch_events arrow (json_put api) cols (k + length (full_pages [page])) (full_pages pages)))"
    by (rule Cons.IH)
  finally show ?case
    by (simp add: full_pages_Cons [of page pages] batch_events_append add.assoc)
qed simp

text \<open>
  C14. A Snowflake result in several partitions: the stream delivers all of them in order, one
  batch for each with rows, and counts them exactly; the buffered query of the same statement
  returns the rows of the first partition only, with status success.
\<close>

theorem snowflake_partitions:
  assumes laws: "try_new_law arrow" "ipc_law arrow" "sf_columns body \<noteq> []"
    and body: "sf_stream_statement sv sp sql now = Some (Inr body, t)"
      "get_str body ''statementHandle'' = Some handle"
    and pages: "list_all2 (partition_page sv sp (length (sf_columns body)) handle)
      [1 ..< partition_count body] pages"
    and submit: "sf_submit_statement sv sp (pq_sql (prepare_query q limit offset)) now0 = Some (Inr body, t0)"
  shows "snowflake_stream_arrow arrow api sv sp elapsed sql limit offset tot n now (reader [])
      = Go () (reader (stream_of arrow (json_put api) (sf_columns body) None elapsed
          (full_pages (sf_rows body # pages)))) \<and>
    (\<exists>r batch. snowflake_execute_query arrow api sv sp elapsed q limit offset False now0 = Some (Some r, t0) \<and>
       qr_status r = Success \<and> qr_error r = None \<and> qr_record_batch r = Some batch \<and>
       rb_num_rows batch = length (sf_rows body))"
proof
  let ?cols = "sf_columns body"
  let ?ms = "[schema_event arrow ?cols None]
    @ batch_events arrow (json_put api) ?cols 0 (full_pages [sf_rows body])"
  have first: "emit_page arrow (json_put api) ?cols (sf_rows body) (0, 0) (reader [schema_event arrow ?cols None])
      = Go (of_nat (length (full_pages [sf_rows body])), of_nat (length (sf_rows body))) (reader ?ms)"
    using json_writer.emit_page_reader [OF laws, of "sf_rows body" api 0 0 "[schema_event arrow ?cols None]"]
    by (simp add: list_all_iff)
  note rest = stream_partitions_reader [OF laws pages, where k = "length (full_pages [sf_rows body])"
      and t = "of_nat (length (sf_rows body))" and now = t and ms = ?ms and api = api]
  show "snowflake_stream_arrow arrow api sv sp elapsed sql limit offset tot n now (reader [])
      = Go () (reader (stream_of arrow (json_put api) ?cols None elapsed (full_pages (sf_rows body # pages))))"
    unfolding snowflake_stream_arrow_def body(1)
    using rest first
    by (simp add: body(2) emit_schema_reader [OF laws(2)] emit_complete_def stream_of_def
        full_pages_Cons [of "sf_rows body" pages] batch_events_append)
  note batch = json_writer.query_succeeded_batch [OF laws(1,3), where rows = "sf_rows body"
      and api = api and tot = None and lim = "case limit of Some l \<Rightarrow> l | None \<Rightarrow> 1000" and elapsed = elapsed]
  show "\<exists>r batch. snowflake_execute_query arrow api sv sp elapsed q limit offset False now0 = Some (Some r, t0) \<and>
       qr_status r = Success \<and> qr_error r = None \<and> qr_record_batch r = Some batch \<and>
       rb_num_rows batch = length (sf_rows body)"
    using batch submit
    by (auto simp: snowflake_execute_query_def Let_def list_all_iff result_ok_def)
qed

text \<open>A service that answers a submission and a later request with fixed replies, for the witnesses.\<close>

definition demo_sp :: snowflake_provider where
  "demo_sp = \<lparr>sn_account = ''acme'', sn_token = ''t'', sn_auth_type = SessionOrOAuth, sn_warehouse = None,
     sn_database = None, sn_schema = None, sn_role = None\<rparr>"

definition demo_snowflake :: "rest_reply \<Rightarrow> rest_reply \<Rightarrow> rest_service" where
  "demo_snowflake first later = (\<lambda>rq t. Answered (case rq_body rq of PostJson _ \<Rightarrow> first | _ \<Rightarrow> later) 5 (Some 5))"

definition demo_result :: json where
  "demo_result = json_obj
     [(''statementHandle'', Some (JString ''h1'')), (''code'', Some (JString ''090001'')),
      (''resultSetMetaData'', Some (json_obj
         [(''rowType'', Some (JArray [json_obj [(''name'', Some (JString ''N'')), (''type'', Some (JString ''text''))]])),
          (''partitionInfo'', Some (JArray [JNull, JNull]))])),
      (''data'', Some (JArray [JArray [JString ''a'']]))]"

definition demo_partition :: json where
  "demo_partition = json_obj [(''data'', Some (JArray [JArray [JString ''b'']]))]"

lemma demo_result_facts:
  "sf_code demo_result \<noteq> ''333334''" "get_str demo_result ''statementHandle'' = Some ''h1''"
  "partition_count demo_result = 2" "sf_columns demo_result = [\<lparr>col_name = ''N'', col_type = TString\<rparr>]"
  "sf_rows demo_result = [[JString ''a'']]" "sf_rows demo_partition = [[JString ''b'']]"
  "json_get demo_partition ''resultSetMetaData'' = None"
  by code_simp+

lemma demo_snowflake_statement:
  "sf_stream_statement (demo_snowflake (RestJson 200 demo_result) r) demo_sp sql 0 = Some (Inr demo_result, 10)"
  "sf_submit_statement (demo_snowflake (RestJson 200 demo_result) r) demo_sp sql 0 = Some (Inr demo_result, 10)"
  using demo_result_facts(1)
  by (simp_all add: sf_stream_statement_def sf_submit_statement_def ask_within_def await_def demo_snowflake_def
      sf_request_def DATASOURCE_TIMEOUT_QUERY_def is_error_status_def)

lemma demo_snowflake_partition:
  "partition_page (demo_snowflake r (RestJson 200 demo_partition)) demo_sp n h i [[JString ''b'']]"
  using demo_result_facts(6,7)
  by (auto simp: partition_page_def prompt_def demo_snowflake_def sf_request_def
      DATASOURCE_TIMEOUT_QUERY_def intro!: exI [of _ demo_partition])

theorem snowflake_partitions_witness:
  "\<forall>api elapsed. snowflake_stream_arrow demo_arrow api
      (demo_snowflake (RestJson 200 demo_result) (RestJson 200 demo_partition)) demo_sp elapsed ''SELECT 1''
      None None False None 0 (reader [])
    = Go () (reader (stream_of demo_arrow (json_put api) (sf_columns demo_result) None elapsed
        [[[JString ''a'']], [[JString ''b'']]]))"
proof -
  have pages: "list_all2 (partition_page (demo_snowflake (RestJson 200 demo_result) (RestJson 200 demo_partition))
      demo_sp (length (sf_columns demo_result)) ''h1'') [1 ..< partition_count demo_result] [[[JString ''b'']]]"
    using demo_snowflake_partition by (simp add: demo_result_facts(3) upt_rec)
  note all = snowflake_partitions [OF demo_arrow_law demo_ipc_law _ demo_snowflake_statement(1)
      demo_result_facts(2) pages demo_snowflake_statement(2)]
  show ?thesis
    by (intro allI, rule trans [OF conjunct1 [OF all]]) (simp_all add: full_pages_def demo_result_facts(4,5))
qed

section \<open>Failed statements\<close>

text \<open>
  A statement that fails while it is being polled is reported as a success: the poll reads
  the body of an error reply but not its status, so a query whose poll is answered with an error
  status and the documented error object ends with status success, no columns and no error.
\<close>

theorem snowflake_poll_failure_hidden:
  assumes submit: "sv (sf_request sp (sf_statements_url sp)
        (PostJson (sf_statement_body sp (pq_sql (prepare_query q limit offset))))) now
        = Answered (RestJson 202 accepted) d (Some b)" "d \<le> DATASOURCE_TIMEOUT_QUERY"
      "sf_code accepted = ''333334''" "get_str accepted ''statementHandle'' = Some handle"
    and poll: "\<And>t. sv (sf_request sp (sf_statements_url sp @ ''/'' @ handle) Get) t
        = Answered (RestJson status failure) d' (Some b')" "is_error_status status"
    and failure: "sf_code failure \<noteq> ''333334''" "json_get failure ''status'' = None"
      "json_get failure ''resultSetMetaData'' = None"
  shows "\<exists>r t. snowflake_execute_query arrow api sv sp elapsed q limit offset False now = Some (Some r, t) \<and>
     qr_status r = Success \<and> qr_columns r = Some [] \<and> qr_error r = None"
proof -
  have "sf_poll_body failure = PollDone failure"
    using failure by (simp add: sf_poll_body_def path_str_or_def path_str_def)
  then have "\<exists>t. sf_submit_statement sv sp (pq_sql (prepare_query q limit offset)) now = Some (Inr failure, t)"
    using submit poll(1)
    by (simp add: sf_submit_statement_def ask_within_def await_def ask_untimed_def is_error_status_def if_some_def
        sf_poll_statement_def poll_statement_url_def sf_poll_def sf_poll_reply_def poll_loop_unfold)
  moreover have "sf_columns failure = []"
    using failure(3) by (simp add: sf_columns_def path_array_def)
  ultimately show ?thesis
    by (auto simp: snowflake_execute_query_def Let_def query_succeeded_def)
qed

definition demo_accepted :: json where
  "demo_accepted = json_obj [(''code'', Some (JString ''333334'')), (''statementHandle'', Some (JString ''h1''))]"

definition demo_failure :: json where
  "demo_failure = json_obj [(''code'', Some (JString ''002003'')),
     (''message'', Some (JString ''Object does not exist''))]"

theorem snowflake_poll_failure_hidden_witness:
  "\<forall>arrow api elapsed. \<exists>r t. snowflake_execute_query arrow api
      (demo_snowflake (RestJson 202 demo_accepted) (RestJson 422 demo_failure)) demo_sp elapsed ''SELECT 1''
      None None False 0 = Some (Some r, t) \<and>
     qr_status r = Success \<and> qr_columns r = Some [] \<and> qr_error r = None"
proof -
  have facts: "sf_code demo_accepted = ''333334''" "get_str demo_accepted ''statementHandle'' = Some ''h1''"
    "sf_code demo_failure \<noteq> ''333334''" "json_get demo_failure ''status'' = None"
    "json_get demo_failure ''resultSetMetaData'' = None" by code_simp+
  note hidden = snowflake_poll_failure_hidden [where
      sv = "demo_snowflake (RestJson 202 demo_accepted) (RestJson 422 demo_failure)" and d = 5 and d' = 5 and b = 5 and b' = 5
      and accepted = demo_accepted and handle = "''h1''" and status = 422 and failure = demo_failure,
      OF _ _ facts(1,2) _ _ facts(3-5)]
  show ?thesis
    by (intro allI hidden)
       (simp_all add: demo_snowflake_def sf_request_def DATASOURCE_TIMEOUT_QUERY_def is_error_status_def)
qed

end
