(* ===== verification/Bigquery.thy ===== *)
theory Bigquery
  imports Rest_Api
begin

text \<open>
  The BigQuery provider of \<^verbatim>\<open>providers/bigquery.rs\<close>: access tokens by authentication mode,
  query jobs submitted and polled, results page by page over \<^verbatim>\<open>startIndex\<close>, project listing
  over page tokens. The page loops take fuel. Signing of JWTs, parsing of JSON text and the
  formatting of floating-point numbers are parameters.
\<close>

section \<open>Authentication\<close>

record user_context =
  uc_oauth_data :: "json option"
  uc_user_email :: string
  uc_workspace_id :: string

record bigquery_provider =
  bq_access_token :: string
  bq_billing_project :: string
  bq_maximum_bytes_billed :: "string option"

definition resolve_billing_project :: "json \<Rightarrow> json \<Rightarrow> string option \<Rightarrow> string option" where
  "resolve_billing_project config credentials sa_fallback =
     if_some (nonempty (Option.bind (if_some (json_get config ''billing_project'') Some
                 (json_get config ''default_billing_project'')) as_str)) Some
    (if_some (nonempty (get_str credentials ''billing_project'')) Some
      (nonempty sa_fallback))"

definition resolve_kyomi_oauth_token :: "user_context option \<Rightarrow> string result" where
  "resolve_kyomi_oauth_token ctx =
     (case ctx of
        None \<Rightarrow> Inl (Provider ''BigQuery kyomi_oauth mode requires user context with OAuth data'')
      | Some c \<Rightarrow>
     (case uc_oauth_data c of
        None \<Rightarrow> Inl (Provider ''BigQuery kyomi_oauth mode requires Google OAuth data in user context'')
      | Some data \<Rightarrow>
     (case nonempty (path_str data [''google_oauth_tokens'', ''access_token'']) of
        None \<Rightarrow> Inl (Provider ''BigQuery kyomi_oauth: missing access_token in google_oauth_tokens'')
      | Some tok \<Rightarrow> Inr tok)))"

record jwt_api =
  ja_json :: "string \<Rightarrow> string + json" \<comment> \<open>\<^verbatim>\<open>serde_json::from_str\<close>\<close>
  ja_key_error :: "string \<Rightarrow> string option" \<comment> \<open>\<^verbatim>\<open>EncodingKey::from_rsa_pem\<close>\<close>
  ja_encode :: "string \<Rightarrow> json \<Rightarrow> string + string" \<comment> \<open>\<^verbatim>\<open>jsonwebtoken::encode\<close>\<close>

definition GOOGLE_TOKEN_URL :: string where
  "GOOGLE_TOKEN_URL = ''https://oauth2.googleapis.com/token''"

definition SERVICE_ACCOUNT_SCOPES :: string where
  "SERVICE_ACCOUNT_SCOPES = ''https://www.googleapis.com/auth/bigquery.readonly ''
     @ ''https://www.googleapis.com/auth/cloudplatformprojects.readonly''"

definition service_account_claims :: "string \<Rightarrow> i64 \<Rightarrow> json" where
  "service_account_claims client_email utc = json_obj
     [(''iss'', Some (JString client_email)), (''scope'', Some (JString SERVICE_ACCOUNT_SCOPES)),
      (''aud'', Some (JString GOOGLE_TOKEN_URL)), (''iat'', Some (ser_i64 utc)),
      (''exp'', Some (ser_i64 (utc + 3600)))]"

definition redeem_jwt :: "rest_service \<Rightarrow> string \<Rightarrow> string \<Rightarrow> nat \<Rightarrow> (string \<times> string) result option" where
  "redeem_jwt sv jwt project_id now =
     (case ask_within OAUTH_REFRESH_TIMEOUT sv
        \<lparr>rq_url = GOOGLE_TOKEN_URL, rq_body = PostForm
           [(''grant_type'', ''urn:ietf:params:oauth:grant-type:jwt-bearer''), (''assertion'', jwt)],
         rq_token = None, rq_token_type = None\<rparr> now of
        None \<Rightarrow> None
      | Some (None, _) \<Rightarrow> Some (Inl (Internal ''Service account token exchange timed out''))
      | Some (Some (RestErr e), _) \<Rightarrow> Some (Inl (Internal (''Service account token exchange HTTP failed: '' @ e)))
      | Some (Some (RestNotJson _ e), _) \<Rightarrow> Some (Inl (Internal (''Failed to parse token exchange response: '' @ e)))
      | Some (Some (RestJson status body), _) \<Rightarrow>
          if \<not> is_success_status status
          then Some (Inl (Internal (''Service account token exchange failed: ''
                 @ path_str_or ''Token exchange failed'' body [''error_description''])))
          else (case get_str body ''access_token'' of
                  None \<Rightarrow> Some (Inl (Internal ''Token exchange response missing access_token''))
                | Some tok \<Rightarrow> Some (Inr (tok, project_id))))"

definition exchange_service_account_jwt ::
  "jwt_api \<Rightarrow> rest_service \<Rightarrow> json \<Rightarrow> i64 \<Rightarrow> nat \<Rightarrow> (string \<times> string) result option" where
  "exchange_service_account_jwt ja sv config utc now =
     (case get_str config ''service_account_json'' of
        None \<Rightarrow> Some (Inl (Provider (''BigQuery service_account mode requires service_account_json ''
                  @ ''in connection config'')))
      | Some text \<Rightarrow>
     (case ja_json ja text of
        Inl e \<Rightarrow> Some (Inl (Provider (''Invalid service_account_json: '' @ e)))
      | Inr sa \<Rightarrow>
     (case get_str sa ''client_email'' of
        None \<Rightarrow> Some (Inl (Provider ''Service account JSON missing client_email''))
      | Some client_email \<Rightarrow>
     (case get_str sa ''private_key'' of
        None \<Rightarrow> Some (Inl (Provider ''Service account JSON missing private_key''))
      | Some pem \<Rightarrow>
     (case ja_key_error ja pem of
        Some e \<Rightarrow> Some (Inl (Internal (''Failed to parse service account private key: '' @ e)))
      | None \<Rightarrow>
     (case ja_encode ja pem (service_account_claims client_email utc) of
        Inl e \<Rightarrow> Some (Inl (Internal (''Failed to sign service account JWT: '' @ e)))
      | Inr jwt \<Rightarrow> redeem_jwt sv jwt (path_str_or [] sa [''project_id'']) now))))))"

text \<open>
  The token and the project of a service account, by authentication mode; \<^const>\<open>None\<close> when the reply
  to the exchange never ends.
\<close>

definition bigquery_token ::
  "jwt_api \<Rightarrow> rest_service \<Rightarrow> json \<Rightarrow> json \<Rightarrow> user_context option \<Rightarrow> i64 \<Rightarrow> nat
   \<Rightarrow> (string \<times> string option) result option" where
  "bigquery_token ja sv config credentials ctx utc now =
     (let auth_mode = path_str_or ''kyomi_oauth'' config [''auth_mode''] in
      if auth_mode = ''kyomi_oauth''
      then Some (case resolve_kyomi_oauth_token ctx of Inl e \<Rightarrow> Inl e | Inr tok \<Rightarrow> Inr (tok, None))
      else if auth_mode = ''enterprise_oauth''
      then Some (case nonempty (get_str credentials ''oauth_access_token'') of
              None \<Rightarrow> Inl (Provider ''BigQuery enterprise_oauth requires oauth_access_token in credentials'')
            | Some tok \<Rightarrow> Inr (tok, None))
      else if auth_mode = ''service_account''
      then map_option (\<lambda>r. case r of
              Inl e \<Rightarrow> Inl e
            | Inr (tok, project_id) \<Rightarrow> Inr (tok, Some project_id))
            (exchange_service_account_jwt ja sv config utc now)
      else Some (Inl (Provider (''Unknown BigQuery auth_mode: '' @ auth_mode))))"

definition resolve_access_token ::
  "jwt_api \<Rightarrow> rest_service \<Rightarrow> json \<Rightarrow> json \<Rightarrow> user_context option \<Rightarrow> i64 \<Rightarrow> nat \<Rightarrow> string result option" where
  "resolve_access_token ja sv config credentials ctx utc now =
     map_option (\<lambda>r. case r of Inl e \<Rightarrow> Inl e | Inr (tok, _) \<Rightarrow> Inr tok)
       (bigquery_token ja sv config credentials ctx utc now)"

definition bigquery_new ::
  "jwt_api \<Rightarrow> rest_service \<Rightarrow> json \<Rightarrow> json \<Rightarrow> user_context option \<Rightarrow> i64 \<Rightarrow> nat
   \<Rightarrow> bigquery_provider result option" where
  "bigquery_new ja sv config credentials ctx utc now =
     map_option (\<lambda>r. case r of
        Inl e \<Rightarrow> Inl e
      | Inr (tok, sa_project) \<Rightarrow>
     (case resolve_billing_project config credentials sa_project of
        None \<Rightarrow> Inl (Provider (''BigQuery requires a billing project. ''
                  @ ''Set billing_project in datasource settings.''))
      | Some project \<Rightarrow>
          Inr \<lparr>bq_access_token = tok, bq_billing_project = project,
               bq_maximum_bytes_billed = get_str config ''maximum_bytes_billed''\<rparr>))
     (bigquery_token ja sv config credentials ctx utc now)"

section \<open>Requests\<close>

definition BIGQUERY_API_BASE :: string where
  "BIGQUERY_API_BASE = ''https://bigquery.googleapis.com/bigquery/v2''"

definition bq_request :: "bigquery_provider \<Rightarrow> string \<Rightarrow> rest_body \<Rightarrow> rest_request" where
  "bq_request bp url body =
     \<lparr>rq_url = url, rq_body = body, rq_token = Some (bq_access_token bp), rq_token_type = None\<rparr>"

definition bq_queries_url :: "bigquery_provider \<Rightarrow> string" where
  "bq_queries_url bp = BIGQUERY_API_BASE @ ''/projects/'' @ bq_billing_project bp @ ''/queries''"

definition bq_job_url :: "bigquery_provider \<Rightarrow> string \<Rightarrow> string \<Rightarrow> string" where
  "bq_job_url bp job_id location =
     BIGQUERY_API_BASE @ ''/projects/'' @ bq_billing_project bp @ ''/jobs/'' @ job_id
     @ (if location = [] then [] else ''?location='' @ location)"

definition bq_results_url :: "bigquery_provider \<Rightarrow> string \<Rightarrow> string \<Rightarrow> string \<Rightarrow> string \<Rightarrow> string" where
  "bq_results_url bp job_id location max_results start_index =
     bq_queries_url bp @ ''/'' @ job_id @ ''?maxResults='' @ max_results @ ''&startIndex='' @ start_index
     @ (if location = [] then [] else ''&location='' @ location)"

definition extract_bigquery_error :: "json \<Rightarrow> string" where
  "extract_bigquery_error response =
     if_some (path_str response [''error'', ''message'']) (\<lambda>m. m)
    (if_some (case path_array response [''error'', ''errors''] of
                [] \<Rightarrow> None | e # _ \<Rightarrow> get_str e ''message'') (\<lambda>m. m)
    (if_some (path_str response [''status'', ''errorResult'', ''message'']) (\<lambda>m. m)
      ''Unknown BigQuery error''))"

section \<open>Jobs\<close>

definition bq_state :: "json \<Rightarrow> string" where
  "bq_state body = path_str_or [] body [''status'', ''state'']"

definition bq_job_error :: "json \<Rightarrow> string option" where
  "bq_job_error body =
     map_option (\<lambda>err. path_str_or ''BigQuery job failed'' err [''message''])
       (json_path body [''status'', ''errorResult''])"

text \<open>A poll: the HTTP status is not looked at, so only DONE ends the loop.\<close>

definition bq_poll :: "rest_service \<Rightarrow> rest_request \<Rightarrow> nat \<Rightarrow> json poll_answer timed" where
  "bq_poll sv rq t =
     map_option (\<lambda>(r, d). (case r of
        RestErr e \<Rightarrow> PollFail (''BigQuery poll failed: '' @ e)
      | RestNotJson _ e \<Rightarrow> PollFail (''Failed to parse BigQuery poll response: '' @ e)
      | RestJson _ body \<Rightarrow>
          if bq_state body = ''DONE''
          then (case bq_job_error body of Some msg \<Rightarrow> PollFail msg | None \<Rightarrow> PollDone body)
          else PollAgain, d))
     (ask_untimed sv rq t)"

interpretation bq_poller: poller "bq_poll sv rq" "\<lambda>t. ask_untimed sv rq t = None" "untimed_delay sv rq"
  by unfold_locales (auto simp: bq_poll_def untimed_delay_def)

definition poll_job ::
  "rest_service \<Rightarrow> bigquery_provider \<Rightarrow> string \<Rightarrow> string \<Rightarrow> nat \<Rightarrow> json result timed" where
  "poll_job sv bp job_id location now =
     poll_loop ''BigQuery job polling timed out''
       (bq_poll sv (bq_request bp (bq_job_url bp job_id location) Get))
       (now + DATASOURCE_TIMEOUT_QUERY) now"

definition query_body :: "string \<Rightarrow> string option \<Rightarrow> bool \<Rightarrow> json" where
  "query_body sql max_bytes dry_run = json_obj
     [(''query'', Some (JString sql)), (''useLegacySql'', Some (JBool False)),
      (''maximumBytesBilled'', map_option JString max_bytes),
      (''dryRun'', if dry_run then Some (JBool True) else None)]"

text \<open>The part after the reply to the submission, which the stream repeats.\<close>

definition finish_job ::
  "rest_service \<Rightarrow> bigquery_provider \<Rightarrow> json \<Rightarrow> nat \<Rightarrow> (string \<times> string \<times> json) result timed" where
  "finish_job sv bp body t =
     (let job_id = path_str_or [] body [''jobReference'', ''jobId''];
          location = path_str_or [] body [''jobReference'', ''location''] in
      if job_id = [] then Some (Inl (Internal ''BigQuery response missing jobId''), t)
      else if bq_state body = ''DONE''
      then (case bq_job_error body of
              Some msg \<Rightarrow> Some (Inl (Internal msg), t)
            | None \<Rightarrow> Some (Inr (job_id, location, body), t))
      else map_option (\<lambda>(r, t'). (case r of
              Inl e \<Rightarrow> Inl e
            | Inr done \<Rightarrow> Inr (job_id, location, done), t'))
           (poll_job sv bp job_id location t))"

definition submit_query_job ::
  "rest_service \<Rightarrow> bigquery_provider \<Rightarrow> string \<Rightarrow> bool \<Rightarrow> nat \<Rightarrow> (string \<times> string \<times> json) result timed" where
  "submit_query_job sv bp sql dry_run now =
     (case ask_within (if dry_run then DATASOURCE_TIMEOUT_DRY_RUN else DATASOURCE_TIMEOUT_QUERY) sv
        (bq_request bp (bq_queries_url bp)
          (PostJson (query_body sql (bq_maximum_bytes_billed bp) dry_run))) now of
        None \<Rightarrow> None
      | Some (None, t) \<Rightarrow> Some (Inl (Internal ''BigQuery job submission timed out after 120s''), t)
      | Some (Some (RestErr e), t) \<Rightarrow> Some (Inl (Internal (''BigQuery HTTP request failed: '' @ e)), t)
      | Some (Some (RestNotJson _ e), t) \<Rightarrow> Some (Inl (Internal (''Failed to parse BigQuery response: '' @ e)), t)
      | Some (Some (RestJson status body), t) \<Rightarrow>
          if is_error_status status then Some (Inl (Internal (extract_bigquery_error body)), t)
          else if dry_run
          then Some (Inr (path_str_or [] body [''jobReference'', ''jobId''],
                          path_str_or [] body [''jobReference'', ''location''], body), t)
          else finish_job sv bp body t)"

text \<open>\<open>value["k"] = v\<close>: a null becomes an object, anything else but an object panics.\<close>

fun json_index_set :: "string \<Rightarrow> json \<Rightarrow> json \<Rightarrow> json option" where
  "json_index_set k v (JObject m) = Some (JObject (obj_insert k v m))"
| "json_index_set k v JNull = Some (JObject [(k, v)])"
| "json_index_set k v _ = None"

definition merge_statistics :: "json \<Rightarrow> json \<Rightarrow> json option" where
  "merge_statistics job_body page =
     (case json_get job_body ''statistics'' of
        None \<Rightarrow> Some page
      | Some stats \<Rightarrow> json_index_set ''statistics'' stats page)"

definition get_query_results ::
  "rest_service \<Rightarrow> bigquery_provider \<Rightarrow> string \<Rightarrow> string \<Rightarrow> u32 option \<Rightarrow> u32 option \<Rightarrow> json \<Rightarrow> nat
   \<Rightarrow> json result option timed" where
  "get_query_results sv bp job_id location limit offset job_body now =
     map_option (\<lambda>(r, d). (case r of
        RestErr e \<Rightarrow> Some (Inl (Internal (''BigQuery get results failed: '' @ e)))
      | RestNotJson _ e \<Rightarrow> Some (Inl (Internal (''Failed to parse BigQuery results response: '' @ e)))
      | RestJson status body \<Rightarrow>
          if is_error_status status then Some (Inl (Internal (extract_bigquery_error body)))
          else map_option Inr (merge_statistics job_body body), now + d))
     (ask_untimed sv (bq_request bp (bq_results_url bp job_id location
            (show_word (case limit of Some l \<Rightarrow> l | None \<Rightarrow> 1000))
            (show_word (case offset of Some k \<Rightarrow> k | None \<Rightarrow> 0))) Get) now)"

section \<open>Operations\<close>

definition bigquery_test_connection ::
  "rest_service \<Rightarrow> bigquery_provider \<Rightarrow> nat \<Rightarrow> bool result option" where
  "bigquery_test_connection sv bp now =
     (case ask_within DATASOURCE_TIMEOUT_CONNECT sv (bq_request bp (bq_queries_url bp)
        (PostJson (json_obj [(''query'', Some (JString ''SELECT 1'')),
           (''useLegacySql'', Some (JBool False)), (''maxResults'', Some (JNumber (PosInt 1)))]))) now of
        None \<Rightarrow> None
      | Some (None, _) \<Rightarrow> Some (Inl (Internal ''BigQuery test connection timed out after 30s''))
      | Some (Some (RestErr e), _) \<Rightarrow> Some (Inl (Internal (''BigQuery test connection failed: '' @ e)))
      | Some (Some (RestNotJson _ e), _) \<Rightarrow>
          Some (Inl (Internal (''Failed to parse BigQuery test connection response: '' @ e)))
      | Some (Some (RestJson status body), _) \<Rightarrow>
          if is_error_status status
          then Some (Inl (Internal (''BigQuery test connection failed: '' @ extract_bigquery_error body)))
          else Some (Inr True))"

definition bq_columns :: "json \<Rightarrow> column_info list" where
  "bq_columns page =
     map (\<lambda>field. \<lparr>col_name = path_str_or ''?'' field [''name''],
                   col_type = map_bigquery_type (path_str_or [] field [''type''])\<rparr>)
       (path_array page [''schema'', ''fields''])"

definition bq_job_bytes :: "json \<Rightarrow> i64 option" where
  "bq_job_bytes body =
     Option.bind (json_path body [''statistics'', ''query'', ''totalBytesProcessed'']) str_or_i64"

definition bq_bytes_processed :: "json \<Rightarrow> i64 option" where
  "bq_bytes_processed result =
     if_some (bq_job_bytes result) Some
       (Option.bind (json_get result ''totalBytesProcessed'') str_or_i64)"

text \<open>The result built from a page; \<^const>\<open>None\<close> where a row converter panics.\<close>

definition bq_query_result ::
  "arrow_api \<Rightarrow> value_api \<Rightarrow> i64 \<Rightarrow> string \<Rightarrow> u32 option \<Rightarrow> bool \<Rightarrow> json \<Rightarrow> query_result option" where
  "bq_query_result arrow api elapsed job_id limit include_total result =
     map_option (\<lambda>res. res\<lparr>qr_bytes_processed := bq_bytes_processed result, qr_job_id := Some job_id\<rparr>)
       (query_succeeded arrow (bigquery_put api) (bq_columns result) (path_array result [''rows''])
         (if include_total then Option.bind (json_get result ''totalRows'') str_or_i64 else None)
         (case limit of Some l \<Rightarrow> l | None \<Rightarrow> 1000) elapsed)"

definition bigquery_execute_query ::
  "arrow_api \<Rightarrow> value_api \<Rightarrow> rest_service \<Rightarrow> bigquery_provider \<Rightarrow> i64 \<Rightarrow> string
   \<Rightarrow> u32 option \<Rightarrow> u32 option \<Rightarrow> bool \<Rightarrow> string option \<Rightarrow> nat \<Rightarrow> query_result option timed" where
  "bigquery_execute_query arrow api sv bp elapsed sql limit offset include_total job_id now =
     (let results = (\<lambda>job location job_body t.
            map_option (\<lambda>(r, t'). (Option.bind r (\<lambda>res. case res of
               Inl e \<Rightarrow> Some (query_failed elapsed (error_to_string e))
             | Inr page \<Rightarrow> bq_query_result arrow api elapsed job limit include_total page), t'))
            (get_query_results sv bp job location limit offset job_body t)) in
      case job_id of
        Some job \<Rightarrow> results job [] (JObject []) now
      | None \<Rightarrow>
          Option.bind (submit_query_job sv bp sql False now) (\<lambda>(r, t).
          case r of
            Inl e \<Rightarrow> Some (Some (query_failed elapsed (error_to_string e)), t)
          | Inr (job, location, job_body) \<Rightarrow> results job location job_body t))"

definition bigquery_location_re :: string where
  "bigquery_location_re = [CHR 0x5C] @ ''[('' @ [CHR 0x5C] @ ''d+):('' @ [CHR 0x5C] @ ''d+)'' @ [CHR 0x5C] @ '']''"

definition parse_bigquery_error_location :: "regex \<Rightarrow> string \<Rightarrow> u32 option \<times> u32 option" where
  "parse_bigquery_error_location rx msg =
     (Option.bind (rx bigquery_location_re msg 1) parse_u32,
      Option.bind (rx bigquery_location_re msg 2) parse_u32)"

text \<open>\<open>fmt b d p\<close> is \<open>b as f64 / d\<close> with \<open>p\<close> decimals.\<close>

definition format_bytes :: "(i64 \<Rightarrow> nat \<Rightarrow> nat \<Rightarrow> string) \<Rightarrow> i64 \<Rightarrow> string" where
  "format_bytes fmt bytes =
     (if sint bytes < 1000 then show_i64 bytes
      else if sint bytes < 1000000 then fmt bytes 1000 1 @ '' KB''
      else if sint bytes < 1000000000 then fmt bytes 1000000 1 @ '' MB''
      else fmt bytes 1000000000 2 @ '' GB'')"

definition bigquery_dry_run ::
  "regex \<Rightarrow> (i64 \<Rightarrow> nat \<Rightarrow> nat \<Rightarrow> string) \<Rightarrow> rest_service \<Rightarrow> bigquery_provider \<Rightarrow> string \<Rightarrow> nat
   \<Rightarrow> dry_run_result timed" where
  "bigquery_dry_run rx fmt sv bp sql now =
     map_option (\<lambda>(r, t). (case r of
        Inr (_, _, result) \<Rightarrow>
          dry_run_success (''Query valid. Estimated ''
            @ format_bytes fmt (case bq_bytes_processed result of Some n \<Rightarrow> n | None \<Rightarrow> 0)
            @ '' bytes processed.'')
      | Inl e \<Rightarrow> (case parse_bigquery_error_location rx (error_to_string e) of
            (line, column) \<Rightarrow> dry_run_failure (error_to_string e) line column), t))
     (submit_query_job sv bp sql True now)"

section \<open>Projects\<close>

definition projects_url :: "string option \<Rightarrow> string" where
  "projects_url page_token =
     ''https://cloudresourcemanager.googleapis.com/v1/projects?filter=lifecycleState:ACTIVE''
     @ (case page_token of Some tok \<Rightarrow> ''&pageToken='' @ tok | None \<Rightarrow> [])"

fun project_pages ::
  "nat \<Rightarrow> rest_service \<Rightarrow> bigquery_provider \<Rightarrow> string option \<Rightarrow> string list \<Rightarrow> nat
   \<Rightarrow> string list result option" where
  "project_pages 0 sv bp page_token ids now = None"
| "project_pages (Suc fuel) sv bp page_token ids now =
     (case ask_within DATASOURCE_TIMEOUT_CONNECT sv (bq_request bp (projects_url page_token) Get) now of
        None \<Rightarrow> None
      | Some (None, _) \<Rightarrow> Some (Inl (Internal ''GCP Resource Manager API request timed out''))
      | Some (Some (RestErr e), _) \<Rightarrow> Some (Inl (Internal (''GCP Resource Manager API request failed: '' @ e)))
      | Some (Some (RestNotJson _ e), _) \<Rightarrow>
          Some (Inl (Internal (''Failed to parse Resource Manager response: '' @ e)))
      | Some (Some (RestJson status body), t) \<Rightarrow>
          if is_error_status status
          then Some (Inl (Internal (''GCP Resource Manager API error: ''
                 @ path_str_or ''Failed to list GCP projects'' body [''error'', ''message''])))
          else
            let ids' = ids @ List.map_filter (\<lambda>p. get_str p ''projectId'') (path_array body [''projects'']) in
            case nonempty (get_str body ''nextPageToken'') of
              Some tok \<Rightarrow> project_pages fuel sv bp (Some tok) ids' t
            | None \<Rightarrow> Some (Inr ids'))"

definition list_active_projects ::
  "nat \<Rightarrow> rest_service \<Rightarrow> bigquery_provider \<Rightarrow> nat \<Rightarrow> string list result option" where
  "list_active_projects fuel sv bp now =
     map_option (\<lambda>r. case r of Inl e \<Rightarrow> Inl e | Inr ids \<Rightarrow> Inr (remdups_adj (sort ids)))
       (project_pages fuel sv bp None [] now)"

section \<open>The stream\<close>

definition bq_stream_job ::
  "rest_service \<Rightarrow> bigquery_provider \<Rightarrow> string \<Rightarrow> nat \<Rightarrow> (string \<times> string \<times> json) result timed" where
  "bq_stream_job sv bp sql now =
     (case ask_within DATASOURCE_TIMEOUT_QUERY sv
        (bq_request bp (bq_queries_url bp) (PostJson (query_body sql None False))) now of
        None \<Rightarrow> None
      | Some (None, t) \<Rightarrow> Some (Inl (Internal ''BigQuery job submission timed out after 120s''), t)
      | Some (Some (RestErr e), t) \<Rightarrow> Some (Inl (Internal (''BigQuery job submission failed: '' @ e)), t)
      | Some (Some (RestNotJson _ e), t) \<Rightarrow>
          Some (Inl (Internal (''Failed to parse BigQuery submit response: '' @ e)), t)
      | Some (Some (RestJson status body), t) \<Rightarrow>
          if is_error_status status then Some (Inl (Internal (extract_bigquery_error body)), t)
          else finish_job sv bp body t)"

definition fetch_results_page ::
  "rest_service \<Rightarrow> bigquery_provider \<Rightarrow> string \<Rightarrow> string \<Rightarrow> u32 \<Rightarrow> u64 \<Rightarrow> nat \<Rightarrow> json result timed" where
  "fetch_results_page sv bp job_id location page_size offset now =
     map_option (\<lambda>(r, d). (case r of
        RestErr e \<Rightarrow> Inl (Internal (''BigQuery results fetch failed: '' @ e))
      | RestNotJson _ e \<Rightarrow> Inl (Internal (''Failed to parse BigQuery results page: '' @ e))
      | RestJson status page \<Rightarrow>
          if is_error_status status then Inl (Internal (extract_bigquery_error page)) else Inr page,
      now + d))
     (ask_untimed sv (bq_request bp (bq_results_url bp job_id location (show_word page_size) (show_word offset)) Get) now)"

record bq_stream_state =
  bqs_offset :: u64
  bqs_columns :: "column_info list"
  bqs_schema_sent :: bool
  bqs_counts :: page_counts

definition bq_stream_start :: bq_stream_state where
  "bq_stream_start = \<lparr>bqs_offset = 0, bqs_columns = [], bqs_schema_sent = False, bqs_counts = (0, 0)\<rparr>"

definition bq_schema ::
  "arrow_api \<Rightarrow> column_info list \<Rightarrow> bq_stream_state \<Rightarrow> chan \<Rightarrow> bq_stream_state flow" where
  "bq_schema arrow page_columns st ch =
     (if \<not> bqs_schema_sent st
      then bind_flow (emit_schema arrow page_columns None ch)
             (\<lambda>_. Go (st\<lparr>bqs_columns := page_columns, bqs_schema_sent := True\<rparr>))
      else if length page_columns \<noteq> length (bqs_columns st)
      then fail_stream ''BigQuery schema changed between result pages'' ch
      else Go st ch)"

fun bq_pages ::
  "nat \<Rightarrow> arrow_api \<Rightarrow> value_api \<Rightarrow> rest_service \<Rightarrow> bigquery_provider \<Rightarrow> string \<Rightarrow> string \<Rightarrow> json \<Rightarrow> u32
   \<Rightarrow> bq_stream_state \<Rightarrow> nat \<Rightarrow> chan \<Rightarrow> bq_stream_state flow" where
  "bq_pages 0 arrow api sv bp job_id location job_body page_size st now ch = OutOfFuel ch"
| "bq_pages (Suc fuel) arrow api sv bp job_id location job_body page_size st now ch =
     bind_flow (flow_timed (fetch_results_page sv bp job_id location page_size (bqs_offset st) now) ch)
       (\<lambda>(page0, t) ch1.
     bind_flow (may_panic (if bqs_schema_sent st then Some page0 else merge_statistics job_body page0) ch1)
       (\<lambda>page ch2.
     bind_flow (bq_schema arrow (bq_columns page) st ch2) (\<lambda>st1 ch3.
     let rows = path_array page [''rows''] in
     bind_flow (emit_page arrow (bigquery_put api) (bqs_columns st1) rows (bqs_counts st1) ch3)
       (\<lambda>counts ch4.
     let st2 = st1\<lparr>bqs_counts := counts, bqs_offset := bqs_offset st1 + of_nat (length rows)\<rparr> in
     if rows \<noteq> [] \<and> nonempty (get_str page ''pageToken'') \<noteq> None
     then bq_pages fuel arrow api sv bp job_id location job_body page_size st2 t ch4
     else Go st2 ch4))))"

definition bigquery_stream_arrow ::
  "nat \<Rightarrow> arrow_api \<Rightarrow> value_api \<Rightarrow> rest_service \<Rightarrow> bigquery_provider \<Rightarrow> i64 \<Rightarrow> string
   \<Rightarrow> u32 option \<Rightarrow> u32 option \<Rightarrow> bool \<Rightarrow> u32 option \<Rightarrow> nat \<Rightarrow> chan \<Rightarrow> unit flow" where
  "bigquery_stream_arrow fuel arrow api sv bp elapsed sql limit offset include_total chunk_size now ch =
     (let page_size = (case chunk_size of Some n \<Rightarrow> n | None \<Rightarrow> 10000) in
      bind_flow (flow_timed (bq_stream_job sv bp sql now) ch) (\<lambda>((job_id, location, job_body), t) ch1.
      bind_flow (bq_pages fuel arrow api sv bp job_id location job_body page_size bq_stream_start t ch1)
        (\<lambda>st ch2.
      bind_flow
        (if bqs_schema_sent st then Go () ch2
         else case schema_to_ipc_bytes arrow (ab_schema (builder_new [])) of
           Inl e \<Rightarrow> fail_stream (''Arrow schema serialization error: '' @ e) ch2
         | Inr bytes \<Rightarrow> send_quiet (Inr (Schema bytes [] None)) ch2)
        (\<lambda>_. send_quiet (Inr (Complete (Some elapsed) (bq_job_bytes job_body)
               (fst (bqs_counts st)) (snd (bqs_counts st))))))))"

section \<open>Protocol safety\<close>

definition bq_inv :: "bq_stream_state \<Rightarrow> chan \<Rightarrow> bool" where
  "bq_inv st ch \<longleftrightarrow>
     (if bqs_schema_sent st then at_open (fst (bqs_counts st)) ch
      else at_phase Init ch \<and> fst (bqs_counts st) = 0)"

lemma bq_inv_timed: "bq_inv st ch \<Longrightarrow> flow_ok (\<lambda>_. bq_inv st) (flow_timed r ch)"
  by (cases "bqs_schema_sent st")
     (auto simp: bq_inv_def intro: flow_ok_mono [OF flow_timed_open] flow_ok_mono [OF flow_timed_init])

lemma bq_schema_ok:
  assumes "bq_inv st ch"
  shows "flow_ok (\<lambda>st ch. bqs_schema_sent st \<and> at_open (fst (bqs_counts st)) ch) (bq_schema arrow cols st ch)"
  unfolding bq_schema_def
  using assms by (auto simp: bq_inv_def intro!: flow_ok_bind [OF emit_schema_ok] fail_open_ok)

lemma bq_pages_ok:
  "bq_inv st ch \<Longrightarrow>
   flow_ok (\<lambda>st ch. bqs_schema_sent st \<and> at_open (fst (bqs_counts st)) ch)
     (bq_pages fuel arrow api sv bp job loc job_body p st now ch)"
proof (induction fuel arbitrary: st now ch)
  case 0
  then show ?case by (auto simp: bq_inv_def split: if_splits intro: at_open_ordered at_phase_ordered)
next
  case (Suc fuel)
  have merge: "flow_ok (\<lambda>_. bq_inv st) (may_panic x ch1)" if "bq_inv st ch1" for x :: "json option" and ch1
    by (rule may_panic_ok) (rule that)
  have rec: "flow_ok (\<lambda>st ch. bqs_schema_sent st \<and> at_open (fst (bqs_counts st)) ch)
      (if c then bq_pages fuel arrow api sv bp job loc job_body p st2 t ch2 else Go st2 ch2)"
    if "bqs_schema_sent st2" "at_open (fst (bqs_counts st2)) ch2" for c st2 t ch2
    using that Suc.IH [of st2 ch2 t] by (cases c) (simp_all add: bq_inv_def)
  have page: "flow_ok (\<lambda>st ch. bqs_schema_sent st \<and> at_open (fst (bqs_counts st)) ch)
      (bind_flow (emit_page arrow (bigquery_put api) (bqs_columns st1) rows (bqs_counts st1) ch3) (\<lambda>counts ch4.
         let st2 = st1\<lparr>bqs_counts := counts, bqs_offset := bqs_offset st1 + of_nat (length rows)\<rparr> in
         if c then bq_pages fuel arrow api sv bp job loc job_body p st2 t ch4 else Go st2 ch4))"
    if "bqs_schema_sent st1 \<and> at_open (fst (bqs_counts st1)) ch3" for st1 ch3 rows c t
    unfolding Let_def by (rule flow_ok_bind [OF emit_page_ok]) (use that rec in \<open>simp_all split del: if_split\<close>)
  show ?case
    unfolding bq_pages.simps
    by (rule flow_ok_bind [OF bq_inv_timed [OF Suc.prems]], simp only: prod.case split_paired_all,
        rule flow_ok_bind [OF merge], assumption, rule flow_ok_bind [OF bq_schema_ok], assumption)
       (unfold Let_def [of "path_array _ _"], rule page)
qed

lemma bigquery_stream_ok:
  assumes "at_phase Init ch"
  shows "flow_ok (\<lambda>_. at_phase Closed)
    (bigquery_stream_arrow fuel arrow api sv bp elapsed sql limit offset tot n now ch)"
proof -
  have start: "bq_inv bq_stream_start ch'" if "at_phase Init ch'" for ch'
    using that by (simp add: bq_inv_def bq_stream_start_def)
  show ?thesis
    unfolding bigquery_stream_arrow_def Let_def
    by (rule flow_ok_bind [OF flow_timed_init [OF assms]], simp only: prod.case split_paired_all,
        rule flow_ok_bind [OF bq_pages_ok [OF start]], assumption)
       (auto intro: send_complete_ok)
qed

section \<open>What a job delivers\<close>

text \<open>
  A service that holds the rows \<open>table\<close> of a finished job: asked for the rows from \<open>k\<close>, it
  returns some of them, at least one if any is left, and a page token exactly if more follow.
  How many is up to the service.
\<close>

definition serves_job ::
  "rest_service \<Rightarrow> bigquery_provider \<Rightarrow> string \<Rightarrow> string \<Rightarrow> u32 \<Rightarrow> column_info list \<Rightarrow> json list \<Rightarrow> bool" where
  "serves_job sv bp job loc p cols table \<longleftrightarrow>
     (\<forall>k \<le> length table. \<exists>page m. is_object page \<and>
        (\<forall>t. \<exists>d. ask_untimed sv (bq_request bp (bq_results_url bp job loc (show_word p) (show_nat k)) Get) t
           = Some (RestJson 200 page, d)) \<and>
        bq_columns page = cols \<and> path_array page [''rows''] = take m (drop k table) \<and>
        (k < length table \<longrightarrow> 0 < m) \<and> (nonempty (get_str page ''pageToken'') \<noteq> None \<longleftrightarrow> k + m < length table))"

lemma merge_statistics_page:
  assumes "is_object page"
  obtains page' where "merge_statistics job_body page = Some page'" "bq_columns page' = bq_columns page"
    "path_array page' [''rows''] = path_array page [''rows'']"
    "get_str page' ''pageToken'' = get_str page ''pageToken''"
proof (cases "json_get job_body ''statistics''")
  case None
  then show thesis using that by (simp add: merge_statistics_def)
next
  case (Some stats)
  obtain m where "page = JObject m" using assms by (cases page) auto
  then show thesis
    using that Some by (simp add: merge_statistics_def bq_columns_def path_array_def get_str_def obj_insert_lookup)
qed

lemma serves_page_at:
  assumes "serves_job sv bp job loc p cols table" "k \<le> length table" "length table < 2 ^ 64"
  obtains page m d where "is_object page" "bq_columns page = cols"
    "fetch_results_page sv bp job loc p (of_nat k) now = Some (Inr page, now + d)"
    "path_array page [''rows''] = take m (drop k table)" "k < length table \<longrightarrow> 0 < m"
    "nonempty (get_str page ''pageToken'') \<noteq> None \<longleftrightarrow> k + m < length table"
proof -
  have "show_word (of_nat k :: u64) = show_nat k"
    using assms(2,3) by (simp add: show_word_def unsigned_of_nat take_bit_nat_eq_self)
  moreover obtain page m where page: "is_object page" "bq_columns page = cols"
    "\<forall>t. \<exists>d. ask_untimed sv (bq_request bp (bq_results_url bp job loc (show_word p) (show_nat k)) Get) t
       = Some (RestJson 200 page, d)"
    "path_array page [''rows''] = take m (drop k table)" "k < length table \<longrightarrow> 0 < m"
    "nonempty (get_str page ''pageToken'') \<noteq> None \<longleftrightarrow> k + m < length table"
    using assms(1,2) unfolding serves_job_def by blast
  moreover obtain d where "ask_untimed sv (bq_request bp (bq_results_url bp job loc (show_word p) (show_nat k)) Get) now
       = Some (RestJson 200 page, d)" using page(3) by blast
  ultimately show thesis
    using that by (simp add: fetch_results_page_def is_error_status_def)
qed

text \<open>One page after the schema, and the first page, which only adds the schema.\<close>

lemma bq_pages_first:
  assumes "ipc_law arrow" "serves_job sv bp job loc p cols table" "length table < 2 ^ 64"
  shows "bq_pages (Suc fuel) arrow api sv bp job loc job_body p bq_stream_start now (reader [])
    = bq_pages (Suc fuel) arrow api sv bp job loc job_body p
        (bq_stream_start\<lparr>bqs_columns := cols, bqs_schema_sent := True\<rparr>) now
        (reader [schema_event arrow cols None])"
proof -
  obtain page m d where page: "is_object page" "bq_columns page = cols"
    "fetch_results_page sv bp job loc p 0 now = Some (Inr page, now + d)"
    by (rule serves_page_at [OF assms(2) le0 assms(3), where now = now]) simp
  obtain page' where "merge_statistics job_body page = Some page'" "bq_columns page' = bq_columns page"
    "path_array page' [''rows''] = path_array page [''rows'']"
    "get_str page' ''pageToken'' = get_str page ''pageToken''"
    by (rule merge_statistics_page [OF page(1)])
  then show ?thesis
    using page by (simp add: bq_stream_start_def bq_schema_def emit_schema_reader [OF assms(1)])
qed

lemma take_drop_length: "take m xs @ drop (length (take m xs)) xs = xs"
  by (cases "m \<le> length xs") simp_all

lemma bq_pages_stream:
  assumes laws: "try_new_law arrow" "ipc_law arrow" "cols \<noteq> []"
    and serves: "serves_job sv bp job loc p cols table" "length table < 2 ^ 64"
    and "length table - k < fuel" "k \<le> length table" "bqs_schema_sent st"
      "bqs_columns st = cols" "bqs_counts st = (of_nat j, of_nat k)" "bqs_offset st = of_nat k"
  shows "\<exists>groups st'. concat groups = drop k table \<and> [] \<notin> set groups \<and> bqs_schema_sent st' \<and>
    bqs_counts st' = (of_nat (j + length groups), of_nat (length table)) \<and>
    bq_pages fuel arrow api sv bp job loc job_body p st now (reader ms)
      = Go st' (reader (ms @ batch_events arrow (bigquery_put api) cols j groups))"
  using assms(6-)
proof (induction fuel arbitrary: st now ms j k)
  case (Suc fuel)
  obtain page m d where page: "bq_columns page = cols"
    "fetch_results_page sv bp job loc p (of_nat k) now = Some (Inr page, now + d)"
    "path_array page [''rows''] = take m (drop k table)" "k < length table \<longrightarrow> 0 < m"
    "nonempty (get_str page ''pageToken'') \<noteq> None \<longleftrightarrow> k + m < length table"
    using serves_page_at [OF serves(1) Suc.prems(2) serves(2)] by metis
  let ?rows = "take m (drop k table)"
  let ?j = "j + length (full_pages [?rows])" and ?k = "k + length ?rows"
  let ?ms = "ms @ batch_events arrow (bigquery_put api) cols j (full_pages [?rows])"
  let ?st = "st\<lparr>bqs_counts := (of_nat ?j, of_nat ?k), bqs_offset := of_nat ?k\<rparr>"
  have step: "bq_pages (Suc fuel) arrow api sv bp job loc job_body p st now (reader ms)
    = (if ?rows \<noteq> [] \<and> k + m < length table
       then bq_pages fuel arrow api sv bp job loc job_body p ?st (now + d) (reader ?ms)
       else Go ?st (reader ?ms))"
    using page(1-3,5) Suc.prems(3-) bigquery_writer.emit_page_reader [OF laws, of ?rows api j "of_nat k" ms]
    by (simp add: bq_schema_def Let_def list_all_iff)
  show ?case
  proof (cases "?rows \<noteq> [] \<and> k + m < length table")
    case True
    then have k: "?k \<le> length table" "length table - ?k < fuel" using Suc.prems(1) by auto
    obtain groups st' where IH: "concat groups = drop ?k table" "[] \<notin> set groups" "bqs_schema_sent st'"
      "bqs_counts st' = (of_nat (?j + length groups), of_nat (length table))"
      "bq_pages fuel arrow api sv bp job loc job_body p ?st (now + d) (reader ?ms)
         = Go st' (reader (?ms @ batch_events arrow (bigquery_put api) cols ?j groups))"
      using Suc.IH [OF k(2,1), of ?st ?j "now + d" ?ms] Suc.prems(3,4) by auto
    show ?thesis
    proof (intro exI conjI)
      show "concat (full_pages [?rows] @ groups) = drop k table"
        using take_drop_length [of m "drop k table"]
        by (simp only: concat_append concat_full_pages concat.simps append_Nil2 IH(1) drop_drop add.commute)
      show "[] \<notin> set (full_pages [?rows] @ groups)" using IH(2) by (simp add: full_pages_def)
      show "bqs_schema_sent st'" by (rule IH(3))
      show "bqs_counts st' = (of_nat (j + length (full_pages [?rows] @ groups)), of_nat (length table))"
        by (simp only: IH(4) length_append add.assoc)
      show "bq_pages (Suc fuel) arrow api sv bp job loc job_body p st now (reader ms)
          = Go st' (reader (ms @ batch_events arrow (bigquery_put api) cols j (full_pages [?rows] @ groups)))"
        by (simp only: step True if_True IH(5) batch_events_append append_assoc simp_thms)
    qed
  next
    case False
    then have k: "?k = length table" using Suc.prems(2) page(4) by (auto simp: min_def)
    show ?thesis
      using step False k Suc.prems(3)
      by (intro exI [of _ "full_pages [?rows]"] exI [of _ ?st])
         (auto simp: full_pages_def)
  qed
qed simp

text \<open>
  C15. A BigQuery stream delivers the whole result of a finished job, whatever page sizes the
  service chooses: the schema, all rows in order in non-empty batches, and a summary with their
  exact number and the bytes of the job; it needs at most one request for each row and one more.
\<close>

theorem bigquery_stream_complete:
  assumes laws: "try_new_law arrow" "ipc_law arrow" "cols \<noteq> []"
    and job: "bq_stream_job sv bp sql now = Some (Inr (job, loc, job_body), t)"
    and p: "p = (case chunk_size of Some n \<Rightarrow> n | None \<Rightarrow> 10000)"
    and table: "serves_job sv bp job loc p cols table" "length table < 2 ^ 64"
    and fuel: "length table < fuel"
  shows "\<exists>groups. concat groups = table \<and> [] \<notin> set groups \<and>
    bigquery_stream_arrow fuel arrow api sv bp elapsed sql limit offset tot chunk_size now (reader [])
      = Go () (reader (schema_event arrow cols None # batch_events arrow (bigquery_put api) cols 0 groups
          @ [Inr (Complete (Some elapsed) (bq_job_bytes job_body) (of_nat (length groups))
                (of_nat (length table)))]))"
proof -
  obtain f where f: "fuel = Suc f" using fuel by (cases fuel) auto
  let ?st = "bq_stream_start\<lparr>bqs_columns := cols, bqs_schema_sent := True\<rparr>"
  obtain groups st' where g: "concat groups = table" "[] \<notin> set groups" "bqs_schema_sent st'"
    "bqs_counts st' = (of_nat (length groups), of_nat (length table))"
    "bq_pages fuel arrow api sv bp job loc job_body p ?st t (reader [schema_event arrow cols None])
       = Go st' (reader ([schema_event arrow cols None] @ batch_events arrow (bigquery_put api) cols 0 groups))"
    using bq_pages_stream [OF laws table, of 0 fuel ?st 0 api job_body t "[schema_event arrow cols None]"] fuel
    by (auto simp: bq_stream_start_def)
  have "bq_pages fuel arrow api sv bp job loc job_body p bq_stream_start t (reader [])
       = Go st' (reader ([schema_event arrow cols None] @ batch_events arrow (bigquery_put api) cols 0 groups))"
    using g(5) unfolding f bq_pages_first [OF laws(2) table] .
  then show ?thesis
    using g(1-4) unfolding bigquery_stream_arrow_def p [symmetric]
    by (intro exI [of _ groups]) (simp add: job)
qed

text \<open>A finished job of two rows that are served one by one, for the witness.\<close>

definition demo_bp :: bigquery_provider where
  "demo_bp = \<lparr>bq_access_token = ''t'', bq_billing_project = ''p'', bq_maximum_bytes_billed = None\<rparr>"

definition demo_job :: json where
  "demo_job = json_obj [(''jobReference'', Some (json_obj [(''jobId'', Some (JString ''j''))])),
     (''status'', Some (json_obj [(''state'', Some (JString ''DONE''))]))]"

definition demo_bq_page :: "json list \<Rightarrow> string \<Rightarrow> json" where
  "demo_bq_page rows tok = json_obj
     [(''schema'', Some (json_obj [(''fields'', Some (JArray
         [json_obj [(''name'', Some (JString ''n'')), (''type'', Some (JString ''STRING''))]]))])),
      (''rows'', Some (JArray rows)), (''pageToken'', Some (JString tok))]"

definition demo_bigquery :: rest_service where
  "demo_bigquery = (\<lambda>rq t. Answered (case rq_body rq of
       PostJson _ \<Rightarrow> RestJson 200 demo_job
     | _ \<Rightarrow> RestJson 200 (if rq_url rq = bq_results_url demo_bp ''j'' [] (show_word (10000 :: u32)) (show_nat 0)
         then demo_bq_page [JNull] ''more''
         else if rq_url rq = bq_results_url demo_bp ''j'' [] (show_word (10000 :: u32)) (show_nat 1)
         then demo_bq_page [JBool True] [] else demo_bq_page [] [])) 5 (Some 5))"

lemma demo_bq_page_facts:
  "is_object (demo_bq_page rows tok)" "path_array (demo_bq_page rows tok) [''rows''] = rows"
  "bq_columns (demo_bq_page rows tok) = [\<lparr>col_name = ''n'', col_type = TString\<rparr>]"
  "nonempty (get_str (demo_bq_page rows tok) ''pageToken'') = (if tok = [] then None else Some tok)"
proof -
  have "map_bigquery_type ''STRING'' = TString" by code_simp
  then show "bq_columns (demo_bq_page rows tok) = [\<lparr>col_name = ''n'', col_type = TString\<rparr>]"
    by (simp add: bq_columns_def path_array_def demo_bq_page_def path_str_or_def path_str_def)
  show "is_object (demo_bq_page rows tok)" by (simp add: demo_bq_page_def json_obj_def)
  show "path_array (demo_bq_page rows tok) [''rows''] = rows"
    "nonempty (get_str (demo_bq_page rows tok) ''pageToken'') = (if tok = [] then None else Some tok)"
    by (simp_all add: path_array_def demo_bq_page_def get_str_def)
qed

lemma demo_results_url_eq:
  "bq_results_url bp job [] m (show_nat k) = bq_results_url bp job [] m (show_nat k') \<longleftrightarrow> k = k'"
  by (simp add: bq_results_url_def)

lemma demo_bigquery_serves:
  "serves_job demo_bigquery demo_bp ''j'' [] 10000 [\<lparr>col_name = ''n'', col_type = TString\<rparr>] [JNull, JBool True]"
  unfolding serves_job_def
proof (intro allI impI)
  fix k assume "k \<le> length [JNull, JBool True]"
  then consider "k = 0" | "k = 1" | "k = 2" by fastforce
  then show "\<exists>page m. is_object page \<and>
      (\<forall>t. \<exists>d. ask_untimed demo_bigquery (bq_request demo_bp (bq_results_url demo_bp ''j'' [] (show_word (10000 :: u32)) (show_nat k)) Get) t
         = Some (RestJson 200 page, d)) \<and> bq_columns page = [\<lparr>col_name = ''n'', col_type = TString\<rparr>] \<and>
      path_array page [''rows''] = take m (drop k [JNull, JBool True]) \<and>
      (k < length [JNull, JBool True] \<longrightarrow> 0 < m) \<and>
      (nonempty (get_str page ''pageToken'') \<noteq> None \<longleftrightarrow> k + m < length [JNull, JBool True])"
    by cases
       (intro exI [of _ "if k = 0 then demo_bq_page [JNull] ''more'' else if k = 1 then demo_bq_page [JBool True] []
          else demo_bq_page [] []"] exI [of _ 1],
        simp add: ask_untimed_def demo_bigquery_def bq_request_def demo_results_url_eq demo_bq_page_facts)+
qed

theorem bigquery_stream_complete_witness:
  "\<forall>api elapsed. \<exists>groups. concat groups = [JNull, JBool True] \<and> [] \<notin> set groups \<and>
    bigquery_stream_arrow 3 demo_arrow api demo_bigquery demo_bp elapsed ''SELECT n'' None None False None 0
      (reader [])
      = Go () (reader (schema_event demo_arrow [\<lparr>col_name = ''n'', col_type = TString\<rparr>] None
          # batch_events demo_arrow (bigquery_put api) [\<lparr>col_name = ''n'', col_type = TString\<rparr>] 0 groups
          @ [Inr (Complete (Some elapsed) (bq_job_bytes demo_job) (of_nat (length groups))
                (of_nat (length [JNull, JBool True])))]))"
proof -
  have "path_str_or [] demo_job [''jobReference'', ''jobId''] = ''j''"
    "path_str_or [] demo_job [''jobReference'', ''location''] = []" "bq_state demo_job = ''DONE''"
    "bq_job_error demo_job = None" by code_simp+
  then have job: "bq_stream_job demo_bigquery demo_bp ''SELECT n'' 0 = Some (Inr (''j'', [], demo_job), 10)"
    by (simp add: bq_stream_job_def ask_within_def await_def demo_bigquery_def bq_request_def
        DATASOURCE_TIMEOUT_QUERY_def is_error_status_def finish_job_def)
  show ?thesis
    by (intro allI, rule bigquery_stream_complete [OF demo_arrow_law demo_ipc_law _ job _ demo_bigquery_serves])
       simp_all
qed

section \<open>The cost limit\<close>

text \<open>Nothing after the job request depends on the limit.\<close>

lemma uncapped_requests [simp]:
  "bq_request (bp\<lparr>bq_maximum_bytes_billed := cap\<rparr>) = bq_request bp"
  "bq_queries_url (bp\<lparr>bq_maximum_bytes_billed := cap\<rparr>) = bq_queries_url bp"
  "bq_job_url (bp\<lparr>bq_maximum_bytes_billed := cap\<rparr>) = bq_job_url bp"
  "bq_results_url (bp\<lparr>bq_maximum_bytes_billed := cap\<rparr>) = bq_results_url bp"
  by (simp_all add: fun_eq_iff bq_request_def bq_queries_url_def bq_job_url_def bq_results_url_def)

lemma uncapped_job: "bq_stream_job sv (bp\<lparr>bq_maximum_bytes_billed := cap\<rparr>) sql now = bq_stream_job sv bp sql now"
proof -
  have "finish_job sv (bp\<lparr>bq_maximum_bytes_billed := cap\<rparr>) = finish_job sv bp"
    by (simp add: fun_eq_iff finish_job_def poll_job_def Let_def)
  then show ?thesis unfolding bq_stream_job_def uncapped_requests by (simp only:)
qed

lemma uncapped_pages:
  "bq_pages fuel arrow api sv (bp\<lparr>bq_maximum_bytes_billed := cap\<rparr>) job loc job_body p st now ch
    = bq_pages fuel arrow api sv bp job loc job_body p st now ch"
  by (induction fuel arbitrary: st now ch)
     (simp_all add: fetch_results_page_def del: bind_flow.simps flow_timed_simps cong: if_cong)

text \<open>
  The cost limit of a datasource holds for buffered queries and dry runs only: their job
  request carries maximumBytesBilled, but a stream is the same whatever limit is configured.
\<close>

theorem bigquery_stream_uncapped:
  "bigquery_stream_arrow fuel arrow api sv (bp\<lparr>bq_maximum_bytes_billed := cap\<rparr>) elapsed sql limit offset tot
      chunk_size now ch
    = bigquery_stream_arrow fuel arrow api sv bp elapsed sql limit offset tot chunk_size now ch \<and>
   json_get (query_body sql (Some c) dry) ''maximumBytesBilled'' = Some (JString c)"
  by (simp add: bigquery_stream_arrow_def uncapped_job uncapped_pages query_body_def)

end
