(* ===== verification/Databricks.thy ===== *)
theory Databricks
  imports Rest_Api
begin

text \<open>
  The Databricks provider of \<^verbatim>\<open>providers/databricks.rs\<close>: statements submitted over the
  Statement Execution API, polled until they finish, with results in chunks that name their
  successor. The chunk loops have no bound of their own and take fuel.
\<close>

section \<open>Configuration\<close>

record databricks_provider =
  db_server_hostname :: string
  db_token :: string
  db_warehouse_id :: string
  db_catalog :: "string option"
  db_schema :: "string option"

definition extract_warehouse_id :: "string \<Rightarrow> string option" where
  "extract_warehouse_id http_path =
     nonempty (map_option (trim_end_char (CHR ''/''))
       (if_some (strip_prefix ''/sql/1.0/warehouses/'' http_path) Some
         (strip_prefix ''sql/1.0/warehouses/'' http_path)))"

text \<open>\<open>exchange_m2m_token\<close>: the token and its lifetime.\<close>

definition exchange_m2m_token ::
  "rest_service \<Rightarrow> string \<Rightarrow> string \<Rightarrow> string \<Rightarrow> nat \<Rightarrow> (string \<times> i64 option) result timed" where
  "exchange_m2m_token sv token_url client_id client_secret now =
     (case ask_within OAUTH_REFRESH_TIMEOUT sv
        \<lparr>rq_url = token_url, rq_body = PostForm [(''grant_type'', ''client_credentials''),
           (''client_id'', client_id), (''client_secret'', client_secret), (''scope'', ''all-apis'')],
         rq_token = None, rq_token_type = None\<rparr> now of
        None \<Rightarrow> None
      | Some (None, t) \<Rightarrow> Some (Inl (Internal ''Databricks M2M token exchange timed out after 30s''), t)
      | Some (Some (RestErr e), t) \<Rightarrow>
          Some (Inl (Internal (''Databricks M2M token exchange HTTP request failed: '' @ e)), t)
      | Some (Some (RestNotJson _ e), t) \<Rightarrow>
          Some (Inl (Internal (''Failed to parse Databricks M2M token response: '' @ e)), t)
      | Some (Some (RestJson status body), t) \<Rightarrow>
          if \<not> is_success_status status
          then Some (Inl (Internal (''Databricks M2M token exchange failed (''
                  @ path_str_or ''unknown_error'' body [''error''] @ ''): ''
                  @ path_str_or ''No description'' body [''error_description''])), t)
          else (case nonempty (get_str body ''access_token'') of
              None \<Rightarrow> Some (Inl (Internal ''Databricks M2M token response missing access_token''), t)
            | Some tok \<Rightarrow> Some (Inr (tok, Option.bind (json_get body ''expires_in'') as_i64), t)))"

definition databricks_new ::
  "rest_service \<Rightarrow> json \<Rightarrow> json \<Rightarrow> nat \<Rightarrow> databricks_provider result timed" where
  "databricks_new sv config credentials now =
     (case get_str config ''server_hostname'' of
        None \<Rightarrow> Some (Inl (Provider ''Databricks server_hostname is required''), now)
      | Some host \<Rightarrow>
     (case get_str config ''http_path'' of
        None \<Rightarrow> Some (Inl (Provider ''Databricks http_path is required''), now)
      | Some http_path \<Rightarrow>
     (case extract_warehouse_id http_path of
        None \<Rightarrow> Some (Inl (Provider (''Could not extract warehouse ID from http_path: '' @ http_path)), now)
      | Some warehouse \<Rightarrow>
     (let provider = (\<lambda>token. \<lparr>db_server_hostname = host, db_token = token,
             db_warehouse_id = warehouse, db_catalog = get_str config ''catalog'',
             db_schema = get_str config ''schema''\<rparr>) in
      if_some (nonempty (get_str credentials ''access_token'')) (\<lambda>t. Some (Inr (provider t), now))
     (if_some (nonempty (get_str credentials ''oauth_access_token'')) (\<lambda>t. Some (Inr (provider t), now))
     (case (nonempty (get_str credentials ''client_id''), nonempty (get_str credentials ''client_secret'')) of
        (Some cid, Some secret) \<Rightarrow>
          (case exchange_m2m_token sv (''https://'' @ host @ ''/oidc/v1/token'') cid secret now of
             None \<Rightarrow> None
           | Some (Inl e, t) \<Rightarrow> Some (Inl e, t)
           | Some (Inr (tok, _), t) \<Rightarrow> Some (Inr (provider tok), t))
      | _ \<Rightarrow> Some (Inl (Provider (''Databricks requires access_token, oauth_access_token, ''
                 @ ''or client_id + client_secret'')), now)))))))"

section \<open>Statements\<close>

definition statements_url :: "databricks_provider \<Rightarrow> string" where
  "statements_url dp = ''https://'' @ db_server_hostname dp @ ''/api/2.0/sql/statements''"

definition statement_url :: "databricks_provider \<Rightarrow> string \<Rightarrow> string" where
  "statement_url dp sid = statements_url dp @ ''/'' @ sid"

definition chunk_url :: "databricks_provider \<Rightarrow> string \<Rightarrow> u64 \<Rightarrow> string" where
  "chunk_url dp sid i = statement_url dp sid @ ''/result/chunks/'' @ show_word i"

definition databricks_get :: "databricks_provider \<Rightarrow> string \<Rightarrow> rest_request" where
  "databricks_get dp url =
     \<lparr>rq_url = url, rq_body = Get, rq_token = Some (db_token dp), rq_token_type = None\<rparr>"

definition statement_request :: "databricks_provider \<Rightarrow> string \<Rightarrow> rest_request" where
  "statement_request dp sql =
     \<lparr>rq_url = statements_url dp,
      rq_body = PostJson (json_obj
        [(''statement'', Some (JString sql)), (''warehouse_id'', Some (JString (db_warehouse_id dp))),
         (''wait_timeout'', Some (JString ''120s'')), (''disposition'', Some (JString ''INLINE'')),
         (''catalog'', map_option JString (db_catalog dp)),
         (''schema'', map_option JString (db_schema dp))]),
      rq_token = Some (db_token dp), rq_token_type = None\<rparr>"

definition statement_error :: "json \<Rightarrow> string" where
  "statement_error body =
     path_str_or ''Databricks statement failed'' body [''status'', ''error'', ''message'']"

definition statement_state :: "json \<Rightarrow> string" where
  "statement_state body = path_str_or [] body [''status'', ''state'']"

abbreviation stopped_states :: "string set" where
  "stopped_states \<equiv> {''FAILED'', ''CLOSED'', ''CANCELED''}"

abbreviation running_states :: "string set" where
  "running_states \<equiv> {''PENDING'', ''RUNNING''}"

definition databricks_poll :: "rest_service \<Rightarrow> rest_request \<Rightarrow> nat \<Rightarrow> json poll_answer timed" where
  "databricks_poll sv rq t =
     map_option (\<lambda>(r, d). (case r of
        RestErr e \<Rightarrow> PollFail (''Databricks poll failed: '' @ e)
      | RestNotJson _ e \<Rightarrow> PollFail (''Failed to parse Databricks poll response: '' @ e)
      | RestJson _ body \<Rightarrow>
          (if statement_state body = ''SUCCEEDED'' then PollDone body
           else if statement_state body \<in> stopped_states then PollFail (statement_error body)
           else if statement_state body \<in> running_states then PollAgain
           else PollFail (''Unexpected Databricks state: '' @ statement_state body)), d))
     (ask_untimed sv rq t)"

interpretation databricks_poller:
  poller "databricks_poll sv rq" "\<lambda>t. ask_untimed sv rq t = None" "untimed_delay sv rq"
  by unfold_locales (auto simp: databricks_poll_def untimed_delay_def)

definition STATEMENT_POLL_TIMEOUT :: nat where
  "STATEMENT_POLL_TIMEOUT = 120000"

definition poll_statement ::
  "rest_service \<Rightarrow> databricks_provider \<Rightarrow> string \<Rightarrow> nat \<Rightarrow> json result timed" where
  "poll_statement sv dp sid now =
     poll_loop ''Databricks statement polling timed out''
       (databricks_poll sv (databricks_get dp (statement_url dp sid)))
       (now + STATEMENT_POLL_TIMEOUT) now"

definition submit_statement ::
  "rest_service \<Rightarrow> databricks_provider \<Rightarrow> string \<Rightarrow> nat \<Rightarrow> json result timed" where
  "submit_statement sv dp sql now =
     (case ask_within DATASOURCE_TIMEOUT_QUERY sv (statement_request dp sql) now of
        None \<Rightarrow> None
      | Some (None, t) \<Rightarrow> Some (Inl (Internal ''Databricks statement timed out after 120s''), t)
      | Some (Some (RestErr e), t) \<Rightarrow> Some (Inl (Internal (''Databricks HTTP request failed: '' @ e)), t)
      | Some (Some (RestNotJson _ e), t) \<Rightarrow>
          Some (Inl (Internal (''Failed to parse Databricks response: '' @ e)), t)
      | Some (Some (RestJson _ body), t) \<Rightarrow>
          if statement_state body = ''SUCCEEDED'' then Some (Inr body, t)
          else if statement_state body \<in> stopped_states
          then Some (Inl (Internal (statement_error body)), t)
          else if statement_state body \<in> running_states
          then (case get_str body ''statement_id'' of
                  None \<Rightarrow> Some (Inl (Internal ''Databricks response missing statement_id for polling''), t)
                | Some sid \<Rightarrow> poll_statement sv dp sid t)
          else Some (Inl (Internal (path_str_or ''Unknown Databricks error'' body [''message''])), t))"

section \<open>Results\<close>

definition databricks_columns :: "json \<Rightarrow> column_info list" where
  "databricks_columns body =
     map (\<lambda>col. \<lparr>col_name = path_str_or ''?'' col [''name''],
                 col_type = map_databricks_type (path_str_or [] col [''type_text''])\<rparr>)
       (path_array body [''manifest'', ''schema'', ''columns''])"

definition next_chunk :: "json option \<Rightarrow> u64 option" where
  "next_chunk result = Option.bind (Option.bind result (\<lambda>r. json_get r ''next_chunk_index'')) as_u64"

text \<open>
  \<open>fetch_all_chunks\<close>: a chunk that cannot be fetched ends the loop with the rows so far. The
  request and its body are under one time-out, and the status is not looked at.
\<close>

fun fetch_chunks ::
  "nat \<Rightarrow> rest_service \<Rightarrow> databricks_provider \<Rightarrow> string \<Rightarrow> u64 option \<Rightarrow> json list list \<Rightarrow> nat
   \<Rightarrow> json list list timed" where
  "fetch_chunks fuel sv dp sid None all_rows now = Some (all_rows, now)"
| "fetch_chunks 0 sv dp sid (Some i) all_rows now = None"
| "fetch_chunks (Suc fuel) sv dp sid (Some i) all_rows now =
     (case ask_whole DATASOURCE_TIMEOUT_QUERY sv (databricks_get dp (chunk_url dp sid i)) now of
        (Some (RestJson _ body), t) \<Rightarrow>
          fetch_chunks fuel sv dp sid (next_chunk (Some body))
            (all_rows @ json_rows (path_array body [''data_array''])) t
      | (_, t) \<Rightarrow> Some (all_rows, t))"

definition fetch_all_chunks ::
  "nat \<Rightarrow> rest_service \<Rightarrow> databricks_provider \<Rightarrow> json \<Rightarrow> string \<Rightarrow> nat \<Rightarrow> json list list timed" where
  "fetch_all_chunks fuel sv dp body sid now =
     fetch_chunks fuel sv dp sid (next_chunk (json_get body ''result''))
       (json_rows (path_array body [''result'', ''data_array''])) now"

section \<open>Operations\<close>

definition databricks_test_connection ::
  "rest_service \<Rightarrow> databricks_provider \<Rightarrow> nat \<Rightarrow> bool result timed" where
  "databricks_test_connection sv dp now =
     map_option (\<lambda>(r, t). (case r of
        Inr _ \<Rightarrow> Inr True
      | Inl e \<Rightarrow> Inl (Internal (''Databricks test connection failed: '' @ error_to_string e)), t))
     (submit_statement sv dp ''SELECT 1'' now)"

definition databricks_total_count ::
  "rest_service \<Rightarrow> databricks_provider \<Rightarrow> string \<Rightarrow> nat \<Rightarrow> i64 option timed" where
  "databricks_total_count sv dp sql now =
     map_option (\<lambda>(r, t). (case r of
        Inl _ \<Rightarrow> None
      | Inr body \<Rightarrow>
          (case path_array body [''result'', ''data_array''] of
             row # _ \<Rightarrow> (case as_array row of Some (v # _) \<Rightarrow> i64_or_str v | _ \<Rightarrow> None)
           | [] \<Rightarrow> None), t))
     (submit_statement sv dp (''SELECT COUNT(*) FROM ('' @ sql @ '') AS _count_subquery'') now)"

text \<open>The result is \<^const>\<open>None\<close> where a row converter panics.\<close>

definition databricks_execute_query ::
  "nat \<Rightarrow> arrow_api \<Rightarrow> value_api \<Rightarrow> rest_service \<Rightarrow> databricks_provider \<Rightarrow> i64 \<Rightarrow> string
   \<Rightarrow> u32 option \<Rightarrow> u32 option \<Rightarrow> bool \<Rightarrow> nat \<Rightarrow> query_result option timed" where
  "databricks_execute_query fuel arrow api sv dp elapsed sql limit offset include_total now =
     (let prepared = prepare_query_databricks sql limit offset in
      Option.bind
        (if pq_is_select prepared \<and> include_total \<and> \<not> pq_is_metadata_command prepared
         then databricks_total_count sv dp (pq_sql_stripped prepared) now else Some (None, now))
        (\<lambda>(total_rows, t0).
      Option.bind (submit_statement sv dp (pq_sql prepared) t0) (\<lambda>(r, t1).
      case r of
        Inl e \<Rightarrow> Some (Some (query_failed elapsed (error_to_string e)), t1)
      | Inr body \<Rightarrow>
          map_option (\<lambda>(rows, t2).
             (map_option (\<lambda>res. res\<lparr>qr_has_more := (limit \<noteq> None \<and> qr_has_more res)\<rparr>)
                (query_succeeded arrow (json_put api) (databricks_columns body) rows total_rows
                  (case limit of Some l \<Rightarrow> l | None \<Rightarrow> 0) elapsed), t2))
            (fetch_all_chunks fuel sv dp body (path_str_or [] body [''statement_id'']) t1))))"

definition databricks_line_re :: string where
  "databricks_line_re = ''(?i)line'' @ [CHR 0x5C] @ ''s+('' @ [CHR 0x5C] @ ''d+)''"

definition parse_databricks_error_line :: "regex \<Rightarrow> string \<Rightarrow> u32 option" where
  "parse_databricks_error_line rx msg = Option.bind (rx databricks_line_re msg 1) parse_u32"

definition databricks_dry_run ::
  "regex \<Rightarrow> rest_service \<Rightarrow> databricks_provider \<Rightarrow> string \<Rightarrow> nat \<Rightarrow> dry_run_result timed" where
  "databricks_dry_run rx sv dp sql now =
     map_option (\<lambda>(r, t). (case r of
        Inr _ \<Rightarrow> dry_run_success ''Query valid''
      | Inl e \<Rightarrow> dry_run_failure (error_to_string e)
                  (parse_databricks_error_line rx (error_to_string e)) None, t))
     (submit_statement sv dp (''EXPLAIN '' @ sql) now)"

definition databricks_list_catalogs ::
  "nat \<Rightarrow> arrow_api \<Rightarrow> value_api \<Rightarrow> rest_service \<Rightarrow> databricks_provider \<Rightarrow> i64 \<Rightarrow> nat
   \<Rightarrow> discovery_result option timed" where
  "databricks_list_catalogs fuel arrow api sv dp elapsed now =
     map_option (\<lambda>(res, t). (map_option (\<lambda>result.
        \<lparr>di_items = sort (filter (\<lambda>name. to_lowercase name \<noteq> ''system''
             \<and> to_lowercase name \<noteq> ''hive_metastore'')
           (extract_string_col_from_batch (qr_record_batch result) 0)), di_error = None\<rparr>) res, t))
     (databricks_execute_query fuel arrow api sv dp elapsed ''SHOW CATALOGS'' None None False now)"

section \<open>The stream\<close>

definition stream_statement ::
  "rest_service \<Rightarrow> databricks_provider \<Rightarrow> string \<Rightarrow> nat \<Rightarrow> json result timed" where
  "stream_statement sv dp sql now =
     (case ask_within DATASOURCE_TIMEOUT_QUERY sv (statement_request dp sql) now of
        None \<Rightarrow> None
      | Some (None, t) \<Rightarrow> Some (Inl (Internal ''Databricks statement timed out after 120s''), t)
      | Some (Some (RestErr e), t) \<Rightarrow> Some (Inl (Internal (''Databricks HTTP request failed: '' @ e)), t)
      | Some (Some (RestNotJson _ e), t) \<Rightarrow>
          Some (Inl (Internal (''Failed to parse Databricks response: '' @ e)), t)
      | Some (Some (RestJson _ body), t) \<Rightarrow>
          if statement_state body = ''SUCCEEDED'' then Some (Inr body, t)
          else if statement_state body \<in> stopped_states
          then Some (Inl (Internal (statement_error body)), t)
          else (case get_str body ''statement_id'' of
                  None \<Rightarrow> Some (Inl (Internal ''Databricks response missing statement_id''), t)
                | Some sid \<Rightarrow> poll_statement sv dp sid t))"

definition fetch_chunk :: "rest_service \<Rightarrow> databricks_provider \<Rightarrow> string \<Rightarrow> u64 \<Rightarrow> nat \<Rightarrow> json result timed" where
  "fetch_chunk sv dp sid i now =
     (case ask_within DATASOURCE_TIMEOUT_QUERY sv (databricks_get dp (chunk_url dp sid i)) now of
        None \<Rightarrow> None
      | Some (None, t) \<Rightarrow> Some (Inl (Internal (''Databricks chunk '' @ show_word i @ '' fetch timed out after 120s'')), t)
      | Some (Some (RestErr e), t) \<Rightarrow>
          Some (Inl (Internal (''Databricks chunk '' @ show_word i @ '' fetch failed: '' @ e)), t)
      | Some (Some (RestNotJson _ e), t) \<Rightarrow>
          Some (Inl (Internal (''Failed to parse Databricks chunk '' @ show_word i @ '': '' @ e)), t)
      | Some (Some (RestJson status body), t) \<Rightarrow>
          if is_error_status status
          then Some (Inl (Internal (''Databricks chunk '' @ show_word i @ '': ''
                 @ path_str_or ''Databricks chunk fetch failed'' body [''message''])), t)
          else Some (Inr body, t))"

fun stream_chunks ::
  "nat \<Rightarrow> arrow_api \<Rightarrow> value_api \<Rightarrow> rest_service \<Rightarrow> databricks_provider \<Rightarrow> column_info list \<Rightarrow> string
   \<Rightarrow> u64 option \<Rightarrow> page_counts \<Rightarrow> nat \<Rightarrow> chan \<Rightarrow> page_counts flow" where
  "stream_chunks fuel arrow api sv dp columns sid None counts now ch = Go counts ch"
| "stream_chunks 0 arrow api sv dp columns sid (Some i) counts now ch = OutOfFuel ch"
| "stream_chunks (Suc fuel) arrow api sv dp columns sid (Some i) counts now ch =
     bind_flow (flow_timed (fetch_chunk sv dp sid i now) ch) (\<lambda>(body, t) ch1.
     bind_flow (emit_page arrow (json_put api) columns (json_rows (path_array body [''data_array''])) counts ch1)
       (\<lambda>counts'. stream_chunks fuel arrow api sv dp columns sid (next_chunk (Some body)) counts' t))"

definition databricks_stream_arrow ::
  "nat \<Rightarrow> arrow_api \<Rightarrow> value_api \<Rightarrow> rest_service \<Rightarrow> databricks_provider \<Rightarrow> i64 \<Rightarrow> string
   \<Rightarrow> u32 option \<Rightarrow> u32 option \<Rightarrow> bool \<Rightarrow> u32 option \<Rightarrow> nat \<Rightarrow> chan \<Rightarrow> unit flow" where
  "databricks_stream_arrow fuel arrow api sv dp elapsed sql limit offset include_total chunk_size now ch =
     bind_flow (flow_timed (stream_statement sv dp sql now) ch) (\<lambda>(body, t) ch1.
     bind_flow (emit_schema arrow (databricks_columns body) None ch1) (\<lambda>_ ch2.
     bind_flow (emit_page arrow (json_put api) (databricks_columns body)
         (json_rows (path_array body [''result'', ''data_array''])) (0, 0) ch2) (\<lambda>counts ch3.
     bind_flow (stream_chunks fuel arrow api sv dp (databricks_columns body)
         (path_str_or [] body [''statement_id'']) (next_chunk (json_get body ''result'')) counts t ch3)
       (\<lambda>counts. emit_complete elapsed (fst counts) (snd counts)))))"

section \<open>Protocol safety\<close>

lemma stream_chunks_ok:
  "at_open (fst counts) ch \<Longrightarrow>
   flow_ok (\<lambda>c. at_open (fst c)) (stream_chunks fuel arrow api sv dp cols sid nxt counts now ch)"
proof (induction fuel arrow api sv dp cols sid nxt counts now ch rule: stream_chunks.induct)
  case (3 fuel arrow api sv dp cols sid i counts now ch)
  then show ?case
    unfolding stream_chunks.simps
    by (auto intro!: flow_ok_bind [OF flow_timed_open [OF 3(2)]] flow_ok_bind [OF emit_page_ok] 3(1))
qed (auto intro: at_open_ordered)

lemma databricks_stream_ok:
  assumes "at_phase Init ch"
  shows "flow_ok (\<lambda>_. at_phase Closed)
    (databricks_stream_arrow fuel arrow api sv dp elapsed sql limit offset tot n now ch)"
  unfolding databricks_stream_arrow_def
  by (auto intro!: flow_ok_bind [OF flow_timed_init [OF assms]] flow_ok_bind [OF emit_schema_ok]
      flow_ok_bind [OF emit_page_ok] flow_ok_bind [OF stream_chunks_ok] intro: emit_complete_ok)

section \<open>What a statement delivers\<close>

text \<open>
  A service that holds the chunks \<open>pages\<close> behind chunk index \<open>nxt\<close>: each names its successor,
  every request for it is answered in time, and the last one names \<open>rest\<close>.
\<close>

fun chunk_chain ::
  "rest_service \<Rightarrow> databricks_provider \<Rightarrow> string \<Rightarrow> u64 option \<Rightarrow> json list list list \<Rightarrow> u64 option
   \<Rightarrow> bool" where
  "chunk_chain sv dp sid nxt [] rest \<longleftrightarrow> nxt = rest"
| "chunk_chain sv dp sid nxt (page # pages) rest \<longleftrightarrow>
     (\<exists>i body. nxt = Some i \<and> json_rows (path_array body [''data_array'']) = page \<and>
        prompt sv (databricks_get dp (chunk_url dp sid i)) (RestJson 200 body) \<and>
        chunk_chain sv dp sid (next_chunk (Some body)) pages rest)"

lemma stream_chunks_chain:
  assumes "try_new_law arrow" "ipc_law arrow" "cols \<noteq> []"
    and "chunk_chain sv dp sid nxt pages rest"
  shows "\<exists>now'. stream_chunks (length pages + fuel) arrow api sv dp cols sid nxt (of_nat k, t) now (reader ms)
    = stream_chunks fuel arrow api sv dp cols sid rest
        (of_nat (k + length (full_pages pages)), t + of_nat (length (concat pages))) now'
        (reader (ms @ batch_events arrow (json_put api) cols k (full_pages pages)))"
  using assms(4)
proof (induction pages arbitrary: nxt k t now ms)
  case (Cons page pages)
  obtain i body where body: "nxt = Some i" "json_rows (path_array body [''data_array'']) = page"
    "prompt sv (databricks_get dp (chunk_url dp sid i)) (RestJson 200 body)"
    "chunk_chain sv dp sid (next_chunk (Some body)) pages rest"
    using Cons.prems(1) by auto
  obtain d where "ask_within DATASOURCE_TIMEOUT_QUERY sv (databricks_get dp (chunk_url dp sid i)) now
      = Some (Some (RestJson 200 body), now + d)" by (rule prompt_ask [OF body(3)])
  then have "fetch_chunk sv dp sid i now = Some (Inr body, now + d)"
    by (simp add: fetch_chunk_def is_error_status_def)
  then have "stream_chunks (length (page # pages) + fuel) arrow api sv dp cols sid nxt (of_nat k, t) now (reader ms)
      = stream_chunks (length pages + fuel) arrow api sv dp cols sid (next_chunk (Some body))
          (of_nat (k + length (full_pages [page])), t + of_nat (length page)) (now + d)
          (reader (ms @ batch_events arrow (json_put api) cols k (full_pages [page])))"
    using body(1,2) json_writer.emit_page_reader [OF assms(1-3), of page] by (simp add: list_all_iff)
  also obtain now' where "\<dots> = stream_chunks fuel arrow api sv dp cols sid rest
      (of_nat (k + length (full_pages [page]) + length (full_pages pages)),
        t + of_nat (length page) + of_nat (length (concat pages))) now'
      (reader ((ms @ batch_events arrow (json_put api) cols k (full_pages [page]))
        @ batch_events arrow (json_put api) cols (k + length (full_pages [page])) (full_pages pages)))"
    using Cons.IH [OF body(4)] by blast
  finally show ?case
    by (intro exI [of _ now'])
       (simp add: full_pages_Cons [of page pages] batch_events_append add.assoc)
qed auto

lemma fetch_chunks_chain:
  assumes "chunk_chain sv dp sid nxt pages rest"
  shows "\<exists>now'. fetch_chunks (length pages + fuel) sv dp sid nxt rows now
    = fetch_chunks fuel sv dp sid rest (rows @ concat pages) now'"
  using assms
proof (induction pages arbitrary: nxt rows now)
  case (Cons page pages)
  obtain i body where body: "nxt = Some i" "json_rows (path_array body [''data_array'']) = page"
    "prompt sv (databricks_get dp (chunk_url dp sid i)) (RestJson 200 body)"
    "chunk_chain sv dp sid (next_chunk (Some body)) pages rest"
    using Cons.prems(1) by auto
  obtain d where "ask_whole DATASOURCE_TIMEOUT_QUERY sv (databricks_get dp (chunk_url dp sid i)) now
      = (Some (RestJson 200 body), now + d)" by (rule prompt_ask [OF body(3)])
  then show ?case using Cons.IH [OF body(4), of "rows @ page" "now + d"] body(1,2) by simp
qed auto

text \<open>The common start of both paths: the inline rows, then the chain.\<close>

lemma databricks_stream_chain:
  assumes laws: "try_new_law arrow" "ipc_law arrow" "cols \<noteq> []"
    and body: "stream_statement sv dp sql now = Some (Inr body, t)" "cols = databricks_columns body"
      "inline = json_rows (path_array body [''result'', ''data_array''])"
      "sid = path_str_or [] body [''statement_id'']"
    and "chunk_chain sv dp sid (next_chunk (json_get body ''result'')) pages rest"
  shows "\<exists>now'. databricks_stream_arrow (length pages + fuel) arrow api sv dp elapsed sql limit offset tot n now
      (reader [])
    = bind_flow (stream_chunks fuel arrow api sv dp cols sid rest
        (of_nat (length (full_pages (inline # pages))), of_nat (length (concat (inline # pages)))) now'
        (reader (schema_event arrow cols None # batch_events arrow (json_put api) cols 0
           (full_pages (inline # pages)))))
        (\<lambda>c. emit_complete elapsed (fst c) (snd c))"
proof -
  let ?ms = "[schema_event arrow cols None] @ batch_events arrow (json_put api) cols 0 (full_pages [inline])"
  have inline: "emit_page arrow (json_put api) cols inline (0, 0) (reader [schema_event arrow cols None])
      = Go (of_nat (length (full_pages [inline])), of_nat (length inline)) (reader ?ms)"
    using json_writer.emit_page_reader [OF laws, of inline api 0 0 "[schema_event arrow cols None]"]
    by (simp add: list_all_iff)
  obtain now' where chain: "stream_chunks (length pages + fuel) arrow api sv dp cols sid
      (next_chunk (json_get body ''result''))
      (of_nat (length (full_pages [inline])), of_nat (length inline)) t (reader ?ms)
    = stream_chunks fuel arrow api sv dp cols sid rest
        (of_nat (length (full_pages [inline]) + length (full_pages pages)),
          of_nat (length inline) + of_nat (length (concat pages))) now'
        (reader (?ms @ batch_events arrow (json_put api) cols (length (full_pages [inline])) (full_pages pages)))"
    using stream_chunks_chain [OF laws assms(8)] by blast
  show ?thesis
    unfolding databricks_stream_arrow_def body(1)
    using chain inline
    by (intro exI [of _ now'])
       (simp add: body(2-4) [symmetric] emit_schema_reader [OF laws(2)] full_pages_Cons [of inline pages]
          batch_events_append)
qed

text \<open>A buffered query whose chunks give \<open>rows\<close>: the result holds exactly these rows.\<close>

lemma databricks_execute_batch:
  assumes laws: "try_new_law arrow" "databricks_columns body \<noteq> []"
    and total: "(if pq_is_select (prepare_query_databricks q limit offset) \<and> tot \<and>
          \<not> pq_is_metadata_command (prepare_query_databricks q limit offset)
        then databricks_total_count sv dp (pq_sql_stripped (prepare_query_databricks q limit offset)) now
        else Some (None, now)) = Some (counted, t0)"
    and submit: "submit_statement sv dp (pq_sql (prepare_query_databricks q limit offset)) t0 = Some (Inr body, t1)"
    and rows: "fetch_all_chunks fuel sv dp body (path_str_or [] body [''statement_id'']) t1 = Some (rows, t2)"
  shows "\<exists>r batch. databricks_execute_query fuel arrow api sv dp elapsed q limit offset tot now = Some (Some r, t2) \<and>
    qr_status r = Success \<and> qr_error r = None \<and> qr_columns r = Some (databricks_columns body) \<and>
    qr_total_rows r = counted \<and> qr_has_more r = (limit \<noteq> None \<and> length rows = unat (the limit)) \<and>
    qr_record_batch r = Some batch \<and> rb_num_rows batch = length rows \<and>
    map arr_vals (rb_columns batch)
      = map (\<lambda>j. map (\<lambda>r. json_cell api (col_type (databricks_columns body ! j)) (row_get r j)) rows)
          [0..<length (databricks_columns body)]"
proof -
  let ?lim = "case limit of Some l \<Rightarrow> l | None \<Rightarrow> 0"
  obtain r batch where r: "query_succeeded arrow (json_put api) (databricks_columns body) rows counted ?lim elapsed = Some r"
    and rest: "qr_status r = Success" "qr_error r = None" "qr_columns r = Some (databricks_columns body)"
      "qr_total_rows r = counted" "qr_record_batch r = Some batch" "rb_num_rows batch = length rows"
      "map arr_vals (rb_columns batch)
        = map (\<lambda>j. map (\<lambda>r. json_cell api (col_type (databricks_columns body ! j)) (row_get r j)) rows)
            [0..<length (databricks_columns body)]" "qr_has_more r \<longleftrightarrow> length rows = unat ?lim"
    using json_writer.query_succeeded_batch [OF laws, of rows api counted ?lim elapsed]
      json_writer.query_succeeded_ok [of rows arrow api "databricks_columns body" counted ?lim elapsed]
    by (auto simp: list_all_iff result_ok_def)
  have "databricks_execute_query fuel arrow api sv dp elapsed q limit offset tot now
      = Some (Some (r\<lparr>qr_has_more := (limit \<noteq> None \<and> qr_has_more r)\<rparr>), t2)"
    using total submit rows r by (simp add: databricks_execute_query_def Let_def)
  then show ?thesis using rest by (cases limit) auto
qed

text \<open>
  C13. Databricks delivers every chunk. When the statement has finished and each chunk names its
  successor up to the last, both ways of running a query give all rows of all chunks in order:
  the stream as the schema, one batch for each non-empty chunk and a summary with their exact
  number; the buffered query as a successful result whose batch holds, cell by cell, these rows,
  with the columns of the statement, the total count if one was asked for, and more to come
  exactly when the rows fill the limit.
\<close>

theorem databricks_delivers_all:
  assumes "try_new_law arrow" "ipc_law arrow" "cols \<noteq> []"
    and "stream_statement sv dp sql now = Some (Inr body, t)" "cols = databricks_columns body"
      "inline = json_rows (path_array body [''result'', ''data_array''])"
      "sid = path_str_or [] body [''statement_id'']"
    and "chunk_chain sv dp sid (next_chunk (json_get body ''result'')) pages None"
    and "length pages \<le> fuel"
    and total: "(if pq_is_select (prepare_query_databricks q limit offset) \<and> tot \<and>
          \<not> pq_is_metadata_command (prepare_query_databricks q limit offset)
        then databricks_total_count sv dp (pq_sql_stripped (prepare_query_databricks q limit offset)) now0
        else Some (None, now0)) = Some (counted, t0)"
    and submit: "submit_statement sv dp (pq_sql (prepare_query_databricks q limit offset)) t0 = Some (Inr body, t1)"
    and "rows = concat (inline # pages)"
  shows "databricks_stream_arrow fuel arrow api sv dp elapsed sql limit' offset' tot' n now (reader [])
      = Go () (reader (stream_of arrow (json_put api) cols None elapsed (full_pages (inline # pages)))) \<and>
    (\<exists>r batch t2. databricks_execute_query fuel arrow api sv dp elapsed q limit offset tot now0 = Some (Some r, t2) \<and>
       qr_status r = Success \<and> qr_error r = None \<and> qr_columns r = Some cols \<and> qr_total_rows r = counted \<and>
       qr_has_more r = (limit \<noteq> None \<and> length rows = unat (the limit)) \<and>
       qr_record_batch r = Some batch \<and> rb_num_rows batch = length rows \<and>
       map arr_vals (rb_columns batch)
         = map (\<lambda>j. map (\<lambda>r. json_cell api (col_type (cols ! j)) (row_get r j)) rows) [0..<length cols])"
proof
  obtain f where f: "fuel = length pages + f" using assms(9) le_Suc_ex by blast
  show "databricks_stream_arrow fuel arrow api sv dp elapsed sql limit' offset' tot' n now (reader [])
      = Go () (reader (stream_of arrow (json_put api) cols None elapsed (full_pages (inline # pages))))"
    using databricks_stream_chain [OF assms(1-8), of f api elapsed limit' offset' tot' n] f
    by (auto simp: emit_complete_def stream_of_def)
  obtain t2 where "fetch_all_chunks fuel sv dp body (path_str_or [] body [''statement_id'']) t1 = Some (rows, t2)"
    using fetch_chunks_chain [OF assms(8), of f inline t1]
    by (auto simp: fetch_all_chunks_def f assms(6,12) simp flip: assms(7))
  from databricks_execute_batch [OF assms(1) _ total submit this, of api elapsed] assms(3)
  show "\<exists>r batch t2. databricks_execute_query fuel arrow api sv dp elapsed q limit offset tot now0 = Some (Some r, t2) \<and>
       qr_status r = Success \<and> qr_error r = None \<and> qr_columns r = Some cols \<and> qr_total_rows r = counted \<and>
       qr_has_more r = (limit \<noteq> None \<and> length rows = unat (the limit)) \<and>
       qr_record_batch r = Some batch \<and> rb_num_rows batch = length rows \<and>
       map arr_vals (rb_columns batch)
         = map (\<lambda>j. map (\<lambda>r. json_cell api (col_type (cols ! j)) (row_get r j)) rows) [0..<length cols]"
    unfolding assms(5) by blast
qed

text \<open>A service with one finished statement of two chunks, for the witnesses; \<open>second\<close> is the
  reply to the request for the second chunk.\<close>

definition demo_dp :: databricks_provider where
  "demo_dp = \<lparr>db_server_hostname = ''h'', db_token = ''t'', db_warehouse_id = ''w'',
     db_catalog = None, db_schema = None\<rparr>"

definition demo_chunk :: "json list list \<Rightarrow> json \<Rightarrow> json" where
  "demo_chunk rows nxt = json_obj [(''data_array'', Some (JArray (map JArray rows))),
     (''next_chunk_index'', Some nxt)]"

definition demo_statement :: json where
  "demo_statement = json_obj
     [(''statement_id'', Some (JString ''s1'')),
      (''status'', Some (json_obj [(''state'', Some (JString ''SUCCEEDED''))])),
      (''manifest'', Some (json_obj [(''schema'', Some (json_obj [(''columns'', Some (JArray
         [json_obj [(''name'', Some (JString ''n'')), (''type_text'', Some (JString ''STRING''))]]))]))])),
      (''result'', Some (demo_chunk [[JString ''a'']] (JNumber (PosInt 1))))]"

definition demo_databricks :: "rest_reply \<Rightarrow> rest_service" where
  "demo_databricks second = (\<lambda>rq t.
     Answered (case rq_body rq of PostJson _ \<Rightarrow> RestJson 200 demo_statement | _ \<Rightarrow> second) 5 (Some 5))"

lemma demo_statement_facts:
  "statement_state demo_statement = ''SUCCEEDED''"
  "databricks_columns demo_statement = [\<lparr>col_name = ''n'', col_type = TString\<rparr>]"
  "json_rows (path_array demo_statement [''result'', ''data_array'']) = [[JString ''a'']]"
  "path_str_or [] demo_statement [''statement_id''] = ''s1''"
  "next_chunk (json_get demo_statement ''result'') = Some 1"
  by code_simp+

lemma demo_databricks_statement:
  "stream_statement (demo_databricks second) demo_dp ''SELECT 1'' 0 = Some (Inr demo_statement, 10)"
  "submit_statement (demo_databricks second) demo_dp ''SELECT 1'' 0 = Some (Inr demo_statement, 10)"
  by (simp_all add: stream_statement_def submit_statement_def ask_within_def await_def demo_databricks_def
      statement_request_def DATASOURCE_TIMEOUT_QUERY_def demo_statement_facts)

lemma demo_databricks_prompt: "prompt (demo_databricks r) (databricks_get dp url) r"
  by (simp add: prompt_def demo_databricks_def databricks_get_def DATASOURCE_TIMEOUT_QUERY_def)

theorem databricks_delivers_all_witness:
  "\<forall>api elapsed. databricks_stream_arrow 1 demo_arrow api
      (demo_databricks (RestJson 200 (demo_chunk [[JString ''b'']] JNull))) demo_dp elapsed ''SELECT 1''
      None None False None 0 (reader [])
    = Go () (reader (stream_of demo_arrow (json_put api) [\<lparr>col_name = ''n'', col_type = TString\<rparr>] None elapsed
        [[[JString ''a'']], [[JString ''b'']]])) \<and>
    (\<exists>r batch t. databricks_execute_query 1 demo_arrow api
      (demo_databricks (RestJson 200 (demo_chunk [[JString ''b'']] JNull))) demo_dp elapsed ''SELECT 1''
      None None False 0 = Some (Some r, t) \<and> qr_status r = Success \<and> qr_record_batch r = Some batch \<and>
      map arr_vals (rb_columns batch) = [[Some (CStr ''a''), Some (CStr ''b'')]])"
proof (intro allI)
  fix api elapsed
  let ?c = "demo_chunk [[JString ''b'']] JNull"
  have c: "json_rows (path_array ?c [''data_array'']) = [[JString ''b'']]" "next_chunk (Some ?c) = None"
    by code_simp+
  have "chunk_chain (demo_databricks (RestJson 200 ?c)) demo_dp ''s1'' (Some 1) [[[JString ''b'']]] None"
    using c demo_databricks_prompt by auto
  then have chain: "chunk_chain (demo_databricks (RestJson 200 ?c)) demo_dp ''s1''
      (next_chunk (json_get demo_statement ''result'')) [[[JString ''b'']]] None"
    by (simp only: demo_statement_facts)
  have sql: "pq_sql (prepare_query_databricks ''SELECT 1'' None None) = ''SELECT 1''" by code_simp
  note all = databricks_delivers_all [OF demo_arrow_law demo_ipc_law _ demo_databricks_statement(1)
      demo_statement_facts(2-4) [symmetric] chain, of 1 "''SELECT 1''" None None False 0 None 0 10 _ api elapsed
      None None False None, unfolded sql, OF _ _ _ demo_databricks_statement(2) refl]
  show "databricks_stream_arrow 1 demo_arrow api (demo_databricks (RestJson 200 ?c)) demo_dp elapsed ''SELECT 1''
      None None False None 0 (reader [])
    = Go () (reader (stream_of demo_arrow (json_put api) [\<lparr>col_name = ''n'', col_type = TString\<rparr>] None elapsed
        [[[JString ''a'']], [[JString ''b'']]])) \<and>
    (\<exists>r batch t. databricks_execute_query 1 demo_arrow api (demo_databricks (RestJson 200 ?c)) demo_dp elapsed
      ''SELECT 1'' None None False 0 = Some (Some r, t) \<and> qr_status r = Success \<and> qr_record_batch r = Some batch \<and>
      map arr_vals (rb_columns batch) = [[Some (CStr ''a''), Some (CStr ''b'')]])"
    using all by (auto simp: full_pages_def row_get_def json_cell_def)
qed

text \<open>
  C40. When a chunk cannot be fetched, the two paths differ: the stream ends with an error after
  the rows so far, but the buffered query reports success with the rows so far and no error, as
  if they were the whole result.
\<close>

theorem databricks_chunk_lost:
  assumes laws: "try_new_law arrow" "ipc_law arrow" "cols \<noteq> []"
    and body: "stream_statement sv dp sql now = Some (Inr body, t)" "cols = databricks_columns body"
      "inline = json_rows (path_array body [''result'', ''data_array''])"
      "sid = path_str_or [] body [''statement_id'']"
    and chain: "chunk_chain sv dp sid (next_chunk (json_get body ''result'')) pages (Some i)"
    and lost: "prompt sv (databricks_get dp (chunk_url dp sid i)) (RestErr e)"
    and fuel: "length pages < fuel"
    and submit: "submit_statement sv dp (pq_sql (prepare_query_databricks q limit offset)) now0 = Some (Inr body, t0)"
  shows "databricks_stream_arrow fuel arrow api sv dp elapsed sql limit offset tot n now (reader [])
      = Stop (reader (schema_event arrow cols None # batch_events arrow (json_put api) cols 0
          (full_pages (inline # pages))
          @ [Inl (Internal (''Databricks chunk '' @ show_word i @ '' fetch failed: '' @ e))])) \<and>
    (\<exists>r batch t'. databricks_execute_query fuel arrow api sv dp elapsed q limit offset False now0
        = Some (Some r, t') \<and> qr_status r = Success \<and> qr_error r = None \<and>
       qr_record_batch r = Some batch \<and> rb_num_rows batch = length (concat (inline # pages)))"
proof
  obtain f where f: "fuel = length pages + Suc f" using fuel less_iff_Suc_add by auto
  have ask: "\<exists>d. ask_within DATASOURCE_TIMEOUT_QUERY sv (databricks_get dp (chunk_url dp sid i)) now'
      = Some (Some (RestErr e), now' + d)"
    "\<exists>d. ask_whole DATASOURCE_TIMEOUT_QUERY sv (databricks_get dp (chunk_url dp sid i)) now'
      = (Some (RestErr e), now' + d)" for now' by (rule prompt_ask [OF lost]; blast)+
  show "databricks_stream_arrow fuel arrow api sv dp elapsed sql limit offset tot n now (reader [])
      = Stop (reader (schema_event arrow cols None # batch_events arrow (json_put api) cols 0
          (full_pages (inline # pages))
          @ [Inl (Internal (''Databricks chunk '' @ show_word i @ '' fetch failed: '' @ e))]))"
  proof -
    obtain now' where *: "databricks_stream_arrow fuel arrow api sv dp elapsed sql limit offset tot n now
        (reader []) = bind_flow (stream_chunks (Suc f) arrow api sv dp cols sid (Some i)
        (of_nat (length (full_pages (inline # pages))), of_nat (length (concat (inline # pages)))) now'
        (reader (schema_event arrow cols None # batch_events arrow (json_put api) cols 0
           (full_pages (inline # pages)))))
        (\<lambda>c. emit_complete elapsed (fst c) (snd c))"
      using databricks_stream_chain [OF laws body chain] f by blast
    obtain d where "ask_within DATASOURCE_TIMEOUT_QUERY sv (databricks_get dp (chunk_url dp sid i)) now'
        = Some (Some (RestErr e), now' + d)" using ask(1) by blast
    then have "fetch_chunk sv dp sid i now'
        = Some (Inl (Internal (''Databricks chunk '' @ show_word i @ '' fetch failed: '' @ e)), now' + d)"
      by (simp add: fetch_chunk_def)
    then show ?thesis unfolding * by (simp add: chan_send_def)
  qed
  obtain t1 where "fetch_all_chunks fuel sv dp body sid t0 = fetch_chunks (Suc f) sv dp sid (Some i)
      (concat (inline # pages)) t1"
    using fetch_chunks_chain [OF chain, of "Suc f" inline t0] by (auto simp: fetch_all_chunks_def f body(3))
  then obtain t' where rows: "fetch_all_chunks fuel sv dp body sid t0 = Some (concat (inline # pages), t')"
    using ask(2) [of t1] by auto
  have "(if pq_is_select (prepare_query_databricks q limit offset) \<and> False \<and>
        \<not> pq_is_metadata_command (prepare_query_databricks q limit offset)
      then databricks_total_count sv dp (pq_sql_stripped (prepare_query_databricks q limit offset)) now0
      else Some (None, now0)) = Some (None, now0)" by simp
  from databricks_execute_batch [OF laws(1) _ this submit rows [unfolded body(4)], of api elapsed] laws(3) body(2)
  show "\<exists>r batch t'. databricks_execute_query fuel arrow api sv dp elapsed q limit offset False now0
        = Some (Some r, t') \<and> qr_status r = Success \<and> qr_error r = None \<and>
       qr_record_batch r = Some batch \<and> rb_num_rows batch = length (concat (inline # pages))" by blast
qed

theorem databricks_chunk_lost_witness:
  "\<forall>api elapsed. databricks_stream_arrow 1 demo_arrow api (demo_databricks (RestErr ''reset'')) demo_dp
      elapsed ''SELECT 1'' None None False None 0 (reader [])
    = Stop (reader (schema_event demo_arrow [\<lparr>col_name = ''n'', col_type = TString\<rparr>] None
        # batch_events demo_arrow (json_put api) [\<lparr>col_name = ''n'', col_type = TString\<rparr>] 0 [[[JString ''a'']]]
        @ [Inl (Internal (''Databricks chunk '' @ show_word (1 :: u64) @ '' fetch failed: reset''))]))"
proof -
  have sql: "pq_sql (prepare_query_databricks ''SELECT 1'' None None) = ''SELECT 1''" by code_simp
  have chain: "chunk_chain (demo_databricks (RestErr ''reset'')) demo_dp ''s1''
      (next_chunk (json_get demo_statement ''result'')) [] (Some 1)"
    by (simp only: demo_statement_facts chunk_chain.simps)
  note lost = databricks_chunk_lost [OF demo_arrow_law demo_ipc_law _ demo_databricks_statement(1)
      demo_statement_facts(2-4) [symmetric] chain demo_databricks_prompt, of 1 "''SELECT 1''" None None 0,
      unfolded sql, OF _ _ demo_databricks_statement(2)]
  show ?thesis
    by (intro allI, rule trans [OF conjunct1 [OF lost]]) (simp_all add: full_pages_def)
qed

end
