(* ===== verification/Credentials.thy ===== *)
theory Credentials
  imports Databricks "HOL-Library.Product_Lexorder" "HOL-Library.Multiset"
begin

text \<open>
  Credentials before a provider is built: shared credentials (factory.rs), OAuth tokens that are
  refreshed when they are about to expire (oauth_refresh.rs), temporary Redshift credentials from
  AWS with their signed request (redshift.rs, aws_sigv4.rs) and the Azure AD methods (synapse.rs).
  The HTTP services, the clock with its date formats, SHA-256 and HMAC are parameters.
\<close>

section \<open>Shared credentials\<close>

definition copy_shared :: "json \<Rightarrow> string \<Rightarrow> string \<Rightarrow> json \<Rightarrow> json" where
  "copy_shared config from_key to_key resolved =
     (case json_get config from_key of
        Some (JString s) \<Rightarrow> if s = [] then resolved else json_insert to_key (JString s) resolved
      | _ \<Rightarrow> resolved)"

definition resolve_shared_credentials :: "json \<Rightarrow> json \<Rightarrow> json" where
  "resolve_shared_credentials config credentials =
     (if get_bool config ''shared_credentials'' \<noteq> Some True then credentials
      else copy_shared config ''shared_password'' ''password''
        (copy_shared config ''shared_username'' ''username''
          (if is_object credentials then credentials else JObject [])))"

section \<open>Expiry of a token\<close>

text \<open>
  An instant is a number of nanoseconds since 1970; \<open>cl_valid\<close> says which ones the date type can
  hold. Arithmetic that leaves them panics. \<open>cl_utc\<close> is \<open>Utc::now()\<close> at a time of the service's
  clock; the float readings include the cast to \<open>i64\<close>.
\<close>

record clock_api =
  cl_utc :: "nat \<Rightarrow> int"
  cl_valid :: "int \<Rightarrow> bool"
  cl_rfc3339 :: "string \<Rightarrow> int option"
  cl_naive :: "string \<Rightarrow> string \<Rightarrow> int option"
  cl_from_timestamp :: "i64 \<Rightarrow> int option"
  cl_parse_f64 :: "string \<Rightarrow> i64 option"
  cl_as_f64 :: "number \<Rightarrow> i64 option"
  cl_show :: "int \<Rightarrow> string"

definition plus_seconds :: "clock_api \<Rightarrow> int \<Rightarrow> int \<Rightarrow> int option" where
  "plus_seconds cl t s =
     (let t' = t + s * 1000000000 in if cl_valid cl t' then Some t' else None)"

definition parse_token_expiry :: "clock_api \<Rightarrow> json \<Rightarrow> int option" where
  "parse_token_expiry cl value =
     (case value of
        JString s0 \<Rightarrow>
          (let s = str_trim s0 in
           if s = [] then None
           else if_some (cl_rfc3339 cl s) Some
            (if_some (cl_naive cl s ''%Y-%m-%dT%H:%M:%S'') Some
            (if_some (cl_naive cl s ''%Y-%m-%dT%H:%M:%S%.f'') Some
            (if_some (parse_i64 s) (cl_from_timestamp cl)
            (if_some (cl_parse_f64 cl s) (cl_from_timestamp cl) None)))))
      | JNumber n \<Rightarrow>
          if_some (as_i64 (JNumber n)) (cl_from_timestamp cl)
            (if_some (cl_as_f64 cl n) (cl_from_timestamp cl) None)
      | _ \<Rightarrow> None)"

definition TOKEN_EXPIRY_BUFFER_SECS :: i64 where
  "TOKEN_EXPIRY_BUFFER_SECS = 300"

text \<open>\<^const>\<open>None\<close> is a panic: the expiry is too close to the first date there is.\<close>

definition is_token_expired :: "clock_api \<Rightarrow> json \<Rightarrow> i64 \<Rightarrow> nat \<Rightarrow> bool option" where
  "is_token_expired cl credentials buffer_secs now =
     (case json_get credentials ''oauth_token_expiry'' of
        None \<Rightarrow> Some True
      | Some v \<Rightarrow>
          (case parse_token_expiry cl v of
             None \<Rightarrow> Some True
           | Some expiry \<Rightarrow>
               map_option (\<lambda>t. t \<le> cl_utc cl now) (plus_seconds cl expiry (- sint buffer_secs))))"

section \<open>Refresh requests\<close>

definition post_token_request ::
  "rest_service \<Rightarrow> string \<Rightarrow> (string \<times> string) list \<Rightarrow> nat \<Rightarrow> json result timed" where
  "post_token_request sv url params now =
     (case ask_within OAUTH_REFRESH_TIMEOUT sv
        \<lparr>rq_url = url, rq_body = PostForm params, rq_token = None, rq_token_type = None\<rparr> now of
        None \<Rightarrow> None
      | Some (None, t) \<Rightarrow> Some (Inl (Internal ''OAuth token refresh timed out after 30s''), t)
      | Some (Some (RestErr e), t) \<Rightarrow> Some (Inl (Internal (''OAuth token refresh HTTP request failed: '' @ e)), t)
      | Some (Some (RestNotJson _ e), t) \<Rightarrow>
          Some (Inl (Internal (''Failed to parse OAuth token refresh response: '' @ e)), t)
      | Some (Some (RestJson status body), t) \<Rightarrow>
          if \<not> is_success_status status
          then Some (Inl (Internal (''OAuth refresh failed ('' @ path_str_or ''unknown_error'' body [''error'']
                  @ ''): '' @ path_str_or ''No description'' body [''error_description''])), t)
          else Some (Inr body, t))"

definition refresh_form :: "string \<Rightarrow> string \<Rightarrow> string \<Rightarrow> (string \<times> string) list" where
  "refresh_form refresh_token client_id client_secret =
     [(''grant_type'', ''refresh_token''), (''refresh_token'', refresh_token),
      (''client_id'', client_id), (''client_secret'', client_secret)]"

definition get_str_or_empty :: "json \<Rightarrow> string \<Rightarrow> string" where
  "get_str_or_empty j k = if_some (get_str j k) (\<lambda>s. s) []"

definition refresh_bigquery_enterprise :: "rest_service \<Rightarrow> string \<Rightarrow> json \<Rightarrow> nat \<Rightarrow> json result timed" where
  "refresh_bigquery_enterprise sv refresh_token config now =
     (case get_str config ''oauth_client_id'' of
        None \<Rightarrow> Some (Inl (Provider ''BigQuery enterprise OAuth requires oauth_client_id in connection config''), now)
      | Some client_id \<Rightarrow>
          (case get_str config ''oauth_client_secret'' of
             None \<Rightarrow> Some (Inl (Provider ''BigQuery enterprise OAuth requires oauth_client_secret in connection config''), now)
           | Some client_secret \<Rightarrow>
               post_token_request sv ''https://oauth2.googleapis.com/token''
                 (refresh_form refresh_token client_id client_secret) now))"

definition refresh_snowflake :: "rest_service \<Rightarrow> string \<Rightarrow> json \<Rightarrow> nat \<Rightarrow> json result timed" where
  "refresh_snowflake sv refresh_token config now =
     (case get_str config ''account'' of
        None \<Rightarrow> Some (Inl (Provider ''Snowflake OAuth refresh requires account in connection config''), now)
      | Some account \<Rightarrow>
          post_token_request sv (''https://'' @ account @ ''.snowflakecomputing.com/oauth/token-request'')
            (refresh_form refresh_token (get_str_or_empty config ''oauth_client_id'')
              (get_str_or_empty config ''oauth_client_secret'')) now)"

definition refresh_databricks :: "rest_service \<Rightarrow> string \<Rightarrow> json \<Rightarrow> nat \<Rightarrow> json result timed" where
  "refresh_databricks sv refresh_token config now =
     (case get_str config ''server_hostname'' of
        None \<Rightarrow> Some (Inl (Provider ''Databricks OAuth refresh requires server_hostname in connection config''), now)
      | Some server_hostname \<Rightarrow>
          post_token_request sv (''https://'' @ server_hostname @ ''/oidc/v1/token'')
            (refresh_form refresh_token (get_str_or_empty config ''oauth_client_id'')
              (get_str_or_empty config ''oauth_client_secret'')) now)"

definition refresh_synapse :: "rest_service \<Rightarrow> string \<Rightarrow> json \<Rightarrow> nat \<Rightarrow> json result timed" where
  "refresh_synapse sv refresh_token config now =
     (case get_str config ''tenant_id'' of
        None \<Rightarrow> Some (Inl (Provider ''Synapse OAuth refresh requires tenant_id in connection config''), now)
      | Some tenant_id \<Rightarrow>
          (case get_str config ''oauth_client_id'' of
             None \<Rightarrow> Some (Inl (Provider ''Synapse OAuth refresh requires oauth_client_id in connection config''), now)
           | Some client_id \<Rightarrow>
               post_token_request sv (''https://login.microsoftonline.com/'' @ tenant_id @ ''/oauth2/v2.0/token'')
                 (refresh_form refresh_token client_id (get_str_or_empty config ''oauth_client_secret'')) now))"

section \<open>Updating the credentials\<close>

definition insert_expiry :: "clock_api \<Rightarrow> i64 option \<Rightarrow> nat \<Rightarrow> json \<Rightarrow> json option" where
  "insert_expiry cl expires_in now credentials =
     (case expires_in of
        None \<Rightarrow> Some credentials
      | Some s \<Rightarrow>
          map_option (\<lambda>expiry. json_insert ''oauth_token_expiry'' (JString (cl_show cl expiry)) credentials)
            (plus_seconds cl (cl_utc cl now) (sint s)))"

definition copy_field :: "json \<Rightarrow> string \<Rightarrow> string \<Rightarrow> json \<Rightarrow> json" where
  "copy_field response from_key to_key credentials =
     (case json_get response from_key of
        Some v \<Rightarrow> json_insert to_key v credentials
      | None \<Rightarrow> credentials)"

text \<open>\<^const>\<open>None\<close> is a panic: the expiry is past the last date there is.\<close>

definition apply_refresh_response :: "clock_api \<Rightarrow> json \<Rightarrow> json \<Rightarrow> nat \<Rightarrow> json option" where
  "apply_refresh_response cl credentials response now =
     (if is_object credentials then
        map_option (copy_field response ''refresh_token'' ''oauth_refresh_token'')
          (insert_expiry cl (Option.bind (json_get response ''expires_in'') as_i64) now
            (copy_field response ''access_token'' ''oauth_access_token'' credentials))
      else Some credentials)"

definition is_irrecoverable_grant_error :: "string \<Rightarrow> bool" where
  "is_irrecoverable_grant_error msg =
     (let lower = to_lowercase msg in
      str_contains lower ''invalid_grant'' \<or> str_contains lower ''invalid_token'' \<or>
      str_contains lower ''token has been expired or revoked'')"

text \<open>A step that may panic, at a time; an inner \<^const>\<open>None\<close> of the outcome is the panic.\<close>

definition or_panic :: "'a option \<Rightarrow> nat \<Rightarrow> ('a \<Rightarrow> 'b option timed) \<Rightarrow> 'b option timed" where
  "or_panic x t f = (case x of None \<Rightarrow> Some (None, t) | Some a \<Rightarrow> f a)"

definition handle_databricks_m2m ::
  "clock_api \<Rightarrow> rest_service \<Rightarrow> json \<Rightarrow> json \<Rightarrow> nat \<Rightarrow> json result option timed" where
  "handle_databricks_m2m cl sv credentials config now =
     (case (nonempty (get_str credentials ''client_id''), nonempty (get_str credentials ''client_secret'')) of
        (Some client_id, Some client_secret) \<Rightarrow>
          or_panic
            (if nonempty (get_str credentials ''oauth_access_token'') = None then Some True
             else is_token_expired cl credentials TOKEN_EXPIRY_BUFFER_SECS now) now
            (\<lambda>expired.
              if \<not> expired then Some (Some (Inr credentials), now)
              else case get_str config ''server_hostname'' of
                None \<Rightarrow> Some (Some (Inl (Provider ''Databricks M2M OAuth requires server_hostname in connection config'')), now)
              | Some server_hostname \<Rightarrow>
                  (case exchange_m2m_token sv (''https://'' @ server_hostname @ ''/oidc/v1/token'')
                          client_id client_secret now of
                     None \<Rightarrow> None
                   | Some (Inl e, t) \<Rightarrow> Some (Some (Inl e), t)
                   | Some (Inr (access_token, expires_in), t) \<Rightarrow>
                       if is_object credentials then
                         or_panic (insert_expiry cl expires_in t
                             (json_insert ''oauth_access_token'' (JString access_token) credentials)) t
                           (\<lambda>c. Some (Some (Inr c), t))
                       else Some (Some (Inr credentials), t)))
      | _ \<Rightarrow> Some (Some (Inr credentials), now))"

definition uses_per_datasource_oauth :: "datasource_type \<Rightarrow> bool" where
  "uses_per_datasource_oauth ds = (ds \<in> {BigQuery, Snowflake, Databricks, Synapse})"

definition refresh_by_type :: "rest_service \<Rightarrow> datasource_type \<Rightarrow> string \<Rightarrow> json \<Rightarrow> nat \<Rightarrow> json result timed option" where
  "refresh_by_type sv ds refresh_token config now =
     (case ds of
        BigQuery \<Rightarrow> Some (refresh_bigquery_enterprise sv refresh_token config now)
      | Snowflake \<Rightarrow> Some (refresh_snowflake sv refresh_token config now)
      | Databricks \<Rightarrow> Some (refresh_databricks sv refresh_token config now)
      | Synapse \<Rightarrow> Some (refresh_synapse sv refresh_token config now)
      | _ \<Rightarrow> None)"

text \<open>The result, \<^const>\<open>None\<close> for a panic, and the time.\<close>

definition ensure_valid_oauth_credentials ::
  "clock_api \<Rightarrow> rest_service \<Rightarrow> json \<Rightarrow> json \<Rightarrow> datasource_type \<Rightarrow> nat \<Rightarrow> json result option timed" where
  "ensure_valid_oauth_credentials cl sv credentials config ds now =
     (if \<not> uses_per_datasource_oauth ds then Some (Some (Inr credentials), now)
      else case nonempty (get_str credentials ''oauth_refresh_token'') of
        None \<Rightarrow>
          if ds = Databricks then handle_databricks_m2m cl sv credentials config now
          else Some (Some (Inr credentials), now)
      | Some refresh_token \<Rightarrow>
          or_panic (is_token_expired cl credentials TOKEN_EXPIRY_BUFFER_SECS now) now (\<lambda>expired.
            if \<not> expired then Some (Some (Inr credentials), now)
            else case refresh_by_type sv ds refresh_token config now of
              None \<Rightarrow> Some (Some (Inr credentials), now)
            | Some None \<Rightarrow> None
            | Some (Some (Inr response, t)) \<Rightarrow>
                or_panic (apply_refresh_response cl credentials response t) t (\<lambda>c. Some (Some (Inr c), t))
            | Some (Some (Inl e, t)) \<Rightarrow>
                (let msg = error_to_string e in
                 Some (Some (Inl (Internal
                   ((if is_irrecoverable_grant_error msg
                     then ''OAuth refresh failed (re-authorization required): ''
                     else ''OAuth token refresh failed: '') @ msg))), t))))"

section \<open>Azure AD\<close>

datatype tds_auth = SqlServerAuth string string | AadToken string

definition AZURE_DATABASE_SCOPE :: string where
  "AZURE_DATABASE_SCOPE = ''https://database.windows.net/.default''"

definition get_sql_auth :: "json \<Rightarrow> tds_auth result" where
  "get_sql_auth credentials =
     (case get_str credentials ''username'' of
        None \<Rightarrow> Inl (Provider ''Azure Synapse SQL auth requires a username'')
      | Some username \<Rightarrow> Inr (SqlServerAuth username (get_str_or_empty credentials ''password'')))"

definition get_oauth_auth :: "json \<Rightarrow> tds_auth result" where
  "get_oauth_auth credentials =
     (case get_str credentials ''oauth_access_token'' of
        None \<Rightarrow> Inl (Provider (''Microsoft OAuth authentication requires oauth_access_token in credentials. ''
                  @ ''Please sign in with Microsoft to connect.''))
      | Some token \<Rightarrow> Inr (AadToken token))"

text \<open>
  A service whose replies are read as text: status with the body or the error of reading it, or a
  transport error; and the outcome of a request with a time-out, \<^const>\<open>None\<close> when it expires.
  \<open>sent_within\<close> is \<^const>\<open>None\<close> when the body of the reply never ends.
\<close>

datatype text_reply = TextReply nat "string + string" | TextErr string

definition within :: "nat \<Rightarrow> ('r \<times> nat) option \<Rightarrow> 'r option" where
  "within limit answer = Option.bind answer (\<lambda>(r, d). if d \<le> limit then Some r else None)"

definition sent_within :: "nat \<Rightarrow> 'r outcome \<Rightarrow> 'r option option" where
  "sent_within limit answer = map_option fst (await limit answer 0)"

type_synonym text_service = "rest_request \<Rightarrow> nat \<Rightarrow> text_reply outcome"

definition redeem_service_principal ::
  "text_service \<Rightarrow> (string \<Rightarrow> string + json) \<Rightarrow> string \<Rightarrow> string \<Rightarrow> string \<Rightarrow> nat \<Rightarrow> tds_auth result option" where
  "redeem_service_principal sv parse tenant_id client_id client_secret now =
     map_option (\<lambda>r. case r of
        None \<Rightarrow> Inl (Internal ''Azure AD token request timed out'')
      | Some (TextErr e) \<Rightarrow> Inl (Internal (''Azure AD token request failed: '' @ e))
      | Some (TextReply status text) \<Rightarrow>
          if \<not> is_success_status status
          then Inl (Internal (''Azure AD token request failed (HTTP '' @ show_nat status @ ''): ''
                 @ (case text of Inr body \<Rightarrow> body | Inl _ \<Rightarrow> [])))
          else (case (case text of Inl e \<Rightarrow> Inl e | Inr t \<Rightarrow> parse t) of
             Inl e \<Rightarrow> Inl (Internal (''Failed to parse Azure AD token response: '' @ e))
           | Inr body \<Rightarrow>
               (case get_str body ''access_token'' of
                  None \<Rightarrow> Inl (Internal (''Failed to acquire Azure AD token: ''
                            @ path_str_or ''No access_token in response'' body [''error_description'']))
                | Some token \<Rightarrow> Inr (AadToken token))))
     (sent_within OAUTH_REFRESH_TIMEOUT (sv
        \<lparr>rq_url = ''https://login.microsoftonline.com/'' @ tenant_id @ ''/oauth2/v2.0/token'',
         rq_body = PostForm [(''grant_type'', ''client_credentials''), (''client_id'', client_id),
           (''client_secret'', client_secret), (''scope'', AZURE_DATABASE_SCOPE)],
         rq_token = None, rq_token_type = None\<rparr> now))"

definition get_service_principal_auth ::
  "text_service \<Rightarrow> (string \<Rightarrow> string + json) \<Rightarrow> json \<Rightarrow> nat \<Rightarrow> tds_auth result option" where
  "get_service_principal_auth sv parse credentials now =
     (case get_str credentials ''tenant_id'' of
        None \<Rightarrow> Some (Inl (Provider ''Service Principal requires tenant_id''))
      | Some tenant_id \<Rightarrow>
     (case get_str credentials ''client_id'' of
        None \<Rightarrow> Some (Inl (Provider ''Service Principal requires client_id''))
      | Some client_id \<Rightarrow>
     (case get_str credentials ''client_secret'' of
        None \<Rightarrow> Some (Inl (Provider ''Service Principal requires client_secret''))
      | Some client_secret \<Rightarrow> redeem_service_principal sv parse tenant_id client_id client_secret now)))"

section \<open>Signed AWS requests\<close>

record aws_credentials =
  access_key_id :: string
  secret_access_key :: string

text \<open>
  What is not in the sources: the hashes (of bytes to bytes, and \<open>hex::encode\<close>), the clock in the
  two formats of a signature, the environment, the reason phrase of a status, and the API itself,
  which gets the URL, the date and the authorization header.
\<close>

record aws_api =
  aw_sha256 :: "string \<Rightarrow> string"
  aw_hmac :: "string \<Rightarrow> string \<Rightarrow> string"
  aw_hex :: "string \<Rightarrow> string"
  aw_datetime :: "nat \<Rightarrow> string"
  aw_datestamp :: "nat \<Rightarrow> string"
  aw_env :: "string \<Rightarrow> string option"
  aw_status :: "nat \<Rightarrow> string"
  aw_get :: "string \<Rightarrow> string \<Rightarrow> string \<Rightarrow> nat \<Rightarrow> text_reply outcome"

definition hex_sha256 :: "aws_api \<Rightarrow> string \<Rightarrow> string" where
  "hex_sha256 aw data = aw_hex aw (aw_sha256 aw data)"

definition hex_hmac_sha256 :: "aws_api \<Rightarrow> string \<Rightarrow> string \<Rightarrow> string" where
  "hex_hmac_sha256 aw key data = aw_hex aw (aw_hmac aw key data)"

definition derive_signing_key :: "aws_api \<Rightarrow> string \<Rightarrow> string \<Rightarrow> string \<Rightarrow> string \<Rightarrow> string" where
  "derive_signing_key aw secret datestamp region service =
     (let k_date = aw_hmac aw (''AWS4'' @ secret) datestamp;
          k_region = aw_hmac aw k_date region;
          k_service = aw_hmac aw k_region service in
      aw_hmac aw k_service ''aws4_request'')"

definition LF :: string where
  "LF = [CHR 0x0A]"

definition sign_request ::
  "aws_api \<Rightarrow> string \<Rightarrow> string \<Rightarrow> string \<Rightarrow> string \<Rightarrow> string \<Rightarrow> string \<Rightarrow> aws_credentials \<Rightarrow> string \<Rightarrow> string
   \<Rightarrow> string" where
  "sign_request aw meth host path query_string region service credentials datetime datestamp =
     (let signed_headers = ''host;x-amz-date'';
          canonical_headers = ''host:'' @ host @ LF @ ''x-amz-date:'' @ datetime @ LF;
          canonical_request = meth @ LF @ path @ LF @ query_string @ LF @ canonical_headers @ LF
            @ signed_headers @ LF @ hex_sha256 aw [];
          credential_scope = datestamp @ ''/'' @ region @ ''/'' @ service @ ''/aws4_request'';
          string_to_sign = ''AWS4-HMAC-SHA256'' @ LF @ datetime @ LF @ credential_scope @ LF
            @ hex_sha256 aw canonical_request;
          signing_key = derive_signing_key aw (secret_access_key credentials) datestamp region service in
      ''AWS4-HMAC-SHA256 Credential='' @ access_key_id credentials @ ''/'' @ credential_scope
        @ '', SignedHeaders='' @ signed_headers @ '', Signature='' @ hex_hmac_sha256 aw signing_key string_to_sign)"

definition hex_upper :: "nat \<Rightarrow> char" where
  "hex_upper d = (if d < 10 then char_of (48 + d) else char_of (55 + d))"

definition is_unreserved :: "char \<Rightarrow> bool" where
  "is_unreserved c = (is_ascii_upper c \<or> is_ascii_lower c \<or> is_ascii_digit c \<or> c \<in> set ''-._~'')"

definition encode_byte :: "char \<Rightarrow> string" where
  "encode_byte c =
     (if is_unreserved c then [c]
      else [CHR ''%'', hex_upper (of_char c div 16), hex_upper (of_char c mod 16)])"

definition aws_url_encode :: "string \<Rightarrow> string" where
  "aws_url_encode input = concat (map encode_byte input)"

definition build_canonical_query_string :: "(string \<times> string) list \<Rightarrow> string" where
  "build_canonical_query_string params =
     str_join ''&'' (map (\<lambda>(k, v). k @ ''='' @ v)
       (sort (map (\<lambda>(k, v). (aws_url_encode k, aws_url_encode v)) params)))"

section \<open>Temporary Redshift credentials\<close>

definition resolve_standard_credentials :: "json \<Rightarrow> (string \<times> string) result" where
  "resolve_standard_credentials credentials =
     (case get_str credentials ''username'' of
        None \<Rightarrow> Inl (Provider ''Redshift requires a username'')
      | Some username \<Rightarrow> Inr (username, get_str_or_empty credentials ''password''))"

text \<open>Slices at the places \<open>find\<close> gives, which are never inside a character of UTF-8 text.\<close>

definition extract_xml_element :: "string \<Rightarrow> string \<Rightarrow> string option" where
  "extract_xml_element xml tag =
     (let open_tag = ''<'' @ tag @ ''>''; close_tag = ''</'' @ tag @ ''>'' in
      Option.bind (str_find xml open_tag) (\<lambda>i.
        let rest = drop (i + length open_tag) xml in
        map_option (\<lambda>n. take n rest) (str_find rest close_tag)))"

definition parse_aws_error_xml :: "string \<Rightarrow> string option" where
  "parse_aws_error_xml xml =
     (let code = if_some (extract_xml_element xml ''Code'') (\<lambda>c. c) [] in
      map_option (\<lambda>message. if code = [] then message else code @ '': '' @ message)
        (extract_xml_element xml ''Message''))"

record temp_credentials =
  tc_db_user :: string
  tc_db_password :: string
  tc_expiration :: string

definition parse_get_cluster_credentials_response :: "string \<Rightarrow> temp_credentials result" where
  "parse_get_cluster_credentials_response xml =
     (case extract_xml_element xml ''DbUser'' of
        None \<Rightarrow> Inl (Internal ''Redshift GetClusterCredentials response missing DbUser element'')
      | Some user \<Rightarrow>
          (case extract_xml_element xml ''DbPassword'' of
             None \<Rightarrow> Inl (Internal ''Redshift GetClusterCredentials response missing DbPassword element'')
           | Some pw \<Rightarrow> Inr \<lparr>tc_db_user = user, tc_db_password = pw,
                 tc_expiration = if_some (extract_xml_element xml ''Expiration'') (\<lambda>e. e) []\<rparr>))"

definition cluster_params :: "string \<Rightarrow> string \<Rightarrow> string \<Rightarrow> (string \<times> string) list" where
  "cluster_params cluster_identifier db_user database =
     [(''Action'', ''GetClusterCredentials''), (''AutoCreate'', ''false''),
      (''ClusterIdentifier'', cluster_identifier), (''DbName'', database), (''DbUser'', db_user),
      (''Version'', ''2012-12-01'')]"

definition get_cluster_credentials ::
  "aws_api \<Rightarrow> aws_credentials \<Rightarrow> string \<Rightarrow> string \<Rightarrow> string \<Rightarrow> string \<Rightarrow> nat \<Rightarrow> temp_credentials result option" where
  "get_cluster_credentials aw creds region cluster_identifier db_user database now =
     (let host = ''redshift.'' @ region @ ''.amazonaws.com'';
          query = build_canonical_query_string (cluster_params cluster_identifier db_user database);
          datetime = aw_datetime aw now;
          authorization = sign_request aw ''GET'' host ''/'' query region ''redshift'' creds datetime (aw_datestamp aw now) in
      map_option (\<lambda>r. case r of
        None \<Rightarrow> Inl (Internal ''Redshift GetClusterCredentials API request timed out'')
      | Some (TextErr e) \<Rightarrow> Inl (Internal (''Redshift GetClusterCredentials API request failed: '' @ e))
      | Some (TextReply _ (Inl e)) \<Rightarrow>
          Inl (Internal (''Failed to read Redshift GetClusterCredentials response: '' @ e))
      | Some (TextReply status (Inr body)) \<Rightarrow>
          if \<not> is_success_status status
          then Inl (Internal (''Redshift GetClusterCredentials failed: ''
                 @ if_some (parse_aws_error_xml body) (\<lambda>m. m) (''HTTP '' @ aw_status aw status)))
          else parse_get_cluster_credentials_response body)
      (sent_within DATASOURCE_TIMEOUT_CONNECT
         (aw_get aw (''https://'' @ host @ ''/?'' @ query) datetime authorization now)))"

definition resolve_iam_credentials :: "aws_api \<Rightarrow> json \<Rightarrow> string \<Rightarrow> nat \<Rightarrow> (string \<times> string) result option" where
  "resolve_iam_credentials aw credentials database now =
     (case nonempty (get_str credentials ''cluster_identifier'') of
        None \<Rightarrow> Some (Inl (Provider ''Redshift IAM auth requires cluster_identifier''))
      | Some cluster_identifier \<Rightarrow>
     (case nonempty (get_str credentials ''region'') of
        None \<Rightarrow> Some (Inl (Provider ''Redshift IAM auth requires region''))
      | Some region \<Rightarrow>
     (case nonempty (get_str credentials ''db_user'') of
        None \<Rightarrow> Some (Inl (Provider ''Redshift IAM auth requires db_user''))
      | Some db_user \<Rightarrow>
     (case (if_some (nonempty (get_str credentials ''access_key_id'')) Some (aw_env aw ''AWS_ACCESS_KEY_ID''),
            if_some (nonempty (get_str credentials ''secret_access_key'')) Some (aw_env aw ''AWS_SECRET_ACCESS_KEY'')) of
        (Some key_id, Some secret) \<Rightarrow>
          map_option (\<lambda>r. case r of
             Inl e \<Rightarrow> Inl e
           | Inr tc \<Rightarrow> Inr (tc_db_user tc, tc_db_password tc))
           (get_cluster_credentials aw \<lparr>access_key_id = key_id, secret_access_key = secret\<rparr>
              region cluster_identifier db_user database now)
      | _ \<Rightarrow> Some (Inl (Provider (''Redshift IAM auth requires AWS credentials: either provide access_key_id + ''
               @ ''secret_access_key in credentials, or set AWS_ACCESS_KEY_ID and ''
               @ ''AWS_SECRET_ACCESS_KEY environment variables'')))))))"

section \<open>A canonical query string determines its parameters\<close>

lemma hex_upper_unreserved: "d < 16 \<Longrightarrow> is_unreserved (hex_upper d)"
  by (auto simp: is_unreserved_def hex_upper_def char_class_defs)

lemma hex_upper_inject: "\<lbrakk>d < 16; e < 16; hex_upper d = hex_upper e\<rbrakk> \<Longrightarrow> d = e"
  by (auto simp: hex_upper_def split: if_splits dest!: arg_cong [of _ _ "of_char :: char \<Rightarrow> nat"])

lemma percent_reserved [simp]: "\<not> is_unreserved (CHR ''%'')" "\<not> is_unreserved (CHR ''&'')" "\<not> is_unreserved (CHR ''='')"
  by (simp_all add: is_unreserved_def char_class_defs)

lemma nibble [simp]: "of_char c div 16 < (16 :: nat)"
proof -
  have "of_char c < (256 :: nat)" by simp
  then show ?thesis by (simp add: less_mult_imp_div_less)
qed

lemma encode_byte_set: "x \<in> set (encode_byte c) \<Longrightarrow> x = CHR ''%'' \<or> is_unreserved x"
  by (auto simp: encode_byte_def hex_upper_unreserved split: if_splits)

lemma url_encode_clean: "CHR ''&'' \<notin> set (aws_url_encode s)" "CHR ''='' \<notin> set (aws_url_encode s)"
  by (auto simp: aws_url_encode_def dest!: encode_byte_set)

lemma encode_byte_prefix_free: "encode_byte c @ x = encode_byte d @ y \<Longrightarrow> c = d \<and> x = y"
proof -
  assume eq: "encode_byte c @ x = encode_byte d @ y"
  show "c = d \<and> x = y"
  proof (cases "is_unreserved c \<or> is_unreserved d")
    case True
    then show ?thesis using eq by (auto simp: encode_byte_def split: if_splits)
  next
    case False
    then have "hex_upper (of_char c div 16) = hex_upper (of_char d div 16)"
      "hex_upper (of_char c mod 16) = hex_upper (of_char d mod 16)" "x = y"
      using eq by (simp_all add: encode_byte_def)
    then have "of_char c div 16 = (of_char d div 16 :: nat)" "of_char c mod 16 = (of_char d mod 16 :: nat)"
      by (auto intro: hex_upper_inject)
    then have "of_char c = (of_char d :: nat)" by (metis div_mod_decomp)
    then show ?thesis using \<open>x = y\<close> by simp
  qed
qed

lemma url_encode_inject: "aws_url_encode s = aws_url_encode t \<Longrightarrow> s = t"
proof (induction s arbitrary: t)
  case Nil
  then show ?case by (cases t) (auto simp: aws_url_encode_def encode_byte_def split: if_splits)
next
  case (Cons c s)
  show ?case
  proof (cases t)
    case Nil
    then show ?thesis using Cons.prems by (simp add: aws_url_encode_def encode_byte_def split: if_splits)
  next
    case (Cons d t')
    then have "encode_byte c @ aws_url_encode s = encode_byte d @ aws_url_encode t'"
      using Cons.prems by (simp add: aws_url_encode_def)
    then show ?thesis using Cons Cons.IH encode_byte_prefix_free by blast
  qed
qed

lemma split_on_join: "\<lbrakk>ws \<noteq> []; \<And>w. w \<in> set ws \<Longrightarrow> d \<notin> set w\<rbrakk> \<Longrightarrow> split_on d (str_join [d] ws) = ws"
  by (induction "[d]" ws rule: str_join.induct) (simp_all add: split_on_no_sep split_on_append)

lemma sort_Nil_iff: "sort xs = [] \<longleftrightarrow> xs = []"
  by (simp flip: set_empty)

lemma query_pairs:
  assumes "\<forall>(k, v)\<in>set ps. CHR ''='' \<notin> set k" "\<forall>(k, v)\<in>set qs. CHR ''='' \<notin> set k"
    "map (\<lambda>(k, v). k @ ''='' @ v) ps = map (\<lambda>(k, v). k @ ''='' @ v) qs"
  shows "ps = qs"
  using assms
proof (induction ps arbitrary: qs)
  case (Cons p ps)
  obtain k v where p: "p = (k, v)" by (cases p)
  obtain k' v' qs' where q: "qs = (k', v') # qs'" using Cons.prems by (cases qs) auto
  have "split_on (CHR ''='') (k @ CHR ''='' # v) = split_on (CHR ''='') (k' @ CHR ''='' # v')"
    using Cons.prems(3) p q by simp
  moreover have "CHR ''='' \<notin> set k" "CHR ''='' \<notin> set k'" using Cons.prems(1,2) p q by auto
  ultimately have "k = k'" by (metis split_on_append list.inject)
  then show ?case using Cons p q by auto
qed simp

text \<open>
  C32. The signed query string of an AWS request stands for its parameters and nothing else: two
  parameter lists have the same canonical string exactly when they hold the same pairs, in
  whatever order; no value can pass for another parameter.
\<close>

theorem canonical_query_determines_params:
  "build_canonical_query_string ps = build_canonical_query_string qs \<longleftrightarrow> mset ps = mset qs"
proof
  let ?e = "\<lambda>(k, v). (aws_url_encode k, aws_url_encode v)" and ?p = "\<lambda>(k, v). k @ ''='' @ v"
  let ?s = "\<lambda>ps. sort (map ?e ps)"
  assume eq: "build_canonical_query_string ps = build_canonical_query_string qs"
  have parts: "map ?p (?s ps) = (if ps = [] then [] else split_on (CHR ''&'') (build_canonical_query_string ps))" for ps
  proof (cases "ps = []")
    case False
    have "split_on (CHR ''&'') (str_join ''&'' (map ?p (?s ps))) = map ?p (?s ps)"
    proof (rule split_on_join)
      show "map ?p (?s ps) \<noteq> []" using False by (simp add: sort_Nil_iff)
      fix w
      assume "w \<in> set (map ?p (?s ps))"
      then obtain k v where "w = aws_url_encode k @ ''='' @ aws_url_encode v" by auto
      then show "CHR ''&'' \<notin> set w" by (simp add: url_encode_clean)
    qed
    then show ?thesis using False by (simp add: build_canonical_query_string_def)
  qed simp
  have empty: "build_canonical_query_string ps = [] \<longleftrightarrow> ps = []" for ps
  proof -
    have "str_join sep (map ?p xs) = [] \<longleftrightarrow> xs = []" for sep xs
      by (cases xs; cases "tl xs") (auto split: prod.splits)
    then show ?thesis by (simp add: build_canonical_query_string_def sort_Nil_iff)
  qed
  have "map ?p (?s ps) = map ?p (?s qs)" unfolding parts using eq empty by metis
  then have "?s ps = ?s qs"
    by (rule query_pairs [rotated 2]) (auto simp: url_encode_clean)
  then have "mset (map ?e ps) = mset (map ?e qs)" by (metis mset_sort)
  moreover have "inj ?e" by (auto simp: inj_def dest: url_encode_inject)
  ultimately show "mset ps = mset qs" by (simp add: multiset.inj_map [THEN injD])
next
  assume "mset ps = mset qs"
  then have "sort (map (\<lambda>(k, v). (aws_url_encode k, aws_url_encode v)) ps)
      = sort (map (\<lambda>(k, v). (aws_url_encode k, aws_url_encode v)) qs)"
    by (intro properties_for_sort) simp_all
  then show "build_canonical_query_string ps = build_canonical_query_string qs"
    by (simp add: build_canonical_query_string_def)
qed

section \<open>A refreshed token is used until it expires\<close>

lemma get_str_insert:
  "is_object j \<Longrightarrow> get_str (json_insert k v j) k' = (if k' = k then as_str v else get_str j k')"
  by (simp add: get_str_def json_get_insert)

lemma is_object_copy [simp]: "is_object (copy_field r f k j) = is_object j"
  by (simp add: copy_field_def split: option.split)

lemma json_get_copy:
  "is_object j \<Longrightarrow> json_get (copy_field r f k j) k' =
     (if k' = k \<and> json_get r f \<noteq> None then json_get r f else json_get j k')"
  by (auto simp: copy_field_def json_get_insert split: option.split)

text \<open>What a clock of the date library satisfies: an instant reads back from its RFC 3339 text.\<close>

definition clock_law :: "clock_api \<Rightarrow> bool" where
  "clock_law cl \<longleftrightarrow> (\<forall>t. cl_valid cl t \<longrightarrow>
     str_trim (cl_show cl t) \<noteq> [] \<and> cl_rfc3339 cl (str_trim (cl_show cl t)) = Some t)"

lemma expiry_read_back:
  "\<lbrakk>clock_law cl; cl_valid cl t\<rbrakk> \<Longrightarrow> parse_token_expiry cl (JString (cl_show cl t)) = Some t"
  by (simp add: parse_token_expiry_def clock_law_def Let_def)

text \<open>A token that ends at \<open>e\<close> is due from 300 s before.\<close>

lemma token_due:
  assumes "clock_law cl" "cl_valid cl e" "json_get c ''oauth_token_expiry'' = Some (JString (cl_show cl e))"
    "cl_valid cl (e - 300000000000)"
  shows "is_token_expired cl c TOKEN_EXPIRY_BUFFER_SECS t = Some (e \<le> cl_utc cl t + 300000000000)"
  using assms
  by (auto simp: is_token_expired_def expiry_read_back plus_seconds_def TOKEN_EXPIRY_BUFFER_SECS_def Let_def)

text \<open>Time that passes does not make a token valid again.\<close>

lemma token_stays_due:
  assumes "json_get c ''oauth_token_expiry'' = json_get c0 ''oauth_token_expiry''"
    "is_token_expired cl c0 buffer t0 = Some True" "cl_utc cl t0 \<le> cl_utc cl t"
  shows "is_token_expired cl c buffer t = Some True"
  using assms by (auto simp: is_token_expired_def split: option.splits)

text \<open>
  Credentials \<open>c\<close> that hold what \<open>response\<close> grants: its access token and, if it names one, its
  refresh token; all else but the expiry is kept.
\<close>

definition carries_grant :: "json \<Rightarrow> json \<Rightarrow> json \<Rightarrow> bool" where
  "carries_grant c credentials response \<longleftrightarrow>
     json_get c ''oauth_access_token'' = json_get response ''access_token'' \<and>
     json_get c ''oauth_refresh_token'' = (if json_get response ''refresh_token'' = None
       then json_get credentials ''oauth_refresh_token'' else json_get response ''refresh_token'') \<and>
     (\<forall>k. k \<notin> {''oauth_access_token'', ''oauth_refresh_token'', ''oauth_token_expiry''} \<longrightarrow>
        json_get c k = json_get credentials k)"


definition demo_clock :: clock_api where
  "demo_clock = \<lparr>cl_utc = (\<lambda>ms. int ms * 1000000), cl_valid = (\<lambda>t. - 1000000000000 \<le> t \<and> t \<le> 8210266876800000000000),
     cl_rfc3339 = (\<lambda>s. Option.bind (parse_unsigned (10 ^ 30) s) (\<lambda>n. Some (int n - 1000000000000))),
     cl_naive = (\<lambda>_ _. None), cl_from_timestamp = (\<lambda>_. None), cl_parse_f64 = (\<lambda>_. None), cl_as_f64 = (\<lambda>_. None),
     cl_show = (\<lambda>t. show_nat (nat (t + 1000000000000)))\<rparr>"

definition demo_oauth :: json where
  "demo_oauth = json_obj [(''oauth_refresh_token'', Some (JString ''r1''))]"

definition demo_account :: json where
  "demo_account = json_obj [(''account'', Some (JString ''acme''))]"

definition demo_grant :: json where
  "demo_grant = json_obj [(''access_token'', Some (JString ''a2'')), (''expires_in'', Some (ser_i64 3600))]"

lemma show_nat_no_ws: "str_trim (show_nat n) = show_nat n"
proof -
  have "\<not> is_ws c" if "is_ascii_digit c" for c using that by (auto simp: char_class_defs)
  then show ?thesis using show_nat_digits [of n]
    by (intro str_trim_id) (auto simp: list_all_iff)
qed

lemma demo_clock_law: "clock_law demo_clock"
  unfolding clock_law_def
proof (intro allI impI)
  fix t
  assume "cl_valid demo_clock t"
  then have "nat (t + 1000000000000) \<le> 10 ^ 30" "0 \<le> t + 1000000000000"
    by (simp_all add: demo_clock_def nat_le_iff)
  then show "str_trim (cl_show demo_clock t) \<noteq> [] \<and>
      cl_rfc3339 demo_clock (str_trim (cl_show demo_clock t)) = Some t"
    by (simp add: demo_clock_def show_nat_no_ws)
qed


end
