(* ===== verification/Ssh_Tunnel.thy ===== *)
theory Ssh_Tunnel
  imports Json Protocol_Types
begin

text \<open>
  The SSH tunnel of a datasource (ssh_tunnel.rs): its configuration, the connection to the bastion
  with the check of the pinned host key, the local endpoints (TCP listener, Unix socket, HTTP
  proxy) a tunnel provides, and the HTTP proxy's reading and rewriting of a request. The SSH
  protocol, the sockets and the file system are parameters; copying bytes through an open channel
  is the subject of Relay.
\<close>

section \<open>Configuration\<close>

record ssh_config =
  sc_host :: string
  sc_port :: u16
  sc_username :: string
  sc_private_key :: string
  sc_passphrase :: "string option"
  sc_host_fingerprint :: "string option"

definition DEFAULT_SSH_PORT :: u16 where
  "DEFAULT_SSH_PORT = 22"

text \<open>A port from JSON: \<open>as u16\<close> keeps the low 16 bits of the number.\<close>

definition get_port :: "u16 \<Rightarrow> json \<Rightarrow> string \<Rightarrow> u16" where
  "get_port dflt config key =
     if_some (Option.bind (json_get config key) as_u64) ucast dflt"

definition from_connection_config :: "json \<Rightarrow> ssh_config result option" where
  "from_connection_config config =
     (if get_bool config ''ssh_enabled'' \<noteq> Some True then None
      else Some (
        case nonempty (get_str config ''ssh_host'') of
          None \<Rightarrow> Inl (Provider ''SSH tunnel requires ssh_host'')
        | Some host \<Rightarrow>
       (case nonempty (get_str config ''ssh_username'') of
          None \<Rightarrow> Inl (Provider ''SSH tunnel requires ssh_username'')
        | Some username \<Rightarrow>
       (case nonempty (get_str config ''ssh_private_key'') of
          None \<Rightarrow> Inl (Provider ''SSH tunnel requires ssh_private_key'')
        | Some key \<Rightarrow>
            Inr \<lparr>sc_host = host, sc_port = get_port DEFAULT_SSH_PORT config ''ssh_port'',
              sc_username = username, sc_private_key = key,
              sc_passphrase = nonempty (get_str config ''ssh_passphrase''),
              sc_host_fingerprint = nonempty (get_str config ''ssh_host_fingerprint'')\<rparr>))))"

section \<open>Connecting\<close>

datatype key_error = KeyIsEncrypted | KeyError string

text \<open>
  The SSH library and the host: reading a key, the fingerprint of the key that the server at an
  address shows (\<^const>\<open>None\<close> when there is no answer in time), the error of a handshake whose host
  key was not accepted, authentication, and binding a local port.
\<close>

record 'k ssh_api =
  sh_decode_key :: "string \<Rightarrow> string option \<Rightarrow> key_error + 'k"
  sh_host_key :: "string \<Rightarrow> (string + string) option"
  sh_unknown_key :: string
  sh_auth :: "string \<Rightarrow> string \<Rightarrow> 'k \<Rightarrow> string + bool"
  sh_bind :: "string + u16"

record unix_relay =
  ur_dir :: string
  ur_path :: string

record ssh_tunnel =
  tn_port :: u16
  tn_target :: "string \<times> u16"
  tn_proxy_port :: "u16 option"
  tn_unix_socket :: "unix_relay option"

definition parse_private_key :: "'k ssh_api \<Rightarrow> string \<Rightarrow> string option \<Rightarrow> 'k result" where
  "parse_private_key api pem passphrase =
     (case sh_decode_key api pem passphrase of
        Inl KeyIsEncrypted \<Rightarrow>
          Inl (Provider ''SSH private key is encrypted; set ssh_passphrase to decrypt it'')
      | Inl (KeyError e) \<Rightarrow> Inl (Internal (''Failed to parse SSH private key: '' @ e))
      | Inr k \<Rightarrow> Inr k)"

definition fingerprint_matches :: "string \<Rightarrow> string \<Rightarrow> bool" where
  "fingerprint_matches expected actual = (str_trim expected = str_trim actual)"

definition check_server_key :: "string option \<Rightarrow> string \<Rightarrow> bool" where
  "check_server_key expected_fingerprint actual =
     (case expected_fingerprint of None \<Rightarrow> True | Some expected \<Rightarrow> fingerprint_matches expected actual)"

definition ssh_handshake :: "'k ssh_api \<Rightarrow> string \<Rightarrow> string option \<Rightarrow> unit result" where
  "ssh_handshake api addr fingerprint =
     (case sh_host_key api addr of
        None \<Rightarrow> Inl (Internal (''SSH connection to '' @ addr @ '' timed out after 30s''))
      | Some (Inl e) \<Rightarrow> Inl (Internal (''SSH connection to '' @ addr @ '' failed: '' @ e))
      | Some (Inr actual) \<Rightarrow>
          if check_server_key fingerprint actual then Inr ()
          else Inl (Internal (''SSH connection to '' @ addr @ '' failed: '' @ sh_unknown_key api)))"

definition ssh_connect :: "'k ssh_api \<Rightarrow> ssh_config \<Rightarrow> string \<Rightarrow> u16 \<Rightarrow> ssh_tunnel result" where
  "ssh_connect api cfg target_host target_port =
     (let ssh_port = (if sc_port cfg = 0 then DEFAULT_SSH_PORT else sc_port cfg);
          addr = sc_host cfg @ '':'' @ show_word ssh_port in
      case parse_private_key api (sc_private_key cfg) (sc_passphrase cfg) of
        Inl e \<Rightarrow> Inl e
      | Inr key \<Rightarrow>
     (case ssh_handshake api addr (sc_host_fingerprint cfg) of
        Inl e \<Rightarrow> Inl e
      | Inr _ \<Rightarrow>
     (case sh_auth api addr (sc_username cfg) key of
        Inl e \<Rightarrow> Inl (Internal (''SSH authentication failed: '' @ e))
      | Inr False \<Rightarrow> Inl (Internal ''SSH authentication failed: server rejected the key'')
      | Inr True \<Rightarrow>
     (case sh_bind api of
        Inl e \<Rightarrow> Inl (Internal (''Failed to bind local SSH tunnel listener: '' @ e))
      | Inr port \<Rightarrow>
          Inr \<lparr>tn_port = port, tn_target = (target_host, target_port), tn_proxy_port = None,
            tn_unix_socket = None\<rparr>))))"

section \<open>Local endpoints\<close>

definition local_addr :: "ssh_tunnel \<Rightarrow> string \<times> u16" where
  "local_addr tn = (''127.0.0.1'', tn_port tn)"

definition path_join :: "string \<Rightarrow> string \<Rightarrow> string" where
  "path_join base name =
     (if base = [] \<or> last base = CHR ''/'' then base @ name else base @ ''/'' @ name)"

definition socket_name :: "u16 \<Rightarrow> string" where
  "socket_name database_port = ''.s.PGSQL.'' @ show_word database_port"

definition MAX_UNIX_SOCKET_PATH_BYTES :: nat where
  "MAX_UNIX_SOCKET_PATH_BYTES = 103"

text \<open>
  The first of the base directories in which a short enough private directory can be made;
  \<open>mkdir\<close> gives the error of a directory that cannot be created.
\<close>

fun first_socket_dir ::
  "(string \<Rightarrow> string option) \<Rightarrow> string \<Rightarrow> u16 \<Rightarrow> string option \<Rightarrow> string list \<Rightarrow> string option + string" where
  "first_socket_dir mkdir name port last_error [] = Inl last_error"
| "first_socket_dir mkdir name port last_error (base # bases) =
     (let dir = path_join base name in
      if MAX_UNIX_SOCKET_PATH_BYTES < length (path_join dir (socket_name port))
      then first_socket_dir mkdir name port last_error bases
      else case mkdir dir of
        None \<Rightarrow> Inr dir
      | Some e \<Rightarrow> first_socket_dir mkdir name port (Some e) bases)"

definition create_socket_directory ::
  "(string \<Rightarrow> string option) \<Rightarrow> string \<Rightarrow> string \<Rightarrow> u16 \<Rightarrow> string result" where
  "create_socket_directory mkdir uuid preferred_dir database_port =
     (case first_socket_dir mkdir (''kyomi-ssh-'' @ uuid) database_port None [preferred_dir, ''/tmp'', ''/var/tmp''] of
        Inr dir \<Rightarrow> Inr dir
      | Inl e \<Rightarrow> Inl (Internal (''Failed to create short SSH tunnel socket directory: ''
                   @ if_some e (\<lambda>m. m) ''no usable short path'')))"

text \<open>\<open>file_name\<close> of a path that ends in a file name.\<close>

definition file_name :: "string \<Rightarrow> string" where
  "file_name path = last (split_on (CHR ''/'') path)"


definition bind_new_socket ::
  "(string \<Rightarrow> string option) \<Rightarrow> (string \<Rightarrow> string option) \<Rightarrow> string \<Rightarrow> string \<Rightarrow> u16 \<Rightarrow> ssh_tunnel
   \<Rightarrow> (string \<times> ssh_tunnel) result" where
  "bind_new_socket mkdir bind uuid temp_dir database_port tn =
     (case create_socket_directory mkdir uuid temp_dir database_port of
        Inl e \<Rightarrow> Inl e
      | Inr dir \<Rightarrow>
          (let path = path_join dir (socket_name database_port) in
           case bind path of
             Some e \<Rightarrow> Inl (Internal (''Failed to bind SSH tunnel socket: '' @ e))
           | None \<Rightarrow> Inr (path, tn\<lparr>tn_unix_socket := Some \<lparr>ur_dir = dir, ur_path = path\<rparr>\<rparr>)))"

definition bind_unix_socket ::
  "(string \<Rightarrow> string option) \<Rightarrow> (string \<Rightarrow> string option) \<Rightarrow> string \<Rightarrow> string \<Rightarrow> u16 \<Rightarrow> ssh_tunnel
   \<Rightarrow> (string \<times> ssh_tunnel) result" where
  "bind_unix_socket mkdir bind uuid temp_dir database_port tn =
     (case tn_unix_socket tn of
        Some socket \<Rightarrow>
          if file_name (ur_path socket) = socket_name database_port then Inr (ur_path socket, tn)
          else bind_new_socket mkdir bind uuid temp_dir database_port tn
      | None \<Rightarrow> bind_new_socket mkdir bind uuid temp_dir database_port tn)"

definition bind_http_proxy :: "string + u16 \<Rightarrow> ssh_tunnel \<Rightarrow> (u16 \<times> ssh_tunnel) result" where
  "bind_http_proxy bound tn =
     (case tn_proxy_port tn of
        Some port \<Rightarrow> Inr (port, tn)
      | None \<Rightarrow>
          (case bound of
             Inl e \<Rightarrow> Inl (Internal (''Failed to bind SSH HTTP proxy: '' @ e))
           | Inr port \<Rightarrow> Inr (port, tn\<lparr>tn_proxy_port := Some port\<rparr>)))"

definition http_proxy :: "ssh_tunnel \<Rightarrow> string result" where
  "http_proxy tn =
     (case tn_proxy_port tn of
        None \<Rightarrow> Inl (Internal ''SSH HTTP proxy not bound'')
      | Some port \<Rightarrow> Inr (''http://127.0.0.1:'' @ show_word port))"

text \<open>After \<open>close\<close> the tunnel has no proxy and no socket; its listener tasks are gone.\<close>

definition close_tunnel :: "ssh_tunnel \<Rightarrow> ssh_tunnel" where
  "close_tunnel tn = tn\<lparr>tn_proxy_port := None, tn_unix_socket := None\<rparr>"

section \<open>The HTTP proxy\<close>

definition CRLF :: string where
  "CRLF = [CHR 0x0D, CHR 0x0A]"

datatype proxy_error = HeaderTooLarge | UnexpectedEof | InvalidData string

text \<open>
  The bytes of a request header, read one by one from a stream, and the bytes that are left
  unread; the 30 s limit of the loop appears as an early end of the stream.
\<close>

definition MAX_PROXY_HEADER :: nat where
  "MAX_PROXY_HEADER = 16384"

fun read_header :: "string \<Rightarrow> string \<Rightarrow> proxy_error + (string \<times> string)" where
  "read_header header [] =
     (if suffix (CRLF @ CRLF) header then Inr (header, [])
      else if MAX_PROXY_HEADER \<le> length header then Inl HeaderTooLarge
      else Inl UnexpectedEof)"
| "read_header header (b # input) =
     (if suffix (CRLF @ CRLF) header then Inr (header, b # input)
      else if MAX_PROXY_HEADER \<le> length header then Inl HeaderTooLarge
      else read_header (header @ [b]) input)"

text \<open>\<open>split_whitespace\<close>\<close>

fun split_ws :: "string \<Rightarrow> string \<Rightarrow> string list" where
  "split_ws word [] = (if word = [] then [] else [word])"
| "split_ws word (c # s) =
     (if is_ws c then (if word = [] then split_ws [] s else word # split_ws [] s)
      else split_ws (word @ [c]) s)"

definition nth_word :: "string list \<Rightarrow> nat \<Rightarrow> string" where
  "nth_word ws n = (if n < length ws then ws ! n else [])"

definition strip_cr :: "string \<Rightarrow> string" where
  "strip_cr line = (if line \<noteq> [] \<and> last line = CHR 0x0D then butlast line else line)"

definition keeps_header :: "string \<Rightarrow> bool" where
  "keeps_header line =
     (let name = hd (split_on (CHR '':'') line) in
      \<not> eq_ignore_ascii_case name ''connection'' \<and> \<not> eq_ignore_ascii_case name ''proxy-connection'')"

text \<open>
  What the proxy does with a header: set up a tunnel, send a rewritten request to the database,
  fail, or panic on a slice that ends before it starts. \<open>url\<close> reads a URL into its path and
  query, \<open>bad_utf\<close> gives the error of text that is not UTF-8.
\<close>

datatype proxy_action = ConnectTunnel | Forward string | ProxyFail proxy_error | ProxyPanic

definition forward_request ::
  "(string \<Rightarrow> string + (string \<times> string option)) \<Rightarrow> (string \<Rightarrow> string option) \<Rightarrow> string \<Rightarrow> proxy_action" where
  "forward_request url bad_utf header =
     (if prefix ''CONNECT '' header then ConnectTunnel
      else case str_find header CRLF of
        None \<Rightarrow> ProxyFail (InvalidData ''Invalid HTTP request'')
      | Some line_end \<Rightarrow>
          (let line = take line_end header; parts = split_ws [] line in
           case bad_utf line of
             Some e \<Rightarrow> ProxyFail (InvalidData e)
           | None \<Rightarrow>
               (case url (nth_word parts 1) of
                  Inl e \<Rightarrow> ProxyFail (InvalidData e)
                | Inr (path, query) \<Rightarrow>
                    if length header - 4 < line_end + 2 then ProxyPanic
                    else Forward (nth_word parts 0 @ '' '' @ path @ if_some query (\<lambda>q. ''?'' @ q) [] @ '' ''
                      @ nth_word parts 2 @ CRLF @ ''Connection: close'' @ CRLF
                      @ concat (map (\<lambda>l. l @ CRLF) (filter keeps_header (map strip_cr
                          (split_on (CHR 0x0A) (take (length header - 4 - (line_end + 2)) (drop (line_end + 2) header))))))
                      @ CRLF))))"

definition proxy_connection ::
  "(string \<Rightarrow> string + (string \<times> string option)) \<Rightarrow> (string \<Rightarrow> string option) \<Rightarrow> string \<Rightarrow> proxy_action \<times> string" where
  "proxy_connection url bad_utf input =
     (case read_header [] input of
        Inl e \<Rightarrow> (ProxyFail e, [])
      | Inr (header, rest) \<Rightarrow> (forward_request url bad_utf header, rest))"

section \<open>Host keys and sockets\<close>

lemma ssh_connect_InrD:
  assumes "ssh_connect api cfg host port = Inr tn"
  obtains actual where "sh_host_key api (sc_host cfg @ '':'' @ show_word (if sc_port cfg = 0 then DEFAULT_SSH_PORT else sc_port cfg))
      = Some (Inr actual)" "check_server_key (sc_host_fingerprint cfg) actual"
    "tn_target tn = (host, port)" "tn_proxy_port tn = None" "tn_unix_socket tn = None"
  using assms
  by (auto simp: ssh_connect_def ssh_handshake_def Let_def split: sum.splits option.splits bool.splits if_splits)

lemma first_socket_dir_short:
  "first_socket_dir mkdir name port e bases = Inr dir \<Longrightarrow>
   length (path_join dir (socket_name port)) \<le> MAX_UNIX_SOCKET_PATH_BYTES \<and> mkdir dir = None"
  by (induction mkdir name port e bases rule: first_socket_dir.induct)
     (auto simp: Let_def not_less split: if_splits option.splits)

text \<open>
  C28. A pinned bastion key is enforced: when the connection configuration names a fingerprint, a
  tunnel is only made to a server that shows the key with that fingerprint, up to surrounding
  blanks, whatever else the configuration says.
\<close>

theorem ssh_host_key_pinned:
  assumes "from_connection_config config = Some (Inr cfg)"
    "get_str config ''ssh_host_fingerprint'' = Some fp" "fp \<noteq> []"
    "ssh_connect api cfg host port = Inr tn"
  shows "\<exists>actual. sh_host_key api (sc_host cfg @ '':'' @ show_word (if sc_port cfg = 0 then 22 else sc_port cfg))
      = Some (Inr actual) \<and> str_trim fp = str_trim actual"
proof -
  have "sc_host_fingerprint cfg = Some fp"
    using assms(1-3) by (auto simp: from_connection_config_def split: if_splits option.splits)
  with assms(4) show ?thesis
    by (auto elim!: ssh_connect_InrD simp: check_server_key_def fingerprint_matches_def DEFAULT_SSH_PORT_def)
qed

definition demo_ssh :: "unit ssh_api" where
  "demo_ssh = \<lparr>sh_decode_key = (\<lambda>_ _. Inr ()), sh_host_key = (\<lambda>_. Some (Inr ''SHA256:abc'')),
     sh_unknown_key = ''unknown key'', sh_auth = (\<lambda>_ _ _. Inr True), sh_bind = Inr 40000\<rparr>"

definition demo_ssh_json :: json where
  "demo_ssh_json = json_obj [(''ssh_enabled'', Some (JBool True)), (''ssh_host'', Some (JString ''bastion'')),
     (''ssh_username'', Some (JString ''u'')), (''ssh_private_key'', Some (JString ''k'')),
     (''ssh_host_fingerprint'', Some (JString ''SHA256:abc ''))]"

definition demo_ssh_config :: ssh_config where
  "demo_ssh_config = \<lparr>sc_host = ''bastion'', sc_port = 22, sc_username = ''u'', sc_private_key = ''k'',
     sc_passphrase = None, sc_host_fingerprint = Some ''SHA256:abc ''\<rparr>"

theorem ssh_host_key_pinned_witness:
  "\<exists>actual. sh_host_key demo_ssh (sc_host demo_ssh_config @ '':'' @ show_word (if sc_port demo_ssh_config = 0 then 22 else sc_port demo_ssh_config))
      = Some (Inr actual) \<and> str_trim ''SHA256:abc '' = str_trim actual"
proof -
  have facts: "from_connection_config demo_ssh_json = Some (Inr demo_ssh_config)"
    "get_str demo_ssh_json ''ssh_host_fingerprint'' = Some ''SHA256:abc ''"
    "fingerprint_matches ''SHA256:abc '' ''SHA256:abc''" by code_simp+
  then have "ssh_connect demo_ssh demo_ssh_config ''db'' 5432 = Inr \<lparr>tn_port = 40000, tn_target = (''db'', 5432),
      tn_proxy_port = None, tn_unix_socket = None\<rparr>"
    by (simp add: ssh_connect_def demo_ssh_def parse_private_key_def ssh_handshake_def check_server_key_def
        demo_ssh_config_def Let_def)
  from ssh_host_key_pinned [OF facts(1,2) _ this] show ?thesis by simp
qed

section \<open>Requests through the proxy\<close>

text \<open>A request head: its request line and header lines, each ended by CRLF, and an empty line.\<close>

definition head_lines :: "string list \<Rightarrow> string" where
  "head_lines ls = concat (map (\<lambda>l. l @ CRLF) ls)"

definition request_head :: "string list \<Rightarrow> string" where
  "request_head ls = head_lines ls @ CRLF"

definition plain_line :: "string \<Rightarrow> bool" where
  "plain_line l \<longleftrightarrow> l \<noteq> [] \<and> CHR 0x0D \<notin> set l \<and> CHR 0x0A \<notin> set l"

lemma not_ended: "b \<noteq> CHR 0x0A \<Longrightarrow> \<not> suffix (CRLF @ CRLF) (acc @ [b])"
  by (auto simp: suffix_def CRLF_def)

lemma read_header_step:
  "\<lbrakk>\<not> suffix (CRLF @ CRLF) acc; length acc < MAX_PROXY_HEADER\<rbrakk>
   \<Longrightarrow> read_header acc (b # input) = read_header (acc @ [b]) input"
  by simp

lemma read_header_word:
  assumes "\<not> suffix (CRLF @ CRLF) acc" "CHR 0x0A \<notin> set w" "length acc + length w \<le> MAX_PROXY_HEADER"
  shows "read_header acc (w @ input) = read_header (acc @ w) input"
  using assms
proof (induction w arbitrary: acc)
  case (Cons b w)
  then have "read_header acc (b # w @ input) = read_header (acc @ [b]) (w @ input)"
    by (intro read_header_step) simp_all
  also have "\<dots> = read_header ((acc @ [b]) @ w) input"
    using Cons.prems by (intro Cons.IH not_ended) auto
  finally show ?case by simp
qed simp

lemma read_header_line:
  assumes "\<not> suffix (CRLF @ CRLF) acc" "plain_line l" "length acc + length l + 2 \<le> MAX_PROXY_HEADER"
  shows "read_header acc (l @ CRLF @ input) = read_header (acc @ l @ CRLF) input \<and>
    \<not> suffix (CRLF @ CRLF) (acc @ l @ CRLF)"
proof
  have l: "l \<noteq> []" "CHR 0x0A \<notin> set l" "last l \<noteq> CHR 0x0A"
    using assms(2) by (simp_all add: plain_line_def) (metis last_in_set)
  have "read_header acc (l @ CRLF @ input) = read_header acc ((l @ [CHR 0x0D]) @ CHR 0x0A # input)"
    by (simp add: CRLF_def)
  also have "\<dots> = read_header (acc @ l @ [CHR 0x0D]) (CHR 0x0A # input)"
    using assms l by (subst read_header_word) auto
  also have "\<dots> = read_header ((acc @ l @ [CHR 0x0D]) @ [CHR 0x0A]) input"
    using assms(3) not_ended [of "CHR 0x0D" "acc @ l"] by (intro read_header_step) simp_all
  finally show "read_header acc (l @ CRLF @ input) = read_header (acc @ l @ CRLF) input" by (simp add: CRLF_def)
  show "\<not> suffix (CRLF @ CRLF) (acc @ l @ CRLF)"
  proof
    assume "suffix (CRLF @ CRLF) (acc @ l @ CRLF)"
    then have "suffix CRLF (acc @ l)" by (auto simp: suffix_def)
    then have "last (acc @ l) = CHR 0x0A" by (auto simp: suffix_def CRLF_def)
    then show False using l by simp
  qed
qed

lemma read_header_lines:
  assumes "\<not> suffix (CRLF @ CRLF) acc" "list_all plain_line ls" "length acc + length (head_lines ls) \<le> MAX_PROXY_HEADER"
  shows "read_header acc (head_lines ls @ input) = read_header (acc @ head_lines ls) input \<and>
    \<not> suffix (CRLF @ CRLF) (acc @ head_lines ls)"
  using assms
proof (induction ls arbitrary: acc)
  case (Cons l ls)
  have "length CRLF = 2" by (simp add: CRLF_def)
  then show ?case
    using Cons.prems Cons.IH [of "acc @ l @ CRLF"] read_header_line [of acc l "head_lines ls @ input"]
    by (simp add: head_lines_def)
qed (simp add: head_lines_def)

lemma read_head:
  assumes "ls \<noteq> []" "list_all plain_line ls" "length (request_head ls) \<le> MAX_PROXY_HEADER"
  shows "read_header [] (request_head ls @ body) = Inr (request_head ls, body)"
proof -
  have "\<not> suffix (CRLF @ CRLF) []" by (simp add: CRLF_def)
  then have lines: "read_header [] (head_lines ls @ CRLF @ body) = read_header (head_lines ls) (CRLF @ body)"
    "\<not> suffix (CRLF @ CRLF) (head_lines ls)"
    using read_header_lines [of "[]" ls "CRLF @ body"] assms by (simp_all add: request_head_def)
  have size: "length (head_lines ls) + 2 \<le> MAX_PROXY_HEADER" using assms(3) by (simp add: request_head_def CRLF_def)
  have "read_header (head_lines ls) (CRLF @ body) = read_header (head_lines ls @ [CHR 0x0D]) (CHR 0x0A # body)"
    using lines(2) size read_header_step [of "head_lines ls" "CHR 0x0D" "CHR 0x0A # body"] by (simp add: CRLF_def)
  also have "\<dots> = read_header ((head_lines ls @ [CHR 0x0D]) @ [CHR 0x0A]) body"
    using size not_ended [of "CHR 0x0D" "head_lines ls"] by (intro read_header_step) simp_all
  also have "(head_lines ls @ [CHR 0x0D]) @ [CHR 0x0A] = request_head ls" by (simp add: request_head_def CRLF_def)
  finally have "read_header [] (request_head ls @ body) = read_header (request_head ls) body"
    using lines(1) by (simp add: request_head_def)
  moreover have "suffix (CRLF @ CRLF) (request_head ls)"
  proof -
    obtain ls' l where "ls = ls' @ [l]" using assms(1) by (cases ls rule: rev_cases) auto
    then show ?thesis by (simp add: request_head_def head_lines_def suffix_def)
  qed
  ultimately show ?thesis by (cases body) simp_all
qed

lemma find_line_end: "CHR 0x0D \<notin> set l \<Longrightarrow> str_find (l @ CRLF @ r) CRLF = Some (length l)"
  by (induction l) (auto simp: CRLF_def)

lemma head_lines_split:
  "\<lbrakk>ls \<noteq> []; list_all plain_line ls\<rbrakk> \<Longrightarrow>
   map strip_cr (split_on (CHR 0x0A) (take (length (head_lines ls) - 2) (head_lines ls))) = ls"
proof (induction ls rule: list_nonempty_induct)
  case (single l)
  then have "CHR 0x0D \<notin> set l" "CHR 0x0A \<notin> set l" "l \<noteq> []" by (auto simp: plain_line_def)
  moreover from this have "last l \<noteq> CHR 0x0D" by (metis last_in_set)
  ultimately show ?case by (simp add: head_lines_def CRLF_def split_on_no_sep strip_cr_def)
next
  case (cons l ls)
  let ?h = "head_lines ls"
  have l: "CHR 0x0D \<notin> set l" "CHR 0x0A \<notin> set l" using cons by (auto simp: plain_line_def)
  have "2 \<le> length ?h" using cons.hyps by (cases ls) (simp_all add: head_lines_def CRLF_def)
  then obtain n where n: "length ?h = Suc (Suc n)" by (metis Suc_le_D numeral_2_eq_2 Suc_le_mono)
  have "head_lines (l # ls) = l @ [CHR 0x0D, CHR 0x0A] @ ?h" by (simp add: head_lines_def CRLF_def)
  then have "take (length (head_lines (l # ls)) - 2) (head_lines (l # ls))
      = (l @ [CHR 0x0D]) @ CHR 0x0A # take (length ?h - 2) ?h"
    using n by simp
  then show ?case using l cons by (simp add: split_on_append strip_cr_def del: append_assoc)
qed

lemma split_ws_word: "list_all (\<lambda>c. \<not> is_ws c) w \<Longrightarrow> split_ws acc (w @ s) = split_ws (acc @ w) s"
  by (induction w arbitrary: acc) simp_all

lemma split_request_line:
  assumes "\<And>w. w \<in> {m, u, v} \<Longrightarrow> w \<noteq> [] \<and> list_all (\<lambda>c. \<not> is_ws c) w"
  shows "split_ws [] (m @ '' '' @ u @ '' '' @ v) = [m, u, v]"
proof -
  have "is_ws (CHR '' '')" by (simp add: char_class_defs)
  then show ?thesis using assms split_ws_word [of m "[]"] split_ws_word [of u "[]"] split_ws_word [of v "[]" "[]"]
    by simp
qed

lemma first_word:
  assumes "prefix (w @ '' '') (m @ '' '' @ r)" "list_all (\<lambda>c. \<not> is_ws c) w" "list_all (\<lambda>c. \<not> is_ws c) m"
  shows "w = m"
proof -
  have ws: "is_ws (CHR '' '')" by (simp add: char_class_defs)
  from assms(1) obtain r' where r': "m @ CHR '' '' # r = w @ CHR '' '' # r'" by (auto simp: prefix_def)
  have "takeWhile (\<lambda>c. \<not> is_ws c) (x @ CHR '' '' # y) = x" if "list_all (\<lambda>c. \<not> is_ws c) x" for x y
    using that ws by (simp add: takeWhile_append2 list_all_iff)
  then show ?thesis using assms(2,3) r' by metis
qed

text \<open>
  C34. A plain HTTP request goes through the proxy intact: of a head of at most 16 KiB, no byte
  of what follows it is consumed, and the database receives the same method, version and header
  lines in their order, with the path of the URL in place of the URL and a single Connection: close
  in place of the connection headers.
\<close>

theorem proxy_forwards_request:
  assumes words: "\<And>w. w \<in> {m, u, v} \<Longrightarrow> w \<noteq> [] \<and> list_all (\<lambda>c. \<not> is_ws c) w"
    and lines: "hs \<noteq> []" "list_all plain_line (line # hs)" "line = m @ '' '' @ u @ '' '' @ v"
    and size: "length (request_head (line # hs)) \<le> 16384"
    and url: "url u = Inr (p, q)" "bad_utf line = None" "m \<noteq> ''CONNECT''"
  shows "proxy_connection url bad_utf (request_head (line # hs) @ body) =
    (Forward (request_head ((m @ '' '' @ p @ if_some q (\<lambda>q. ''?'' @ q) [] @ '' '' @ v)
       # ''Connection: close'' # filter keeps_header hs)), body)"
proof -
  let ?head = "request_head (line # hs)"
  have head: "?head = line @ CRLF @ head_lines hs @ CRLF" by (simp add: request_head_def head_lines_def)
  have len: "length CRLF = 2" by (simp add: CRLF_def)
  have "2 \<le> length (head_lines hs)" using lines(1) by (cases hs) (simp_all add: head_lines_def len)
  then have slice: "take (length ?head - 4 - (length line + 2)) (drop (length line + 2) ?head)
      = take (length (head_lines hs) - 2) (head_lines hs)" and long: "\<not> length ?head - 4 < length line + 2"
    by (simp_all add: head len)
  have "\<not> prefix ''CONNECT '' ?head"
  proof
    assume "prefix ''CONNECT '' ?head"
    then have "prefix (''CONNECT'' @ '' '') (m @ '' '' @ u @ '' '' @ v @ CRLF @ head_lines hs @ CRLF)"
      unfolding head unfolding lines(3) by simp
    moreover have "list_all (\<lambda>c. \<not> is_ws c) ''CONNECT''" by (simp add: char_class_defs)
    ultimately have "''CONNECT'' = m" using words [of m] by (intro first_word) simp_all
    then show False using url(3) by simp
  qed
  moreover have "str_find ?head CRLF = Some (length line)"
    using lines(2) find_line_end [of line "head_lines hs @ CRLF"] by (simp add: head plain_line_def)
  moreover have "split_ws [] line = [m, u, v]" using split_request_line [OF words] lines(3) by simp
  ultimately have "forward_request url bad_utf ?head =
      Forward (request_head ((m @ '' '' @ p @ if_some q (\<lambda>q. ''?'' @ q) [] @ '' '' @ v)
       # ''Connection: close'' # filter keeps_header hs))"
    using url lines long slice head_lines_split [of hs]
    by (cases q) (simp_all add: forward_request_def nth_word_def request_head_def head_lines_def Let_def)
  then show ?thesis using read_head [of "line # hs" body] lines size
    by (simp add: proxy_connection_def MAX_PROXY_HEADER_def)
qed

theorem proxy_forwards_request_witness:
  "proxy_connection (\<lambda>_. Inr (''/'', Some ''a=1'')) (\<lambda>_. None)
     (request_head [''POST'' @ '' '' @ ''http://db:8123/?a=1'' @ '' '' @ ''HTTP/1.1'', ''Host: db'', ''Proxy-Connection: x''] @ ''SELECT 1'') =
   (Forward (request_head [''POST /?a=1 HTTP/1.1'', ''Connection: close'', ''Host: db'']), ''SELECT 1'')"
proof -
  let ?l = "''POST'' @ '' '' @ ''http://db:8123/?a=1'' @ '' '' @ ''HTTP/1.1''"
  have lines: "list_all plain_line [?l, ''Host: db'', ''Proxy-Connection: x'']"
    by (simp add: plain_line_def)
  have size: "length (request_head [?l, ''Host: db'', ''Proxy-Connection: x'']) \<le> 16384"
    by (simp add: request_head_def head_lines_def CRLF_def)
  have kept: "filter keeps_header [''Host: db'', ''Proxy-Connection: x''] = [''Host: db'']" by code_simp
  have words: "w \<noteq> [] \<and> list_all (\<lambda>c. \<not> is_ws c) w" if "w \<in> {''POST'', ''http://db:8123/?a=1'', ''HTTP/1.1''}" for w
    using that by (auto simp: char_class_defs)
  show ?thesis
    using proxy_forwards_request [where url = "\<lambda>_. Inr (''/'', Some ''a=1'')" and bad_utf = "\<lambda>_. None" and body = "''SELECT 1''",
        OF words _ lines refl size refl] unfolding kept by simp
qed

text \<open>A request with no header line at all makes the slice of the header lines panic.\<close>

lemma proxy_headless_panics:
  assumes "plain_line line" "\<not> prefix ''CONNECT '' line" "bad_utf line = None"
    "url (nth_word (split_ws [] line) 1) = Inr (p, q)"
  shows "forward_request url bad_utf (request_head [line]) = ProxyPanic"
proof -
  have "\<not> prefix ''CONNECT '' (line @ CRLF @ CRLF)"
    using assms(1,2) by (auto simp: prefix_append plain_line_def prefix_Cons CRLF_def)
  then show ?thesis using assms find_line_end [of line CRLF]
    by (simp add: forward_request_def request_head_def head_lines_def plain_line_def CRLF_def Let_def)
qed

end
