(* ===== verification/Flaredb.thy ===== *)
theory Flaredb
  imports Executor Clickhouse Credentials Ssh_Tunnel
begin

text \<open>
  The FlareDB provider (flaredb.rs): queries, the stream, dry run and listings over Arrow Flight
  SQL. The Flight client is a parameter: a statement gives a list of endpoints, each with a ticket
  or without one, and a ticket gives a stream of record batches. Both requests take time and are
  limited; reading the batches is not.
\<close>

section \<open>The client\<close>

text \<open>
  An item of a batch stream: a batch, an error, or nothing ever again. The list of items ends where
  the stream does. \<open>fl_concat\<close> is \<open>concat_batches\<close> of the \<^verbatim>\<open>arrow\<close> crate.
\<close>

datatype flight_item = FlightBatch record_batch | FlightError string | FlightSilent

record flight_api =
  fl_execute :: "string \<Rightarrow> ((string + string option list) \<times> nat) option"
  fl_do_get :: "string \<Rightarrow> ((string + flight_item list) \<times> nat) option"
  fl_concat :: "schema \<Rightarrow> record_batch list \<Rightarrow> string + record_batch"

datatype 'c flight_channel = BadEndpoint string | Unreachable string | FlightChannel 'c

definition FLAREDB_DEFAULT_PORT :: u16 where
  "FLAREDB_DEFAULT_PORT = 8815"

definition flare_new :: "(string \<Rightarrow> 'c flight_channel) \<Rightarrow> json \<Rightarrow> 'c result" where
  "flare_new connect config =
     (let endpoint = ''http://'' @ get_str_or ''localhost'' config ''host'' @ '':''
            @ show_word (get_port FLAREDB_DEFAULT_PORT config ''port'') in
      case connect endpoint of
        BadEndpoint e \<Rightarrow> Inl (Internal (''Invalid FlareDB endpoint '' @ [CHR 0x27] @ endpoint @ [CHR 0x27] @ '': '' @ e))
      | Unreachable e \<Rightarrow> Inl (Internal (''Failed to connect to FlareDB at '' @ endpoint @ '': '' @ e))
      | FlightChannel c \<Rightarrow> Inr c)"

section \<open>Connection test\<close>

definition flare_test_connection :: "flight_api \<Rightarrow> bool result" where
  "flare_test_connection fl =
     (case within DATASOURCE_TIMEOUT_CONNECT (fl_execute fl ''SELECT 1'') of
        None \<Rightarrow> Inl (Internal ''FlareDB test connection timed out'')
      | Some (Inl e) \<Rightarrow> Inl (Internal (''FlareDB test connection failed: '' @ e))
      | Some (Inr endpoints) \<Rightarrow>
          (case first_of endpoints of
             None \<Rightarrow> Inr True
           | Some ticket \<Rightarrow>
               (case within DATASOURCE_TIMEOUT_CONNECT (fl_do_get fl ticket) of
                  None \<Rightarrow> Inl (Internal ''FlareDB test connection do_get timed out'')
                | Some (Inl e) \<Rightarrow> Inl (Internal (''FlareDB test connection do_get failed: '' @ e))
                | Some (Inr _) \<Rightarrow> Inr True)))"

section \<open>Buffered queries\<close>

text \<open>\<open>try_collect\<close>; \<^const>\<open>None\<close> is a stream that never ends.\<close>

fun collect_items :: "flight_item list \<Rightarrow> (string + record_batch list) option" where
  "collect_items [] = Some (Inr [])"
| "collect_items (FlightBatch b # items) =
     map_option (map_sum (\<lambda>e. e) (\<lambda>bs. b # bs)) (collect_items items)"
| "collect_items (FlightError e # items) = Some (Inl e)"
| "collect_items (FlightSilent # items) = None"

fun flare_fetch :: "flight_api \<Rightarrow> string option list \<Rightarrow> (string + record_batch list) option" where
  "flare_fetch fl [] = Some (Inr [])"
| "flare_fetch fl (None # endpoints) = flare_fetch fl endpoints"
| "flare_fetch fl (Some ticket # endpoints) =
     (case within DATASOURCE_TIMEOUT_QUERY (fl_do_get fl ticket) of
        None \<Rightarrow> Some (Inl ''FlareDB do_get timed out after 120s'')
      | Some (Inl e) \<Rightarrow> Some (Inl (''FlareDB do_get failed: '' @ e))
      | Some (Inr items) \<Rightarrow>
          Option.bind (collect_items items) (\<lambda>r. case r of
             Inl e \<Rightarrow> Some (Inl (''FlareDB stream collect failed: '' @ e))
           | Inr batches \<Rightarrow> map_option (map_sum (\<lambda>e. e) (\<lambda>bs. batches @ bs)) (flare_fetch fl endpoints)))"

definition flare_columns :: "schema \<Rightarrow> column_info list" where
  "flare_columns s = map (\<lambda>(n, t). \<lparr>col_name = n, col_type = map_arrow_type t\<rparr>) s"

definition flare_result :: "flight_api \<Rightarrow> i64 \<Rightarrow> u32 \<Rightarrow> record_batch list \<Rightarrow> query_result" where
  "flare_result fl elapsed effective_limit all_batches =
     (if all_batches = [] then success_empty
      else
        let first_schema = rb_schema (hd all_batches);
            total_rows = sum_list (map rb_num_rows all_batches) in
        case fl_concat fl first_schema all_batches of
          Inl e \<Rightarrow> query_failed elapsed (''FlareDB batch concatenation failed: '' @ e)
        | Inr batch \<Rightarrow>
            \<lparr>qr_status = Success, qr_columns = Some (flare_columns first_schema), qr_total_rows = None,
             qr_has_more = (total_rows = unat effective_limit), qr_bytes_processed = None,
             qr_execution_time_ms = Some elapsed, qr_error = None, qr_record_batch = Some batch,
             qr_job_id = None\<rparr>)"

text \<open>\<^const>\<open>None\<close> is a query that never returns.\<close>

definition flare_execute_query ::
  "flight_api \<Rightarrow> i64 \<Rightarrow> string \<Rightarrow> u32 option \<Rightarrow> u32 option \<Rightarrow> query_result result option" where
  "flare_execute_query fl elapsed sql limit offset =
     (case within DATASOURCE_TIMEOUT_QUERY (fl_execute fl (pq_sql (prepare_query sql limit offset))) of
        None \<Rightarrow> Some (Inr (query_failed elapsed ''FlareDB query timed out after 120s''))
      | Some (Inl e) \<Rightarrow> Some (Inr (query_failed elapsed (''FlareDB execute failed: '' @ e)))
      | Some (Inr endpoints) \<Rightarrow>
          map_option (\<lambda>r. case r of
              Inl msg \<Rightarrow> Inr (query_failed elapsed msg)
            | Inr batches \<Rightarrow>
                Inr (flare_result fl elapsed (case limit of None \<Rightarrow> 1000 | Some l \<Rightarrow> l) batches))
          (flare_fetch fl endpoints))"

section \<open>The stream\<close>

record flare_state =
  fs_schema_sent :: bool
  fs_chunk_index :: u32
  fs_total_rows :: u64

definition flare_start :: flare_state where
  "flare_start = \<lparr>fs_schema_sent = False, fs_chunk_index = 0, fs_total_rows = 0\<rparr>"

definition flare_schema :: "arrow_api \<Rightarrow> record_batch \<Rightarrow> flare_state \<Rightarrow> chan \<Rightarrow> flare_state flow" where
  "flare_schema arrow batch st ch =
     (if fs_schema_sent st then Go st ch
      else case schema_to_ipc_bytes arrow (rb_schema batch) of
        Inl e \<Rightarrow> fail_stream (''Arrow schema serialization error: '' @ e) ch
      | Inr bytes \<Rightarrow>
          bind_flow (send_or_stop (Inr (Schema bytes (flare_columns (rb_schema batch)) None)) ch)
            (\<lambda>_. Go (st\<lparr>fs_schema_sent := True\<rparr>)))"

definition flare_batch :: "arrow_api \<Rightarrow> record_batch \<Rightarrow> flare_state \<Rightarrow> chan \<Rightarrow> flare_state flow" where
  "flare_batch arrow batch st ch =
     (case batch_to_ipc_bytes arrow batch of
        Inl e \<Rightarrow> fail_stream (''Arrow IPC serialization error: '' @ e) ch
      | Inr bytes \<Rightarrow>
          bind_flow (send_or_stop (Inr (Batch bytes (fs_chunk_index st))) ch)
            (\<lambda>_. Go (st\<lparr>fs_chunk_index := fs_chunk_index st + 1,
                       fs_total_rows := fs_total_rows st + of_nat (rb_num_rows batch)\<rparr>)))"

fun flare_items :: "arrow_api \<Rightarrow> flight_item list \<Rightarrow> flare_state \<Rightarrow> chan \<Rightarrow> flare_state flow" where
  "flare_items arrow [] st ch = Go st ch"
| "flare_items arrow (FlightBatch batch # items) st ch =
     bind_flow (flare_schema arrow batch st ch) (\<lambda>st1 ch1.
     bind_flow (flare_batch arrow batch st1 ch1) (flare_items arrow items))"
| "flare_items arrow (FlightError e # items) st ch = fail_stream (''FlareDB stream error: '' @ e) ch"
| "flare_items arrow (FlightSilent # items) st ch = OutOfFuel ch"

fun flare_endpoints ::
  "arrow_api \<Rightarrow> flight_api \<Rightarrow> string option list \<Rightarrow> flare_state \<Rightarrow> chan \<Rightarrow> flare_state flow" where
  "flare_endpoints arrow fl [] st ch = Go st ch"
| "flare_endpoints arrow fl (None # endpoints) st ch = flare_endpoints arrow fl endpoints st ch"
| "flare_endpoints arrow fl (Some ticket # endpoints) st ch =
     (case within DATASOURCE_TIMEOUT_QUERY (fl_do_get fl ticket) of
        None \<Rightarrow> fail_stream ''FlareDB do_get timed out after 120s'' ch
      | Some (Inl e) \<Rightarrow> fail_stream (''FlareDB do_get failed: '' @ e) ch
      | Some (Inr items) \<Rightarrow>
          bind_flow (flare_items arrow items st ch) (flare_endpoints arrow fl endpoints))"

text \<open>A result without batches gets an empty schema.\<close>

definition flare_finish :: "arrow_api \<Rightarrow> i64 \<Rightarrow> flare_state \<Rightarrow> chan \<Rightarrow> unit flow" where
  "flare_finish arrow elapsed st ch =
     bind_flow
       (if fs_schema_sent st then Go () ch
        else case schema_to_ipc_bytes arrow [] of
          Inl e \<Rightarrow> fail_stream (''Arrow schema serialization error: '' @ e) ch
        | Inr bytes \<Rightarrow> send_quiet (Inr (Schema bytes [] None)) ch)
       (\<lambda>_. emit_complete elapsed (fs_chunk_index st) (fs_total_rows st))"

text \<open>The statement is sent as it is: no pagination, and limit and offset are not used.\<close>

definition flaredb_stream_arrow ::
  "arrow_api \<Rightarrow> flight_api \<Rightarrow> i64 \<Rightarrow> string \<Rightarrow> u32 option \<Rightarrow> u32 option \<Rightarrow> bool \<Rightarrow> u32 option
   \<Rightarrow> chan \<Rightarrow> unit flow" where
  "flaredb_stream_arrow arrow fl elapsed sql limit offset include_total chunk_size ch =
     (case within DATASOURCE_TIMEOUT_QUERY (fl_execute fl sql) of
        None \<Rightarrow> fail_stream ''FlareDB query timed out after 120s'' ch
      | Some (Inl e) \<Rightarrow> fail_stream (''FlareDB execute failed: '' @ e) ch
      | Some (Inr endpoints) \<Rightarrow>
          bind_flow (flare_endpoints arrow fl endpoints flare_start ch) (flare_finish arrow elapsed))"

section \<open>Dry run and listings\<close>

definition flare_dry_run :: "flight_api \<Rightarrow> string \<Rightarrow> dry_run_result result" where
  "flare_dry_run fl sql =
     Inr (case within DATASOURCE_TIMEOUT_DRY_RUN (fl_execute fl (''EXPLAIN '' @ sql)) of
        None \<Rightarrow> dry_run_failure ''FlareDB dry run timed out after 30s'' None None
      | Some (Inl e) \<Rightarrow> dry_run_failure (''FlareDB dry run failed: '' @ e) None None
      | Some (Inr _) \<Rightarrow> dry_run_success ''Query valid'')"

definition flare_list_databases :: discovery_result where
  "flare_list_databases = \<lparr>di_items = [''default''], di_error = None\<rparr>"

definition flare_list_schemas :: "flight_api \<Rightarrow> i64 \<Rightarrow> discovery_result option" where
  "flare_list_schemas fl elapsed =
     list_names ''FlareDB schemas''
       (flare_execute_query fl elapsed
         (''SELECT DISTINCT table_schema FROM information_schema.tables ORDER BY table_schema'') None None)"

section \<open>Protocol safety\<close>

definition flare_inv :: "flare_state \<Rightarrow> chan \<Rightarrow> bool" where
  "flare_inv st ch \<longleftrightarrow>
     (if fs_schema_sent st then at_open (fs_chunk_index st) ch
      else at_phase Init ch \<and> fs_chunk_index st = 0)"

lemma flare_inv_fail: "flare_inv st ch \<Longrightarrow> flow_ok Q (fail_stream msg ch)"
  by (auto simp: flare_inv_def split: if_splits intro: fail_init_ok fail_open_ok)

lemma send_schema_ok:
  assumes "at_phase Init ch"
  shows "flow_ok (\<lambda>_. at_open 0) (send_or_stop (Inr (Schema bytes cols tot)) ch)"
    and "flow_ok (\<lambda>_. at_open 0) (send_quiet (Inr (Schema bytes cols tot)) ch)"
proof -
  have "at_phase (Open 0) ch \<Longrightarrow> at_open 0 ch" for ch by (auto simp: at_open_def intro: exI [of _ 0])
  then show "flow_ok (\<lambda>_. at_open 0) (send_or_stop (Inr (Schema bytes cols tot)) ch)"
    "flow_ok (\<lambda>_. at_open 0) (send_quiet (Inr (Schema bytes cols tot)) ch)"
    using send_or_stop_ok [OF assms, of "Inr (Schema bytes cols tot)" "Open 0"]
      chan_send_phase(1) [OF assms, of "Inr (Schema bytes cols tot)" "Open 0"]
    by (auto simp: send_quiet_def elim: flow_ok_mono) (metis prod.collapse)
qed

lemma flare_schema_ok:
  assumes "flare_inv st ch"
  shows "flow_ok (\<lambda>st ch. fs_schema_sent st \<and> flare_inv st ch) (flare_schema arrow b st ch)"
  using assms
  by (auto simp: flare_schema_def flare_inv_def split: sum.split
      intro!: flow_ok_bind [OF send_schema_ok(1)] fail_init_ok)

lemma flare_batch_ok:
  assumes "fs_schema_sent st" "flare_inv st ch"
  shows "flow_ok flare_inv (flare_batch arrow b st ch)"
proof (cases "batch_to_ipc_bytes arrow b")
  case (Inr bytes)
  obtain k where k: "at_phase (Open k) ch" "fs_chunk_index st = of_nat k"
    using assms by (auto simp: flare_inv_def at_open_def)
  then have "flow_ok (\<lambda>_. at_phase (Open (Suc k))) (send_or_stop (Inr (Batch bytes (fs_chunk_index st))) ch)"
    using send_or_stop_ok [OF k(1), of "Inr (Batch bytes (fs_chunk_index st))" "Open (Suc k)"] by simp
  then show ?thesis
    using Inr assms(1) k(2)
    by (auto simp: flare_batch_def flare_inv_def at_open_def intro!: flow_ok_bind exI [of _ "Suc k"])
qed (use assms in \<open>auto simp: flare_batch_def intro: flare_inv_fail\<close>)

lemma flare_items_ok: "flare_inv st ch \<Longrightarrow> flow_ok flare_inv (flare_items arrow items st ch)"
proof (induction arrow items st ch rule: flare_items.induct)
  case (2 arrow batch items st ch)
  show ?case
    unfolding flare_items.simps
    by (rule flow_ok_bind [OF flare_schema_ok [OF 2(2)]], rule flow_ok_bind [OF flare_batch_ok])
       (auto intro: 2(1))
next
  case (4 arrow items st ch)
  then show ?case by (auto simp: flare_inv_def split: if_splits intro: at_open_ordered at_phase_ordered)
qed (auto intro: flare_inv_fail)

lemma flare_endpoints_ok: "flare_inv st ch \<Longrightarrow> flow_ok flare_inv (flare_endpoints arrow fl eps st ch)"
proof (induction arrow fl eps st ch rule: flare_endpoints.induct)
  case (3 arrow fl ticket endpoints st ch)
  then show ?case
    by (auto split: option.split sum.split intro: flare_inv_fail intro!: flow_ok_bind [OF flare_items_ok])
qed auto

lemma flaredb_stream_ok:
  assumes "at_phase Init ch"
  shows "flow_ok (\<lambda>_. at_phase Closed)
    (flaredb_stream_arrow arrow fl elapsed sql limit offset tot n ch)"
proof -
  have start: "flare_inv flare_start ch" using assms by (simp add: flare_inv_def flare_start_def)
  have finish: "flow_ok (\<lambda>_. at_phase Closed) (flare_finish arrow elapsed st ch)" if "flare_inv st ch" for st ch
    unfolding flare_finish_def
    by (rule flow_ok_bind [of "\<lambda>_. at_open (fs_chunk_index st)"])
       (use that in \<open>auto simp: flare_inv_def split: sum.split intro: fail_init_ok send_schema_ok(2) emit_complete_ok\<close>)
  show ?thesis
    by (auto simp: flaredb_stream_arrow_def split: option.split sum.split
        intro: fail_init_ok [OF assms] intro!: flow_ok_bind [OF flare_endpoints_ok [OF start]] finish)
qed

section \<open>The stream delivers the result\<close>

text \<open>The events of the batches \<open>bs\<close>, numbered from \<open>k\<close>.\<close>

fun flight_events :: "arrow_api \<Rightarrow> nat \<Rightarrow> record_batch list \<Rightarrow> message list" where
  "flight_events arrow k [] = []"
| "flight_events arrow k (b # bs) =
     Inr (Batch (case batch_to_ipc_bytes arrow b of Inr bytes \<Rightarrow> bytes | Inl _ \<Rightarrow> []) (of_nat k))
       # flight_events arrow (Suc k) bs"

lemma flight_events_append:
  "flight_events arrow k (xs @ ys) = flight_events arrow k xs @ flight_events arrow (k + length xs) ys"
  by (induction xs arbitrary: k) simp_all

definition flight_schema_event :: "arrow_api \<Rightarrow> schema \<Rightarrow> message" where
  "flight_schema_event arrow s =
     Inr (Schema (case schema_to_ipc_bytes arrow s of Inr bytes \<Rightarrow> bytes | Inl _ \<Rightarrow> []) (flare_columns s) None)"

text \<open>Where the stream is after the batches \<open>bs\<close>: what was sent, and the counters.\<close>

definition flare_sent :: "arrow_api \<Rightarrow> record_batch list \<Rightarrow> message list" where
  "flare_sent arrow bs =
     (case bs of [] \<Rightarrow> [] | b # _ \<Rightarrow> [flight_schema_event arrow (rb_schema b)]) @ flight_events arrow 0 bs"

definition flare_at :: "record_batch list \<Rightarrow> flare_state" where
  "flare_at bs = \<lparr>fs_schema_sent = (bs \<noteq> []), fs_chunk_index = of_nat (length bs),
     fs_total_rows = of_nat (sum_list (map rb_num_rows bs))\<rparr>"

lemma flare_step:
  assumes "ipc_law arrow"
  shows "bind_flow (flare_schema arrow b (flare_at bs) (reader (flare_sent arrow bs))) (flare_batch arrow b)
    = Go (flare_at (bs @ [b])) (reader (flare_sent arrow (bs @ [b])))"
proof -
  obtain s where s: "schema_to_ipc_bytes arrow (rb_schema b) = Inr s"
    using assms unfolding ipc_law_def schema_to_ipc_bytes_def by blast
  obtain d where d: "batch_to_ipc_bytes arrow b = Inr d"
    using assms unfolding ipc_law_def batch_to_ipc_bytes_def by blast
  show ?thesis
    by (cases bs) (simp_all add: flare_schema_def flare_batch_def flare_sent_def flare_at_def s d
        flight_schema_event_def flight_events_append add.commute)
qed

lemma bind_flow_assoc:
  "bind_flow m (\<lambda>a ch. bind_flow (f a ch) g) = bind_flow (bind_flow m f) g"
  by (cases m) simp_all

lemma flare_items_stream:
  assumes "ipc_law arrow"
  shows "flare_items arrow (map FlightBatch bs) (flare_at old) (reader (flare_sent arrow old))
    = Go (flare_at (old @ bs)) (reader (flare_sent arrow (old @ bs)))"
proof (induction bs arbitrary: old)
  case (Cons b bs)
  show ?case using Cons.IH [of "old @ [b]"] by (simp add: bind_flow_assoc flare_step [OF assms])
qed simp

text \<open>A ticket that gives the batches \<open>bs\<close>, in time.\<close>

definition ticket_gives :: "flight_api \<Rightarrow> string \<Rightarrow> record_batch list \<Rightarrow> bool" where
  "ticket_gives fl ticket bs \<longleftrightarrow>
     within DATASOURCE_TIMEOUT_QUERY (fl_do_get fl ticket) = Some (Inr (map FlightBatch bs))"

fun endpoints_give :: "flight_api \<Rightarrow> string option list \<Rightarrow> record_batch list \<Rightarrow> bool" where
  "endpoints_give fl [] bs \<longleftrightarrow> bs = []"
| "endpoints_give fl (None # endpoints) bs \<longleftrightarrow> endpoints_give fl endpoints bs"
| "endpoints_give fl (Some ticket # endpoints) bs \<longleftrightarrow>
     (\<exists>xs ys. bs = xs @ ys \<and> ticket_gives fl ticket xs \<and> endpoints_give fl endpoints ys)"

lemma flare_endpoints_stream:
  assumes "ipc_law arrow" "endpoints_give fl endpoints bs"
  shows "flare_endpoints arrow fl endpoints (flare_at old) (reader (flare_sent arrow old))
    = Go (flare_at (old @ bs)) (reader (flare_sent arrow (old @ bs)))"
  using assms(2)
proof (induction endpoints arbitrary: bs old)
  case (Cons e endpoints)
  then show ?case
    by (cases e) (auto simp: ticket_gives_def flare_items_stream [OF assms(1)])
qed simp

lemma collect_batches [simp]: "collect_items (map FlightBatch bs) = Some (Inr bs)"
  by (induction bs) simp_all

lemma flare_fetch_batches:
  "endpoints_give fl endpoints bs \<Longrightarrow> flare_fetch fl endpoints = Some (Inr bs)"
proof (induction endpoints arbitrary: bs)
  case (Cons e endpoints)
  then show ?case by (cases e) (auto simp: ticket_gives_def)
qed simp

text \<open>
  C16. A FlareDB stream is the result: when the endpoints of a statement give the batches \<open>bs\<close>,
  in the order of the endpoints and of each endpoint's stream, the stream is the schema of the
  first batch, then every batch in that order with its number, then the number of batches and of
  rows; without any batch, an empty schema and Complete. The buffered query collects the same
  batches.
\<close>

theorem flaredb_delivers_all:
  assumes "ipc_law arrow"
    and "within DATASOURCE_TIMEOUT_QUERY (fl_execute fl sql) = Some (Inr endpoints)"
    and "endpoints_give fl endpoints bs"
  shows "flaredb_stream_arrow arrow fl elapsed sql limit offset tot n (reader [])
      = Go () (reader (flight_schema_event arrow (case bs of [] \<Rightarrow> [] | b # _ \<Rightarrow> rb_schema b)
          # flight_events arrow 0 bs @ [Inr (Complete (Some elapsed) None (of_nat (length bs))
              (of_nat (sum_list (map rb_num_rows bs))))])) \<and>
    flare_fetch fl endpoints = Some (Inr bs)"
proof
  obtain s where s: "schema_to_ipc_bytes arrow [] = Inr s"
    using assms(1) unfolding ipc_law_def schema_to_ipc_bytes_def by blast
  have start: "flare_at [] = flare_start" "flare_sent arrow [] = []"
    by (simp_all add: flare_start_def flare_at_def flare_sent_def)
  note run = flare_endpoints_stream [OF assms(1,3), of "[]", unfolded start append_Nil]
  show "flaredb_stream_arrow arrow fl elapsed sql limit offset tot n (reader [])
      = Go () (reader (flight_schema_event arrow (case bs of [] \<Rightarrow> [] | b # _ \<Rightarrow> rb_schema b)
          # flight_events arrow 0 bs @ [Inr (Complete (Some elapsed) None (of_nat (length bs))
              (of_nat (sum_list (map rb_num_rows bs))))]))"
    by (cases bs) (simp_all add: flaredb_stream_arrow_def assms(2) run flare_finish_def flare_at_def
        flare_sent_def flight_schema_event_def flare_columns_def s emit_complete_def)
  show "flare_fetch fl endpoints = Some (Inr bs)" by (rule flare_fetch_batches [OF assms(3)])
qed

definition demo_flight_batch :: "string \<Rightarrow> record_batch" where
  "demo_flight_batch v = \<lparr>rb_schema = [(''n'', DtUtf8)],
     rb_columns = [\<lparr>arr_type = DtUtf8, arr_vals = [Some (CStr v)]\<rparr>], rb_num_rows = 1\<rparr>"

definition demo_flight :: flight_api where
  "demo_flight = \<lparr>fl_execute = (\<lambda>_. Some (Inr [Some ''t1'', None, Some ''t2''], 5)),
     fl_do_get = (\<lambda>t. Some (Inr [FlightBatch (demo_flight_batch t)], 5)),
     fl_concat = (\<lambda>s bs. Inl ''mismatch'')\<rparr>"

theorem flaredb_delivers_all_witness:
  "flaredb_stream_arrow demo_arrow demo_flight 7 ''SELECT 1'' None None False None (reader [])
     = Go () (reader (flight_schema_event demo_arrow [(''n'', DtUtf8)]
         # flight_events demo_arrow 0 [demo_flight_batch ''t1'', demo_flight_batch ''t2'']
         @ [Inr (Complete (Some 7) None 2 2)]))"
proof -
  have gives: "ticket_gives demo_flight t [demo_flight_batch t]" for t
    by (simp add: demo_flight_def ticket_gives_def within_def DATASOURCE_TIMEOUT_QUERY_def)
  have "endpoints_give demo_flight [Some ''t1'', None, Some ''t2'']
      ([demo_flight_batch ''t1''] @ [demo_flight_batch ''t2''] @ [])"
    unfolding endpoints_give.simps using gives by blast
  moreover have "within DATASOURCE_TIMEOUT_QUERY (fl_execute demo_flight ''SELECT 1'')
      = Some (Inr [Some ''t1'', None, Some ''t2''])"
    by (simp add: demo_flight_def within_def DATASOURCE_TIMEOUT_QUERY_def)
  ultimately show ?thesis
    using flaredb_delivers_all [OF demo_ipc_law, of demo_flight "''SELECT 1''"]
    by (auto simp: demo_flight_batch_def simp del: endpoints_give.simps flight_events.simps)
qed

end
