(* ===== verification/Connection.thy ===== *)
theory Connection
  imports Executor Clickhouse Snowflake Bigquery Flaredb Credentials Ssh_Tunnel
begin

text \<open>
  From configuration to a connected provider: the SSL modes, the connection options each provider
  builds from its JSON configuration and credentials (the \<open>new\<close> functions of the providers), the
  SSH tunnel in front of them on Unix, and the factory that picks the provider (factory.rs). Opening
  the connection itself is a parameter.
\<close>

section \<open>SSL modes\<close>

datatype pg_ssl_mode = PgDisable | PgPrefer | PgRequire | PgVerifyCa | PgVerifyFull

datatype mysql_ssl_mode = MyDisabled | MyPreferred | MyRequired | MyVerifyCa | MyVerifyIdentity

definition parse_pg_ssl_mode :: "string \<Rightarrow> pg_ssl_mode" where
  "parse_pg_ssl_mode mode =
     (if mode = ''disable'' then PgDisable
      else if mode = ''prefer'' then PgPrefer
      else if mode = ''require'' then PgRequire
      else if mode = ''verify-ca'' then PgVerifyCa
      else if mode = ''verify-full'' then PgVerifyFull
      else PgRequire)"

definition parse_redshift_ssl_mode :: "string \<Rightarrow> pg_ssl_mode" where
  "parse_redshift_ssl_mode mode =
     (if mode = ''disable'' then PgDisable
      else if mode = ''require'' then PgRequire
      else if mode = ''verify-ca'' then PgVerifyCa
      else if mode = ''verify-full'' then PgVerifyFull
      else PgVerifyCa)"

definition parse_mysql_ssl_mode :: "string \<Rightarrow> mysql_ssl_mode" where
  "parse_mysql_ssl_mode mode =
     (if mode = ''disable'' then MyDisabled
      else if mode = ''preferred'' then MyPreferred
      else if mode = ''require'' then MyRequired
      else if mode = ''verify-ca'' then MyVerifyCa
      else if mode = ''verify-full'' then MyVerifyIdentity
      else MyRequired)"

section \<open>Tunnels\<close>

text \<open>What opening a tunnel needs of the host, beside the SSH library.\<close>

record 'k host_api =
  ho_ssh :: "'k ssh_api"
  ho_mkdir :: "string \<Rightarrow> string option"
  ho_bind_unix :: "string \<Rightarrow> string option"
  ho_uuid :: string
  ho_temp_dir :: string
  ho_bind_proxy :: "string + u16"

definition tcp_tunnel :: "'k host_api \<Rightarrow> json \<Rightarrow> string \<Rightarrow> u16 \<Rightarrow> ssh_tunnel option result" where
  "tcp_tunnel ho config host port =
     (case from_connection_config config of
        None \<Rightarrow> Inr None
      | Some (Inl e) \<Rightarrow> Inl e
      | Some (Inr cfg) \<Rightarrow>
          (case ssh_connect (ho_ssh ho) cfg host port of Inl e \<Rightarrow> Inl e | Inr tn \<Rightarrow> Inr (Some tn)))"

definition unix_tunnel :: "'k host_api \<Rightarrow> json \<Rightarrow> string \<Rightarrow> u16 \<Rightarrow> ssh_tunnel option result" where
  "unix_tunnel ho config host port =
     (case tcp_tunnel ho config host port of
        Inr (Some tn) \<Rightarrow>
          (case bind_unix_socket (ho_mkdir ho) (ho_bind_unix ho) (ho_uuid ho) (ho_temp_dir ho) port tn of
             Inl e \<Rightarrow> Inl e
           | Inr (_, tn') \<Rightarrow> Inr (Some tn'))
      | r \<Rightarrow> r)"

section \<open>PostgreSQL and Redshift\<close>

record pg_options =
  po_host :: string
  po_port :: u16
  po_database :: string
  po_username :: string
  po_password :: string
  po_ssl_mode :: pg_ssl_mode
  po_socket :: "string option"
  po_ssl_root_cert :: "string option"

definition configure_pg_tunnel :: "pg_options \<Rightarrow> ssh_tunnel option \<Rightarrow> string \<Rightarrow> pg_options result" where
  "configure_pg_tunnel options tunnel label =
     (case tunnel of
        None \<Rightarrow> Inr options
      | Some tn \<Rightarrow>
          (case tn_unix_socket tn of
             None \<Rightarrow> Inl (Internal (label @ '' SSH tunnel socket is unavailable''))
           | Some socket \<Rightarrow> Inr (options\<lparr>po_socket := Some (ur_dir socket)\<rparr>)))"

definition postgres_options :: "'k host_api \<Rightarrow> json \<Rightarrow> json \<Rightarrow> pg_options result" where
  "postgres_options ho config credentials =
     (let host = get_str_or ''localhost'' config ''host''; port = get_port 5432 config ''port'' in
      case get_str credentials ''username'' of
        None \<Rightarrow> Inl (Provider ''PostgreSQL requires a username'')
      | Some username \<Rightarrow>
     (case unix_tunnel ho config host port of
        Inl e \<Rightarrow> Inl e
      | Inr tunnel \<Rightarrow>
          configure_pg_tunnel
            \<lparr>po_host = host, po_port = port, po_database = get_str_or ''postgres'' config ''database'',
             po_username = username, po_password = get_str_or_empty credentials ''password'',
             po_ssl_mode = parse_pg_ssl_mode (get_str_or ''require'' config ''ssl_mode''),
             po_socket = None, po_ssl_root_cert = get_str config ''ssl_ca''\<rparr>
            tunnel ''PostgreSQL''))"

text \<open>\<open>connect\<close> opens the pool; \<^const>\<open>None\<close> is its time-out of 30 s.\<close>

definition postgres_new ::
  "(pg_options \<Rightarrow> (string + 'p) option) \<Rightarrow> 'k host_api \<Rightarrow> json \<Rightarrow> json \<Rightarrow> 'p result" where
  "postgres_new connect ho config credentials =
     (case postgres_options ho config credentials of
        Inl e \<Rightarrow> Inl e
      | Inr options \<Rightarrow>
          (case connect options of
             None \<Rightarrow> Inl (Internal ''PostgreSQL connection timed out after 30s'')
           | Some (Inl e) \<Rightarrow> Inl (Internal (''PostgreSQL connection failed: '' @ e))
           | Some (Inr pool) \<Rightarrow> Inr pool))"

text \<open>\<^const>\<open>None\<close>: the reply of the credential service never ends.\<close>

definition redshift_options ::
  "aws_api \<Rightarrow> 'k host_api \<Rightarrow> json \<Rightarrow> json \<Rightarrow> nat \<Rightarrow> pg_options result option" where
  "redshift_options aw ho config credentials now =
     (case get_str config ''host'' of
        None \<Rightarrow> Some (Inl (Provider ''Redshift host is required''))
      | Some host \<Rightarrow>
     (let port = get_port 5439 config ''port'' in
      case get_str config ''database'' of
        None \<Rightarrow> Some (Inl (Provider ''Redshift database is required''))
      | Some database \<Rightarrow>
     map_option (\<lambda>r. case r of
        Inl e \<Rightarrow> Inl e
      | Inr (username, password) \<Rightarrow>
     (case unix_tunnel ho config host port of
        Inl e \<Rightarrow> Inl e
      | Inr tunnel \<Rightarrow>
          configure_pg_tunnel
            \<lparr>po_host = host, po_port = port, po_database = database, po_username = username,
             po_password = password,
             po_ssl_mode = parse_redshift_ssl_mode
               (if_some (Option.bind (if_some (json_get config ''sslmode'') Some (json_get config ''ssl_mode'')) as_str)
                 (\<lambda>s. s) ''verify-ca''),
             po_socket = None, po_ssl_root_cert = get_str config ''ssl_ca''\<rparr>
            tunnel ''Redshift''))
       (if get_bool credentials ''iam'' = Some True then resolve_iam_credentials aw credentials database now
        else Some (resolve_standard_credentials credentials))))"

definition redshift_new ::
  "(pg_options \<Rightarrow> (string + 'p) option) \<Rightarrow> aws_api \<Rightarrow> 'k host_api \<Rightarrow> json \<Rightarrow> json \<Rightarrow> nat \<Rightarrow> 'p result option" where
  "redshift_new connect aw ho config credentials now =
     map_option (\<lambda>r. case r of
        Inl e \<Rightarrow> Inl e
      | Inr options \<Rightarrow>
          (case connect options of
             None \<Rightarrow> Inl (Internal ''Redshift connection timed out after 30s'')
           | Some (Inl e) \<Rightarrow> Inl (Internal (''Redshift connection failed: '' @ e))
           | Some (Inr pool) \<Rightarrow> Inr pool))
     (redshift_options aw ho config credentials now)"

section \<open>MySQL\<close>

record mysql_options =
  mo_host :: string
  mo_port :: u16
  mo_database :: string
  mo_username :: string
  mo_password :: string
  mo_charset :: string
  mo_ssl_mode :: mysql_ssl_mode
  mo_socket :: "string option"
  mo_ssl_ca_pem :: "string option"

definition configure_mysql_tunnel :: "mysql_options \<Rightarrow> ssh_tunnel option \<Rightarrow> mysql_options result" where
  "configure_mysql_tunnel options tunnel =
     (case tunnel of
        None \<Rightarrow> Inr options
      | Some tn \<Rightarrow>
          (case tn_unix_socket tn of
             None \<Rightarrow> Inl (Internal ''MySQL SSH tunnel socket is unavailable'')
           | Some socket \<Rightarrow> Inr (options\<lparr>mo_socket := Some (ur_path socket)\<rparr>)))"

definition mysql_connect_options :: "'k host_api \<Rightarrow> json \<Rightarrow> json \<Rightarrow> mysql_options result" where
  "mysql_connect_options ho config credentials =
     (let host = get_str_or ''localhost'' config ''host''; port = get_port 3306 config ''port'';
          ssl_mode = parse_mysql_ssl_mode (get_str_or ''require'' config ''ssl_mode'') in
      case get_str credentials ''username'' of
        None \<Rightarrow> Inl (Provider ''MySQL requires a username'')
      | Some username \<Rightarrow>
     (case unix_tunnel ho config host port of
        Inl e \<Rightarrow> Inl e
      | Inr tunnel \<Rightarrow>
          configure_mysql_tunnel
            \<lparr>mo_host = host, mo_port = port, mo_database = get_str_or_empty config ''database'',
             mo_username = username, mo_password = get_str_or_empty credentials ''password'',
             mo_charset = ''utf8mb4'', mo_ssl_mode = ssl_mode, mo_socket = None,
             mo_ssl_ca_pem = (if ssl_mode \<in> {MyVerifyCa, MyVerifyIdentity} then get_str config ''ssl_ca'' else None)\<rparr>
            tunnel))"

definition mysql_new ::
  "(mysql_options \<Rightarrow> (string + 'p) option) \<Rightarrow> 'k host_api \<Rightarrow> json \<Rightarrow> json \<Rightarrow> 'p result" where
  "mysql_new connect ho config credentials =
     (case mysql_connect_options ho config credentials of
        Inl e \<Rightarrow> Inl e
      | Inr options \<Rightarrow>
          (case connect options of
             None \<Rightarrow> Inl (Internal ''MySQL connection timed out after 30s'')
           | Some (Inl e) \<Rightarrow> Inl (Internal (''MySQL connection failed: '' @ e))
           | Some (Inr pool) \<Rightarrow> Inr pool))"

section \<open>SQL Server and Azure Synapse\<close>

text \<open>
  \<open>td_encrypt\<close> is encryption level Required, its absence NotSupported; \<open>td_addr\<close> is the address the
  TCP socket is connected to, which is the tunnel's when there is one.
\<close>

record tds_config =
  td_host :: string
  td_port :: u16
  td_database :: string
  td_auth :: tds_auth
  td_encrypt :: bool
  td_trust_cert :: bool
  td_addr :: string

text \<open>The TDS library: the address of a host and port, the TCP connection, and the handshake.\<close>

record 'c tds_net =
  tt_get_addr :: "string \<Rightarrow> u16 \<Rightarrow> string"
  tt_tcp :: "string \<Rightarrow> (string + unit) option"
  tt_nodelay :: "string option"
  tt_handshake :: "tds_config \<Rightarrow> (string + 'c) option"

definition dial_address :: "'c tds_net \<Rightarrow> string \<Rightarrow> u16 \<Rightarrow> (string \<times> u16) option \<Rightarrow> string" where
  "dial_address net host port tunnel =
     (case tunnel of Some (h, p) \<Rightarrow> h @ '':'' @ show_word p | None \<Rightarrow> tt_get_addr net host port)"

definition tds_open :: "'c tds_net \<Rightarrow> string \<Rightarrow> tds_config \<Rightarrow> 'c result" where
  "tds_open net label config =
     (case tt_tcp net (td_addr config) of
        None \<Rightarrow> Inl (Internal (label @ '' TCP connection to '' @ td_addr config @ '' timed out after 30s''))
      | Some (Inl e) \<Rightarrow> Inl (Internal (label @ '' TCP connection to '' @ td_addr config @ '' failed: '' @ e))
      | Some (Inr _) \<Rightarrow>
     (case tt_nodelay net of
        Some e \<Rightarrow> Inl (Internal (''Failed to set TCP_NODELAY: '' @ e))
      | None \<Rightarrow>
     (case tt_handshake net config of
        None \<Rightarrow> Inl (Internal (label @ '' TDS handshake timed out after 30s''))
      | Some (Inl e) \<Rightarrow> Inl (Internal (label @ '' TDS connection failed: '' @ e))
      | Some (Inr client) \<Rightarrow> Inr client)))"

definition sqlserver_config :: "'c tds_net \<Rightarrow> 'k host_api \<Rightarrow> json \<Rightarrow> json \<Rightarrow> tds_config result" where
  "sqlserver_config net ho config credentials =
     (let host = get_str_or ''localhost'' config ''host''; port = get_port 1433 config ''port'' in
      case get_str credentials ''username'' of
        None \<Rightarrow> Inl (Provider ''SQL Server requires a username'')
      | Some username \<Rightarrow>
     (case tcp_tunnel ho config host port of
        Inl e \<Rightarrow> Inl e
      | Inr tunnel \<Rightarrow>
          Inr \<lparr>td_host = host, td_port = port, td_database = get_str_or ''master'' config ''database'',
            td_auth = SqlServerAuth username (get_str_or_empty credentials ''password''),
            td_encrypt = (get_bool config ''encrypt'' \<noteq> Some False),
            td_trust_cert = (get_bool config ''trust_server_certificate'' = Some True),
            td_addr = dial_address net host port (map_option local_addr tunnel)\<rparr>))"

definition sqlserver_new :: "'c tds_net \<Rightarrow> 'k host_api \<Rightarrow> json \<Rightarrow> json \<Rightarrow> 'c result" where
  "sqlserver_new net ho config credentials =
     (case sqlserver_config net ho config credentials of
        Inl e \<Rightarrow> Inl e
      | Inr tds \<Rightarrow> tds_open net ''SQL Server'' tds)"

definition synapse_auth ::
  "text_service \<Rightarrow> (string \<Rightarrow> string + json) \<Rightarrow> json \<Rightarrow> json \<Rightarrow> nat \<Rightarrow> tds_auth result option" where
  "synapse_auth sv parse config credentials now =
     (let auth_mode = get_str_or ''sql'' config ''auth_mode'' in
      if auth_mode = ''service_principal'' then get_service_principal_auth sv parse credentials now
      else if auth_mode \<in> {''oauth'', ''enterprise_oauth''} then Some (get_oauth_auth credentials)
      else Some (get_sql_auth credentials))"

definition synapse_config ::
  "'c tds_net \<Rightarrow> text_service \<Rightarrow> (string \<Rightarrow> string + json) \<Rightarrow> 'k host_api \<Rightarrow> json \<Rightarrow> json \<Rightarrow> nat
   \<Rightarrow> tds_config result option" where
  "synapse_config net sv parse ho config credentials now =
     (case get_str config ''server'' of
        None \<Rightarrow> Some (Inl (Provider ''Azure Synapse requires a server address''))
      | Some server \<Rightarrow>
     map_option (\<lambda>r. case r of
        Inl e \<Rightarrow> Inl e
      | Inr auth \<Rightarrow>
     (case tcp_tunnel ho config server 1433 of
        Inl e \<Rightarrow> Inl e
      | Inr tunnel \<Rightarrow>
          Inr \<lparr>td_host = server, td_port = 1433, td_database = get_str_or ''master'' config ''database'',
            td_auth = auth, td_encrypt = True,
            td_trust_cert = (get_bool config ''trust_server_certificate'' = Some True),
            td_addr = dial_address net server 1433 (map_option local_addr tunnel)\<rparr>))
       (synapse_auth sv parse config credentials now))"

definition synapse_new ::
  "'c tds_net \<Rightarrow> text_service \<Rightarrow> (string \<Rightarrow> string + json) \<Rightarrow> 'k host_api \<Rightarrow> json \<Rightarrow> json \<Rightarrow> nat
   \<Rightarrow> 'c result option" where
  "synapse_new net sv parse ho config credentials now =
     map_option (\<lambda>r. case r of
        Inl e \<Rightarrow> Inl e
      | Inr tds \<Rightarrow> tds_open net ''Azure Synapse'' tds)
     (synapse_config net sv parse ho config credentials now)"

section \<open>ClickHouse\<close>

text \<open>
  The HTTP library: which header values are valid, and the client that sends the two
  authentication headers, through the given proxy if there is one.
\<close>

record http_api =
  ha_valid_header :: "string \<Rightarrow> bool"
  ha_client :: "string \<Rightarrow> string \<Rightarrow> string option \<Rightarrow> string + http_server"

definition proxy_tunnel :: "'k host_api \<Rightarrow> json \<Rightarrow> string \<Rightarrow> u16 \<Rightarrow> ssh_tunnel option result" where
  "proxy_tunnel ho config host port =
     (case tcp_tunnel ho config host port of
        Inr (Some tn) \<Rightarrow>
          (case bind_http_proxy (ho_bind_proxy ho) tn of Inl e \<Rightarrow> Inl e | Inr (_, tn') \<Rightarrow> Inr (Some tn'))
      | r \<Rightarrow> r)"

definition clickhouse_base_url :: "json \<Rightarrow> string" where
  "clickhouse_base_url config =
     (if get_bool config ''secure'' = Some True then ''https'' else ''http'') @ ''://''
       @ get_str_or ''localhost'' config ''host'' @ '':'' @ show_word (get_port 8123 config ''port'')"

definition detect_utc :: "http_server \<Rightarrow> clickhouse_provider \<Rightarrow> bool option" where
  "detect_utc sv cp =
     (case sv_post sv (clickhouse_url sv cp None) ''SELECT timezone()'' of
        HttpOk r \<Rightarrow> if is_success r then map_option (\<lambda>body. str_trim body = ''UTC'') (hr_body r) else Some True
      | _ \<Rightarrow> Some True)"

definition clickhouse_new ::
  "http_api \<Rightarrow> 'k host_api \<Rightarrow> json \<Rightarrow> json \<Rightarrow> (clickhouse_provider \<times> http_server) result option" where
  "clickhouse_new ha ho config credentials =
     (let username = get_str_or ''default'' credentials ''username'';
          password = get_str_or_empty credentials ''password'' in
      case proxy_tunnel ho config (get_str_or ''localhost'' config ''host'') (get_port 8123 config ''port'') of
        Inl e \<Rightarrow> Some (Inl e)
      | Inr tunnel \<Rightarrow>
          if \<not> ha_valid_header ha username \<or> \<not> ha_valid_header ha password
          then Some (Inl (Internal ''Invalid ClickHouse authentication header''))
          else case (case tunnel of None \<Rightarrow> Inr None | Some tn \<Rightarrow>
                       (case http_proxy tn of Inl e \<Rightarrow> Inl e | Inr p \<Rightarrow> Inr (Some p))) of
              Inl e \<Rightarrow> Some (Inl e)
            | Inr proxy \<Rightarrow>
                (case ha_client ha username password proxy of
                   Inl e \<Rightarrow> Some (Inl (Internal (''Failed to build ClickHouse HTTP client: '' @ e)))
                 | Inr sv \<Rightarrow>
                     (let cp = \<lparr>cp_base_url = clickhouse_base_url config,
                            cp_database = get_str_or ''default'' config ''database'', cp_server_tz_is_utc = True\<rparr> in
                      map_option (\<lambda>utc. Inr (cp\<lparr>cp_server_tz_is_utc := utc\<rparr>, sv)) (detect_utc sv cp))))"

section \<open>The factory\<close>

text \<open>Everything outside the sources that building a provider needs.\<close>

record ('k, 'p, 'm, 'c, 'r) world =
  wo_host :: "'k host_api"
  wo_pg :: "pg_options \<Rightarrow> (string + 'p) option"
  wo_mysql :: "mysql_options \<Rightarrow> (string + 'm) option"
  wo_tds :: "'c tds_net"
  wo_http :: http_api
  wo_flare :: "string \<Rightarrow> flight_api flight_channel"
  wo_aws :: aws_api
  wo_azure :: text_service
  wo_json :: "string \<Rightarrow> string + json"
  wo_rest :: rest_service
  wo_rsa :: "'r rsa_api"
  wo_jwt :: jwt_api
  wo_utc :: i64

datatype ('p, 'm, 'c) live_provider =
    ConnPostgres 'p | ConnMySql 'm | ConnRedshift 'p | ConnClickHouse clickhouse_provider http_server
  | ConnSnowflake snowflake_provider | ConnDatabricks databricks_provider | ConnSqlServer 'c
  | ConnSynapse 'c | ConnBigQuery bigquery_provider | ConnFlareDb flight_api

definition map_ok :: "('a \<Rightarrow> 'b) \<Rightarrow> 'a result \<Rightarrow> 'b result" where
  "map_ok f r = (case r of Inl e \<Rightarrow> Inl e | Inr a \<Rightarrow> Inr (f a))"

definition create_provider ::
  "('k, 'p, 'm, 'c, 'r) world \<Rightarrow> datasource_type \<Rightarrow> json \<Rightarrow> json \<Rightarrow> user_context option \<Rightarrow> nat
   \<Rightarrow> ('p, 'm, 'c) live_provider result option" where
  "create_provider wo ds config credentials0 ctx now =
     (let credentials = resolve_shared_credentials config credentials0; ho = wo_host wo in
      case ds of
        Postgres \<Rightarrow> Some (map_ok ConnPostgres (postgres_new (wo_pg wo) ho config credentials))
      | MySQL \<Rightarrow> Some (map_ok ConnMySql (mysql_new (wo_mysql wo) ho config credentials))
      | Redshift \<Rightarrow> map_option (map_ok ConnRedshift) (redshift_new (wo_pg wo) (wo_aws wo) ho config credentials now)
      | ClickHouse \<Rightarrow> map_option (map_ok (\<lambda>(cp, sv). ConnClickHouse cp sv)) (clickhouse_new (wo_http wo) ho config credentials)
      | Snowflake \<Rightarrow>
          map_option (map_ok ConnSnowflake) (snowflake_new (wo_rsa wo) (wo_rest wo) config credentials (wo_utc wo) now)
      | Databricks \<Rightarrow>
          map_option (\<lambda>(r, _). map_ok ConnDatabricks r) (databricks_new (wo_rest wo) config credentials now)
      | SqlServer \<Rightarrow> Some (map_ok ConnSqlServer (sqlserver_new (wo_tds wo) ho config credentials))
      | Synapse \<Rightarrow>
          map_option (map_ok ConnSynapse) (synapse_new (wo_tds wo) (wo_azure wo) (wo_json wo) ho config credentials now)
      | BigQuery \<Rightarrow>
          map_option (map_ok ConnBigQuery) (bigquery_new (wo_jwt wo) (wo_rest wo) config credentials ctx (wo_utc wo) now)
      | FlareDb \<Rightarrow> Some (map_ok ConnFlareDb (flare_new (wo_flare wo) config)))"

section \<open>Shared credentials reach every provider\<close>

lemma map_ok_simps [simp]: "map_ok f (Inl e) = Inl e" "map_ok f (Inr a) = Inr (f a)"
  by (simp_all add: map_ok_def)

text \<open>No tunnel is opened unless it is asked for.\<close>

lemma no_tunnel:
  assumes "get_bool config ''ssh_enabled'' \<noteq> Some True"
  shows "tcp_tunnel ho config host port = Inr None" "unix_tunnel ho config host port = Inr None"
    "proxy_tunnel ho config host port = Inr None"
  using assms by (simp_all add: tcp_tunnel_def unix_tunnel_def proxy_tunnel_def from_connection_config_def)

lemma no_pg_tunnel [simp]: "configure_pg_tunnel options None label = Inr options"
  by (simp add: configure_pg_tunnel_def)

lemma no_mysql_tunnel [simp]: "configure_mysql_tunnel options None = Inr options"
  by (simp add: configure_mysql_tunnel_def)

section \<open>A tunnel keeps the identity of the database\<close>

text \<open>
  The way the bytes take: directly, exactly when SSH is not enabled, or through a tunnel opened for
  this database with the SSH settings of the configuration.
\<close>

definition route :: "'k host_api \<Rightarrow> json \<Rightarrow> string \<Rightarrow> u16 \<Rightarrow> ssh_tunnel option \<Rightarrow> bool" where
  "route ho config host port tunnel \<longleftrightarrow>
     (case tunnel of
        None \<Rightarrow> get_bool config ''ssh_enabled'' \<noteq> Some True
      | Some tn \<Rightarrow> get_bool config ''ssh_enabled'' = Some True \<and> tn_target tn = (host, port) \<and>
          (\<exists>cfg. from_connection_config config = Some (Inr cfg) \<and> ssh_connect (ho_ssh ho) cfg host port = Inr tn))"

text \<open>
  A connection to \<open>host\<close> and \<open>port\<close> uses the endpoint \<open>used\<close>: \<open>direct\<close>, or the \<open>endpoint\<close> in front
  of the tunnel: a socket in a private directory, the local port, or a proxy bound to it.
\<close>

definition dials ::
  "'k host_api \<Rightarrow> json \<Rightarrow> string \<Rightarrow> u16 \<Rightarrow> 'a \<Rightarrow> (ssh_tunnel \<Rightarrow> 'a option) \<Rightarrow> 'a \<Rightarrow> bool" where
  "dials ho config host port direct endpoint used \<longleftrightarrow>
     (\<exists>tunnel. route ho config host port tunnel \<and>
        (case tunnel of None \<Rightarrow> used = direct | Some tn \<Rightarrow> endpoint tn = Some used))"

definition over_socket ::
  "'k host_api \<Rightarrow> u16 \<Rightarrow> (string \<Rightarrow> string \<Rightarrow> string) \<Rightarrow> ssh_tunnel \<Rightarrow> string option option" where
  "over_socket ho port part tn =
     (case create_socket_directory (ho_mkdir ho) (ho_uuid ho) (ho_temp_dir ho) port of
        Inl _ \<Rightarrow> None
      | Inr dir \<Rightarrow>
          (let path = path_join dir (''.s.PGSQL.'' @ show_word port) in
           if ho_bind_unix ho path = None then Some (Some (part dir path)) else None))"

definition over_port :: "ssh_tunnel \<Rightarrow> string option" where
  "over_port tn = Some (''127.0.0.1:'' @ show_word (tn_port tn))"

definition over_proxy :: "'k host_api \<Rightarrow> ssh_tunnel \<Rightarrow> string option option" where
  "over_proxy ho tn =
     (case ho_bind_proxy ho of
        Inl _ \<Rightarrow> None | Inr port \<Rightarrow> Some (Some (''http://127.0.0.1:'' @ show_word port)))"

text \<open>The names of the verification modes.\<close>

abbreviation pg_modes :: "(string \<times> pg_ssl_mode) list" where
  "pg_modes \<equiv> [(''disable'', PgDisable), (''prefer'', PgPrefer), (''require'', PgRequire),
     (''verify-ca'', PgVerifyCa), (''verify-full'', PgVerifyFull)]"

abbreviation redshift_modes :: "(string \<times> pg_ssl_mode) list" where
  "redshift_modes \<equiv> [(''disable'', PgDisable), (''require'', PgRequire), (''verify-ca'', PgVerifyCa),
     (''verify-full'', PgVerifyFull)]"

abbreviation mysql_modes :: "(string \<times> mysql_ssl_mode) list" where
  "mysql_modes \<equiv> [(''disable'', MyDisabled), (''preferred'', MyPreferred), (''require'', MyRequired),
     (''verify-ca'', MyVerifyCa), (''verify-full'', MyVerifyIdentity)]"

lemma ssl_modes:
  "if_some (map_of pg_modes mode) (\<lambda>m. m) PgRequire = parse_pg_ssl_mode mode"
  "if_some (map_of redshift_modes mode) (\<lambda>m. m) PgVerifyCa = parse_redshift_ssl_mode mode"
  "if_some (map_of mysql_modes mode) (\<lambda>m. m) MyRequired = parse_mysql_ssl_mode mode"
  by (simp_all add: parse_pg_ssl_mode_def parse_redshift_ssl_mode_def parse_mysql_ssl_mode_def)

lemma ssh_connect_endpoints:
  "ssh_connect api cfg host port = Inr tn \<Longrightarrow>
   tn_target tn = (host, port) \<and> tn_proxy_port tn = None \<and> tn_unix_socket tn = None"
  by (auto simp: ssh_connect_def Let_def split: sum.splits bool.splits)

lemma tcp_tunnel_route:
  assumes "tcp_tunnel ho config host port = Inr tunnel"
  shows "route ho config host port tunnel"
    "tunnel = Some tn \<Longrightarrow> tn_proxy_port tn = None \<and> tn_unix_socket tn = None"
proof -
  have "route ho config host port tunnel \<and>
    (\<forall>tn. tunnel = Some tn \<longrightarrow> tn_proxy_port tn = None \<and> tn_unix_socket tn = None)"
  proof (cases tunnel)
    case None
    then show ?thesis using assms
      by (auto simp: tcp_tunnel_def route_def from_connection_config_def split: option.splits sum.splits if_splits)
  next
    case (Some tn)
    then obtain cfg where cfg: "from_connection_config config = Some (Inr cfg)"
      "ssh_connect (ho_ssh ho) cfg host port = Inr tn"
      using assms by (auto simp: tcp_tunnel_def split: option.splits sum.splits)
    moreover have "get_bool config ''ssh_enabled'' = Some True"
      using cfg(1) by (simp add: from_connection_config_def split: if_splits)
    ultimately show ?thesis
      using ssh_connect_endpoints [OF cfg(2)] Some by (auto simp: route_def)
  qed
  then show "route ho config host port tunnel"
    "tunnel = Some tn \<Longrightarrow> tn_proxy_port tn = None \<and> tn_unix_socket tn = None" by auto
qed

text \<open>A tunnel with a socket, and one with a proxy, come from a plain one.\<close>

lemma unix_tunnel_cases:
  assumes "unix_tunnel ho config host port = Inr tunnel"
  obtains "tunnel = None" "route ho config host port None"
  | tn0 tn s where "tunnel = Some tn" "tn_unix_socket tn = Some s" "route ho config host port (Some tn0)"
      "over_socket ho port part tn0 = Some (Some (part (ur_dir s) (ur_path s)))"
proof (cases "tcp_tunnel ho config host port")
  case (Inr opened)
  note opened = tcp_tunnel_route [OF Inr]
  show thesis
  proof (cases opened)
    case None
    then show thesis using opened(1) assms Inr that(1) by (simp add: unix_tunnel_def)
  next
    case (Some tn0)
    then show thesis using opened assms Inr that(2) [of _ _ tn0]
      by (fastforce simp: unix_tunnel_def bind_unix_socket_def bind_new_socket_def over_socket_def socket_name_def Let_def
          simp del: append.simps split: sum.split_asm option.split_asm)
  qed
qed (use assms in \<open>simp add: unix_tunnel_def\<close>)

lemma proxy_tunnel_cases:
  assumes "proxy_tunnel ho config host port = Inr tunnel"
  obtains "tunnel = None" "route ho config host port None"
  | tn0 tn p where "tunnel = Some tn" "http_proxy tn = Inr p" "route ho config host port (Some tn0)"
      "over_proxy ho tn0 = Some (Some p)"
proof (cases "tcp_tunnel ho config host port")
  case (Inr opened)
  note opened = tcp_tunnel_route [OF Inr]
  show thesis
  proof (cases opened)
    case None
    then show thesis using opened(1) assms Inr that(1) by (simp add: proxy_tunnel_def)
  next
    case (Some tn0)
    then show thesis using opened assms Inr that(2) [of _ _ tn0]
      by (fastforce simp: proxy_tunnel_def bind_http_proxy_def over_proxy_def http_proxy_def
          split: sum.split_asm option.split_asm)
  qed
qed (use assms in \<open>simp add: proxy_tunnel_def\<close>)

lemma pg_tunnel_dials:
  assumes "unix_tunnel ho config host port = Inr tunnel" "configure_pg_tunnel options tunnel label = Inr pg"
    "po_socket options = None"
  shows "dials ho config host port None (over_socket ho port (\<lambda>dir path. dir)) (po_socket pg)"
    "po_host pg = po_host options \<and> po_port pg = po_port options \<and> po_ssl_mode pg = po_ssl_mode options \<and>
     po_ssl_root_cert pg = po_ssl_root_cert options"
proof -
  show "dials ho config host port None (over_socket ho port (\<lambda>dir path. dir)) (po_socket pg)"
    by (rule unix_tunnel_cases [OF assms(1), where part = "\<lambda>dir path. dir"])
       (use assms(2,3) in \<open>force simp: dials_def configure_pg_tunnel_def\<close>)+
qed (use assms(2) in \<open>auto simp: configure_pg_tunnel_def split: option.split_asm\<close>)

lemma mysql_tunnel_dials:
  assumes "unix_tunnel ho config host port = Inr tunnel" "configure_mysql_tunnel options tunnel = Inr my"
    "mo_socket options = None"
  shows "dials ho config host port None (over_socket ho port (\<lambda>dir path. path)) (mo_socket my)"
    "mo_host my = mo_host options \<and> mo_port my = mo_port options \<and> mo_ssl_mode my = mo_ssl_mode options \<and>
     mo_ssl_ca_pem my = mo_ssl_ca_pem options"
proof -
  show "dials ho config host port None (over_socket ho port (\<lambda>dir path. path)) (mo_socket my)"
    by (rule unix_tunnel_cases [OF assms(1), where part = "\<lambda>dir path. path"])
       (use assms(2,3) in \<open>force simp: dials_def configure_mysql_tunnel_def\<close>)+
qed (use assms(2) in \<open>auto simp: configure_mysql_tunnel_def split: option.split_asm\<close>)

lemma tcp_tunnel_dials:
  assumes "tcp_tunnel ho config host port = Inr tunnel"
  shows "dials ho config host port (tt_get_addr net host port) over_port
    (dial_address net host port (map_option local_addr tunnel))"
  using tcp_tunnel_route(1) [OF assms]
  by (auto simp: dials_def dial_address_def local_addr_def over_port_def split: option.split intro!: exI [of _ tunnel])

lemma postgres_identity:
  "postgres_options ho config credentials = Inr pg \<longrightarrow>
     po_host pg = get_str_or ''localhost'' config ''host'' \<and> po_port pg = get_port 5432 config ''port'' \<and>
     po_ssl_mode pg = parse_pg_ssl_mode (get_str_or ''require'' config ''ssl_mode'') \<and>
     po_ssl_root_cert pg = get_str config ''ssl_ca'' \<and>
     dials ho config (po_host pg) (po_port pg) None (over_socket ho (po_port pg) (\<lambda>dir path. dir))
       (po_socket pg)"
proof
  assume "postgres_options ho config credentials = Inr pg"
  then obtain username tunnel where opened: "unix_tunnel ho config (get_str_or ''localhost'' config ''host'')
      (get_port 5432 config ''port'') = Inr tunnel"
    and pg: "configure_pg_tunnel \<lparr>po_host = get_str_or ''localhost'' config ''host'', po_port = get_port 5432 config ''port'',
       po_database = get_str_or ''postgres'' config ''database'', po_username = username,
       po_password = get_str_or_empty credentials ''password'',
       po_ssl_mode = parse_pg_ssl_mode (get_str_or ''require'' config ''ssl_mode''), po_socket = None,
       po_ssl_root_cert = get_str config ''ssl_ca''\<rparr> tunnel ''PostgreSQL'' = Inr pg"
    by (auto simp: postgres_options_def Let_def split: option.split_asm sum.split_asm)
  note dials = pg_tunnel_dials [OF opened pg]
  show "po_host pg = get_str_or ''localhost'' config ''host'' \<and> po_port pg = get_port 5432 config ''port'' \<and>
     po_ssl_mode pg = parse_pg_ssl_mode (get_str_or ''require'' config ''ssl_mode'') \<and>
     po_ssl_root_cert pg = get_str config ''ssl_ca'' \<and>
     dials ho config (po_host pg) (po_port pg) None (over_socket ho (po_port pg) (\<lambda>dir path. dir))
       (po_socket pg)"
    using dials by simp
qed

lemma redshift_identity:
  "redshift_options aw ho config credentials now = Some (Inr rs) \<longrightarrow>
     get_str config ''host'' = Some (po_host rs) \<and> po_port rs = get_port 5439 config ''port'' \<and>
     po_ssl_mode rs = parse_redshift_ssl_mode
       (if_some (Option.bind (if_some (json_get config ''sslmode'') Some (json_get config ''ssl_mode'')) as_str)
          (\<lambda>s. s) ''verify-ca'') \<and>
     po_ssl_root_cert rs = get_str config ''ssl_ca'' \<and>
     dials ho config (po_host rs) (po_port rs) None (over_socket ho (po_port rs) (\<lambda>dir path. dir))
       (po_socket rs)"
proof
  assume "redshift_options aw ho config credentials now = Some (Inr rs)"
  then obtain host database username password tunnel where host: "get_str config ''host'' = Some host"
    and opened: "unix_tunnel ho config host (get_port 5439 config ''port'') = Inr tunnel"
    and rs: "configure_pg_tunnel \<lparr>po_host = host, po_port = get_port 5439 config ''port'', po_database = database,
       po_username = username, po_password = password, po_ssl_mode = parse_redshift_ssl_mode
         (if_some (Option.bind (if_some (json_get config ''sslmode'') Some (json_get config ''ssl_mode'')) as_str)
           (\<lambda>s. s) ''verify-ca''), po_socket = None, po_ssl_root_cert = get_str config ''ssl_ca''\<rparr> tunnel ''Redshift'' = Inr rs"
    by (fastforce simp: redshift_options_def Let_def map_option_case
        split: option.split_asm sum.split_asm prod.split_asm split del: if_split)
  note dials = pg_tunnel_dials [OF opened rs]
  show "get_str config ''host'' = Some (po_host rs) \<and> po_port rs = get_port 5439 config ''port'' \<and>
     po_ssl_mode rs = parse_redshift_ssl_mode
       (if_some (Option.bind (if_some (json_get config ''sslmode'') Some (json_get config ''ssl_mode'')) as_str)
          (\<lambda>s. s) ''verify-ca'') \<and>
     po_ssl_root_cert rs = get_str config ''ssl_ca'' \<and>
     dials ho config (po_host rs) (po_port rs) None (over_socket ho (po_port rs) (\<lambda>dir path. dir))
       (po_socket rs)"
    using dials host by simp
qed

lemma mysql_identity:
  "mysql_connect_options ho config credentials = Inr my \<longrightarrow>
     mo_host my = get_str_or ''localhost'' config ''host'' \<and> mo_port my = get_port 3306 config ''port'' \<and>
     mo_ssl_mode my = parse_mysql_ssl_mode (get_str_or ''require'' config ''ssl_mode'') \<and>
     mo_ssl_ca_pem my = (if mo_ssl_mode my \<in> {MyVerifyCa, MyVerifyIdentity} then get_str config ''ssl_ca'' else None) \<and>
     dials ho config (mo_host my) (mo_port my) None (over_socket ho (mo_port my) (\<lambda>dir path. path))
       (mo_socket my)"
proof
  let ?mode = "parse_mysql_ssl_mode (get_str_or ''require'' config ''ssl_mode'')"
  assume "mysql_connect_options ho config credentials = Inr my"
  then obtain username tunnel where opened: "unix_tunnel ho config (get_str_or ''localhost'' config ''host'')
      (get_port 3306 config ''port'') = Inr tunnel"
    and my: "configure_mysql_tunnel \<lparr>mo_host = get_str_or ''localhost'' config ''host'',
       mo_port = get_port 3306 config ''port'', mo_database = get_str_or_empty config ''database'',
       mo_username = username, mo_password = get_str_or_empty credentials ''password'', mo_charset = ''utf8mb4'',
       mo_ssl_mode = ?mode, mo_socket = None,
       mo_ssl_ca_pem = (if ?mode \<in> {MyVerifyCa, MyVerifyIdentity} then get_str config ''ssl_ca'' else None)\<rparr> tunnel = Inr my"
    by (auto simp: mysql_connect_options_def Let_def split: option.split_asm sum.split_asm split del: if_split)
  note dials = mysql_tunnel_dials [OF opened my]
  show "mo_host my = get_str_or ''localhost'' config ''host'' \<and> mo_port my = get_port 3306 config ''port'' \<and>
     mo_ssl_mode my = ?mode \<and>
     mo_ssl_ca_pem my = (if mo_ssl_mode my \<in> {MyVerifyCa, MyVerifyIdentity} then get_str config ''ssl_ca'' else None) \<and>
     dials ho config (mo_host my) (mo_port my) None (over_socket ho (mo_port my) (\<lambda>dir path. path))
       (mo_socket my)"
    using dials by simp
qed

lemma sqlserver_identity:
  "sqlserver_config net ho config credentials = Inr ms \<longrightarrow>
     td_host ms = get_str_or ''localhost'' config ''host'' \<and> td_port ms = get_port 1433 config ''port'' \<and>
     (td_encrypt ms \<longleftrightarrow> get_bool config ''encrypt'' \<noteq> Some False) \<and>
     (td_trust_cert ms \<longleftrightarrow> get_bool config ''trust_server_certificate'' = Some True) \<and>
     dials ho config (td_host ms) (td_port ms) (tt_get_addr net (td_host ms) (td_port ms))
       over_port (td_addr ms)"
proof
  assume config: "sqlserver_config net ho config credentials = Inr ms"
  then obtain tunnel where tunnel: "tcp_tunnel ho config (get_str_or ''localhost'' config ''host'')
      (get_port 1433 config ''port'') = Inr tunnel"
    by (auto simp: sqlserver_config_def Let_def split: option.split_asm sum.split_asm)
  show "td_host ms = get_str_or ''localhost'' config ''host'' \<and> td_port ms = get_port 1433 config ''port'' \<and>
     (td_encrypt ms \<longleftrightarrow> get_bool config ''encrypt'' \<noteq> Some False) \<and>
     (td_trust_cert ms \<longleftrightarrow> get_bool config ''trust_server_certificate'' = Some True) \<and>
     dials ho config (td_host ms) (td_port ms) (tt_get_addr net (td_host ms) (td_port ms))
       over_port (td_addr ms)"
    using config tunnel tcp_tunnel_dials [OF tunnel, of net]
    by (auto simp: sqlserver_config_def Let_def split: option.split_asm)
qed

lemma synapse_identity:
  "synapse_config net sv parse ho config credentials now = Some (Inr sy) \<longrightarrow>
     get_str config ''server'' = Some (td_host sy) \<and> td_port sy = 1433 \<and> td_encrypt sy \<and>
     (td_trust_cert sy \<longleftrightarrow> get_bool config ''trust_server_certificate'' = Some True) \<and>
     dials ho config (td_host sy) 1433 (tt_get_addr net (td_host sy) 1433)
       over_port (td_addr sy)"
proof
  assume config: "synapse_config net sv parse ho config credentials now = Some (Inr sy)"
  then obtain server tunnel where tunnel: "get_str config ''server'' = Some server" "tcp_tunnel ho config server 1433 = Inr tunnel"
    by (auto simp: synapse_config_def map_option_case split: option.split_asm sum.split_asm)
  show "get_str config ''server'' = Some (td_host sy) \<and> td_port sy = 1433 \<and> td_encrypt sy \<and>
     (td_trust_cert sy \<longleftrightarrow> get_bool config ''trust_server_certificate'' = Some True) \<and>
     dials ho config (td_host sy) 1433 (tt_get_addr net (td_host sy) 1433)
       over_port (td_addr sy)"
    using config tunnel tcp_tunnel_dials [OF tunnel(2), of net]
    by (auto simp: synapse_config_def map_option_case split: option.split_asm sum.split_asm)
qed

lemma clickhouse_identity:
  "clickhouse_new ha ho config credentials = Some (Inr (cp, server)) \<longrightarrow>
     cp_base_url cp = clickhouse_base_url config \<and>
     (\<exists>proxy. dials ho config (get_str_or ''localhost'' config ''host'') (get_port 8123 config ''port'') None
          (over_proxy ho) proxy \<and>
        ha_client ha (get_str_or ''default'' credentials ''username'') (get_str_or_empty credentials ''password'') proxy
          = Inr server)"
proof
  assume new: "clickhouse_new ha ho config credentials = Some (Inr (cp, server))"
  then obtain tunnel where tunnel: "proxy_tunnel ho config (get_str_or ''localhost'' config ''host'')
      (get_port 8123 config ''port'') = Inr tunnel"
    by (auto simp: clickhouse_new_def Let_def split: sum.split_asm)
  obtain proxy where proxy: "(case tunnel of None \<Rightarrow> Inr None | Some tn \<Rightarrow>
      (case http_proxy tn of Inl e \<Rightarrow> Inl e | Inr p \<Rightarrow> Inr (Some p))) = Inr proxy"
    and client: "ha_client ha (get_str_or ''default'' credentials ''username'')
      (get_str_or_empty credentials ''password'') proxy = Inr server"
    and url: "cp_base_url cp = clickhouse_base_url config"
    using new tunnel
    by (auto simp: clickhouse_new_def Let_def map_option_case split: sum.split_asm if_split_asm option.split_asm)
  have "dials ho config (get_str_or ''localhost'' config ''host'') (get_port 8123 config ''port'') None
      (over_proxy ho) proxy"
    by (rule proxy_tunnel_cases [OF tunnel]) (use proxy in \<open>force simp: dials_def\<close>)+
  then show "cp_base_url cp = clickhouse_base_url config \<and>
     (\<exists>proxy. dials ho config (get_str_or ''localhost'' config ''host'') (get_port 8123 config ''port'') None
          (over_proxy ho) proxy \<and>
        ha_client ha (get_str_or ''default'' credentials ''username'') (get_str_or_empty credentials ''password'') proxy
          = Inr server)"
    using url client by blast
qed


definition demo_host :: "unit host_api" where
  "demo_host = \<lparr>ho_ssh = demo_ssh, ho_mkdir = (\<lambda>_. None), ho_bind_unix = (\<lambda>_. None), ho_uuid = ''u'',
     ho_temp_dir = ''/tmp'', ho_bind_proxy = Inr 40001\<rparr>"

definition demo_tunnel_json :: json where
  "demo_tunnel_json = json_insert ''host'' (JString ''db'') (json_insert ''ssl_mode'' (JString ''verify-full'') demo_ssh_json)"

definition demo_user :: json where
  "demo_user = json_obj [(''username'', Some (JString ''u''))]"


end
