(* ===== verification/Agent.thy ===== *)
theory Agent
  imports Executor
begin

text \<open>
  The agent process: the WebSocket session that reads requests, runs a handler task for each and
  writes the replies through a bounded queue (ws_client.rs), the reconnect loop with its backoff,
  and the health endpoint with its two flags (health.rs, and the loop of main.rs that feeds it).
  Concurrency is a step relation: every interleaving of the reader, the handler tasks, the writer
  and the readiness check is a sequence of steps. The text form of JSON, base64 and the
  executor's results are parameters.
\<close>

section \<open>Messages\<close>

record codec =
  cd_parse :: "string \<Rightarrow> json option"
  cd_print :: "json \<Rightarrow> string"
  cd_base64 :: "u8 list \<Rightarrow> string"

definition read_request :: "codec \<Rightarrow> string \<Rightarrow> connect_request option" where
  "read_request cd text = Option.bind (cd_parse cd text) request_from_json"

text \<open>Serializing a response does not fail: its maps have string keys.\<close>

definition write_response :: "codec \<Rightarrow> connect_response \<Rightarrow> string" where
  "write_response cd r = cd_print cd (response_to_json (cd_base64 cd) r)"

text \<open>
  A frame from the socket; \<open>OtherFrame\<close> is a binary, pong or raw frame. What the reader waits
  for comes after some milliseconds or never, and is \<^const>\<open>None\<close> when the stream has ended.
\<close>

datatype frame = TextFrame string | PingFrame string | CloseFrame | OtherFrame | ErrFrame string

type_synonym incoming = "(frame option \<times> nat) option"

datatype received = Received frame | StreamEnded | TimedOut

definition SILENCE_TIMEOUT :: nat where
  "SILENCE_TIMEOUT = 60000"

definition await_message :: "incoming \<Rightarrow> received" where
  "await_message inc =
     (case inc of
        Some (m, d) \<Rightarrow>
          if d \<le> SILENCE_TIMEOUT then (case m of Some f \<Rightarrow> Received f | None \<Rightarrow> StreamEnded) else TimedOut
      | None \<Rightarrow> TimedOut)"

text \<open>
  A message for the writer. A text also carries the number of the task that sent it, which is
  not part of the frame.
\<close>

datatype out_message = OutText nat string | OutPong string

section \<open>A session\<close>

text \<open>
  A handler task runs the handler, then holds the replies it still has to queue; a handler that
  panics leaves none. The writer waits for a message, sends one, or has stopped after a failed
  send. \<open>ss_socket\<close> is what has been written to the socket.
\<close>

datatype work = Handling | Answering "string list" | Panicked

record task =
  tk_request :: connect_request
  tk_work :: work

datatype writer = WaitingForMessage | Sending out_message | WriterClosed

record session =
  ss_tasks :: "task list"
  ss_queue :: "out_message list"
  ss_writer :: writer
  ss_socket :: "out_message list"

definition open_session :: session where
  "open_session = \<lparr>ss_tasks = [], ss_queue = [], ss_writer = WaitingForMessage, ss_socket = []\<rparr>"

definition QUEUE_SIZE :: nat where
  "QUEUE_SIZE = 64"

text \<open>\<open>try_send\<close>: fails when the writer is gone or the queue is full.\<close>

definition try_send :: "out_message \<Rightarrow> session \<Rightarrow> session option" where
  "try_send m s =
     (if ss_writer s \<noteq> WriterClosed \<and> length (ss_queue s) < QUEUE_SIZE
      then Some (s\<lparr>ss_queue := ss_queue s @ [m]\<rparr>) else None)"

definition enqueue_pong :: "string \<Rightarrow> session \<Rightarrow> session option" where
  "enqueue_pong data s = try_send (OutPong data) s"

definition spawn_request :: "connect_request \<Rightarrow> session \<Rightarrow> session" where
  "spawn_request request s = s\<lparr>ss_tasks := ss_tasks s @ [\<lparr>tk_request = request, tk_work = Handling\<rparr>]\<rparr>"

text \<open>One turn of the reader loop; \<^const>\<open>None\<close> is its \<open>break\<close>.\<close>

definition read_message :: "codec \<Rightarrow> received \<Rightarrow> session \<Rightarrow> session option" where
  "read_message cd received s =
     (case received of
        Received (TextFrame text) \<Rightarrow>
          (case read_request cd text of
             Some request \<Rightarrow> Some (spawn_request request s)
           | None \<Rightarrow> Some s)
      | Received (PingFrame data) \<Rightarrow> enqueue_pong data s
      | Received CloseFrame \<Rightarrow> None
      | Received OtherFrame \<Rightarrow> Some s
      | Received (ErrFrame _) \<Rightarrow> None
      | StreamEnded \<Rightarrow> None
      | TimedOut \<Rightarrow> None)"

definition set_work :: "nat \<Rightarrow> work \<Rightarrow> session \<Rightarrow> session" where
  "set_work i w s = s\<lparr>ss_tasks := (ss_tasks s)[i := (ss_tasks s ! i)\<lparr>tk_work := w\<rparr>]\<rparr>"

text \<open>The handler of task \<open>i\<close> has returned its responses.\<close>

definition handler_returned :: "codec \<Rightarrow> nat \<Rightarrow> connect_response list \<Rightarrow> session \<Rightarrow> session" where
  "handler_returned cd i responses s = set_work i (Answering (map (write_response cd) responses)) s"

text \<open>
  The next \<open>write_tx.send(...)\<close> of task \<open>i\<close>: it waits (\<^const>\<open>None\<close>) while the queue is full, and gives
  up all remaining responses when the writer is gone.
\<close>

definition task_send :: "nat \<Rightarrow> session \<Rightarrow> session option" where
  "task_send i s =
     (if i < length (ss_tasks s) then
        case tk_work (ss_tasks s ! i) of
          Answering (json # rest) \<Rightarrow>
            if ss_writer s = WriterClosed then Some (set_work i (Answering []) s)
            else map_option (set_work i (Answering rest)) (try_send (OutText i json) s)
        | _ \<Rightarrow> None
      else None)"

text \<open>The writer task: take a message from the queue, send it, or stop at a failed send.\<close>

definition writer_takes :: "session \<Rightarrow> session option" where
  "writer_takes s =
     (case (ss_writer s, ss_queue s) of
        (WaitingForMessage, m # ms) \<Rightarrow> Some (s\<lparr>ss_writer := Sending m, ss_queue := ms\<rparr>)
      | _ \<Rightarrow> None)"

definition writer_sends :: "session \<Rightarrow> session option" where
  "writer_sends s =
     (case ss_writer s of
        Sending m \<Rightarrow> Some (s\<lparr>ss_writer := WaitingForMessage, ss_socket := ss_socket s @ [m]\<rparr>)
      | _ \<Rightarrow> None)"

definition writer_fails :: "session \<Rightarrow> session option" where
  "writer_fails s =
     (case ss_writer s of
        Sending m \<Rightarrow> Some (s\<lparr>ss_writer := WriterClosed, ss_queue := []\<rparr>)
      | _ \<Rightarrow> None)"

text \<open>
  The steps of a session. \<open>answers request responses\<close> says that the handler can return these
  responses. A \<open>drain_step\<close> is a step that only moves replies towards the socket.
\<close>

inductive drain_step :: "session \<Rightarrow> session \<Rightarrow> bool" where
  sends: "task_send i s = Some s' \<Longrightarrow> drain_step s s'"
| takes: "writer_takes s = Some s' \<Longrightarrow> drain_step s s'"
| written: "writer_sends s = Some s' \<Longrightarrow> drain_step s s'"

inductive session_step ::
  "codec \<Rightarrow> (connect_request \<Rightarrow> connect_response list \<Rightarrow> bool) \<Rightarrow> session \<Rightarrow> session \<Rightarrow> bool"
  for cd answers where
  reads: "read_message cd (await_message inc) s = Some s' \<Longrightarrow> session_step cd answers s s'"
| returns: "\<lbrakk>i < length (ss_tasks s); tk_work (ss_tasks s ! i) = Handling;
     answers (tk_request (ss_tasks s ! i)) responses\<rbrakk>
   \<Longrightarrow> session_step cd answers s (handler_returned cd i responses s)"
| panics: "\<lbrakk>i < length (ss_tasks s); tk_work (ss_tasks s ! i) = Handling\<rbrakk>
   \<Longrightarrow> session_step cd answers s (set_work i Panicked s)"
| drains: "drain_step s s' \<Longrightarrow> session_step cd answers s s'"
| fails: "writer_fails s = Some s' \<Longrightarrow> session_step cd answers s s'"

text \<open>The loop is left when a turn breaks or when the writer has ended.\<close>

definition session_over :: "codec \<Rightarrow> incoming \<Rightarrow> session \<Rightarrow> bool" where
  "session_over cd inc s \<longleftrightarrow> ss_writer s = WriterClosed \<or> read_message cd (await_message inc) s = None"

section \<open>The agent\<close>

datatype link = Connecting | InSession session | Sleeping

record agent =
  ag_backoff :: nat
  ag_link :: link
  ag_ws_connected :: bool
  ag_db_healthy :: bool

definition agent_start :: agent where
  "agent_start = \<lparr>ag_backoff = 1, ag_link = Connecting, ag_ws_connected = False, ag_db_healthy = True\<rparr>"

text \<open>The reconnect loop of \<open>run_forever\<close>; the backoff is in seconds.\<close>

definition connected :: "agent \<Rightarrow> agent" where
  "connected a = a\<lparr>ag_backoff := 1, ag_ws_connected := True, ag_link := InSession open_session\<rparr>"

definition connect_failed :: "agent \<Rightarrow> agent" where
  "connect_failed a = a\<lparr>ag_link := Sleeping\<rparr>"

definition disconnected :: "agent \<Rightarrow> agent" where
  "disconnected a = a\<lparr>ag_ws_connected := False, ag_link := Sleeping\<rparr>"

definition slept :: "agent \<Rightarrow> agent" where
  "slept a = a\<lparr>ag_backoff := min (ag_backoff a * 2) 60, ag_link := Connecting\<rparr>"

text \<open>
  The readiness check, \<^const>\<open>None\<close> when the provider never answers, else its result and the
  milliseconds it took. The second component of \<open>readiness\<close> is the reason that is logged.
\<close>

definition readiness :: "nat \<Rightarrow> ((string + bool) \<times> nat) option \<Rightarrow> bool \<times> string" where
  "readiness timeout check =
     (case check of
        Some (r, d) \<Rightarrow>
          if d \<le> timeout then
            (case r of Inr True \<Rightarrow> (True, ''connected'')
             | Inr False \<Rightarrow> (False, ''unreachable'')
             | Inl _ \<Rightarrow> (False, ''connection_test_failed''))
          else (False, ''connection_test_timeout'')
      | None \<Rightarrow> (False, ''connection_test_timeout''))"

definition READINESS_TIMEOUT :: nat where
  "READINESS_TIMEOUT = 5000"

definition refresh_database_readiness :: "((string + bool) \<times> nat) option \<Rightarrow> agent \<Rightarrow> agent" where
  "refresh_database_readiness check a = a\<lparr>ag_db_healthy := fst (readiness READINESS_TIMEOUT check)\<rparr>"

definition healthz :: "agent \<Rightarrow> nat \<times> json" where
  "healthz a =
     (let ws = ag_ws_connected a; db = ag_db_healthy a in
      (if ws \<and> db then 200 else 503,
       json_obj [(''status'', Some (JString (if ws \<and> db then ''healthy'' else ''unhealthy''))),
                 (''ws_connected'', Some (JBool ws)),
                 (''db_reachable'', Some (JBool db))]))"

text \<open>The two pages of the health server; \<^const>\<open>None\<close> as body is an empty one.\<close>

definition health_route :: "string \<Rightarrow> agent \<Rightarrow> (nat \<times> json option) option" where
  "health_route path a =
     (if path = ''/healthz'' then Some (map_prod id Some (healthz a))
      else if path = ''/livez'' then Some (200, None)
      else None)"

inductive agent_step ::
  "codec \<Rightarrow> (connect_request \<Rightarrow> connect_response list \<Rightarrow> bool) \<Rightarrow> agent \<Rightarrow> agent \<Rightarrow> bool"
  for cd answers where
  connects: "ag_link a = Connecting \<Longrightarrow> agent_step cd answers a (connected a)"
| refused: "ag_link a = Connecting \<Longrightarrow> agent_step cd answers a (connect_failed a)"
| serves: "\<lbrakk>ag_link a = InSession s; session_step cd answers s s'\<rbrakk>
   \<Longrightarrow> agent_step cd answers a (a\<lparr>ag_link := InSession s'\<rparr>)"
| ends: "\<lbrakk>ag_link a = InSession s; session_over cd inc s\<rbrakk> \<Longrightarrow> agent_step cd answers a (disconnected a)"
| wakes: "ag_link a = Sleeping \<Longrightarrow> agent_step cd answers a (slept a)"
| checks: "agent_step cd answers a (refresh_database_readiness check a)"

inductive agent_reachable ::
  "codec \<Rightarrow> (connect_request \<Rightarrow> connect_response list \<Rightarrow> bool) \<Rightarrow> agent \<Rightarrow> bool"
  for cd answers where
  starts: "agent_reachable cd answers agent_start"
| steps: "\<lbrakk>agent_reachable cd answers a; agent_step cd answers a b\<rbrakk> \<Longrightarrow> agent_reachable cd answers b"

text \<open>The Host header of the handshake.\<close>

definition extract_host :: "string \<Rightarrow> string option" where
  "extract_host url =
     map_option (\<lambda>rest. hd (split_on (CHR ''/'') rest))
       (if_some (strip_prefix ''wss://'' url) Some (strip_prefix ''ws://'' url))"

text \<open>The request of the handshake; the key is made by the WebSocket library.\<close>

definition PROTOCOL_VERSION :: string where
  "PROTOCOL_VERSION = ''2''"

definition connect_headers :: "string \<Rightarrow> string \<Rightarrow> string \<Rightarrow> (string \<times> string) list" where
  "connect_headers url token key =
     [(''Authorization'', ''Bearer '' @ token),
      (''X-Kyomi-Protocol'', PROTOCOL_VERSION),
      (''Sec-WebSocket-Version'', ''13''),
      (''Sec-WebSocket-Key'', key),
      (''Connection'', ''Upgrade''),
      (''Upgrade'', ''websocket''),
      (''Host'', (case extract_host url of Some host \<Rightarrow> host | None \<Rightarrow> ''api.kyomi.ai''))]"

inductive_cases agent_stepE: "agent_step cd answers a b"
inductive_cases session_stepE: "session_step cd answers s s'"
inductive_cases drain_stepE: "drain_step s s'"

section \<open>The pipeline of a session\<close>

text \<open>All messages that are written, being written or queued, in their order.\<close>

fun in_flight :: "writer \<Rightarrow> out_message list" where
  "in_flight (Sending m) = [m]"
| "in_flight _ = []"

definition pipeline :: "session \<Rightarrow> out_message list" where
  "pipeline s = ss_socket s @ in_flight (ss_writer s) @ ss_queue s"

fun texts_of :: "nat \<Rightarrow> out_message list \<Rightarrow> string list" where
  "texts_of i [] = []"
| "texts_of i (OutText j t # ms) = (if i = j then t # texts_of i ms else texts_of i ms)"
| "texts_of i (OutPong d # ms) = texts_of i ms"

lemma texts_of_append [simp]: "texts_of i (xs @ ys) = texts_of i xs @ texts_of i ys"
  by (induction i xs rule: texts_of.induct) auto

lemma texts_of_set: "OutText i t \<in> set ms \<Longrightarrow> t \<in> set (texts_of i ms)"
  by (induction i ms rule: texts_of.induct) auto

lemmas session_ops = enqueue_pong_def try_send_def task_send_def writer_takes_def writer_sends_def
  writer_fails_def handler_returned_def spawn_request_def set_work_def pipeline_def

text \<open>
  What the replies of a task look like: nothing before the handler returns; then the messages in
  the pipeline and those still to be queued make up exactly what the handler returned. When the
  writer has failed, the socket has the first part of it.
\<close>

fun reply_ok ::
  "codec \<Rightarrow> (connect_request \<Rightarrow> connect_response list \<Rightarrow> bool) \<Rightarrow> bool \<Rightarrow> string list \<Rightarrow> connect_request \<Rightarrow> work \<Rightarrow> bool"
where
  "reply_ok cd answers closed ts request (Answering todo) \<longleftrightarrow>
     (\<exists>rs. answers request rs \<and>
        (if closed then prefix ts (map (write_response cd) rs)
         else ts @ todo = map (write_response cd) rs))"
| "reply_ok cd answers closed ts request _ \<longleftrightarrow> ts = []"

lemma reply_ok_texts:
  assumes "reply_ok cd answers closed ts request w" "t \<in> set ts"
  obtains rs where "answers request rs" "set ts \<subseteq> set (map (write_response cd) rs)"
proof (cases w)
  case (Answering todo)
  then obtain rs where rs: "answers request rs"
    "if closed then prefix ts (map (write_response cd) rs) else ts @ todo = map (write_response cd) rs"
    using assms(1) by auto
  then have "prefix ts (map (write_response cd) rs)" by (metis prefixI)
  then show thesis using rs(1) by (intro that [of rs] set_mono_prefix)
qed (use assms in auto)

definition task_ok ::
  "codec \<Rightarrow> (connect_request \<Rightarrow> connect_response list \<Rightarrow> bool) \<Rightarrow> session \<Rightarrow> nat \<Rightarrow> bool" where
  "task_ok cd answers s i =
     reply_ok cd answers (ss_writer s = WriterClosed) (texts_of i (pipeline s))
       (tk_request (ss_tasks s ! i)) (tk_work (ss_tasks s ! i))"

definition session_ok :: "codec \<Rightarrow> (connect_request \<Rightarrow> connect_response list \<Rightarrow> bool) \<Rightarrow> session \<Rightarrow> bool" where
  "session_ok cd answers s \<longleftrightarrow>
     length (ss_queue s) \<le> QUEUE_SIZE \<and> (ss_writer s = WriterClosed \<longrightarrow> ss_queue s = []) \<and>
     (\<forall>i < length (ss_tasks s). task_ok cd answers s i) \<and>
     (\<forall>i. length (ss_tasks s) \<le> i \<longrightarrow> texts_of i (pipeline s) = [])"

lemma session_ok_open: "session_ok cd answers open_session"
  by (simp add: session_ok_def open_session_def pipeline_def)

lemma try_send_ok:
  assumes "session_ok cd answers s" "try_send (OutPong d) s = Some s'"
  shows "session_ok cd answers s'"
  using assms by (auto simp: session_ok_def session_ops task_ok_def split: if_splits)

lemma spawn_request_ok:
  assumes "session_ok cd answers s"
  shows "session_ok cd answers (spawn_request request s)"
proof -
  have "task_ok cd answers (spawn_request request s) i" if "i < Suc (length (ss_tasks s))" for i
    using assms that
    by (cases "i < length (ss_tasks s)") (auto simp: session_ok_def session_ops task_ok_def nth_append)
  then show ?thesis using assms by (auto simp: session_ok_def session_ops)
qed

lemma read_message_ok:
  assumes "session_ok cd answers s" "read_message cd r s = Some s'"
  shows "session_ok cd answers s'"
  using assms by (auto simp: read_message_def enqueue_pong_def intro: try_send_ok spawn_request_ok
      split: received.splits frame.splits option.splits)

lemma task_send_cases:
  assumes "task_send i s = Some s'"
  obtains json rest where "i < length (ss_tasks s)" "tk_work (ss_tasks s ! i) = Answering (json # rest)"
      "ss_writer s = WriterClosed" "s' = set_work i (Answering []) s"
  | json rest where "i < length (ss_tasks s)" "tk_work (ss_tasks s ! i) = Answering (json # rest)"
      "ss_writer s \<noteq> WriterClosed" "length (ss_queue s) < QUEUE_SIZE"
      "s' = set_work i (Answering rest) (s\<lparr>ss_queue := ss_queue s @ [OutText i json]\<rparr>)"
  using assms by (auto simp: task_send_def try_send_def split: if_splits work.splits list.splits)

lemma set_work_simps [simp]:
  "ss_queue (set_work i w s) = ss_queue s" "ss_writer (set_work i w s) = ss_writer s"
  "ss_socket (set_work i w s) = ss_socket s" "pipeline (set_work i w s) = pipeline s"
  "length (ss_tasks (set_work i w s)) = length (ss_tasks s)"
  "j \<noteq> i \<Longrightarrow> ss_tasks (set_work i w s) ! j = ss_tasks s ! j"
  "i < length (ss_tasks s) \<Longrightarrow> ss_tasks (set_work i w s) ! i = (ss_tasks s ! i)\<lparr>tk_work := w\<rparr>"
  by (simp_all add: set_work_def pipeline_def)

text \<open>A step of one task: the others are as before, so only its own replies need to be looked at.\<close>

lemma set_work_ok:
  assumes "session_ok cd answers s" "i < length (ss_tasks s)"
    "reply_ok cd answers (ss_writer s = WriterClosed) (texts_of i (pipeline s)) (tk_request (ss_tasks s ! i)) w"
  shows "session_ok cd answers (set_work i w s)"
proof -
  have "task_ok cd answers (set_work i w s) j" if "j < length (ss_tasks s)" for j
    using assms that by (cases "j = i") (auto simp: session_ok_def task_ok_def)
  then show ?thesis using assms(1) by (simp add: session_ok_def)
qed

lemma task_send_ok:
  assumes ok: "session_ok cd answers s" and "task_send i s = Some s'"
  shows "session_ok cd answers s'"
  using assms(2)
proof (cases rule: task_send_cases)
  case (1 json rest)
  then have "task_ok cd answers s i" using ok by (simp add: session_ok_def)
  then show ?thesis unfolding 1(4) using ok 1
    by (intro set_work_ok) (auto simp: task_ok_def)
next
  case (2 json rest)
  let ?p = "s\<lparr>ss_queue := ss_queue s @ [OutText i json]\<rparr>"
  have p: "texts_of j (pipeline ?p) = texts_of j (pipeline s) @ (if j = i then [json] else [])" for j
    by (simp add: pipeline_def)
  have own: "task_ok cd answers s i" using ok 2 by (simp add: session_ok_def)
  have "task_ok cd answers s' j" if "j < length (ss_tasks s)" for j
  proof (cases "j = i")
    case True
    then show ?thesis using own 2 p by (simp add: task_ok_def)
  next
    case False
    then show ?thesis using ok that p 2(5) by (simp add: session_ok_def task_ok_def)
  qed
  then show ?thesis using ok 2 p by (simp add: session_ok_def)
qed

text \<open>The writer moves messages within the pipeline, which stays as it is.\<close>

definition writer_moves :: "session \<Rightarrow> session \<Rightarrow> bool" where
  "writer_moves s s' \<longleftrightarrow> pipeline s' = pipeline s \<and> ss_tasks s' = ss_tasks s \<and>
     ss_writer s \<noteq> WriterClosed \<and> ss_writer s' \<noteq> WriterClosed \<and> length (ss_queue s') \<le> length (ss_queue s)"

lemma writer_moves_ok: "\<lbrakk>session_ok cd answers s; writer_moves s s'\<rbrakk> \<Longrightarrow> session_ok cd answers s'"
  by (auto simp: session_ok_def writer_moves_def task_ok_def)

lemma drain_step_ok:
  assumes "session_ok cd answers s" "drain_step s s'"
  shows "session_ok cd answers s'"
  using assms(2)
proof cases
  case takes
  then have "writer_moves s s'"
    by (auto simp: writer_takes_def writer_moves_def pipeline_def split: writer.splits list.splits)
  then show ?thesis by (rule writer_moves_ok [OF assms(1)])
next
  case written
  then have "writer_moves s s'"
    by (auto simp: writer_sends_def writer_moves_def pipeline_def split: writer.splits)
  then show ?thesis by (rule writer_moves_ok [OF assms(1)])
qed (rule task_send_ok [OF assms(1)])

lemma writer_fails_ok:
  assumes "session_ok cd answers s" "writer_fails s = Some s'"
  shows "session_ok cd answers s'"
proof -
  from assms(2) obtain m where m: "ss_writer s = Sending m" "s' = s\<lparr>ss_writer := WriterClosed, ss_queue := []\<rparr>"
    by (auto simp: writer_fails_def split: writer.splits)
  have p: "texts_of i (pipeline s) = texts_of i (pipeline s') @ texts_of i (m # ss_queue s)" for i
    using m by (simp add: pipeline_def flip: texts_of_append)
  have cut: "reply_ok cd answers True ts request w"
    if "reply_ok cd answers False (ts @ ts') request w" for ts ts' request w
    using that by (cases w) (auto simp: prefix_def, metis)
  have "task_ok cd answers s' i" if "task_ok cd answers s i" for i
    using that m cut unfolding task_ok_def p [of i] by auto
  then show ?thesis using assms(1) m p by (simp add: session_ok_def)
qed

lemma session_step_ok:
  assumes "session_ok cd answers s" "session_step cd answers s s'"
  shows "session_ok cd answers s'"
  using assms(2)
proof cases
  case (returns i responses)
  then show ?thesis using assms(1) unfolding returns(1) handler_returned_def
    by (intro set_work_ok) (auto simp: session_ok_def task_ok_def intro!: exI [of _ responses])
next
  case (panics i)
  then show ?thesis using assms(1) unfolding panics(1)
    by (intro set_work_ok) (auto simp: session_ok_def task_ok_def)
qed (use assms(1) in \<open>auto intro: read_message_ok drain_step_ok writer_fails_ok\<close>)

section \<open>The invariant of the agent\<close>

fun link_ok ::
  "codec \<Rightarrow> (connect_request \<Rightarrow> connect_response list \<Rightarrow> bool) \<Rightarrow> bool \<Rightarrow> nat \<Rightarrow> link \<Rightarrow> bool" where
  "link_ok cd answers ws backoff (InSession s) \<longleftrightarrow> ws \<and> backoff = 1 \<and> session_ok cd answers s"
| "link_ok cd answers ws backoff _ \<longleftrightarrow> \<not> ws \<and> 1 \<le> backoff \<and> backoff \<le> 60"

definition agent_ok :: "codec \<Rightarrow> (connect_request \<Rightarrow> connect_response list \<Rightarrow> bool) \<Rightarrow> agent \<Rightarrow> bool" where
  "agent_ok cd answers a \<longleftrightarrow> link_ok cd answers (ag_ws_connected a) (ag_backoff a) (ag_link a)"

lemmas agent_ops = connected_def connect_failed_def disconnected_def slept_def
  refresh_database_readiness_def

lemma agent_step_ok: "\<lbrakk>agent_ok cd answers a; agent_step cd answers a b\<rbrakk> \<Longrightarrow> agent_ok cd answers b"
  by (erule agent_stepE) (auto simp: agent_ok_def agent_ops session_ok_open intro: session_step_ok)

lemma agent_reachable_ok: "agent_reachable cd answers a \<Longrightarrow> agent_ok cd answers a"
proof (induction rule: agent_reachable.induct)
  case starts
  then show ?case by (simp add: agent_ok_def agent_start_def)
qed (rule agent_step_ok)

lemma agent_session_ok:
  "\<lbrakk>agent_reachable cd answers a; ag_link a = InSession s\<rbrakk> \<Longrightarrow> session_ok cd answers s"
  using agent_reachable_ok by (fastforce simp: agent_ok_def)

lemma healthz_200: "fst (healthz a) = 200 \<longleftrightarrow> ag_ws_connected a \<and> ag_db_healthy a"
  by (simp add: healthz_def Let_def)

lemma min_double: "min (min m 60 * 2) 60 = min (m * 2) (60 :: nat)"
  by auto

lemma retries_back_off:
  "ag_backoff a = 1 \<Longrightarrow> ag_backoff (((slept \<circ> connect_failed) ^^ n) a) = min (2 ^ n) 60"
  by (induction n) (simp_all add: slept_def connect_failed_def min_double mult.commute)

section \<open>What the backend receives\<close>

definition read_response :: "codec \<Rightarrow> (string \<Rightarrow> u8 list option) \<Rightarrow> string \<Rightarrow> connect_response option" where
  "read_response cd dec text = Option.bind (cd_parse cd text) (response_from_json dec)"

text \<open>The responses to a request among the frames of a socket.\<close>

fun received_for :: "codec \<Rightarrow> (string \<Rightarrow> u8 list option) \<Rightarrow> string \<Rightarrow> out_message list \<Rightarrow> connect_response list" where
  "received_for cd dec rid [] = []"
| "received_for cd dec rid (OutPong _ # ms) = received_for cd dec rid ms"
| "received_for cd dec rid (OutText _ t # ms) =
     (case read_response cd dec t of
        Some r \<Rightarrow> (if resp_id r = rid then [r] else []) @ received_for cd dec rid ms
      | None \<Rightarrow> received_for cd dec rid ms)"

text \<open>The text of a response is readable: base64 and the JSON text form give back what was written.\<close>

definition readable :: "codec \<Rightarrow> (string \<Rightarrow> u8 list option) \<Rightarrow> connect_response \<Rightarrow> bool" where
  "readable cd dec r \<longleftrightarrow> (\<forall>bs. dec (cd_base64 cd bs) = Some bs) \<and>
     cd_parse cd (write_response cd r) = Some (response_to_json (cd_base64 cd) r)"

lemma read_write: "readable cd dec r \<Longrightarrow> read_response cd dec (write_response cd r) = Some r"
  by (simp add: readable_def read_response_def response_read_back)

lemma received_texts:
  assumes "\<And>j t. OutText j t \<in> set ms \<Longrightarrow>
      \<exists>r. t = write_response cd r \<and> readable cd dec r \<and> (resp_id r = rid \<longleftrightarrow> j = i)"
  shows "texts_of i ms = map (write_response cd) (received_for cd dec rid ms) \<and>
    list_all (readable cd dec) (received_for cd dec rid ms)"
  using assms
proof (induction i ms rule: texts_of.induct)
  case (2 i j t ms)
  obtain r where r: "t = write_response cd r" "readable cd dec r" "resp_id r = rid \<longleftrightarrow> j = i"
    using 2(3) [of j t] by auto
  then show ?case using 2 by (auto simp: read_write)
qed auto

lemma write_inject:
  assumes "map (write_response cd) rs = map (write_response cd) rs'"
    "list_all (readable cd dec) rs" "list_all (readable cd dec) rs'"
  shows "rs = rs'"
proof -
  have "map Some xs = map (read_response cd dec) (map (write_response cd) xs)" if "list_all (readable cd dec) xs" for xs
    using that by (induction xs) (auto simp: read_write)
  then have "map Some rs = map Some rs'" using assms by metis
  then show ?thesis by (simp add: inj_map_eq_map)
qed

text \<open>What a session relies on: the handler answers a request under its own identifier.\<close>

locale request_handler =
  fixes answers :: "connect_request \<Rightarrow> connect_response list \<Rightarrow> bool"
  assumes complete: "answers request rs \<Longrightarrow> complete_reply (req_id request) rs"
begin

lemma own_id: "answers request rs \<Longrightarrow> r \<in> set rs \<Longrightarrow> resp_id r = req_id request"
  using complete by (fastforce simp: complete_reply_def list_all_iff)

lemma pipeline_text:
  assumes "session_ok cd answers s" "OutText j t \<in> set (pipeline s)"
  shows "\<exists>rs r. j < length (ss_tasks s) \<and> answers (tk_request (ss_tasks s ! j)) rs \<and> r \<in> set rs \<and>
    t = write_response cd r"
proof -
  have t: "t \<in> set (texts_of j (pipeline s))" using assms(2) by (rule texts_of_set)
  have "length (ss_tasks s) \<le> j \<Longrightarrow> texts_of j (pipeline s) = []" using assms(1) by (simp add: session_ok_def)
  then have j: "j < length (ss_tasks s)" using t by (cases "length (ss_tasks s) \<le> j") auto
  then have "task_ok cd answers s j" using assms(1) by (simp add: session_ok_def)
  then obtain rs where "answers (tk_request (ss_tasks s ! j)) rs"
    "set (texts_of j (pipeline s)) \<subseteq> set (map (write_response cd) rs)"
    using t unfolding task_ok_def by (rule reply_ok_texts)
  then show ?thesis using t j by fastforce
qed

lemma replies_in_order:
  assumes ok: "session_ok cd answers s" and i: "i < length (ss_tasks s)" "tk_work (ss_tasks s ! i) = Answering todo"
    and unique: "\<And>j. \<lbrakk>j < length (ss_tasks s); req_id (tk_request (ss_tasks s ! j)) = rid\<rbrakk> \<Longrightarrow> j = i"
    and rid: "rid = req_id (tk_request (ss_tasks s ! i))"
    and legible: "\<And>t rs r. \<lbrakk>t \<in> set (ss_tasks s); answers (tk_request t) rs; r \<in> set rs\<rbrakk> \<Longrightarrow> readable cd dec r"
  shows "\<exists>rs. answers (tk_request (ss_tasks s ! i)) rs \<and> prefix (received_for cd dec rid (ss_socket s)) rs \<and>
    (todo = [] \<and> ss_queue s = [] \<and> ss_writer s = WaitingForMessage \<longrightarrow> received_for cd dec rid (ss_socket s) = rs)"
proof -
  let ?got = "received_for cd dec rid (ss_socket s)" and ?w = "map (write_response cd)"
  obtain rs where rs: "answers (tk_request (ss_tasks s ! i)) rs"
    "if ss_writer s = WriterClosed then prefix (texts_of i (pipeline s)) (?w rs)
     else texts_of i (pipeline s) @ todo = ?w rs"
    using ok i by (force simp: session_ok_def task_ok_def)
  have "\<exists>r. t = write_response cd r \<and> readable cd dec r \<and> (resp_id r = rid \<longleftrightarrow> j = i)"
    if "OutText j t \<in> set (ss_socket s)" for j t
  proof -
    have "OutText j t \<in> set (pipeline s)" using that by (simp add: pipeline_def)
    then obtain rs' r where r: "j < length (ss_tasks s)" "answers (tk_request (ss_tasks s ! j)) rs'" "r \<in> set rs'"
      "t = write_response cd r" using pipeline_text [OF ok] by blast
    have "readable cd dec r" using legible [OF nth_mem r(2,3)] r(1) by simp
    moreover have "resp_id r = rid \<longleftrightarrow> j = i" using own_id [OF r(2,3)] unique [OF r(1)] rid by auto
    ultimately show ?thesis using r(4) by blast
  qed
  then have got: "texts_of i (ss_socket s) = ?w ?got" "list_all (readable cd dec) ?got"
    using received_texts [of "ss_socket s" cd dec rid i] by blast+
  have rs_ok: "list_all (readable cd dec) rs" using rs(1) i legible nth_mem by (fastforce simp: list_all_iff)
  have "prefix (?w ?got) (?w rs)"
    using rs(2) unfolding pipeline_def by (auto simp: got(1) prefix_def split: if_splits) (metis append.assoc)+
  then obtain n where "?w ?got = ?w (take n rs)" by (metis prefix_def append_eq_conv_conj take_map)
  then have take: "?got = take n rs"
    using rs_ok by (rule_tac write_inject [OF _ got(2)]) (auto simp: list_all_iff dest: in_set_takeD)
  moreover have "?got = rs" if "todo = []" "ss_queue s = []" "ss_writer s = WaitingForMessage"
    using rs(2) that got by (intro write_inject [OF _ got(2) rs_ok]) (simp add: pipeline_def)
  ultimately show ?thesis using rs(1) take_is_prefix by metis
qed

end

section \<open>The bounded queue does not lock up\<close>

fun todo_size :: "work \<Rightarrow> nat" where
  "todo_size (Answering todo) = length todo"
| "todo_size _ = 0"

definition backlog :: "session \<Rightarrow> nat" where
  "backlog s = 3 * sum_list (map (todo_size \<circ> tk_work) (ss_tasks s)) + 2 * length (ss_queue s)
     + length (in_flight (ss_writer s))"

lemma todo_set_work:
  assumes "i < length (ss_tasks s)" "todo_size w < todo_size (tk_work (ss_tasks s ! i))"
  shows "sum_list (map (todo_size \<circ> tk_work) (ss_tasks (set_work i w s))) <
    sum_list (map (todo_size \<circ> tk_work) (ss_tasks s))"
proof -
  have "todo_size (tk_work (ss_tasks s ! i)) \<le> sum_list (map (todo_size \<circ> tk_work) (ss_tasks s))"
    using elem_le_sum_list [of i "map (todo_size \<circ> tk_work) (ss_tasks s)"] assms(1) by simp
  then show ?thesis using assms by (simp add: set_work_def map_update sum_list_update)
qed

lemma drain_step_backlog: "drain_step s s' \<Longrightarrow> backlog s' < backlog s"
proof (erule drain_stepE)
  fix i
  assume "task_send i s = Some s'"
  then show "backlog s' < backlog s"
  proof (cases rule: task_send_cases)
    case (1 json rest)
    then show ?thesis using todo_set_work [of i s "Answering []"] by (simp add: backlog_def)
  next
    case (2 json rest)
    then show ?thesis
      using todo_set_work [of i "s\<lparr>ss_queue := ss_queue s @ [OutText i json]\<rparr>" "Answering rest"]
      by (simp add: backlog_def)
  qed
qed (auto simp: backlog_def writer_takes_def writer_sends_def split: writer.splits list.splits)

lemma drain_backlog: "(drain_step ^^ n) s s' \<Longrightarrow> n + backlog s' \<le> backlog s"
  by (induction n arbitrary: s') (fastforce dest: drain_step_backlog)+

text \<open>What draining keeps: the tasks, which of them have been answered, and whether the writer lives.\<close>

fun is_answering :: "work \<Rightarrow> bool" where
  "is_answering (Answering _) = True"
| "is_answering _ = False"

lemma set_work_map:
  "f ((ss_tasks s ! i)\<lparr>tk_work := w\<rparr>) = f (ss_tasks s ! i) \<Longrightarrow> map f (ss_tasks (set_work i w s)) = map f (ss_tasks s)"
  by (simp add: set_work_def map_update) (metis list_update_id map_update)

lemma drain_step_keeps:
  assumes "drain_step s s'"
  shows "map tk_request (ss_tasks s') = map tk_request (ss_tasks s) \<and>
    map (is_answering \<circ> tk_work) (ss_tasks s') = map (is_answering \<circ> tk_work) (ss_tasks s) \<and>
    (ss_writer s' = WriterClosed \<longleftrightarrow> ss_writer s = WriterClosed)"
  using assms
proof cases
  case (sends i)
  then show ?thesis by (cases rule: task_send_cases) (auto simp: set_work_map)
qed (auto simp: writer_takes_def writer_sends_def split: writer.splits list.splits)

lemma drain_keeps:
  assumes "(drain_step ^^ n) s s'" "session_ok cd answers s"
  shows "session_ok cd answers s' \<and> map tk_request (ss_tasks s') = map tk_request (ss_tasks s) \<and>
    map (is_answering \<circ> tk_work) (ss_tasks s') = map (is_answering \<circ> tk_work) (ss_tasks s) \<and>
    (ss_writer s' = WriterClosed \<longleftrightarrow> ss_writer s = WriterClosed)"
  using assms
proof (induction n arbitrary: s')
  case (Suc n)
  from Suc.prems(1) obtain m where m: "(drain_step ^^ n) s m" "drain_step m s'" by (rule relpowp_Suc_E)
  show ?case
    using Suc.IH [OF m(1) Suc.prems(2)] drain_step_keeps [OF m(2)] drain_step_ok [OF _ m(2), of cd answers] by presburger
qed simp

lemma drained:
  assumes "\<And>s'. \<not> drain_step s s'" "ss_writer s \<noteq> WriterClosed"
  shows "ss_writer s = WaitingForMessage" "ss_queue s = []"
    "i < length (ss_tasks s) \<Longrightarrow> todo_size (tk_work (ss_tasks s ! i)) = 0"
proof -
  have "task_send i s = None" "writer_takes s = None" "writer_sends s = None" for i
    using assms(1) drain_step.intros by (metis not_Some_eq)+
  then show w: "ss_writer s = WaitingForMessage" and q: "ss_queue s = []"
    using assms(2) by (auto simp: writer_takes_def writer_sends_def split: writer.splits list.splits)
  show "todo_size (tk_work (ss_tasks s ! i)) = 0" if "i < length (ss_tasks s)"
    using \<open>task_send i s = None\<close> that w q
    by (cases "tk_work (ss_tasks s ! i)" rule: todo_size.cases)
       (auto simp: task_send_def try_send_def QUEUE_SIZE_def split: list.splits)
qed

section \<open>The agent with the executor\<close>

text \<open>The handler of \<open>run_agent\<close> is the executor.\<close>

definition executes ::
  "arrow_api \<Rightarrow> (json \<Rightarrow> string) \<Rightarrow> provider \<Rightarrow> string \<Rightarrow> connect_request \<Rightarrow> connect_response list \<Rightarrow> bool" where
  "executes arrow serde_err pv db_type request responses \<longleftrightarrow>
     execute arrow serde_err pv db_type request = Some responses"

sublocale stream_provider \<subseteq> agent: request_handler "executes arrow serde_err pv db_type"
  by unfold_locales (simp add: executes_def execute_complete)

text \<open>
  C6. In every state the agent can reach, the readiness endpoint answers 200 exactly when a
  session is open and the last check of the database succeeded in time; the queue of a session
  never holds more than 64 messages; and the delay before the next connection attempt is 1 s
  after a session and doubles up to 60 s while attempts fail.
\<close>

theorem agent_invariant:
  assumes "agent_reachable cd answers a"
  shows "(fst (healthz a) = 200 \<longleftrightarrow> (\<exists>s. ag_link a = InSession s) \<and> ag_db_healthy a) \<and>
    (\<forall>s. ag_link a = InSession s \<longrightarrow> length (ss_queue s) \<le> 64 \<and> ag_backoff a = 1) \<and>
    1 \<le> ag_backoff a \<and> ag_backoff a \<le> 60 \<and>
    (ag_backoff a = 1 \<longrightarrow> (\<forall>n. ag_backoff (((slept \<circ> connect_failed) ^^ n) a) = min (2 ^ n) 60))"
  using agent_reachable_ok [OF assms] retries_back_off [of a]
  by (cases "ag_link a") (auto simp: agent_ok_def healthz_200 session_ok_def QUEUE_SIZE_def)

text \<open>
  A session with one connection test: the agent connects, reads the request, the executor
  answers, and the answer goes through the queue to the socket.
\<close>

definition demo_test :: connect_request where
  "demo_test = \<lparr>req_id = ''r1'', req_op = TestConnection, req_params = None, req_streaming = False\<rparr>"

definition demo_reply :: connect_response where
  "demo_reply = \<lparr>resp_id = ''r1'', resp_body = Result (JBool True)\<rparr>"

definition demo_codec :: codec where
  "demo_codec = \<lparr>cd_parse = (\<lambda>t. Some (if t = ''test'' then request_to_json demo_test
        else response_to_json (map (\<lambda>w. char_of (unat w))) demo_reply)),
     cd_print = (\<lambda>_. ''reply''), cd_base64 = map (\<lambda>w. char_of (unat w))\<rparr>"

definition demo_decode :: "string \<Rightarrow> u8 list option" where
  "demo_decode t = Some (map (\<lambda>c. word_of_nat (of_char c)) t)"

definition demo_serving :: "session \<Rightarrow> agent" where
  "demo_serving s = \<lparr>ag_backoff = 1, ag_link = InSession s, ag_ws_connected = True, ag_db_healthy = True\<rparr>"

definition demo_session :: "work \<Rightarrow> session" where
  "demo_session w = \<lparr>ss_tasks = [\<lparr>tk_request = demo_test, tk_work = w\<rparr>], ss_queue = [],
     ss_writer = WaitingForMessage, ss_socket = []\<rparr>"

lemma demo_execute:
  "execute demo_arrow (\<lambda>_. ''bad'') (pg_provider demo_arrow api (demo_pool [] demo_error) 5) ''postgres'' demo_test
     = Some [demo_reply]"
  by (simp add: execute_def Let_def demo_test_def demo_reply_def handle_test_connection_def pg_provider_def
      pg_test_connection_def sqlx_test_connection_def demo_pool_def respond_def)

lemma demo_readable: "readable demo_codec demo_decode demo_reply"
proof -
  have "word_of_nat (of_char (char_of (unat w))) = w" for w :: u8
    using unsigned_less [of w, where ?'a = nat] by simp
  then show ?thesis by (simp add: readable_def demo_codec_def demo_decode_def write_response_def o_def)
qed

lemma demo_read_test: "read_request demo_codec ''test'' = Some demo_test"
proof -
  have "request_from_json (request_to_json demo_test) = Some demo_test" by code_simp
  then show ?thesis by (simp add: read_request_def demo_codec_def)
qed

lemma demo_session_runs:
  assumes "answers demo_test [demo_reply]"
  shows "(session_step demo_codec answers)\<^sup>*\<^sup>* open_session (demo_session (Answering [''reply'']))"
proof -
  have "session_step demo_codec answers open_session (demo_session Handling)"
    by (rule session_step.reads [where inc = "Some (Some (TextFrame ''test''), 5)"])
       (simp add: await_message_def SILENCE_TIMEOUT_def read_message_def demo_read_test spawn_request_def
         open_session_def demo_session_def)
  moreover have "session_step demo_codec answers (demo_session Handling)
      (handler_returned demo_codec 0 [demo_reply] (demo_session Handling))"
    by (rule session_step.returns) (simp_all add: demo_session_def assms)
  moreover have "handler_returned demo_codec 0 [demo_reply] (demo_session Handling)
      = demo_session (Answering [''reply''])"
    by (simp add: demo_session_def handler_returned_def set_work_def write_response_def demo_codec_def)
  ultimately show ?thesis by (metis converse_rtranclp_into_rtranclp rtranclp.rtrancl_refl)
qed

lemma agent_serves:
  assumes "(session_step cd answers)\<^sup>*\<^sup>* s s'" "agent_reachable cd answers a" "ag_link a = InSession s"
  shows "agent_reachable cd answers (a\<lparr>ag_link := InSession s'\<rparr>)"
  using assms(1)
proof induction
  case base
  then show ?case using assms(2,3) by (metis agent.surjective agent.update_convs(2))
next
  case (step s1 s2)
  then show ?case using agent_reachable.steps [OF step.IH agent_step.serves] by fastforce
qed

lemma demo_reachable:
  "agent_reachable demo_codec (executes demo_arrow (\<lambda>_. ''bad'')
      (pg_provider demo_arrow api (demo_pool [] demo_error) 5) ''postgres'')
    (demo_serving (demo_session (Answering [''reply''])))" (is "agent_reachable _ ?h _")
proof -
  have "agent_reachable demo_codec ?h (connected agent_start)"
    by (rule agent_reachable.steps [OF agent_reachable.starts agent_step.connects]) (simp add: agent_start_def)
  moreover have "?h demo_test [demo_reply]" by (simp add: executes_def demo_execute)
  ultimately show ?thesis
    using agent_serves [OF demo_session_runs] by (fastforce simp: connected_def agent_start_def demo_serving_def)
qed

theorem agent_invariant_witness:
  "fst (healthz (demo_serving (demo_session (Answering [''reply''])))) = 200"
  using agent_invariant [OF demo_reachable] by (simp add: demo_serving_def)

end
