(* ===== verification/Providers.thy ===== *)
theory Providers
  imports Connection Databricks Agent
begin

text \<open>
  The providers as the executor uses them: each kind of connection the factory can open, seen
  through the methods of the \<open>DatasourceProvider\<close> trait (provider.rs and the \<open>impl\<close> blocks of
  providers/*.rs), and what then holds of the executor and the agent for every kind. A call of a
  method starts at the time of the environment; \<^const>\<open>None\<close> is a call that panics or never returns.
\<close>

section \<open>The providers\<close>

text \<open>What the methods need beside the connection.\<close>

record runtime =
  rt_arrow :: arrow_api
  rt_values :: value_api
  rt_regex :: regex
  rt_rest :: rest_service
  rt_format :: "i64 \<Rightarrow> nat \<Rightarrow> nat \<Rightarrow> string"
  rt_fuel :: nat
  rt_elapsed :: i64
  rt_now :: nat

definition redshift_provider ::
  "arrow_api \<Rightarrow> value_api \<Rightarrow> regex \<Rightarrow> pg_row sqlx_pool \<Rightarrow> i64 \<Rightarrow> provider" where
  "redshift_provider arrow api rx pool elapsed =
     \<lparr>pv_test_connection = Some (redshift_test_connection pool),
      pv_execute_query = (\<lambda>sql limit offset tot _. redshift_execute_query arrow api pool elapsed sql limit offset tot),
      pv_dry_run = redshift_dry_run rx pool,
      pv_stream_arrow = (\<lambda>sql limit offset tot chunk.
        stream_read (redshift_stream_arrow arrow api pool elapsed sql limit offset tot chunk (reader [])))\<rparr>"

definition synapse_provider ::
  "arrow_api \<Rightarrow> value_api \<Rightarrow> regex \<Rightarrow> tds_client \<Rightarrow> i64 \<Rightarrow> provider" where
  "synapse_provider arrow api rx client elapsed =
     \<lparr>pv_test_connection = synapse_test_connection client,
      pv_execute_query = (\<lambda>sql limit offset tot _. execute_tds_query arrow api client elapsed sql limit offset tot),
      pv_dry_run = synapse_dry_run rx client,
      pv_stream_arrow = (\<lambda>sql limit offset tot chunk.
        stream_read (execute_tds_stream_arrow arrow api (tds_query client) sql limit offset chunk
          ''Azure Synapse'' elapsed (reader [])))\<rparr>"

definition clickhouse_http_provider :: "runtime \<Rightarrow> clickhouse_provider \<Rightarrow> http_server \<Rightarrow> provider" where
  "clickhouse_http_provider rt cp sv =
     \<lparr>pv_test_connection = clickhouse_test_connection sv cp,
      pv_execute_query = (\<lambda>sql limit offset tot _.
        clickhouse_execute_query (rt_arrow rt) (rt_values rt) sv cp (rt_elapsed rt) sql limit offset tot),
      pv_dry_run = clickhouse_dry_run (rt_regex rt) sv cp,
      pv_stream_arrow = (\<lambda>sql limit offset tot chunk.
        stream_read (clickhouse_stream_arrow (rt_fuel rt) (rt_arrow rt) (rt_values rt) sv cp
          (rt_elapsed rt) sql limit offset tot chunk (reader [])))\<rparr>"

text \<open>The result of a method that takes time and always returns \<open>Ok\<close>.\<close>

definition timed_ok :: "'a option timed \<Rightarrow> 'a result option" where
  "timed_ok r = Option.bind r (\<lambda>(a, _). map_option Inr a)"

definition snowflake_rest_provider :: "runtime \<Rightarrow> snowflake_provider \<Rightarrow> provider" where
  "snowflake_rest_provider rt sp =
     \<lparr>pv_test_connection = map_option fst (snowflake_test_connection (rt_rest rt) sp (rt_now rt)),
      pv_execute_query = (\<lambda>sql limit offset tot _. timed_ok
        (snowflake_execute_query (rt_arrow rt) (rt_values rt) (rt_rest rt) sp (rt_elapsed rt)
          sql limit offset tot (rt_now rt))),
      pv_dry_run = (\<lambda>sql. map_option (\<lambda>(r, _). Inr r)
        (snowflake_dry_run (rt_regex rt) (rt_rest rt) sp sql (rt_now rt))),
      pv_stream_arrow = (\<lambda>sql limit offset tot chunk.
        stream_read (snowflake_stream_arrow (rt_arrow rt) (rt_values rt) (rt_rest rt) sp
          (rt_elapsed rt) sql limit offset tot chunk (rt_now rt) (reader [])))\<rparr>"

definition databricks_rest_provider :: "runtime \<Rightarrow> databricks_provider \<Rightarrow> provider" where
  "databricks_rest_provider rt dp =
     \<lparr>pv_test_connection = map_option fst (databricks_test_connection (rt_rest rt) dp (rt_now rt)),
      pv_execute_query = (\<lambda>sql limit offset tot _. timed_ok
        (databricks_execute_query (rt_fuel rt) (rt_arrow rt) (rt_values rt) (rt_rest rt) dp (rt_elapsed rt)
          sql limit offset tot (rt_now rt))),
      pv_dry_run = (\<lambda>sql. map_option (\<lambda>(r, _). Inr r)
        (databricks_dry_run (rt_regex rt) (rt_rest rt) dp sql (rt_now rt))),
      pv_stream_arrow = (\<lambda>sql limit offset tot chunk.
        stream_read (databricks_stream_arrow (rt_fuel rt) (rt_arrow rt) (rt_values rt) (rt_rest rt) dp
          (rt_elapsed rt) sql limit offset tot chunk (rt_now rt) (reader [])))\<rparr>"

definition bigquery_rest_provider :: "runtime \<Rightarrow> bigquery_provider \<Rightarrow> provider" where
  "bigquery_rest_provider rt bp =
     \<lparr>pv_test_connection = bigquery_test_connection (rt_rest rt) bp (rt_now rt),
      pv_execute_query = (\<lambda>sql limit offset tot job. timed_ok
        (bigquery_execute_query (rt_arrow rt) (rt_values rt) (rt_rest rt) bp (rt_elapsed rt)
          sql limit offset tot job (rt_now rt))),
      pv_dry_run = (\<lambda>sql. map_option (\<lambda>(r, _). Inr r)
        (bigquery_dry_run (rt_regex rt) (rt_format rt) (rt_rest rt) bp sql (rt_now rt))),
      pv_stream_arrow = (\<lambda>sql limit offset tot chunk.
        stream_read (bigquery_stream_arrow (rt_fuel rt) (rt_arrow rt) (rt_values rt) (rt_rest rt) bp
          (rt_elapsed rt) sql limit offset tot chunk (rt_now rt) (reader [])))\<rparr>"

definition flare_provider :: "runtime \<Rightarrow> flight_api \<Rightarrow> provider" where
  "flare_provider rt fl =
     \<lparr>pv_test_connection = Some (flare_test_connection fl),
      pv_execute_query = (\<lambda>sql limit offset _ _. flare_execute_query fl (rt_elapsed rt) sql limit offset),
      pv_dry_run = (\<lambda>sql. Some (flare_dry_run fl sql)),
      pv_stream_arrow = (\<lambda>sql limit offset tot chunk.
        stream_read (flaredb_stream_arrow (rt_arrow rt) fl (rt_elapsed rt) sql limit offset tot chunk (reader [])))\<rparr>"

section \<open>The provider of a connection\<close>

type_synonym ('k, 'r) real_world = "('k, pg_row sqlx_pool, mysql_row sqlx_pool, tds_client, 'r) world"

type_synonym database = "(pg_row sqlx_pool, mysql_row sqlx_pool, tds_client) live_provider"

fun provider_of :: "runtime \<Rightarrow> database \<Rightarrow> provider" where
  "provider_of rt (ConnPostgres pool) = pg_provider (rt_arrow rt) (rt_values rt) pool (rt_elapsed rt)"
| "provider_of rt (ConnMySql pool) =
     mysql_provider (rt_arrow rt) (rt_values rt) (rt_regex rt) pool (rt_elapsed rt)"
| "provider_of rt (ConnRedshift pool) =
     redshift_provider (rt_arrow rt) (rt_values rt) (rt_regex rt) pool (rt_elapsed rt)"
| "provider_of rt (ConnClickHouse cp sv) = clickhouse_http_provider rt cp sv"
| "provider_of rt (ConnSnowflake sp) = snowflake_rest_provider rt sp"
| "provider_of rt (ConnDatabricks dp) = databricks_rest_provider rt dp"
| "provider_of rt (ConnSqlServer client) =
     sqlserver_provider (rt_arrow rt) (rt_values rt) (rt_regex rt) client (rt_elapsed rt)"
| "provider_of rt (ConnSynapse client) =
     synapse_provider (rt_arrow rt) (rt_values rt) (rt_regex rt) client (rt_elapsed rt)"
| "provider_of rt (ConnBigQuery bp) = bigquery_rest_provider rt bp"
| "provider_of rt (ConnFlareDb fl) = flare_provider rt fl"

text \<open>\<open>test_connection\<close> of a provider; \<^const>\<open>None\<close> is a call that never returns.\<close>

definition connected_test :: "rest_service \<Rightarrow> database \<Rightarrow> nat \<Rightarrow> bool result option" where
  "connected_test sv conn now =
     (case conn of
        ConnPostgres pool \<Rightarrow> Some (pg_test_connection pool)
      | ConnMySql pool \<Rightarrow> Some (mysql_test_connection pool)
      | ConnRedshift pool \<Rightarrow> Some (redshift_test_connection pool)
      | ConnClickHouse cp hs \<Rightarrow> clickhouse_test_connection hs cp
      | ConnSnowflake sp \<Rightarrow> map_option fst (snowflake_test_connection sv sp now)
      | ConnDatabricks dp \<Rightarrow> map_option fst (databricks_test_connection sv dp now)
      | ConnSqlServer client \<Rightarrow> sqlserver_test_connection client
      | ConnSynapse client \<Rightarrow> synapse_test_connection client
      | ConnBigQuery bp \<Rightarrow> bigquery_test_connection sv bp now
      | ConnFlareDb fd \<Rightarrow> Some (flare_test_connection fd))"

lemma provider_of_test:
  "pv_test_connection (provider_of rt conn) = connected_test (rt_rest rt) conn (rt_now rt)"
  by (cases conn) (simp_all add: connected_test_def pg_provider_def mysql_provider_def redshift_provider_def
      clickhouse_http_provider_def snowflake_rest_provider_def databricks_rest_provider_def
      sqlserver_provider_def synapse_provider_def bigquery_rest_provider_def flare_provider_def)

section \<open>A receiver that stays\<close>

text \<open>
  \<open>receiver_kept f\<close>: the executor's receiver reads to the end, and no step of a stream makes it go away.
\<close>

fun receiver_kept :: "'a flow \<Rightarrow> bool" where
  "receiver_kept (Go _ ch) \<longleftrightarrow> ch_budget ch = None"
| "receiver_kept (Stop ch) \<longleftrightarrow> ch_budget ch = None"
| "receiver_kept Panic \<longleftrightarrow> True"
| "receiver_kept (OutOfFuel ch) \<longleftrightarrow> True"

lemma kept_bind:
  "\<lbrakk>receiver_kept f; \<And>a ch. ch_budget ch = None \<Longrightarrow> receiver_kept (g a ch)\<rbrakk> \<Longrightarrow> receiver_kept (bind_flow f g)"
  by (cases f) auto

lemma sound_kept: "sound_flow Q f \<Longrightarrow> receiver_kept f"
  by (cases f) auto

lemma kept_steps:
  assumes "ch_budget ch = None"
  shows "receiver_kept (may_panic x ch)" "receiver_kept (fail_stream msg ch)" "receiver_kept (send_or_stop m ch)" "receiver_kept (send_quiet m ch)"
    "receiver_kept (emit_schema arrow cols tot ch)" "receiver_kept (emit_batch arrow b i ch)" "receiver_kept (emit_complete elapsed n rows ch)"
    "receiver_kept (flow_timed r ch)"
  using assms
  by (cases x; auto simp: fail_stream_def send_or_stop_def send_quiet_def chan_send_def flow_timed_def
      intro: sound_kept [OF sound_emit(3)] sound_kept [OF sound_emit(4)] sound_kept [OF sound_emit(5)]
      split: option.split sum.split)+

lemmas kept_intros = kept_bind kept_steps

lemma kept_page: "ch_budget ch = None \<Longrightarrow> receiver_kept (emit_page arrow put cols rows counts ch)"
  by (auto simp: emit_page_def intro!: kept_intros)

lemma kept_chunks:
  "ch_budget ch = None \<Longrightarrow> receiver_kept (stream_chunks fuel arrow api sv dp cols sid nxt counts now ch)"
  by (induction fuel arrow api sv dp cols sid nxt counts now ch rule: stream_chunks.induct)
     (auto intro!: kept_intros kept_page)

lemma kept_partitions:
  "ch_budget ch = None \<Longrightarrow> receiver_kept (stream_partitions arrow api sv sp cols handle is counts now ch)"
  by (induction "is" arbitrary: counts now ch) (auto intro!: kept_intros kept_page)

lemma kept_bq_pages:
  "ch_budget ch = None \<Longrightarrow> receiver_kept (bq_pages fuel arrow api sv bp job loc body p st now ch)"
  by (induction fuel arbitrary: st now ch)
     (auto simp: Let_def bq_schema_def intro!: kept_intros kept_page)

lemma kept_ch_fetch: "ch_budget ch = None \<Longrightarrow> receiver_kept (ch_fetch sv cp sql ch)"
  by (auto simp: ch_fetch_def intro!: kept_steps(2) split: http_reply.split option.split sum.split)

lemma kept_ch_loop:
  "ch_budget ch = None \<Longrightarrow> receiver_kept (ch_loop fuel arrow api sv cp sql paged p st ch)"
  by (induction fuel arbitrary: st ch)
     (auto simp: Let_def ch_schema_def ch_page_def intro!: kept_intros kept_ch_fetch)

lemma kept_flare_items:
  "ch_budget ch = None \<Longrightarrow> receiver_kept (flare_items arrow items st ch)"
  by (induction arrow items st ch rule: flare_items.induct)
     (auto simp: flare_schema_def flare_batch_def intro!: kept_intros split: sum.split)

lemma kept_flare_endpoints:
  "ch_budget ch = None \<Longrightarrow> receiver_kept (flare_endpoints arrow fl eps st ch)"
  by (induction arrow fl eps st ch rule: flare_endpoints.induct)
     (auto intro!: kept_intros kept_flare_items split: option.split sum.split)

lemma kept_streams:
  assumes "ch_budget ch = None"
  shows "receiver_kept (clickhouse_stream_arrow fuel arrow api hsv cp elapsed sql limit offset tot n ch)"
    "receiver_kept (databricks_stream_arrow fuel arrow api sv dp elapsed sql limit offset tot n now ch)"
    "receiver_kept (snowflake_stream_arrow arrow api sv sp elapsed sql limit offset tot n now ch)"
    "receiver_kept (bigquery_stream_arrow fuel arrow api sv bp elapsed sql limit offset tot n now ch)"
    "receiver_kept (flaredb_stream_arrow arrow fl elapsed sql limit offset tot n ch)"
  using assms
  by (auto simp: clickhouse_stream_arrow_def databricks_stream_arrow_def snowflake_stream_arrow_def
      bigquery_stream_arrow_def flaredb_stream_arrow_def flare_finish_def Let_def
      intro!: kept_intros kept_page kept_chunks kept_partitions kept_bq_pages kept_ch_loop kept_flare_endpoints
      split: option.split sum.split)

section \<open>Every provider keeps the executor's contract\<close>

lemma stream_read_kept:
  assumes "receiver_kept f" "flow_ended f" "stream_read f = Some (Inr ms)"
  shows "stream_phase ms = Some Closed"
  using assms by (cases f) (auto simp: stream_ended_def)

lemma reader_stays: "ch_budget (reader []) = None"
  by simp

lemmas reader_streams_closed =
  stream_read_kept [OF kept_streams(1) [OF reader_stays] flow_ok_ended [OF clickhouse_stream_ok [OF fresh_chan_phase]]]
  stream_read_kept [OF kept_streams(2) [OF reader_stays] flow_ok_ended [OF databricks_stream_ok [OF fresh_chan_phase]]]
  stream_read_kept [OF kept_streams(3) [OF reader_stays] flow_ok_ended [OF snowflake_stream_ok [OF fresh_chan_phase]]]
  stream_read_kept [OF kept_streams(4) [OF reader_stays] flow_ok_ended [OF bigquery_stream_ok [OF fresh_chan_phase]]]
  stream_read_kept [OF kept_streams(5) [OF reader_stays] flow_ok_ended [OF flaredb_stream_ok [OF fresh_chan_phase]]]

lemma redshift_stream_sound:
  "sound_flow (\<lambda>_. True) (redshift_stream_arrow arrow api pool elapsed sql limit offset tot chunk (reader []))"
  unfolding redshift_stream_arrow_def sqlx_stream_def drive_sqlx_stream_arrow_def Let_def
  by (rule pg_writer.drive_loop_sound)
     (simp_all add: redshift_row_to_arrow_def pg_row_to_arrow_def drive_start_built)

lemma redshift_flow_ended:
  "flow_ended (redshift_stream_arrow arrow api pool elapsed sql limit offset tot chunk (reader []))"
  unfolding redshift_stream_arrow_def by (rule sqlx_flow_ended)

interpretation redshift_exec: total_provider "redshift_provider arrow api rx pool elapsed"
proof unfold_locales
  fix sql limit offset tot chunk ms job
  show "stream_phase ms = Some Closed"
    if "pv_stream_arrow (redshift_provider arrow api rx pool elapsed) sql limit offset tot chunk = Some (Inr ms)"
    using that stream_read_closed [OF redshift_stream_sound redshift_flow_ended]
    by (simp add: redshift_provider_def)
  show "\<exists>r. pv_execute_query (redshift_provider arrow api rx pool elapsed) sql limit offset tot job = Some r"
    using redshift_queries.execute_returns by (fastforce simp: redshift_provider_def)
  show "\<exists>r. pv_stream_arrow (redshift_provider arrow api rx pool elapsed) sql limit offset tot chunk = Some r"
    using stream_read_sound [OF redshift_stream_sound] by (fastforce simp: redshift_provider_def)
  show "\<exists>r. pv_test_connection (redshift_provider arrow api rx pool elapsed) = Some r"
    by (simp add: redshift_provider_def)
qed

interpretation synapse_exec: stream_provider "synapse_provider arrow api rx client elapsed"
  by unfold_locales (rule tds_stream_closed, simp add: synapse_provider_def)

lemma synapse_total:
  assumes "tds_answers client"
  shows "total_provider (synapse_provider arrow api rx client elapsed)"
proof unfold_locales
  fix sql limit offset tot chunk job
  show "\<exists>r. pv_execute_query (synapse_provider arrow api rx client elapsed) sql limit offset tot job = Some r"
    using execute_tds_query_returns [OF assms] by (fastforce simp: synapse_provider_def)
  show "\<exists>r. pv_stream_arrow (synapse_provider arrow api rx client elapsed) sql limit offset tot chunk = Some r"
    by (rule tds_stream_reads [OF assms]) (auto simp: synapse_provider_def)
  show "\<exists>r. pv_test_connection (synapse_provider arrow api rx client elapsed) = Some r"
    using tds_test_answers [OF assms] by (simp add: synapse_provider_def synapse_test_connection_def)
qed

interpretation live_exec: stream_provider "provider_of rt conn"
proof
  fix sql limit offset tot chunk ms
  assume stream: "pv_stream_arrow (provider_of rt conn) sql limit offset tot chunk = Some (Inr ms)"
  show "stream_phase ms = Some Closed"
  proof (cases conn)
    case (ConnPostgres pool)
    then show ?thesis using stream by (auto intro: pg_exec.stream_closed)
  next
    case (ConnMySql pool)
    then show ?thesis using stream by (auto intro: mysql_exec.stream_closed)
  next
    case (ConnRedshift pool)
    then show ?thesis using stream by (auto intro: redshift_exec.stream_closed)
  next
    case (ConnSqlServer client)
    then show ?thesis using stream by (auto intro: sqlserver_exec.stream_closed)
  next
    case (ConnSynapse client)
    then show ?thesis using stream by (auto intro: synapse_exec.stream_closed)
  qed (use stream in \<open>auto simp: clickhouse_http_provider_def snowflake_rest_provider_def
      databricks_rest_provider_def bigquery_rest_provider_def flare_provider_def intro: reader_streams_closed\<close>)
qed

text \<open>
  The providers over a database connection: every wait of the first three has a limit; the T-SQL
  providers also wait for the lock of the connection and for the rows, without one.
\<close>

fun sql_connection :: "database \<Rightarrow> bool" where
  "sql_connection (ConnPostgres _) = True"
| "sql_connection (ConnMySql _) = True"
| "sql_connection (ConnRedshift _) = True"
| "sql_connection (ConnSqlServer client) = tds_answers client"
| "sql_connection (ConnSynapse client) = tds_answers client"
| "sql_connection _ = False"

lemma some_answer: "\<exists>rs. x = Some rs \<and> P rs \<Longrightarrow> \<exists>rs. x = Some rs"
  by blast

lemma sql_connection_answers:
  assumes "sql_connection conn" "req_op request \<in> {ExecuteQuery, TestConnection}"
  shows "\<exists>rs. execute arrow serde_err (provider_of rt conn) db_type request = Some rs"
  using assms(1)
  by (cases conn)
     (auto intro: some_answer [OF pg_exec.query_answered [OF assms(2)]]
       some_answer [OF mysql_exec.query_answered [OF assms(2)]]
       some_answer [OF redshift_exec.query_answered [OF assms(2)]]
       some_answer [OF total_provider.query_answered [OF sqlserver_total assms(2)]]
       some_answer [OF total_provider.query_answered [OF synapse_total assms(2)]])

text \<open>
  C1. Every request is answered completely, over all ten kinds of datasource the factory can
  open: the responses carry the request's id and form one result, one error, or an Arrow header,
  consecutively numbered batches and a final summary or error. Over PostgreSQL, MySQL and Redshift
  an answer to a query or a connection test always comes; over SQL Server and Synapse it comes
  if every statement's rows arrive and the connection is not held for ever.
\<close>

theorem requests_answered:
  "(execute (rt_arrow rt) serde_err (provider_of rt conn) db_type request = Some rs \<longrightarrow>
      complete_reply (req_id request) rs) \<and>
   (sql_connection conn \<and> req_op request \<in> {ExecuteQuery, TestConnection} \<longrightarrow>
      (\<exists>rs. execute (rt_arrow rt) serde_err (provider_of rt conn) db_type request = Some rs))"
  using live_exec.execute_complete sql_connection_answers by blast

definition demo_runtime :: "value_api \<Rightarrow> runtime" where
  "demo_runtime api = \<lparr>rt_arrow = demo_arrow, rt_values = api, rt_regex = (\<lambda>_ _ _. None),
     rt_rest = (\<lambda>_ _. Silent), rt_format = (\<lambda>_ _ _. ''''), rt_fuel = 0, rt_elapsed = 5, rt_now = 0\<rparr>"

abbreviation demo_live :: "value_api \<Rightarrow> provider" where
  "demo_live api \<equiv> provider_of (demo_runtime api) (ConnPostgres (demo_pool [] demo_error))"

lemma demo_live_eq: "demo_live api = pg_provider demo_arrow api (demo_pool [] demo_error) 5"
  by (simp add: demo_runtime_def)

lemma demo_runtime_arrow [simp]: "rt_arrow (demo_runtime api) = demo_arrow"
  by (simp add: demo_runtime_def)

theorem requests_answered_witness:
  "\<forall>api. (\<exists>rs. execute demo_arrow (\<lambda>_. ''bad'') (demo_live api) ''postgres'' demo_test = Some rs) \<and>
     complete_reply ''r1'' [demo_reply]"
proof (intro allI conjI)
  fix api
  note answered = requests_answered [of "demo_runtime api" "\<lambda>_. ''bad''"
      "ConnPostgres (demo_pool [] demo_error)" "''postgres''" demo_test]
  show "\<exists>rs. execute demo_arrow (\<lambda>_. ''bad'') (demo_live api) ''postgres'' demo_test = Some rs"
    using answered by (simp add: demo_test_def)
  have "req_id demo_test = ''r1''" by (simp add: demo_test_def)
  then show "complete_reply ''r1'' [demo_reply]"
    using answered [of "[demo_reply]"] demo_execute [of api] unfolding demo_live_eq by simp
qed

section \<open>The agent over every provider\<close>

lemma live_handler: "request_handler (executes arrow serde_err (provider_of rt conn) db_type)"
  by (rule live_exec.agent.request_handler_axioms)

text \<open>
  C3. The replies to a request arrive in order. In every state the agent can reach, with any
  number of requests in progress and any interleaving of their replies, pings and write failures,
  what the backend has received under the identifier of an answered request is a first part of
  the complete reply the executor gave, unless another request of the session has the same
  identifier.
\<close>

theorem agent_replies_in_order:
  assumes reach: "agent_reachable cd (executes arrow serde_err (provider_of rt conn) db_type) a" "ag_link a = InSession s"
    and task: "i < length (ss_tasks s)" "tk_work (ss_tasks s ! i) = Answering todo"
    and unique: "\<And>j. \<lbrakk>j < length (ss_tasks s);
          req_id (tk_request (ss_tasks s ! j)) = req_id (tk_request (ss_tasks s ! i))\<rbrakk> \<Longrightarrow> j = i"
    and legible: "\<And>t rs r. \<lbrakk>t \<in> set (ss_tasks s);
          execute arrow serde_err (provider_of rt conn) db_type (tk_request t) = Some rs; r \<in> set rs\<rbrakk> \<Longrightarrow> readable cd dec r"
  shows "\<exists>rs. execute arrow serde_err (provider_of rt conn) db_type (tk_request (ss_tasks s ! i)) = Some rs \<and>
    complete_reply (req_id (tk_request (ss_tasks s ! i))) rs \<and>
    prefix (received_for cd dec (req_id (tk_request (ss_tasks s ! i))) (ss_socket s)) rs"
  using request_handler.replies_in_order [OF live_handler agent_session_ok [OF reach] task unique refl]
    request_handler.complete [OF live_handler] legible
  unfolding executes_def by blast

text \<open>
  C4. The bounded queue does not lock up. While the writer lives, at most \<open>backlog s\<close> steps of the
  tasks and the writer are possible without new input, whatever their order, and when none is
  left, the backend has received the complete reply to every answered request with an identifier
  of its own.
\<close>

theorem agent_delivers:
  assumes reach: "agent_reachable cd (executes arrow serde_err (provider_of rt conn) db_type) a" "ag_link a = InSession s"
    and task: "i < length (ss_tasks s)" "is_answering (tk_work (ss_tasks s ! i))"
    and unique: "\<And>j. \<lbrakk>j < length (ss_tasks s);
          req_id (tk_request (ss_tasks s ! j)) = req_id (tk_request (ss_tasks s ! i))\<rbrakk> \<Longrightarrow> j = i"
    and legible: "\<And>t rs r. \<lbrakk>t \<in> set (ss_tasks s);
          execute arrow serde_err (provider_of rt conn) db_type (tk_request t) = Some rs; r \<in> set rs\<rbrakk> \<Longrightarrow> readable cd dec r"
    and drain: "(drain_step ^^ n) s s'"
  shows "n \<le> backlog s \<and>
    (ss_writer s \<noteq> WriterClosed \<and> (\<forall>s''. \<not> drain_step s' s'') \<longrightarrow>
      execute arrow serde_err (provider_of rt conn) db_type (tk_request (ss_tasks s ! i))
        = Some (received_for cd dec (req_id (tk_request (ss_tasks s ! i))) (ss_socket s')))"
proof (intro conjI impI)
  show "n \<le> backlog s" using drain_backlog [OF drain] by simp
  assume stuck: "ss_writer s \<noteq> WriterClosed \<and> (\<forall>s''. \<not> drain_step s' s'')"
  note keeps = drain_keeps [OF drain agent_session_ok [OF reach]]
  have len: "length (ss_tasks s') = length (ss_tasks s)" using keeps by (metis length_map)
  have same: "tk_request (ss_tasks s' ! j) = tk_request (ss_tasks s ! j)"
    "is_answering (tk_work (ss_tasks s' ! j)) = is_answering (tk_work (ss_tasks s ! j))"
    if "j < length (ss_tasks s)" for j
    using keeps that len by (metis nth_map, metis comp_apply nth_map)
  have idle: "ss_writer s' = WaitingForMessage" "ss_queue s' = []" "todo_size (tk_work (ss_tasks s' ! i)) = 0"
    using drained(1,2) [of s'] drained(3) [of s' i] stuck keeps task(1) len by simp_all
  then have work: "tk_work (ss_tasks s' ! i) = Answering []"
    using task(2) same(2) [OF task(1)] by (cases "tk_work (ss_tasks s' ! i)") auto
  have legible': "readable cd dec r"
    if "t \<in> set (ss_tasks s')" "executes arrow serde_err (provider_of rt conn) db_type (tk_request t) rs" "r \<in> set rs" for t rs r
    using that legible same(1) len by (metis executes_def in_set_conv_nth)
  have "\<exists>rs. executes arrow serde_err (provider_of rt conn) db_type (tk_request (ss_tasks s' ! i)) rs \<and>
      prefix (received_for cd dec (req_id (tk_request (ss_tasks s ! i))) (ss_socket s')) rs \<and>
      (([] :: string list) = [] \<and> ss_queue s' = [] \<and> ss_writer s' = WaitingForMessage \<longrightarrow>
        received_for cd dec (req_id (tk_request (ss_tasks s ! i))) (ss_socket s') = rs)"
  proof (rule request_handler.replies_in_order [OF live_handler conjunct1 [OF keeps] _ work _ _ legible'])
    show "j = i" if "j < length (ss_tasks s')"
      "req_id (tk_request (ss_tasks s' ! j)) = req_id (tk_request (ss_tasks s ! i))" for j
      using that unique same(1) len by simp
  qed (use task(1) len same(1) in simp_all)
  then show "execute arrow serde_err (provider_of rt conn) db_type (tk_request (ss_tasks s ! i))
      = Some (received_for cd dec (req_id (tk_request (ss_tasks s ! i))) (ss_socket s'))"
    using idle same(1) [OF task(1)] by (auto simp: executes_def)
qed

theorem agent_replies_in_order_witness:
  "\<forall>api. \<exists>rs. execute demo_arrow (\<lambda>_. ''bad'') (demo_live api) ''postgres''
      demo_test = Some rs \<and> complete_reply ''r1'' rs \<and>
    prefix (received_for demo_codec demo_decode ''r1'' []) rs"
proof
  fix api
  note order = agent_replies_in_order [OF demo_reachable [of api, folded demo_live_eq], where s = "demo_session (Answering [''reply''])"
      and i = 0 and dec = demo_decode and todo = "[''reply'']"]
  have task: "tk_request (ss_tasks (demo_session w) ! 0) = demo_test" "req_id demo_test = ''r1''"
    "ss_socket (demo_session w) = []" for w
    by (simp_all add: demo_session_def demo_test_def)
  show "\<exists>rs. execute demo_arrow (\<lambda>_. ''bad'') (demo_live api) ''postgres''
      demo_test = Some rs \<and> complete_reply ''r1'' rs \<and>
    prefix (received_for demo_codec demo_decode ''r1'' []) rs"
    by (rule order [unfolded task]) (auto simp: demo_serving_def demo_session_def demo_execute demo_runtime_def demo_readable)
qed

theorem agent_delivers_witness:
  "\<forall>api. execute demo_arrow (\<lambda>_. ''bad'') (demo_live api) ''postgres''
      demo_test = Some (received_for demo_codec demo_decode ''r1'' [OutText 0 ''reply''])"
proof
  fix api
  let ?s = "demo_session (Answering [''reply''])"
  let ?q = "(demo_session (Answering []))\<lparr>ss_queue := [OutText 0 ''reply'']\<rparr>"
  let ?w = "(demo_session (Answering []))\<lparr>ss_writer := Sending (OutText 0 ''reply'')\<rparr>"
  let ?e = "(demo_session (Answering []))\<lparr>ss_socket := [OutText 0 ''reply'']\<rparr>"
  have "drain_step ?s ?q" by (rule drain_step.sends [of 0])
     (simp add: task_send_def try_send_def demo_session_def QUEUE_SIZE_def set_work_def)
  moreover have "drain_step ?q ?w" by (rule drain_step.takes) (simp add: writer_takes_def demo_session_def)
  moreover have "drain_step ?w ?e" by (rule drain_step.written) (simp add: writer_sends_def demo_session_def)
  ultimately have drain: "(drain_step ^^ 3) ?s ?e" by (auto simp: numeral_3_eq_3)
  have stuck: "\<not> drain_step ?e s''" for s''
    by (auto elim!: drain_stepE simp: task_send_def writer_takes_def writer_sends_def demo_session_def split: if_splits)
  have task: "tk_request (ss_tasks ?s ! 0) = demo_test" "req_id demo_test = ''r1''"
    "ss_socket ?e = [OutText 0 ''reply'']"
    by (simp_all add: demo_session_def demo_test_def)
  note delivers = agent_delivers [OF demo_reachable [of api, folded demo_live_eq] _ _ _ _ _ drain, where i = 0 and dec = demo_decode,
      unfolded task, THEN conjunct2, THEN mp]
  show "execute demo_arrow (\<lambda>_. ''bad'') (demo_live api) ''postgres''
      demo_test = Some (received_for demo_codec demo_decode ''r1'' [OutText 0 ''reply''])"
    by (rule delivers) (use stuck in \<open>auto simp: demo_serving_def demo_session_def demo_execute demo_runtime_def demo_readable\<close>)
qed

end
