(* ===== verification/Setup.thy ===== *)
theory Setup
  imports Providers "HOL-Library.Monad_Syntax"
begin

text \<open>
  Configuring and starting the agent: the configuration file (config_file.rs), the configuration
  from environment, files and the verified token (config.rs), the executor built from it
  (executor.rs), the setup wizard (wizard.rs) and the local server that receives a token from the
  browser (callback_server.rs). The machine's environment and files are an explicit state; TOML,
  the JWT library and what the operator types are parameters.
\<close>

section \<open>The machine\<close>

datatype disk_file = Unreadable | Text string

record machine =
  ma_env :: "string \<Rightarrow> string option"
  ma_files :: "string \<Rightarrow> disk_file option"
  ma_private :: "string set"
  ma_config_dir :: "string option"
  ma_terminal :: bool
  ma_read_error :: "string \<Rightarrow> string"
  ma_write_error :: "string \<Rightarrow> string option"

definition read_to_string :: "machine \<Rightarrow> string \<Rightarrow> string option" where
  "read_to_string m path = (case ma_files m path of Some (Text s) \<Rightarrow> Some s | _ \<Rightarrow> None)"

text \<open>\<open>fs::write\<close> followed by \<open>set_permissions(0o600)\<close>.\<close>

definition write_private :: "string \<Rightarrow> string \<Rightarrow> machine \<Rightarrow> string + machine" where
  "write_private path content m =
     (case ma_write_error m path of
        Some e \<Rightarrow> Inl e
      | None \<Rightarrow> Inr (m\<lparr>ma_files := (ma_files m)(path \<mapsto> Text content), ma_private := insert path (ma_private m)\<rparr>))"

section \<open>The configuration file\<close>

record config_file =
  cf_token :: string
  cf_db_host :: string
  cf_db_port :: u16
  cf_db_name :: string
  cf_db_user :: string
  cf_db_password_file :: "string option"
  cf_db_ssl_mode :: "string option"
  cf_db_ssl_ca :: "string option"
  cf_health_port :: "u16 option"

text \<open>The TOML library; writing a \<^typ>\<open>config_file\<close> does not fail, its values are plain.\<close>

record toml_api =
  to_parse :: "string \<Rightarrow> config_file option"
  to_print :: "config_file \<Rightarrow> string"

definition default_config_dir :: "machine \<Rightarrow> string + string" where
  "default_config_dir m =
     (case ma_config_dir m of
        None \<Rightarrow> Inl ''Could not determine config directory''
      | Some d \<Rightarrow> Inr (path_join d ''kyomi-connect''))"

definition config_paths :: "machine \<Rightarrow> string list" where
  "config_paths m =
     (case ma_config_dir m of
        None \<Rightarrow> []
      | Some d \<Rightarrow> [path_join (path_join d ''kyomi-connect'') ''config.toml''])
     @ [''/etc/kyomi-connect/config.toml'']"

text \<open>Only the first path that exists counts, even when it cannot be read or parsed.\<close>

fun load_first :: "toml_api \<Rightarrow> machine \<Rightarrow> string list \<Rightarrow> config_file option" where
  "load_first tm m [] = None"
| "load_first tm m (path # paths) =
     (if ma_files m path = None then load_first tm m paths
      else Option.bind (read_to_string m path) (to_parse tm))"

definition load_config :: "toml_api \<Rightarrow> machine \<Rightarrow> config_file option" where
  "load_config tm m = load_first tm m (config_paths m)"

definition save_to :: "toml_api \<Rightarrow> config_file \<Rightarrow> string \<Rightarrow> machine \<Rightarrow> string + (string \<times> machine)" where
  "save_to tm cf config_dir m =
     (case ma_write_error m config_dir of
        Some e \<Rightarrow> Inl e
      | None \<Rightarrow>
          (let path = path_join config_dir ''config.toml'' in
           case write_private path (to_print tm cf) m of Inl e \<Rightarrow> Inl e | Inr m' \<Rightarrow> Inr (path, m')))"

definition save_config :: "toml_api \<Rightarrow> config_file \<Rightarrow> machine \<Rightarrow> string + (string \<times> machine)" where
  "save_config tm cf m =
     (case default_config_dir m of Inl e \<Rightarrow> Inl e | Inr dir \<Rightarrow> save_to tm cf dir m)"

definition save_password_to :: "string \<Rightarrow> string \<Rightarrow> machine \<Rightarrow> string + (string \<times> machine)" where
  "save_password_to config_dir password m =
     (case ma_write_error m config_dir of
        Some e \<Rightarrow> Inl e
      | None \<Rightarrow>
          (let path = path_join config_dir ''.db-password'' in
           case write_private path password m of Inl e \<Rightarrow> Inl e | Inr m' \<Rightarrow> Inr (path, m')))"

definition save_password :: "string \<Rightarrow> machine \<Rightarrow> string + (string \<times> machine)" where
  "save_password password m =
     (case default_config_dir m of Inl e \<Rightarrow> Inl e | Inr dir \<Rightarrow> save_password_to dir password m)"

section \<open>The token\<close>

text \<open>
  The JWT library and the web: the key identifier in a token's header; decoding with a key, or
  without one when the signature is not checked, and with or without a check of the expiry; keys
  from their coordinates; and the JSON document at a URL, or the error of fetching or of parsing it.
\<close>

datatype fetched = Fetched json | FetchFailed string | NotJson string

record 'key jwt_lib =
  jl_kid :: "string \<Rightarrow> string + string option"
  jl_key :: "string \<Rightarrow> string \<Rightarrow> string + 'key"
  jl_decode :: "'key option \<Rightarrow> bool \<Rightarrow> string \<Rightarrow> string + json"
  jl_fetch :: "string \<Rightarrow> fetched"
  jl_claims_error :: "json \<Rightarrow> string"

record connect_claims =
  cc_db :: string
  cc_url :: string
  cc_iss :: string

definition claims_from_json :: "json \<Rightarrow> connect_claims option" where
  "claims_from_json j =
     (if struct_shape 3 j then
        do { db \<leftarrow> de_required as_str (field_at j ''db'' 0);
             url \<leftarrow> de_required as_str (field_at j ''url'' 1);
             iss \<leftarrow> de_required as_str (field_at j ''iss'' 2);
             Some \<lparr>cc_db = db, cc_url = url, cc_iss = iss\<rparr> }
      else None)"

definition decode_claims :: "'key jwt_lib \<Rightarrow> 'key option \<Rightarrow> bool \<Rightarrow> string \<Rightarrow> string + connect_claims" where
  "decode_claims jl key validate_exp token =
     (case jl_decode jl key validate_exp token of
        Inl e \<Rightarrow> Inl e
      | Inr j \<Rightarrow> (case claims_from_json j of None \<Rightarrow> Inl (jl_claims_error jl j) | Some c \<Rightarrow> Inr c))"

definition jwks_url :: "string \<Rightarrow> string" where
  "jwks_url iss = trim_end_char (CHR ''/'') iss @ ''/.well-known/jwks.json''"

definition fetch_jwks :: "'key jwt_lib \<Rightarrow> string \<Rightarrow> string + json" where
  "fetch_jwks jl url =
     (case jl_fetch jl url of
        FetchFailed e \<Rightarrow> Inl (''Failed to fetch JWKS from '' @ url @ '': '' @ e)
      | NotJson e \<Rightarrow> Inl (''Failed to parse JWKS response: '' @ e)
      | Fetched j \<Rightarrow> Inr j)"

text \<open>\<open>iter().find(...)\<close> on the keys of a JWKS.\<close>

definition find_kid :: "string \<Rightarrow> json list \<Rightarrow> json option" where
  "find_kid kid keys = List.find (\<lambda>k. get_str k ''kid'' = Some kid) keys"

definition select_key :: "'key jwt_lib \<Rightarrow> string \<Rightarrow> json \<Rightarrow> string + 'key" where
  "select_key jl kid jwks =
     (case Option.bind (json_get jwks ''keys'') as_array of
        None \<Rightarrow> Inl (''JWKS has no '' @ [CHR 0x27] @ ''keys'' @ [CHR 0x27] @ '' array'')
      | Some keys \<Rightarrow>
     (case find_kid kid keys of
        None \<Rightarrow> Inl (''No matching key found in JWKS for kid '' @ [CHR 0x27] @ kid @ [CHR 0x27])
      | Some jwk \<Rightarrow>
     (case get_str jwk ''x'' of
        None \<Rightarrow> Inl (''JWK missing '' @ [CHR 0x27] @ ''x'' @ [CHR 0x27] @ '' coordinate'')
      | Some x \<Rightarrow>
     (case get_str jwk ''y'' of
        None \<Rightarrow> Inl (''JWK missing '' @ [CHR 0x27] @ ''y'' @ [CHR 0x27] @ '' coordinate'')
      | Some y \<Rightarrow> jl_key jl x y))))"

text \<open>
  The claims of a token, from its header to the verified signature. The first decoding does not
  check the signature but does check an expiry; the second one does it the other way round.
\<close>

definition verify_token :: "'key jwt_lib \<Rightarrow> string \<Rightarrow> string + connect_claims" where
  "verify_token jl token =
     (case jl_kid jl token of
        Inl e \<Rightarrow> Inl (''Invalid JWT token: '' @ e)
      | Inr kid0 \<Rightarrow>
     (case decode_claims jl None True token of
        Inl e \<Rightarrow> Inl e
      | Inr unsafe_claims \<Rightarrow>
     (case fetch_jwks jl (jwks_url (cc_iss unsafe_claims)) of
        Inl e \<Rightarrow> Inl e
      | Inr jwks \<Rightarrow>
     (case kid0 of
        None \<Rightarrow> Inl (''JWT has no '' @ [CHR 0x27] @ ''kid'' @ [CHR 0x27] @ '' header'')
      | Some kid \<Rightarrow>
     (case select_key jl kid jwks of
        Inl e \<Rightarrow> Inl e
      | Inr key \<Rightarrow>
     (case decode_claims jl (Some key) False token of
        Inl e \<Rightarrow> Inl (''JWT verification failed: '' @ e)
      | Inr claims \<Rightarrow> Inr claims))))))"

section \<open>The configuration of the agent\<close>

record connect_config =
  co_token :: string
  co_db_type :: string
  co_ws_url :: string
  co_db_host :: string
  co_db_port :: u16
  co_db_user :: string
  co_db_password :: string
  co_db_name :: string
  co_db_ssl_mode :: "string option"
  co_db_ssl_ca :: "string option"
  co_health_port :: u16

text \<open>A set \<open>_FILE\<close> variable whose file cannot be read counts as absent.\<close>

definition read_env_or_file :: "machine \<Rightarrow> string \<Rightarrow> string option" where
  "read_env_or_file m name =
     (case ma_env m name of
        Some v \<Rightarrow> Some v
      | None \<Rightarrow>
          Option.bind (ma_env m (name @ ''_FILE'')) (\<lambda>path. map_option str_trim (read_to_string m path)))"

definition default_port :: "string \<Rightarrow> u16" where
  "default_port db_type =
     (if db_type \<in> {''postgres'', ''redshift''} then 5432
      else if db_type = ''mysql'' then 3306
      else if db_type = ''clickhouse'' then 8123
      else if db_type \<in> {''sqlserver'', ''synapse''} then 1433
      else if db_type = ''snowflake'' then 443
      else if db_type = ''databricks'' then 443
      else 5432)"

text \<open>\<open>or_else\<close> on the environment, then the configuration file.\<close>

definition setting :: "machine \<Rightarrow> config_file option \<Rightarrow> string \<Rightarrow> (config_file \<Rightarrow> string option) \<Rightarrow> string option" where
  "setting m cf name field = if_some (read_env_or_file m name) Some (Option.bind cf field)"

definition required_setting :: "string \<Rightarrow> string option \<Rightarrow> string + string" where
  "required_setting name v =
     (case v of None \<Rightarrow> Inl (name @ '' (or '' @ name @ ''_FILE) is required'') | Some s \<Rightarrow> Inr s)"

definition parse_port :: "string \<Rightarrow> string \<Rightarrow> string + u16" where
  "parse_port name s =
     (case parse_unsigned 65535 s of
        None \<Rightarrow> Inl (name @ '' must be a valid port number'')
      | Some n \<Rightarrow> Inr (word_of_nat n))"

definition file_password :: "machine \<Rightarrow> config_file \<Rightarrow> string option" where
  "file_password m cf =
     Option.bind (cf_db_password_file cf) (\<lambda>path. map_option str_trim (read_to_string m path))"

definition database_settings ::
  "machine \<Rightarrow> config_file option \<Rightarrow> string \<Rightarrow> connect_claims \<Rightarrow> string + connect_config" where
  "database_settings m cf token claims =
     (case required_setting ''DB_HOST'' (setting m cf ''DB_HOST'' (\<lambda>c. Some (cf_db_host c))) of
        Inl e \<Rightarrow> Inl e
      | Inr host \<Rightarrow>
     (case parse_port ''DB_PORT'' (if_some (setting m cf ''DB_PORT'' (\<lambda>c. Some (show_word (cf_db_port c)))) (\<lambda>p. p)
             (show_word (default_port (cc_db claims)))) of
        Inl e \<Rightarrow> Inl e
      | Inr port \<Rightarrow>
     (case required_setting ''DB_USER'' (setting m cf ''DB_USER'' (\<lambda>c. Some (cf_db_user c))) of
        Inl e \<Rightarrow> Inl e
      | Inr user \<Rightarrow>
     (case required_setting ''DB_PASSWORD'' (setting m cf ''DB_PASSWORD'' (file_password m)) of
        Inl e \<Rightarrow> Inl e
      | Inr pw \<Rightarrow>
     (case required_setting ''DB_NAME'' (setting m cf ''DB_NAME'' (\<lambda>c. Some (cf_db_name c))) of
        Inl e \<Rightarrow> Inl e
      | Inr name \<Rightarrow>
     (case parse_port ''HEALTH_PORT''
             (if_some (setting m cf ''HEALTH_PORT'' (\<lambda>c. map_option show_word (cf_health_port c))) (\<lambda>p. p) ''9090'') of
        Inl e \<Rightarrow> Inl e
      | Inr health \<Rightarrow>
          Inr \<lparr>co_token = token, co_db_type = cc_db claims, co_ws_url = cc_url claims, co_db_host = host,
            co_db_port = port, co_db_user = user, co_db_password = pw, co_db_name = name,
            co_db_ssl_mode = setting m cf ''DB_SSL_MODE'' cf_db_ssl_mode,
            co_db_ssl_ca = setting m cf ''DB_SSL_CA'' cf_db_ssl_ca, co_health_port = health\<rparr>))))))"

definition from_env :: "toml_api \<Rightarrow> 'key jwt_lib \<Rightarrow> machine \<Rightarrow> string + connect_config" where
  "from_env tm jl m =
     (let cf = load_config tm m in
      case if_some (ma_env m ''KYOMI_TOKEN'') Some (map_option cf_token cf) of
        None \<Rightarrow> Inl (''KYOMI_TOKEN not set. Run '' @ [CHR 0x27] @ ''kyomi-connect setup'' @ [CHR 0x27]
                  @ '' to configure, or set KYOMI_TOKEN env var.'')
      | Some token \<Rightarrow>
          (case verify_token jl token of
             Inl e \<Rightarrow> Inl e
           | Inr claims \<Rightarrow> database_settings m cf token claims))"

definition connection_config :: "connect_config \<Rightarrow> json" where
  "connection_config co =
     json_obj [(''host'', Some (JString (co_db_host co))),
       (''port'', Some (JNumber (PosInt (ucast (co_db_port co))))),
       (''database'', Some (JString (co_db_name co))),
       (''ssl_mode'', Some (JString (if_some (co_db_ssl_mode co) (\<lambda>s. s) ''prefer''))),
       (''ssl_ca'', map_option JString (co_db_ssl_ca co))]"

definition connect_credentials :: "connect_config \<Rightarrow> json" where
  "connect_credentials co =
     json_obj [(''username'', Some (JString (co_db_user co))), (''password'', Some (JString (co_db_password co)))]"

section \<open>Building the executor\<close>

definition from_config ::
  "('k, 'r) real_world \<Rightarrow> connect_config \<Rightarrow> nat
   \<Rightarrow> (string + (database \<times> string)) option" where
  "from_config wo co now =
     (case ds_from_str (co_db_type co) of
        Inl e \<Rightarrow> Some (Inl (''Unsupported database type '' @ [CHR 0x27] @ co_db_type co @ [CHR 0x27] @ '': ''
                   @ error_to_string e))
      | Inr ds \<Rightarrow>
     Option.bind (create_provider wo ds (connection_config co) (connect_credentials co) None now) (\<lambda>provider.
      case provider of
        Inl e \<Rightarrow> Some (Inl (''Failed to create database provider: '' @ error_to_string e))
      | Inr conn \<Rightarrow>
          map_option (\<lambda>r. case r of
              Inl e \<Rightarrow> Inl (''Database connection test failed: '' @ error_to_string e)
            | Inr ok \<Rightarrow> Inr (conn, co_db_type co))
          (connected_test (wo_rest wo) conn now)))"

section \<open>The callback server\<close>

text \<open>
  A request to \<open>/callback\<close> with its parameters. The state is the sender of the one-shot channel,
  gone after the first token, and the token it delivered.
\<close>

record callback =
  cb_token :: "string option"
  cb_state :: "string option"

datatype page = SuccessPage | ErrorPage string

record callback_server =
  cs_expected :: string
  cs_armed :: bool
  cs_delivered :: "string option"

definition callback_start :: "string \<Rightarrow> callback_server" where
  "callback_start state = \<lparr>cs_expected = state, cs_armed = True, cs_delivered = None\<rparr>"

definition handle_callback :: "callback \<Rightarrow> callback_server \<Rightarrow> page \<times> callback_server" where
  "handle_callback cb cs =
     (case cb_state cb of
        None \<Rightarrow> (ErrorPage ''Missing state parameter.'', cs)
      | Some provided \<Rightarrow>
          if provided \<noteq> cs_expected cs then (ErrorPage ''Invalid state parameter. Please try again.'', cs)
          else case nonempty (cb_token cb) of
            None \<Rightarrow> (ErrorPage ''Missing or empty token.'', cs)
          | Some token \<Rightarrow>
              (SuccessPage,
               if cs_armed cs then cs\<lparr>cs_armed := False, cs_delivered := Some token\<rparr> else cs))"

fun serve_callbacks :: "callback list \<Rightarrow> callback_server \<Rightarrow> callback_server" where
  "serve_callbacks [] cs = cs"
| "serve_callbacks (cb # cbs) cs = serve_callbacks cbs (snd (handle_callback cb cs))"

definition genuine :: "string \<Rightarrow> callback \<Rightarrow> bool" where
  "genuine state cb \<longleftrightarrow> cb_state cb = Some state \<and> nonempty (cb_token cb) \<noteq> None"

lemma serve_callbacks_used:
  "\<not> cs_armed cs \<Longrightarrow> cs_delivered (serve_callbacks cbs cs) = cs_delivered cs"
proof (induction cbs arbitrary: cs)
  case (Cons cb cbs)
  then have "snd (handle_callback cb cs) = cs" by (auto simp: handle_callback_def split: option.split)
  then show ?case using Cons by simp
qed simp

text \<open>
  C27. The setup wizard accepts no token that does not carry the state it put in the browser's
  URL: whatever requests reach the local server, the token it delivers is that of the first
  request with the right state and a token, later ones change nothing, and none is delivered
  while there was no such request.
\<close>

theorem callback_delivers_first_genuine:
  "cs_delivered (serve_callbacks cbs (callback_start state)) =
     Option.bind (List.find (genuine state) cbs) cb_token"
proof -
  have "cs_delivered (serve_callbacks cbs cs) = Option.bind (List.find (genuine (cs_expected cs)) cbs) cb_token"
    if "cs_armed cs" "cs_delivered cs = None" for cs
    using that
  proof (induction cbs arbitrary: cs)
    case (Cons cb cbs)
    show ?case
    proof (cases "genuine (cs_expected cs) cb")
      case True
      then obtain t where "cb_state cb = Some (cs_expected cs)" "cb_token cb = Some t" "t \<noteq> []"
        by (cases "cb_token cb") (auto simp: genuine_def split: if_splits)
      then have "handle_callback cb cs = (SuccessPage, cs\<lparr>cs_armed := False, cs_delivered := Some t\<rparr>)"
        using Cons.prems by (simp add: handle_callback_def)
      then show ?thesis using True \<open>cb_token cb = Some t\<close>
        by (simp add: serve_callbacks_used)
    next
      case False
      then have "snd (handle_callback cb cs) = cs"
        by (auto simp: handle_callback_def genuine_def split: option.split)
      then show ?thesis using False Cons by simp
    qed
  qed simp
  from this [of "callback_start state"] show ?thesis by (simp add: callback_start_def)
qed

section \<open>What the agent's settings do\<close>

lemma connection_config_fields [simp]:
  "get_str (connection_config co) ''host'' = Some (co_db_host co)"
  "json_get (connection_config co) ''port'' = Some (JNumber (PosInt (ucast (co_db_port co))))"
  "get_str (connection_config co) ''database'' = Some (co_db_name co)"
  "json_get (connection_config co) ''ssl_mode'' = Some (JString (if_some (co_db_ssl_mode co) (\<lambda>s. s) ''prefer''))"
  "get_str (connection_config co) ''ssl_ca'' = co_db_ssl_ca co"
  "k \<notin> {''host'', ''port'', ''database'', ''ssl_mode'', ''ssl_ca''} \<Longrightarrow> json_get (connection_config co) k = None"
  by (cases "co_db_ssl_ca co"; auto simp: connection_config_def get_str_def)+

lemma connect_credentials_fields [simp]:
  "get_str (connect_credentials co) ''username'' = Some (co_db_user co)"
  "get_str (connect_credentials co) ''password'' = Some (co_db_password co)"
  "k \<notin> {''username'', ''password''} \<Longrightarrow> json_get (connect_credentials co) k = None"
  by (auto simp: connect_credentials_def get_str_def)

lemma connection_config_port [simp]: "get_port dflt (connection_config co) ''port'' = co_db_port co"
proof -
  have "ucast (ucast p :: u64) = p" for p :: u16
    by (rule bit_word_eqI) (simp add: bit_simps)
  then show ?thesis by (simp add: get_port_def)
qed

lemma connection_config_options [simp]:
  "k \<notin> {''host'', ''port'', ''database'', ''ssl_mode'', ''ssl_ca''} \<Longrightarrow> get_bool (connection_config co) k = None"
  "k \<notin> {''host'', ''port'', ''database'', ''ssl_mode'', ''ssl_ca''} \<Longrightarrow> get_str (connection_config co) k = None"
  "get_str_or d (connection_config co) ''ssl_mode'' = if_some (co_db_ssl_mode co) (\<lambda>s. s) ''prefer''"
  "get_str_or d (connection_config co) ''host'' = co_db_host co"
  "get_str_or d (connection_config co) ''database'' = co_db_name co"
  "get_str_or_empty (connection_config co) ''database'' = co_db_name co"
  "get_str_or_empty (connect_credentials co) ''password'' = co_db_password co"
  by (simp_all add: get_bool_def get_str_or_def get_str_or_empty_def split: option.split) (simp_all add: get_str_def)

lemma connect_no_shared [simp]: "resolve_shared_credentials (connection_config co) cr = cr"
  by (simp add: resolve_shared_credentials_def)

lemma connect_no_tunnel [simp]:
  "tcp_tunnel ho (connection_config co) h p = Inr None" "unix_tunnel ho (connection_config co) h p = Inr None"
  "proxy_tunnel ho (connection_config co) h p = Inr None"
  by (simp_all add: no_tunnel)

text \<open>
  What DB_SSL_MODE does depends on the database. PostgreSQL follows it, and without one tries
  TLS first; but MySQL and Redshift do not know the default "prefer" and insist on TLS, Redshift
  on a verified certificate; ClickHouse is always reached over plain HTTP and SQL Server always
  over verified TLS, whatever the mode. Synapse, Snowflake, Databricks and BigQuery cannot be
  reached at all: the settings of the agent lack a field each of them requires.
\<close>

theorem ssl_mode_effect:
  "postgres_options ho (connection_config co) (connect_credentials co)
     = Inr \<lparr>po_host = co_db_host co, po_port = co_db_port co, po_database = co_db_name co,
         po_username = co_db_user co, po_password = co_db_password co,
         po_ssl_mode = (case co_db_ssl_mode co of None \<Rightarrow> PgPrefer | Some m \<Rightarrow> parse_pg_ssl_mode m),
         po_socket = None, po_ssl_root_cert = co_db_ssl_ca co\<rparr> \<and>
   map_option (map_ok po_ssl_mode) (redshift_options aw ho (connection_config co) (connect_credentials co) now)
     = Some (Inr (case co_db_ssl_mode co of None \<Rightarrow> PgVerifyCa | Some m \<Rightarrow> parse_redshift_ssl_mode m)) \<and>
   map_ok mo_ssl_mode (mysql_connect_options ho (connection_config co) (connect_credentials co))
     = Inr (case co_db_ssl_mode co of None \<Rightarrow> MyRequired | Some m \<Rightarrow> parse_mysql_ssl_mode m) \<and>
   clickhouse_base_url (connection_config co) = ''http://'' @ co_db_host co @ '':'' @ show_word (co_db_port co) \<and>
   map_ok (\<lambda>c. (td_encrypt c, td_trust_cert c)) (sqlserver_config net ho (connection_config co) (connect_credentials co))
     = Inr (True, False) \<and>
   (\<exists>es. map (\<lambda>ds. create_provider wo ds (connection_config co) (connect_credentials co) None now)
       [Synapse, Snowflake, Databricks, BigQuery] = map (Some \<circ> Inl \<circ> Provider) es)"
proof (intro conjI)
  let ?c = "connection_config co" and ?r = "connect_credentials co"
  show "postgres_options ho ?c ?r = Inr \<lparr>po_host = co_db_host co, po_port = co_db_port co, po_database = co_db_name co,
         po_username = co_db_user co, po_password = co_db_password co,
         po_ssl_mode = (case co_db_ssl_mode co of None \<Rightarrow> PgPrefer | Some m \<Rightarrow> parse_pg_ssl_mode m),
         po_socket = None, po_ssl_root_cert = co_db_ssl_ca co\<rparr>"
    by (cases "co_db_ssl_mode co") (simp_all add: postgres_options_def Let_def parse_pg_ssl_mode_def [of "''prefer''"])
  show "map_option (map_ok po_ssl_mode) (redshift_options aw ho ?c ?r now)
     = Some (Inr (case co_db_ssl_mode co of None \<Rightarrow> PgVerifyCa | Some m \<Rightarrow> parse_redshift_ssl_mode m))"
    by (cases "co_db_ssl_mode co")
       (simp_all add: redshift_options_def Let_def resolve_standard_credentials_def get_bool_def
         parse_redshift_ssl_mode_def [of "''prefer''"])
  show "map_ok mo_ssl_mode (mysql_connect_options ho ?c ?r)
     = Inr (case co_db_ssl_mode co of None \<Rightarrow> MyRequired | Some m \<Rightarrow> parse_mysql_ssl_mode m)"
    by (cases "co_db_ssl_mode co") (simp_all add: mysql_connect_options_def Let_def parse_mysql_ssl_mode_def [of "''prefer''"])
  show "clickhouse_base_url ?c = ''http://'' @ co_db_host co @ '':'' @ show_word (co_db_port co)"
    by (simp add: clickhouse_base_url_def)
  show "map_ok (\<lambda>c. (td_encrypt c, td_trust_cert c)) (sqlserver_config net ho ?c ?r) = Inr (True, False)"
    by (simp add: sqlserver_config_def Let_def)
  show "\<exists>es. map (\<lambda>ds. create_provider wo ds ?c ?r None now) [Synapse, Snowflake, Databricks, BigQuery]
      = map (Some \<circ> Inl \<circ> Provider) es"
    by (rule exI [of _ "[''Azure Synapse requires a server address'', ''Snowflake account is required'',
        ''Databricks server_hostname is required'',
        ''BigQuery kyomi_oauth mode requires user context with OAuth data'']"])
       (simp add: create_provider_def Let_def synapse_new_def synapse_config_def snowflake_new_def databricks_new_def
        bigquery_new_def bigquery_token_def resolve_kyomi_oauth_token_def path_str_or_def path_str_def)
qed

section \<open>The setup wizard\<close>

record token_peek =
  tp_iss :: string
  tp_db :: string
  tp_url :: string

definition peek_token_safe :: "'key jwt_lib \<Rightarrow> string \<Rightarrow> token_peek option" where
  "peek_token_safe jl token =
     (case jl_decode jl None True token of
        Inl _ \<Rightarrow> None
      | Inr claims \<Rightarrow>
          do { iss \<leftarrow> get_str claims ''iss'';
               db \<leftarrow> get_str claims ''db'';
               url \<leftarrow> get_str claims ''url'';
               Some \<lparr>tp_iss = iss, tp_db = db, tp_url = url\<rparr> })"

text \<open>The keys of a JWKS one after the other; a key that cannot be used is passed over.\<close>

fun try_keys :: "'key jwt_lib \<Rightarrow> string \<Rightarrow> string option \<Rightarrow> json list \<Rightarrow> bool" where
  "try_keys jl token kid [] = False"
| "try_keys jl token kid (key # keys) =
     (if get_str_or_empty key ''crv'' \<noteq> ''P-256'' then try_keys jl token kid keys
      else if kid \<noteq> None \<and> kid \<noteq> Some (get_str_or_empty key ''kid'') then try_keys jl token kid keys
      else case jl_key jl (get_str_or_empty key ''x'') (get_str_or_empty key ''y'') of
        Inl _ \<Rightarrow> try_keys jl token kid keys
      | Inr k \<Rightarrow>
          (case jl_decode jl (Some k) False token of
             Inr _ \<Rightarrow> True
           | Inl _ \<Rightarrow> try_keys jl token kid keys))"

definition verify_token_signature :: "'key jwt_lib \<Rightarrow> string \<Rightarrow> string \<Rightarrow> string + unit" where
  "verify_token_signature jl token iss =
     (case fetch_jwks jl (jwks_url iss) of
        Inl e \<Rightarrow> Inl e
      | Inr jwks \<Rightarrow>
     (case Option.bind (json_get jwks ''keys'') as_array of
        None \<Rightarrow> Inl (''Invalid JWKS response: no '' @ [CHR 0x27] @ ''keys'' @ [CHR 0x27] @ '' array'')
      | Some keys \<Rightarrow>
          if keys = [] then Inl ''JWKS has no keys''
          else case jl_kid jl token of
            Inl e \<Rightarrow> Inl (''Invalid JWT header: '' @ e)
          | Inr kid \<Rightarrow>
              if try_keys jl token kid keys then Inr ()
              else Inl (''Token signature verification failed '' @ [CHR 0xE2, CHR 0x80, CHR 0x94]
                     @ '' token was not signed by Kyomi'')))"

text \<open>
  What the operator passes and types. A prompt gets the value it shows and gives an answer or an
  error; a selection gives an index of its items. \<open>an_event\<close> is what comes first: a token from the
  browser, a line of input, or the limit of ten minutes.
\<close>

record setup_args =
  sa_token :: "string option"
  sa_token_file :: "string option"
  sa_db_host :: "string option"
  sa_db_port :: "u16 option"
  sa_db_name :: "string option"
  sa_db_user :: "string option"
  sa_db_password_file :: "string option"
  sa_db_ssl_mode :: "string option"

datatype token_event = FromBrowser "string option" | FromStdin "string option" | TenMinutes

record answers =
  an_server_error :: "string option"
  an_event :: token_event
  an_paste :: "string + string"
  an_keep_token :: "string + nat"
  an_host :: "string \<Rightarrow> string + string"
  an_port :: "u16 \<Rightarrow> string + u16"
  an_name :: "string \<Rightarrow> string + string"
  an_user :: "string \<Rightarrow> string + string"
  an_keep_password :: "string + nat"
  an_password :: "string + string"
  an_ssl :: "nat \<Rightarrow> string + nat"

definition resolve_token :: "machine \<Rightarrow> setup_args \<Rightarrow> string + string" where
  "resolve_token m args =
     (case sa_token args of
        Some t0 \<Rightarrow> (let t = str_trim t0 in if t = [] then Inl ''--token value is empty'' else Inr t)
      | None \<Rightarrow>
     (case sa_token_file args of
        Some path \<Rightarrow>
          (case read_to_string m path of
             None \<Rightarrow> Inl (''Failed to read token file '' @ [CHR 0x27] @ path @ [CHR 0x27] @ '': '' @ ma_read_error m path)
           | Some content \<Rightarrow>
               (let t = str_trim content in
                if t = [] then Inl (''Token file '' @ [CHR 0x27] @ path @ [CHR 0x27] @ '' is empty'') else Inr t))
      | None \<Rightarrow>
          if \<not> ma_terminal m
          then Inl (''No token provided. Use --token <TOKEN> or --token-file <PATH>, ''
                 @ ''or run interactively to open browser-based setup.'')
          else Inl ''use_browser_flow''))"

definition resolve_token_manual_paste :: "answers \<Rightarrow> string + string" where
  "resolve_token_manual_paste an =
     (case an_paste an of
        Inl e \<Rightarrow> Inl (''Failed to read token: '' @ e)
      | Inr line \<Rightarrow> (let t = str_trim line in if t = [] then Inl ''No token entered'' else Inr t))"

definition resolve_token_interactive :: "answers \<Rightarrow> string + string" where
  "resolve_token_interactive an =
     (if an_server_error an \<noteq> None then resolve_token_manual_paste an
      else case an_event an of
        FromBrowser (Some token) \<Rightarrow> Inr token
      | FromBrowser None \<Rightarrow> Inl ''Callback channel closed unexpectedly''
      | FromStdin line \<Rightarrow>
          (case nonempty (map_option str_trim line) of Some token \<Rightarrow> Inr token | None \<Rightarrow> Inl ''No token entered'')
      | TenMinutes \<Rightarrow> Inl ''Timed out waiting for token (10 minutes). Run setup again to retry.'')"

definition setup_token :: "machine \<Rightarrow> config_file option \<Rightarrow> setup_args \<Rightarrow> answers \<Rightarrow> string + string" where
  "setup_token m existing args an =
     (case resolve_token m args of
        Inr t \<Rightarrow> Inr t
      | Inl e \<Rightarrow>
          if e \<noteq> ''use_browser_flow'' then Inl e
          else case existing of
            None \<Rightarrow> resolve_token_interactive an
          | Some cf \<Rightarrow>
              (case an_keep_token an of
                 Inl e \<Rightarrow> Inl (''Failed to read selection: '' @ e)
               | Inr keep \<Rightarrow> if keep = 0 then Inr (cf_token cf) else resolve_token_interactive an))"

text \<open>A value from its flag, from a prompt on a terminal, or from the existing file.\<close>

definition ask_value ::
  "machine \<Rightarrow> 'a option \<Rightarrow> ('a \<Rightarrow> string + 'a) \<Rightarrow> 'a \<Rightarrow> string \<Rightarrow> 'a option \<Rightarrow> string + 'a" where
  "ask_value m arg entered shown missing kept =
     (case arg of
        Some v \<Rightarrow> Inr v
      | None \<Rightarrow>
          if ma_terminal m then entered shown
          else (case kept of Some v \<Rightarrow> Inr v | None \<Rightarrow> Inl missing))"

definition new_password :: "string \<Rightarrow> answers \<Rightarrow> string + string" where
  "new_password what an = (case an_password an of Inl e \<Rightarrow> Inl (''Failed to read password: '' @ e) | Inr p \<Rightarrow> Inr p)"

definition setup_password ::
  "machine \<Rightarrow> string option \<Rightarrow> setup_args \<Rightarrow> answers \<Rightarrow> string + string" where
  "setup_password m existing_password args an =
     (case (case sa_db_password_file args of
        Some path \<Rightarrow>
          (case read_to_string m path of
             None \<Rightarrow> Inl (''Failed to read password file '' @ [CHR 0x27] @ path @ [CHR 0x27] @ '': '' @ ma_read_error m path)
           | Some content \<Rightarrow> Inr (str_trim content))
      | None \<Rightarrow>
          if ma_terminal m then
            (case existing_password of
               Some pw \<Rightarrow>
                 (case an_keep_password an of
                    Inl e \<Rightarrow> Inl (''Failed to read selection: '' @ e)
                  | Inr keep \<Rightarrow> if keep = 0 then Inr pw else new_password ''New password'' an)
             | None \<Rightarrow> new_password ''Password'' an)
          else (case existing_password of
                  Some pw \<Rightarrow> Inr pw
                | None \<Rightarrow> Inl ''--db-password-file is required in non-interactive mode'')) of
        Inl e \<Rightarrow> Inl e
      | Inr pw \<Rightarrow> if pw = [] then Inl ''Password cannot be empty'' else Inr pw)"

definition SSL_OPTIONS :: "string list" where
  "SSL_OPTIONS = [''prefer'', ''require'', ''disable'', ''verify-ca'', ''verify-full'']"

definition setup_ssl_mode :: "machine \<Rightarrow> string option \<Rightarrow> setup_args \<Rightarrow> answers \<Rightarrow> string + string" where
  "setup_ssl_mode m existing_ssl args an =
     (case sa_db_ssl_mode args of
        Some mode \<Rightarrow> Inr mode
      | None \<Rightarrow>
          if ma_terminal m then
            (case an_ssl an (if_some (Option.bind existing_ssl (\<lambda>s. position (\<lambda>o'. o' = s) SSL_OPTIONS)) (\<lambda>i. i) 0) of
               Inl e \<Rightarrow> Inl (''Failed to read SSL mode: '' @ e)
             | Inr i \<Rightarrow>
                 if i < length SSL_OPTIONS then Inr (SSL_OPTIONS ! i)
                 else Inl ''index out of bounds'')
          else Inr (if_some existing_ssl (\<lambda>s. s) ''prefer''))"

text \<open>
  \<open>GET /api/v1/connect/info\<close>: status and body of the reply, if there is one and it is JSON. Of the
  response only the default port matters; the names are shown.
\<close>

type_synonym info_web = "string \<Rightarrow> string \<Rightarrow> (nat \<times> json option) option"

definition info_default_port :: "json \<Rightarrow> u16 option option" where
  "info_default_port j =
     (if struct_shape 5 j then
        do { de_required as_str (field_at j ''datasource_name'' 0);
             de_required as_str (field_at j ''datasource_type'' 1);
             de_required as_str (field_at j ''datasource_type_label'' 2);
             de_required as_str (field_at j ''workspace_name'' 3);
             de_option j (\<lambda>v. Option.bind (as_u64 v) (\<lambda>n. if unat n \<le> 65535 then Some (ucast n) else None))
               (field_at j ''default_port'' 4) }
      else None)"

definition fetch_connect_info_safe :: "info_web \<Rightarrow> string \<Rightarrow> string \<Rightarrow> u16 option option" where
  "fetch_connect_info_safe iw base_url token =
     (case iw (trim_end_char (CHR ''/'') base_url @ ''/api/v1/connect/info'') token of
        None \<Rightarrow> None
      | Some (status, body) \<Rightarrow>
          if \<not> is_success_status status then None else Option.bind body info_default_port)"

definition test_database_connection ::
  "('k, 'r) real_world \<Rightarrow> string \<Rightarrow> string \<Rightarrow> u16 \<Rightarrow> string \<Rightarrow> string \<Rightarrow> string
   \<Rightarrow> string \<Rightarrow> nat \<Rightarrow> (string + unit) option" where
  "test_database_connection wo db_type host port database username password ssl_mode now =
     (case ds_from_str db_type of
        Inl e \<Rightarrow> Some (Inl (''Unsupported database type '' @ [CHR 0x27] @ db_type @ [CHR 0x27] @ '': '' @ error_to_string e))
      | Inr ds \<Rightarrow>
     Option.bind (create_provider wo ds
        (json_obj [(''host'', Some (JString host)), (''port'', Some (JNumber (PosInt (ucast port)))),
           (''database'', Some (JString database)), (''ssl_mode'', Some (JString ssl_mode))])
        (json_obj [(''username'', Some (JString username)), (''password'', Some (JString password))]) None now) (\<lambda>provider.
      case provider of
        Inl e \<Rightarrow> Some (Inl (error_to_string e))
      | Inr conn \<Rightarrow>
          map_option (\<lambda>r. case r of Inl e \<Rightarrow> Inl (error_to_string e) | Inr _ \<Rightarrow> Inr ())
            (connected_test (wo_rest wo) conn now)))"

text \<open>\<open>msg.rsplit_once(": ")\<close>: what comes after the last colon.\<close>

definition root_cause :: "string \<Rightarrow> string" where
  "root_cause msg = (case str_rfind msg '': '' of Some i \<Rightarrow> drop (i + 2) msg | None \<Rightarrow> msg)"

definition save_setup :: "toml_api \<Rightarrow> config_file \<Rightarrow> string \<Rightarrow> machine \<Rightarrow> string + machine" where
  "save_setup tm cf password m =
     (case save_password password m of
        Inl e \<Rightarrow> Inl e
      | Inr (password_path, m1) \<Rightarrow>
          (case save_config tm (cf\<lparr>cf_db_password_file := Some password_path\<rparr>) m1 of
             Inl e \<Rightarrow> Inl e
           | Inr (_, m2) \<Rightarrow> Inr m2))"

record database_answers =
  da_host :: string
  da_port :: u16
  da_name :: string
  da_user :: string
  da_password :: string
  da_ssl_mode :: string

definition ask_database ::
  "machine \<Rightarrow> config_file option \<Rightarrow> u16 \<Rightarrow> setup_args \<Rightarrow> answers \<Rightarrow> string + database_answers" where
  "ask_database m existing port_default args an =
     (let port_kept = if_some existing cf_db_port port_default in
      case ask_value m (sa_db_host args) (an_host an) (if_some existing cf_db_host ''localhost'')
             ''--db-host is required in non-interactive mode'' (map_option cf_db_host existing) of
        Inl e \<Rightarrow> Inl e
      | Inr host \<Rightarrow>
     (case ask_value m (sa_db_port args) (an_port an) port_kept [] (Some port_kept) of
        Inl e \<Rightarrow> Inl e
      | Inr port \<Rightarrow>
     (case ask_value m (sa_db_name args) (an_name an) (if_some existing cf_db_name [])
             ''--db-name is required in non-interactive mode'' (map_option cf_db_name existing) of
        Inl e \<Rightarrow> Inl e
      | Inr name \<Rightarrow>
     (case ask_value m (sa_db_user args) (an_user an) (if_some existing cf_db_user [])
             ''--db-user is required in non-interactive mode'' (map_option cf_db_user existing) of
        Inl e \<Rightarrow> Inl e
      | Inr user \<Rightarrow>
     (case setup_password m (Option.bind existing (file_password m)) args an of
        Inl e \<Rightarrow> Inl e
      | Inr password \<Rightarrow>
     (case setup_ssl_mode m (Option.bind existing cf_db_ssl_mode) args an of
        Inl e \<Rightarrow> Inl e
      | Inr ssl_mode \<Rightarrow>
          Inr \<lparr>da_host = host, da_port = port, da_name = name, da_user = user, da_password = password,
            da_ssl_mode = ssl_mode\<rparr>))))))"

text \<open>The outcome of the whole wizard; \<^const>\<open>None\<close> when the test of the connection never returns.\<close>

definition run_setup ::
  "toml_api \<Rightarrow> 'key jwt_lib \<Rightarrow> info_web \<Rightarrow> ('k, 'r) real_world \<Rightarrow> setup_args
   \<Rightarrow> answers \<Rightarrow> nat \<Rightarrow> machine \<Rightarrow> (string + machine) option" where
  "run_setup tm jl iw wo args an now m =
     (let existing = load_config tm m in
      case setup_token m existing args an of
        Inl e \<Rightarrow> Some (Inl e)
      | Inr token \<Rightarrow>
     (case peek_token_safe jl token of
        None \<Rightarrow> Some (Inl ''Invalid token format'')
      | Some peek \<Rightarrow>
     (case verify_token_signature jl token (tp_iss peek) of
        Inl e \<Rightarrow> Some (Inl e)
      | Inr _ \<Rightarrow>
     (case fetch_connect_info_safe iw (tp_iss peek) token of
        None \<Rightarrow> Some (Inl (''Could not reach Kyomi at '' @ tp_iss peek @ ''. Check that the token is valid.''))
      | Some info_port \<Rightarrow>
     (case ask_database m existing (if_some info_port (\<lambda>p. p) (default_port (tp_db peek))) args an of
        Inl e \<Rightarrow> Some (Inl e)
      | Inr da \<Rightarrow>
     Option.bind (test_database_connection wo (tp_db peek) (da_host da) (da_port da) (da_name da)
        (da_user da) (da_password da) (da_ssl_mode da) now) (\<lambda>tested.
        case tested of
          Inl msg \<Rightarrow>
            if \<not> ma_terminal m then Some (Inl (''Database connection test failed: '' @ root_cause msg))
            else Some (save_setup tm \<lparr>cf_token = token, cf_db_host = da_host da, cf_db_port = da_port da,
              cf_db_name = da_name da, cf_db_user = da_user da, cf_db_password_file = None,
              cf_db_ssl_mode = Some (da_ssl_mode da), cf_db_ssl_ca = None, cf_health_port = None\<rparr> (da_password da) m)
        | Inr _ \<Rightarrow>
            Some (save_setup tm \<lparr>cf_token = token, cf_db_host = da_host da, cf_db_port = da_port da,
              cf_db_name = da_name da, cf_db_user = da_user da, cf_db_password_file = None,
              cf_db_ssl_mode = Some (da_ssl_mode da), cf_db_ssl_ca = None, cf_health_port = None\<rparr> (da_password da) m)))))))"

section \<open>Starting after the setup\<close>

lemma path_join_inject: "path_join d a = path_join d b \<longleftrightarrow> a = b"
  by (simp add: path_join_def)

lemma save_setup_files:
  assumes "save_setup tm cf password m = Inr m'" "ma_config_dir m = Some d"
    and "dir = path_join d ''kyomi-connect''"
  shows "ma_files m' (path_join dir ''.db-password'') = Some (Text password) \<and>
    ma_files m' (path_join dir ''config.toml'')
      = Some (Text (to_print tm (cf\<lparr>cf_db_password_file := Some (path_join dir ''.db-password'')\<rparr>))) \<and>
    {path_join dir ''.db-password'', path_join dir ''config.toml''} \<subseteq> ma_private m' \<and>
    ma_env m' = ma_env m \<and> ma_config_dir m' = Some d"
  using assms
  by (auto simp: save_setup_def save_password_def save_config_def default_config_dir_def save_password_to_def save_to_def
      write_private_def Let_def path_join_inject split: option.splits sum.splits)

lemma parse_port_show [simp]: "parse_port name (show_word (p :: u16)) = Inr p"
proof -
  have "unat p \<le> 65535" using unsigned_less [of p, where ?'a = nat] by simp
  then show ?thesis by (simp add: parse_port_def show_word_def)
qed

lemma parse_health_port [simp]: "parse_port name ''9090'' = Inr 9090"
proof -
  have "''9090'' = show_word (9090 :: u16)"
    by (simp add: show_word_def show_nat.simps [of 9090] show_nat.simps [of 909] show_nat.simps [of 90]
        show_nat.simps [of 9] digit_def) code_simp
  then show ?thesis using parse_port_show by metis
qed

lemma saved_settings:
  assumes files: "ma_files m' (path_join dir ''.db-password'') = Some (Text (da_password da))"
    and env: "\<And>name. ma_env m' name = None"
  shows "database_settings m' (Some \<lparr>cf_token = token, cf_db_host = da_host da, cf_db_port = da_port da,
      cf_db_name = da_name da, cf_db_user = da_user da, cf_db_password_file = Some (path_join dir ''.db-password''),
      cf_db_ssl_mode = Some (da_ssl_mode da), cf_db_ssl_ca = None, cf_health_port = None\<rparr>) token claims =
    Inr \<lparr>co_token = token, co_db_type = cc_db claims, co_ws_url = cc_url claims, co_db_host = da_host da,
      co_db_port = da_port da, co_db_user = da_user da, co_db_password = str_trim (da_password da),
      co_db_name = da_name da, co_db_ssl_mode = Some (da_ssl_mode da), co_db_ssl_ca = None, co_health_port = 9090\<rparr>"
  by (simp add: database_settings_def setting_def read_env_or_file_def env required_setting_def file_password_def
      read_to_string_def files)

text \<open>
  C25. The agent starts with what the setup wizard was told. After a successful setup, with no
  environment variables set, it uses the token and the database settings that were entered and
  tested, health port 9090, and both files are readable by their owner only. One value can differ:
  a password with blanks at its ends was tested as typed but is used without them.
\<close>

theorem setup_then_start:
  assumes toml: "\<And>c. to_parse tm (to_print tm c) = Some c"
    and wizard: "run_setup tm jl iw wo args an now m = Some (Inr m')"
    and env: "\<And>name. ma_env m name = None" and dir: "ma_config_dir m = Some d"
  shows "\<exists>token da port_default. setup_token m (load_config tm m) args an = Inr token \<and>
    ask_database m (load_config tm m) port_default args an = Inr da \<and>
    from_env tm jl m' = (case verify_token jl token of Inl e \<Rightarrow> Inl e
      | Inr claims \<Rightarrow> Inr \<lparr>co_token = token, co_db_type = cc_db claims, co_ws_url = cc_url claims,
          co_db_host = da_host da, co_db_port = da_port da, co_db_user = da_user da,
          co_db_password = str_trim (da_password da), co_db_name = da_name da,
          co_db_ssl_mode = Some (da_ssl_mode da), co_db_ssl_ca = None, co_health_port = 9090\<rparr>) \<and>
    {path_join (path_join d ''kyomi-connect'') ''.db-password'', path_join (path_join d ''kyomi-connect'') ''config.toml''}
      \<subseteq> ma_private m'"
proof -
  obtain token da port_default where asked: "setup_token m (load_config tm m) args an = Inr token"
    "ask_database m (load_config tm m) port_default args an = Inr da"
    and saved: "save_setup tm \<lparr>cf_token = token, cf_db_host = da_host da, cf_db_port = da_port da,
      cf_db_name = da_name da, cf_db_user = da_user da, cf_db_password_file = None,
      cf_db_ssl_mode = Some (da_ssl_mode da), cf_db_ssl_ca = None, cf_health_port = None\<rparr> (da_password da) m = Inr m'"
    using wizard by (auto simp: run_setup_def Let_def split: sum.splits option.splits bind_splits if_splits)
  note files = save_setup_files [OF saved dir refl]
  have "load_config tm m' = Some \<lparr>cf_token = token, cf_db_host = da_host da, cf_db_port = da_port da,
      cf_db_name = da_name da, cf_db_user = da_user da,
      cf_db_password_file = Some (path_join (path_join d ''kyomi-connect'') ''.db-password''),
      cf_db_ssl_mode = Some (da_ssl_mode da), cf_db_ssl_ca = None, cf_health_port = None\<rparr>"
    using files toml by (simp add: load_config_def config_paths_def read_to_string_def)
  moreover have "\<And>name. ma_env m' name = None" using files env by simp
  ultimately have "from_env tm jl m' = (case verify_token jl token of Inl e \<Rightarrow> Inl e
      | Inr claims \<Rightarrow> Inr \<lparr>co_token = token, co_db_type = cc_db claims, co_ws_url = cc_url claims,
          co_db_host = da_host da, co_db_port = da_port da, co_db_user = da_user da,
          co_db_password = str_trim (da_password da), co_db_name = da_name da,
          co_db_ssl_mode = Some (da_ssl_mode da), co_db_ssl_ca = None, co_health_port = 9090\<rparr>)"
    using files saved_settings [of m' "path_join d ''kyomi-connect''" da token]
    by (simp add: from_env_def split: sum.split)
  then show ?thesis using asked files by blast
qed

text \<open>A text form of the configuration file that reads back, and a machine to set up.\<close>

definition put_text :: "string \<Rightarrow> string" where
  "put_text s = concat (map (\<lambda>c. [CHR ''1'', c]) s) @ ''0''"

fun take_text :: "string \<Rightarrow> (string \<times> string) option" where
  "take_text (b # s) =
     (if b = CHR ''0'' then Some ([], s)
      else case s of [] \<Rightarrow> None | c # s' \<Rightarrow> map_option (\<lambda>(t, r). (c # t, r)) (take_text s'))"
| "take_text [] = None"

definition put_optional :: "string option \<Rightarrow> string" where
  "put_optional v = put_text (case v of None \<Rightarrow> [] | Some s \<Rightarrow> CHR ''+'' # s)"

definition take_optional :: "string \<Rightarrow> (string option \<times> string) option" where
  "take_optional s = map_option (\<lambda>(t, r). (case t of [] \<Rightarrow> None | _ # u \<Rightarrow> Some u, r)) (take_text s)"

lemma take_put [simp]:
  "take_text (put_text s @ r) = Some (s, r)" "take_optional (put_optional v @ r) = Some (v, r)"
proof -
  show plain: "take_text (put_text s @ r) = Some (s, r)" for s by (induction s) (simp_all add: put_text_def)
  show "take_optional (put_optional v @ r) = Some (v, r)"
    by (simp add: take_optional_def put_optional_def plain split: option.split)
qed

definition demo_toml :: toml_api where
  "demo_toml = \<lparr>to_parse = (\<lambda>s0. do { (token, s1) \<leftarrow> take_text s0; (host, s2) \<leftarrow> take_text s1; (port, s3) \<leftarrow> take_text s2;
       (name, s4) \<leftarrow> take_text s3; (user, s5) \<leftarrow> take_text s4; (pw, s6) \<leftarrow> take_optional s5;
       (mode, s7) \<leftarrow> take_optional s6; (ca, s8) \<leftarrow> take_optional s7; (health, s9) \<leftarrow> take_optional s8;
       Some \<lparr>cf_token = token, cf_db_host = host, cf_db_port = word_of_nat (digits_value port), cf_db_name = name,
         cf_db_user = user, cf_db_password_file = pw, cf_db_ssl_mode = mode, cf_db_ssl_ca = ca,
         cf_health_port = map_option (\<lambda>p. word_of_nat (digits_value p)) health\<rparr> }),
     to_print = (\<lambda>c. put_text (cf_token c) @ put_text (cf_db_host c) @ put_text (show_word (cf_db_port c))
       @ put_text (cf_db_name c) @ put_text (cf_db_user c) @ put_optional (cf_db_password_file c)
       @ put_optional (cf_db_ssl_mode c) @ put_optional (cf_db_ssl_ca c)
       @ put_optional (map_option show_word (cf_health_port c)))\<rparr>"

lemma demo_toml_law: "to_parse demo_toml (to_print demo_toml c) = Some c"
proof -
  have w: "word_of_nat (digits_value (show_word p)) = p" for p :: u16 by (simp add: show_word_def)
  have "take_optional (put_optional v) = Some (v, [])" for v using take_put(2) [of v "[]"] by simp
  then show ?thesis by (simp add: demo_toml_def w option.map_comp o_def option.map_ident)
qed

definition demo_claims :: json where
  "demo_claims = json_obj [(''db'', Some (JString ''postgres'')), (''url'', Some (JString ''wss://k'')),
     (''iss'', Some (JString ''https://k''))]"

definition demo_jwks :: json where
  "demo_jwks = json_obj [(''keys'', Some (JArray [json_obj [(''kid'', Some (JString ''k1'')),
     (''crv'', Some (JString ''P-256'')), (''x'', Some (JString ''a'')), (''y'', Some (JString ''b''))]]))]"

definition demo_jwt_lib :: "unit jwt_lib" where
  "demo_jwt_lib = \<lparr>jl_kid = (\<lambda>_. Inr (Some ''k1'')), jl_key = (\<lambda>_ _. Inr ()), jl_decode = (\<lambda>_ _ _. Inr demo_claims),
     jl_fetch = (\<lambda>_. Fetched demo_jwks), jl_claims_error = (\<lambda>_. ''missing field'')\<rparr>"

definition demo_info :: json where
  "demo_info = json_obj [(''datasource_name'', Some (JString ''n'')), (''datasource_type'', Some (JString ''postgres'')),
     (''datasource_type_label'', Some (JString ''PostgreSQL'')), (''workspace_name'', Some (JString ''w''))]"

definition demo_world :: "(unit, unit) real_world" where
  "demo_world = \<lparr>wo_host = demo_host, wo_pg = (\<lambda>_. Some (Inr (demo_pool [] demo_error))), wo_mysql = (\<lambda>_. None),
     wo_tds = \<lparr>tt_get_addr = (\<lambda>h _. h), tt_tcp = (\<lambda>_. None), tt_nodelay = None, tt_handshake = (\<lambda>_. None)\<rparr>,
     wo_http = \<lparr>ha_valid_header = (\<lambda>_. True), ha_client = (\<lambda>_ _ _. Inl [])\<rparr>, wo_flare = (\<lambda>_. Unreachable ''refused''),
     wo_aws = \<lparr>aw_sha256 = (\<lambda>s. s), aw_hmac = (\<lambda>k s. s), aw_hex = (\<lambda>s. s), aw_datetime = (\<lambda>_. []),
       aw_datestamp = (\<lambda>_. []), aw_env = (\<lambda>_. None), aw_status = (\<lambda>_. []), aw_get = (\<lambda>_ _ _ _. Silent)\<rparr>,
     wo_azure = (\<lambda>_ _. Silent), wo_json = (\<lambda>_. Inl []), wo_rest = (\<lambda>_ _. Silent),
     wo_rsa = \<lparr>rsa_pkcs8_encrypted_pem = (\<lambda>_ _. Inr ()), rsa_pkcs1_pem = (\<lambda>_. Inr ()), rsa_pkcs8_pem = (\<lambda>_. Inr ()),
       rsa_public_der = (\<lambda>_. Inr []), rsa_export_pem = (\<lambda>_. Inr []), rsa_sha256 = (\<lambda>b. b), rsa_base64 = (\<lambda>_. []),
       jwt_key_error = (\<lambda>_. None), jwt_encode = (\<lambda>_ _. Inr [])\<rparr>,
     wo_jwt = \<lparr>ja_json = (\<lambda>_. Inl []), ja_key_error = (\<lambda>_. None), ja_encode = (\<lambda>_ _. Inr [])\<rparr>, wo_utc = 0\<rparr>"

definition demo_machine :: machine where
  "demo_machine = \<lparr>ma_env = (\<lambda>_. None), ma_files = [''/pw'' \<mapsto> Text ''secret''], ma_private = {},
     ma_config_dir = Some ''/home/u'', ma_terminal = False, ma_read_error = (\<lambda>_. []), ma_write_error = (\<lambda>_. None)\<rparr>"

definition demo_args :: setup_args where
  "demo_args = \<lparr>sa_token = Some ''tok'', sa_token_file = None, sa_db_host = Some ''db'', sa_db_port = Some 5433,
     sa_db_name = Some ''app'', sa_db_user = Some ''u'', sa_db_password_file = Some ''/pw'', sa_db_ssl_mode = None\<rparr>"

definition demo_answers :: answers where
  "demo_answers = \<lparr>an_server_error = None, an_event = TenMinutes, an_paste = Inr [], an_keep_token = Inr 0,
     an_host = (\<lambda>v. Inr v), an_port = (\<lambda>p. Inr p), an_name = (\<lambda>v. Inr v), an_user = (\<lambda>v. Inr v),
     an_keep_password = Inr 0, an_password = Inr [], an_ssl = (\<lambda>i. Inr i)\<rparr>"

definition demo_asked :: database_answers where
  "demo_asked = \<lparr>da_host = ''db'', da_port = 5433, da_name = ''app'', da_user = ''u'', da_password = ''secret'',
     da_ssl_mode = ''prefer''\<rparr>"

lemma demo_setup_steps:
  "load_config demo_toml demo_machine = None"
  "setup_token demo_machine None demo_args demo_answers = Inr ''tok''"
  "peek_token_safe demo_jwt_lib ''tok'' = Some \<lparr>tp_iss = ''https://k'', tp_db = ''postgres'', tp_url = ''wss://k''\<rparr>"
  "verify_token_signature demo_jwt_lib ''tok'' ''https://k'' = Inr ()"
  "fetch_connect_info_safe (\<lambda>_ _. Some (200, Some demo_info)) ''https://k'' ''tok'' = Some None"
  "ask_database demo_machine None p demo_args demo_answers = Inr demo_asked"
  "test_database_connection demo_world ''postgres'' ''db'' 5433 ''app'' ''u'' ''secret'' ''prefer'' 0
     = Some (Inr ())"
  "verify_token demo_jwt_lib ''tok'' = Inr \<lparr>cc_db = ''postgres'', cc_url = ''wss://k'', cc_iss = ''https://k''\<rparr>"
  subgoal by code_simp
  subgoal by code_simp
  subgoal by code_simp
  subgoal by code_simp
  subgoal by code_simp
  subgoal by code_simp
  subgoal by code_simp
  subgoal by code_simp
  done

lemma demo_save: "\<exists>m'. save_setup demo_toml cf password demo_machine = Inr m'"
  by (simp add: save_setup_def save_password_def save_config_def default_config_dir_def save_password_to_def
      save_to_def write_private_def Let_def demo_machine_def)

lemma demo_setup_runs:
  "\<exists>m'. run_setup demo_toml demo_jwt_lib (\<lambda>_ _. Some (200, Some demo_info)) demo_world demo_args
     demo_answers 0 demo_machine = Some (Inr m')"
  using demo_save
  by (simp add: run_setup_def demo_setup_steps Let_def demo_asked_def)

theorem setup_then_start_witness:
  "\<exists>m' token da port_default. run_setup demo_toml demo_jwt_lib (\<lambda>_ _. Some (200, Some demo_info)) demo_world
       demo_args demo_answers 0 demo_machine = Some (Inr m') \<and>
     setup_token demo_machine None demo_args demo_answers = Inr token \<and>
     ask_database demo_machine None port_default demo_args demo_answers = Inr da \<and>
     from_env demo_toml demo_jwt_lib m'
       = Inr \<lparr>co_token = ''tok'', co_db_type = ''postgres'', co_ws_url = ''wss://k'', co_db_host = ''db'',
           co_db_port = 5433, co_db_user = ''u'', co_db_password = ''secret'', co_db_name = ''app'',
           co_db_ssl_mode = Some ''prefer'', co_db_ssl_ca = None, co_health_port = 9090\<rparr>"
proof -
  obtain m' where ran: "run_setup demo_toml demo_jwt_lib (\<lambda>_ _. Some (200, Some demo_info)) demo_world
      demo_args demo_answers 0 demo_machine = Some (Inr m')" using demo_setup_runs by blast
  have m: "\<And>name. ma_env demo_machine name = None" "ma_config_dir demo_machine = Some ''/home/u''"
    by (simp_all add: demo_machine_def)
  have trimmed: "str_trim ''secret'' = ''secret''" by code_simp
  show ?thesis
    using setup_then_start [OF demo_toml_law ran m] ran trimmed
    by (auto simp: demo_setup_steps demo_asked_def)
qed

end
