(* ===== verification/Service.thy ===== *)
theory Service
  imports Setup
begin

text \<open>
  The command line (main.rs) and the systemd service (service.rs): installing the service copies
  the operator's configuration to /etc/kyomi-connect and writes an environment file and a unit;
  the commands choose between the wizard, the agent, a status report and the service. Terminal
  output is left out; systemd's reading of the environment file is a parameter. A failed command
  gives its message only: the files it has written before are not part of the result.
\<close>

section \<open>Installing the service\<close>

text \<open>
  What installing needs of the host: whether the user is root, the path of the binary, which
  directories exist and what is in them, systemctl (an error, or whether it succeeded), the error
  of removing a file, and the TOML library's error for a text.
\<close>

record service_host =
  sh_root :: bool
  sh_exe :: "string + string"
  sh_dir_exists :: "string \<Rightarrow> bool"
  sh_entries :: "string \<Rightarrow> string + string list"
  sh_systemctl :: "string list \<Rightarrow> string + bool"
  sh_remove_error :: "string \<Rightarrow> string option"
  sh_toml_error :: "string \<Rightarrow> string"

definition UNIT_PATH :: string where
  "UNIT_PATH = ''/etc/systemd/system/kyomi-connect.service''"

definition service_dir :: string where
  "service_dir = ''/etc/kyomi-connect''"

text \<open>\<open>fs::copy\<close> takes the permissions along.\<close>

definition copy_file :: "string \<Rightarrow> string \<Rightarrow> machine \<Rightarrow> string + machine" where
  "copy_file src dest m =
     (case ma_files m src of
        Some (Text s) \<Rightarrow>
          (case ma_write_error m dest of
             Some e \<Rightarrow> Inl e
           | None \<Rightarrow> Inr (m\<lparr>ma_files := (ma_files m)(dest \<mapsto> Text s),
               ma_private := (if src \<in> ma_private m then insert dest (ma_private m) else ma_private m - {dest})\<rparr>))
      | _ \<Rightarrow> Inl (ma_read_error m src))"

fun copy_entries :: "string \<Rightarrow> string \<Rightarrow> string list \<Rightarrow> machine \<Rightarrow> string + machine" where
  "copy_entries src dir [] m = Inr m"
| "copy_entries src dir (entry # rest) m =
     (case copy_file (path_join src entry) (path_join dir entry) m of
        Inl e \<Rightarrow> Inl e
      | Inr m' \<Rightarrow> copy_entries src dir rest m')"

text \<open>Only when the system directory does not exist yet.\<close>

definition copy_user_config :: "service_host \<Rightarrow> machine \<Rightarrow> string + machine" where
  "copy_user_config h m =
     (case ma_config_dir m of
        None \<Rightarrow> Inr m
      | Some d \<Rightarrow>
          (let user_config = path_join d ''kyomi-connect'' in
           if sh_dir_exists h service_dir \<or> \<not> sh_dir_exists h user_config then Inr m
           else case ma_write_error m service_dir of
             Some e \<Rightarrow> Inl e
           | None \<Rightarrow>
               (case sh_entries h user_config of
                  Inl e \<Rightarrow> Inl e
                | Inr entries \<Rightarrow> copy_entries user_config service_dir entries m)))"

definition env_pairs :: "config_file \<Rightarrow> (string \<times> string) list" where
  "env_pairs cf =
     [(''KYOMI_TOKEN'', cf_token cf), (''DB_HOST'', cf_db_host cf), (''DB_PORT'', show_word (cf_db_port cf)),
      (''DB_NAME'', cf_db_name cf), (''DB_USER'', cf_db_user cf)]
     @ (case cf_db_password_file cf of Some p \<Rightarrow> [(''DB_PASSWORD_FILE'', p)] | None \<Rightarrow> [])
     @ (case cf_db_ssl_mode cf of Some s \<Rightarrow> [(''DB_SSL_MODE'', s)] | None \<Rightarrow> [])
     @ (case cf_db_ssl_ca cf of Some s \<Rightarrow> [(''DB_SSL_CA'', s)] | None \<Rightarrow> [])
     @ (case cf_health_port cf of Some p \<Rightarrow> [(''HEALTH_PORT'', show_word p)] | None \<Rightarrow> [])
     @ [(''RUST_LOG'', ''info'')]"

definition env_text :: "(string \<times> string) list \<Rightarrow> string" where
  "env_text kvs = concat (map (\<lambda>(k, v). k @ ''='' @ v @ LF) kvs)"

definition generate_env_file :: "toml_api \<Rightarrow> service_host \<Rightarrow> machine \<Rightarrow> string + machine" where
  "generate_env_file tm h m =
     (let config_toml = path_join service_dir ''config.toml'' in
      case ma_files m config_toml of
        None \<Rightarrow> Inr m
      | Some Unreadable \<Rightarrow> Inl (ma_read_error m config_toml)
      | Some (Text s) \<Rightarrow>
          (case to_parse tm s of
             None \<Rightarrow> Inl (sh_toml_error h s)
           | Some cf \<Rightarrow> write_private (path_join service_dir ''env'') (env_text (env_pairs cf)) m))"

definition unit_text :: "string \<Rightarrow> string \<Rightarrow> string" where
  "unit_text env_file binary = concat (map (\<lambda>l. l @ LF)
     [''[Unit]'', ''Description=Kyomi Connect Agent'', ''After=network-online.target'',
      ''Wants=network-online.target'', '''', ''[Service]'', ''Type=simple'', ''EnvironmentFile='' @ env_file,
      ''ExecStart='' @ binary @ '' run'', ''Restart=always'', ''RestartSec=5'', ''NoNewPrivileges=true'', '''',
      ''[Install]'', ''WantedBy=multi-user.target''])"

definition write_file :: "string \<Rightarrow> string \<Rightarrow> machine \<Rightarrow> string + machine" where
  "write_file path content m =
     (case ma_write_error m path of
        Some e \<Rightarrow> Inl e
      | None \<Rightarrow> Inr (m\<lparr>ma_files := (ma_files m)(path \<mapsto> Text content)\<rparr>))"

definition service_install :: "toml_api \<Rightarrow> service_host \<Rightarrow> machine \<Rightarrow> string + machine" where
  "service_install tm h m =
     (if \<not> sh_root h
      then Inl ''Service install requires root. Run with: sudo kyomi-connect service install''
      else case sh_exe h of
        Inl e \<Rightarrow> Inl e
      | Inr binary \<Rightarrow>
     (case copy_user_config h m of
        Inl e \<Rightarrow> Inl e
      | Inr m1 \<Rightarrow>
     (case generate_env_file tm h m1 of
        Inl e \<Rightarrow> Inl e
      | Inr m2 \<Rightarrow>
     (case write_file UNIT_PATH (unit_text (path_join service_dir ''env'') binary) m2 of
        Inl e \<Rightarrow> Inl e
      | Inr m3 \<Rightarrow>
     (case sh_systemctl h [''daemon-reload''] of
        Inl e \<Rightarrow> Inl e
      | Inr ok \<Rightarrow> if ok then Inr m3 else Inl ''systemctl daemon-reload failed'')))))"

definition service_uninstall :: "service_host \<Rightarrow> machine \<Rightarrow> string + machine" where
  "service_uninstall h m =
     (if \<not> sh_root h
      then Inl ''Service uninstall requires root. Run with: sudo kyomi-connect service uninstall''
      else if ma_files m UNIT_PATH = None then Inr m
      else case sh_remove_error h UNIT_PATH of
        Some e \<Rightarrow> Inl e
      | None \<Rightarrow> Inr (m\<lparr>ma_files := (ma_files m)(UNIT_PATH := None)\<rparr>))"

section \<open>The commands\<close>

definition db_type_label :: "string \<Rightarrow> string" where
  "db_type_label db_type =
     (if db_type = ''postgres'' then ''PostgreSQL''
      else if db_type = ''mysql'' then ''MySQL''
      else if db_type = ''clickhouse'' then ''ClickHouse''
      else if db_type = ''sqlserver'' then ''SQL Server''
      else if db_type = ''redshift'' then ''Redshift''
      else if db_type = ''snowflake'' then ''Snowflake''
      else if db_type = ''databricks'' then ''Databricks''
      else if db_type = ''synapse'' then ''Azure Synapse''
      else db_type)"

record status_report =
  st_token_ok :: bool
  st_database :: "string \<times> string \<times> u16 \<times> string"
  st_kyomi :: "bool option"

definition status_of :: "'key jwt_lib \<Rightarrow> info_web \<Rightarrow> config_file \<Rightarrow> status_report" where
  "status_of jl iw cf =
     (let peek = peek_token_safe jl (cf_token cf) in
      \<lparr>st_token_ok = (peek \<noteq> None),
       st_database = (if_some peek (\<lambda>p. db_type_label (tp_db p)) ''unknown'', cf_db_host cf, cf_db_port cf, cf_db_name cf),
       st_kyomi = map_option (\<lambda>p. fetch_connect_info_safe iw (tp_iss p) (cf_token cf) \<noteq> None) peek\<rparr>)"

text \<open>
  How a command ends: with exit code 1 and a message, or by running the agent with its
  configuration and database for ever, or, for the short commands, with a report or a new machine.
\<close>

datatype outcome =
    Exits string
  | RunsAgent connect_config database string machine
  | Reports status_report
  | Finished machine

text \<open>\<^const>\<open>None\<close> is a database that never answers the first test.\<close>

definition run_agent ::
  "toml_api \<Rightarrow> 'key jwt_lib \<Rightarrow> ('k, 'r) real_world \<Rightarrow> nat \<Rightarrow> machine \<Rightarrow> outcome option" where
  "run_agent tm jl wo now m =
     (case from_env tm jl m of
        Inl e \<Rightarrow> Some (Exits e)
      | Inr co \<Rightarrow>
          map_option (\<lambda>r. case r of
              Inl e \<Rightarrow> Exits (root_cause e)
            | Inr (conn, db_type) \<Rightarrow> RunsAgent co conn db_type m)
          (from_config wo co now))"

datatype command = RunCmd | SetupCmd setup_args | StatusCmd | InstallCmd | UninstallCmd

definition no_setup_args :: setup_args where
  "no_setup_args = \<lparr>sa_token = None, sa_token_file = None, sa_db_host = None, sa_db_port = None,
     sa_db_name = None, sa_db_user = None, sa_db_password_file = None, sa_db_ssl_mode = None\<rparr>"

definition setup_and_run ::
  "toml_api \<Rightarrow> 'key jwt_lib \<Rightarrow> info_web \<Rightarrow> ('k, 'r) real_world \<Rightarrow> setup_args \<Rightarrow> answers \<Rightarrow> nat \<Rightarrow> machine
   \<Rightarrow> outcome option" where
  "setup_and_run tm jl iw wo args an now m =
     Option.bind (run_setup tm jl iw wo args an now m) (\<lambda>r. case r of
         Inl e \<Rightarrow> Some (Exits (''Setup failed: '' @ e))
       | Inr m' \<Rightarrow> run_agent tm jl wo now m')"

definition finish_service :: "string + machine \<Rightarrow> outcome option" where
  "finish_service r = Some (case r of Inl e \<Rightarrow> Exits e | Inr m \<Rightarrow> Finished m)"

definition run_cli ::
  "toml_api \<Rightarrow> 'key jwt_lib \<Rightarrow> info_web \<Rightarrow> ('k, 'r) real_world \<Rightarrow> service_host \<Rightarrow> answers
   \<Rightarrow> command option \<Rightarrow> nat \<Rightarrow> machine \<Rightarrow> outcome option" where
  "run_cli tm jl iw wo h an cmd now m =
     (case cmd of
        Some (SetupCmd args) \<Rightarrow> setup_and_run tm jl iw wo args an now m
      | Some RunCmd \<Rightarrow> run_agent tm jl wo now m
      | Some StatusCmd \<Rightarrow>
          (case load_config tm m of
             None \<Rightarrow> Some (Exits ''No configuration found.'')
           | Some cf \<Rightarrow> Some (Reports (status_of jl iw cf)))
      | Some InstallCmd \<Rightarrow> finish_service (service_install tm h m)
      | Some UninstallCmd \<Rightarrow> finish_service (service_uninstall h m)
      | None \<Rightarrow>
          if load_config tm m \<noteq> None \<or> ma_env m ''KYOMI_TOKEN'' \<noteq> None then run_agent tm jl wo now m
          else if ma_terminal m then setup_and_run tm jl iw wo no_setup_args an now m
          else Some (Exits ''No configuration found.''))"

section \<open>The service starts with the installed configuration\<close>

text \<open>
  What systemd documents of an \<open>EnvironmentFile\<close>: lines \<open>NAME=VALUE\<close> with plain values set exactly
  these variables. A value is plain if it has no line break, quote or backslash and no
  white space at its ends.
\<close>

definition plain_name :: "string \<Rightarrow> bool" where
  "plain_name k \<longleftrightarrow> k \<noteq> [] \<and> list_all (\<lambda>c. is_ascii_upper c \<or> c = CHR ''_'') k"

definition plain_value :: "string \<Rightarrow> bool" where
  "plain_value v \<longleftrightarrow>
     list_all (\<lambda>c. c \<notin> {CHR 0x0A, CHR 0x0D, CHR 0x22, CHR 0x27, CHR 0x5C}) v \<and> str_trim v = v"

definition env_file_law :: "(string \<Rightarrow> string \<Rightarrow> string option) \<Rightarrow> bool" where
  "env_file_law parse \<longleftrightarrow>
     (\<forall>kvs. distinct (map fst kvs) \<and> list_all (\<lambda>(k, v). plain_name k \<and> plain_value v) kvs
        \<longrightarrow> parse (env_text kvs) = map_of kvs)"

definition plain_config :: "config_file \<Rightarrow> bool" where
  "plain_config cf \<longleftrightarrow>
     plain_value (cf_token cf) \<and> plain_value (cf_db_host cf) \<and> plain_value (cf_db_name cf) \<and>
     plain_value (cf_db_user cf) \<and> pred_option plain_value (cf_db_password_file cf) \<and>
     pred_option plain_value (cf_db_ssl_mode cf) \<and> pred_option plain_value (cf_db_ssl_ca cf)"

lemma plain_show_word [simp]: "plain_value (show_word w)"
  using show_nat_digits [of "unat w"] show_nat_no_ws [of "unat w"]
  by (auto simp: plain_value_def show_word_def list_all_iff is_ascii_digit_def)

lemma list_all_optional:
  "list_all P (case x of Some p \<Rightarrow> [(k, f p)] | None \<Rightarrow> []) \<longleftrightarrow> pred_option (\<lambda>p. P (k, f p)) x"
  by (cases x) auto

lemma plain_names:
  "list_all plain_name [''KYOMI_TOKEN'', ''DB_HOST'', ''DB_PORT'', ''DB_NAME'', ''DB_USER'', ''DB_PASSWORD_FILE'',
     ''DB_SSL_MODE'', ''DB_SSL_CA'', ''HEALTH_PORT'', ''RUST_LOG'']"
  by code_simp

lemma env_pairs_plain:
  assumes "plain_config cf"
  shows "distinct (map fst (env_pairs cf))" "list_all (\<lambda>(k, v). plain_name k \<and> plain_value v) (env_pairs cf)"
proof -
  show "distinct (map fst (env_pairs cf))"
    by (simp add: env_pairs_def split: option.split)
  have "plain_value ''info''" by code_simp
  then show "list_all (\<lambda>(k, v). plain_name k \<and> plain_value v) (env_pairs cf)"
    using assms plain_names
    by (simp only: env_pairs_def plain_config_def list_all_append list_all_optional list.pred_inject prod.case
        plain_show_word simp_thms option.pred_True)
qed

lemma map_of_optional:
  "map_of (case x of Some p \<Rightarrow> [(k, f p)] | None \<Rightarrow> []) n = (if n = k then map_option f x else None)"
  by (cases x) auto

lemma env_pairs_lookup:
  "map_of (env_pairs cf) ''KYOMI_TOKEN'' = Some (cf_token cf)"
  "map_of (env_pairs cf) ''DB_HOST'' = Some (cf_db_host cf)"
  "map_of (env_pairs cf) ''DB_PORT'' = Some (show_word (cf_db_port cf))"
  "map_of (env_pairs cf) ''DB_NAME'' = Some (cf_db_name cf)"
  "map_of (env_pairs cf) ''DB_USER'' = Some (cf_db_user cf)"
  "map_of (env_pairs cf) ''DB_PASSWORD'' = None"
  "map_of (env_pairs cf) ''DB_PASSWORD_FILE'' = cf_db_password_file cf"
  "map_of (env_pairs cf) ''DB_SSL_MODE'' = cf_db_ssl_mode cf" "map_of (env_pairs cf) ''DB_SSL_MODE_FILE'' = None"
  "map_of (env_pairs cf) ''DB_SSL_CA'' = cf_db_ssl_ca cf" "map_of (env_pairs cf) ''DB_SSL_CA_FILE'' = None"
  "map_of (env_pairs cf) ''HEALTH_PORT'' = map_option show_word (cf_health_port cf)"
  "map_of (env_pairs cf) ''HEALTH_PORT_FILE'' = None"
  "map_of (env_pairs cf) ''DB_HOST_FILE'' = None" "map_of (env_pairs cf) ''DB_PORT_FILE'' = None"
  "map_of (env_pairs cf) ''DB_NAME_FILE'' = None" "map_of (env_pairs cf) ''DB_USER_FILE'' = None"
  by (simp_all add: env_pairs_def map_of_optional map_add_def option.map_ident split: option.split)

text \<open>The variables the agent reads.\<close>

definition agent_variables :: "string set" where
  "agent_variables = insert ''KYOMI_TOKEN'' (\<Union>n \<in> {''DB_HOST'', ''DB_PORT'', ''DB_NAME'', ''DB_USER'', ''DB_PASSWORD'',
     ''DB_SSL_MODE'', ''DB_SSL_CA'', ''HEALTH_PORT''}. {n, n @ ''_FILE''})"

text \<open>
  A setting whose variable comes from the environment file: the value of the installed
  configuration, and only where that has none the value of the file \<open>other\<close> found at the start.
\<close>

lemma env_setting:
  assumes "ma_env m name = v" "ma_env m (name @ ''_FILE'') = None"
  shows "setting m other name field = if_some v Some (Option.bind other field)"
  using assms by (cases v) (simp_all add: setting_def read_env_or_file_def)

lemma env_password:
  assumes "ma_env m ''DB_PASSWORD'' = None" "ma_env m ''DB_PASSWORD_FILE'' = cf_db_password_file cf"
  shows "setting m other ''DB_PASSWORD'' field = if_some (file_password m cf) Some (Option.bind other field)"
  using assms by (simp add: setting_def read_env_or_file_def file_password_def)

lemma env_settings:
  assumes env: "\<And>name. name \<in> agent_variables \<Longrightarrow> ma_env m name = map_of (env_pairs cf) name"
  shows "database_settings m other token claims =
    (case required_setting ''DB_PASSWORD''
        (if_some (file_password m cf) Some (Option.bind other (file_password m))) of
       Inl e \<Rightarrow> Inl e
     | Inr pw \<Rightarrow> Inr \<lparr>co_token = token, co_db_type = cc_db claims, co_ws_url = cc_url claims,
         co_db_host = cf_db_host cf, co_db_port = cf_db_port cf, co_db_user = cf_db_user cf,
         co_db_password = pw, co_db_name = cf_db_name cf,
         co_db_ssl_mode = if_some (cf_db_ssl_mode cf) Some (Option.bind other cf_db_ssl_mode),
         co_db_ssl_ca = if_some (cf_db_ssl_ca cf) Some (Option.bind other cf_db_ssl_ca),
         co_health_port = (case if_some (cf_health_port cf) Some (Option.bind other cf_health_port) of
           Some p \<Rightarrow> p | None \<Rightarrow> 9090)\<rparr>)"
proof -
  have names: "ma_env m ''DB_HOST'' = Some (cf_db_host cf)" "ma_env m (''DB_HOST'' @ ''_FILE'') = None"
    "ma_env m ''DB_PORT'' = Some (show_word (cf_db_port cf))" "ma_env m (''DB_PORT'' @ ''_FILE'') = None"
    "ma_env m ''DB_NAME'' = Some (cf_db_name cf)" "ma_env m (''DB_NAME'' @ ''_FILE'') = None"
    "ma_env m ''DB_USER'' = Some (cf_db_user cf)" "ma_env m (''DB_USER'' @ ''_FILE'') = None"
    "ma_env m ''DB_PASSWORD'' = None" "ma_env m ''DB_PASSWORD_FILE'' = cf_db_password_file cf"
    "ma_env m ''DB_SSL_MODE'' = cf_db_ssl_mode cf" "ma_env m (''DB_SSL_MODE'' @ ''_FILE'') = None"
    "ma_env m ''DB_SSL_CA'' = cf_db_ssl_ca cf" "ma_env m (''DB_SSL_CA'' @ ''_FILE'') = None"
    "ma_env m ''HEALTH_PORT'' = map_option show_word (cf_health_port cf)"
    "ma_env m (''HEALTH_PORT'' @ ''_FILE'') = None"
    using env by (simp_all add: agent_variables_def env_pairs_lookup)
  have health: "parse_port ''HEALTH_PORT'' (if_some (if_some (map_option show_word (cf_health_port cf)) Some
        (Option.bind other (\<lambda>c. map_option show_word (cf_health_port c)))) (\<lambda>p. p) ''9090'')
      = Inr (case if_some (cf_health_port cf) Some (Option.bind other cf_health_port) of Some p \<Rightarrow> p | None \<Rightarrow> 9090)"
    by (cases "cf_health_port cf"; cases other; cases "Option.bind other cf_health_port") auto
  show ?thesis
    unfolding database_settings_def env_setting [OF names(1,2)] env_setting [OF names(3,4)]
      env_setting [OF names(5,6)] env_setting [OF names(7,8)] env_password [OF names(9,10)]
      env_setting [OF names(11,12)] env_setting [OF names(13,14)] env_setting [OF names(15,16)] health
    by (simp add: required_setting_def split: sum.split)
qed

text \<open>What installing leaves in the environment file.\<close>

lemma service_env_file:
  assumes ran: "service_install tm h m = Inr m'"
    and conf: "ma_files m' (path_join service_dir ''config.toml'') = Some (Text s)" "to_parse tm s = Some cf"
  shows "ma_files m' (path_join service_dir ''env'') = Some (Text (env_text (env_pairs cf)))"
    "path_join service_dir ''env'' \<in> ma_private m'"
proof -
  have paths: "path_join service_dir ''config.toml'' \<noteq> UNIT_PATH" "path_join service_dir ''env'' \<noteq> UNIT_PATH"
    "path_join service_dir ''config.toml'' \<noteq> path_join service_dir ''env''"
    by (simp_all add: path_join_def service_dir_def UNIT_PATH_def)
  obtain m1 m2 where m1: "generate_env_file tm h m1 = Inr m2"
    and m2: "write_file UNIT_PATH (unit_text (path_join service_dir ''env'') (case sh_exe h of Inr b \<Rightarrow> b | Inl _ \<Rightarrow> [])) m2 = Inr m'"
    using ran by (auto simp: service_install_def split: if_splits sum.splits)
  have m': "ma_files m' = (ma_files m2)(UNIT_PATH := ma_files m' UNIT_PATH)" "ma_private m' = ma_private m2"
    using m2 by (auto simp: write_file_def split: option.splits)
  have file2: "ma_files m2 (path_join service_dir ''config.toml'') = Some (Text s)"
    using conf(1) m'(1) paths(1) by (metis fun_upd_apply)
  have file1: "ma_files m1 (path_join service_dir ''config.toml'') = Some (Text s)"
    using m1 file2 paths(3)
    by (auto simp: generate_env_file_def Let_def write_private_def split: option.splits disk_file.splits)
  then have "ma_files m2 (path_join service_dir ''env'') = Some (Text (env_text (env_pairs cf)))"
    "path_join service_dir ''env'' \<in> ma_private m2"
    using m1 conf(2) by (auto simp: generate_env_file_def Let_def write_private_def split: option.splits)
  then show "ma_files m' (path_join service_dir ''env'') = Some (Text (env_text (env_pairs cf)))"
    "path_join service_dir ''env'' \<in> ma_private m'"
    using m' paths(2) by (metis fun_upd_apply)+
qed

text \<open>
  C26. The service starts with the operator's configuration. Once it is installed with a
  configuration whose values are plain, the environment file is readable by its owner only, and
  any agent started later with the variables that systemd reads from it uses the token, address,
  name, user and port of the installed configuration, whatever configuration files it finds. The
  password is the trimmed content of the installed password file as it is then. Only what the
  installed configuration leaves out (or a password file that cannot be read) is looked up in the
  file found first at the start: as the service runs as root, one in the home directory of root
  comes before the installed one.
\<close>

theorem service_keeps_configuration:
  assumes ran: "service_install tm h m = Inr m'"
    and conf: "ma_files m' (path_join service_dir ''config.toml'') = Some (Text s)" "to_parse tm s = Some cf"
      "plain_config cf"
    and law: "env_file_law parse"
  shows "\<exists>text. ma_files m' (path_join service_dir ''env'') = Some (Text text) \<and>
    path_join service_dir ''env'' \<in> ma_private m' \<and>
    (\<forall>start :: machine. (\<forall>name \<in> agent_variables. ma_env start name = parse text name) \<longrightarrow>
       from_env tm jl start =
         (let other = load_config tm start in
          case verify_token jl (cf_token cf) of
            Inl e \<Rightarrow> Inl e
          | Inr claims \<Rightarrow>
              (case if_some (file_password start cf) Some (Option.bind other (file_password start)) of
                 None \<Rightarrow> Inl ''DB_PASSWORD (or DB_PASSWORD_FILE) is required''
               | Some pw \<Rightarrow>
                   Inr \<lparr>co_token = cf_token cf, co_db_type = cc_db claims, co_ws_url = cc_url claims,
                     co_db_host = cf_db_host cf, co_db_port = cf_db_port cf, co_db_user = cf_db_user cf,
                     co_db_password = pw, co_db_name = cf_db_name cf,
                     co_db_ssl_mode = if_some (cf_db_ssl_mode cf) Some (Option.bind other cf_db_ssl_mode),
                     co_db_ssl_ca = if_some (cf_db_ssl_ca cf) Some (Option.bind other cf_db_ssl_ca),
                     co_health_port = (case if_some (cf_health_port cf) Some (Option.bind other cf_health_port) of
                       Some p \<Rightarrow> p | None \<Rightarrow> 9090)\<rparr>)))"
proof (intro exI [of _ "env_text (env_pairs cf)"] conjI allI impI)
  show "ma_files m' (path_join service_dir ''env'') = Some (Text (env_text (env_pairs cf)))"
    "path_join service_dir ''env'' \<in> ma_private m'"
    using service_env_file [OF ran conf(1,2)] by simp_all
  fix start :: machine
  assume start: "\<forall>name \<in> agent_variables. ma_env start name = parse (env_text (env_pairs cf)) name"
  have "parse (env_text (env_pairs cf)) = map_of (env_pairs cf)"
    using law env_pairs_plain [OF conf(3)] by (simp add: env_file_law_def)
  then have env: "ma_env start name = map_of (env_pairs cf) name" if "name \<in> agent_variables" for name
    using start that by simp
  have token: "ma_env start ''KYOMI_TOKEN'' = Some (cf_token cf)"
    using env by (simp add: agent_variables_def env_pairs_lookup)
  let ?other = "load_config tm start"
  show "from_env tm jl start =
      (let other = load_config tm start in
       case verify_token jl (cf_token cf) of
         Inl e \<Rightarrow> Inl e
       | Inr claims \<Rightarrow>
           (case if_some (file_password start cf) Some (Option.bind other (file_password start)) of
              None \<Rightarrow> Inl ''DB_PASSWORD (or DB_PASSWORD_FILE) is required''
            | Some pw \<Rightarrow>
                Inr \<lparr>co_token = cf_token cf, co_db_type = cc_db claims, co_ws_url = cc_url claims,
                  co_db_host = cf_db_host cf, co_db_port = cf_db_port cf, co_db_user = cf_db_user cf,
                  co_db_password = pw, co_db_name = cf_db_name cf,
                  co_db_ssl_mode = if_some (cf_db_ssl_mode cf) Some (Option.bind other cf_db_ssl_mode),
                  co_db_ssl_ca = if_some (cf_db_ssl_ca cf) Some (Option.bind other cf_db_ssl_ca),
                  co_health_port = (case if_some (cf_health_port cf) Some (Option.bind other cf_health_port) of
                    Some p \<Rightarrow> p | None \<Rightarrow> 9090)\<rparr>))"
    by (simp add: from_env_def Let_def token env_settings [OF env] required_setting_def
        split: sum.split option.split)
qed

text \<open>An environment file as systemd reads plain lines, for the witness.\<close>

definition demo_env_parse :: "string \<Rightarrow> string \<Rightarrow> string option" where
  "demo_env_parse text = map_of (map (\<lambda>l. (takeWhile (\<lambda>c. c \<noteq> CHR ''='') l, tl (dropWhile (\<lambda>c. c \<noteq> CHR ''='') l)))
     (butlast (split_on (CHR 0x0A) text)))"

lemma plain_name_without:
  assumes "plain_name k" "c \<in> {CHR 0x0A, CHR ''=''}"
  shows "c \<notin> set k"
proof
  assume "c \<in> set k"
  then have "is_ascii_upper c \<or> c = CHR ''_''" using assms(1) by (simp add: plain_name_def list_all_iff)
  then show False using assms(2) by (auto simp: is_ascii_upper_def)
qed

lemma plain_value_one_line: "plain_value v \<Longrightarrow> CHR 0x0A \<notin> set v"
  unfolding plain_value_def list_all_iff by blast

lemma demo_env_parse_law: "env_file_law demo_env_parse"
proof -
  have lines: "split_on (CHR 0x0A) (env_text kvs) = map (\<lambda>(k, v). k @ ''='' @ v) kvs @ [[]]"
    if "list_all (\<lambda>(k, v). plain_name k \<and> plain_value v) kvs" for kvs
    using that
  proof (induction kvs)
    case (Cons kv kvs)
    obtain k v where kv: "kv = (k, v)" by (cases kv)
    have "CHR 0x0A \<notin> set (k @ ''='' @ v)"
      using Cons.prems plain_name_without [of k "CHR 0x0A"] plain_value_one_line [of v] by (simp add: kv)
    from split_on_append [OF this, of "env_text kvs"] show ?case
      using Cons by (simp add: kv env_text_def LF_def)
  qed (simp add: env_text_def)
  let ?pair = "\<lambda>l. (takeWhile (\<lambda>c. c \<noteq> CHR ''='') l, tl (dropWhile (\<lambda>c. c \<noteq> CHR ''='') l))"
  have pair: "?pair (k @ ''='' @ v) = (k, v)" if "plain_name k" for k v
  proof -
    have "\<forall>c \<in> set k. c \<noteq> CHR ''=''" using plain_name_without [OF that, of "CHR ''=''"] by blast
    then show ?thesis by (simp add: takeWhile_append2 dropWhile_append2)
  qed
  have pairs: "map ?pair (map (\<lambda>(k, v). k @ ''='' @ v) kvs) = kvs"
    if "list_all (\<lambda>(k, v). plain_name k \<and> plain_value v) kvs" for kvs
    using that pair by (induction kvs) (auto simp del: append_Cons append_Nil prod.inject)
  have "demo_env_parse (env_text kvs) = map_of kvs"
    if "list_all (\<lambda>(k, v). plain_name k \<and> plain_value v) kvs" for kvs
    unfolding demo_env_parse_def lines [OF that] butlast_snoc pairs [OF that] by (rule refl)
  then show ?thesis by (simp add: env_file_law_def)
qed

definition demo_installed :: config_file where
  "demo_installed = \<lparr>cf_token = ''tok'', cf_db_host = ''db'', cf_db_port = 5433, cf_db_name = ''app'', cf_db_user = ''u'',
     cf_db_password_file = Some ''/pw'', cf_db_ssl_mode = Some ''prefer'', cf_db_ssl_ca = None, cf_health_port = None\<rparr>"

definition demo_service_host :: service_host where
  "demo_service_host = \<lparr>sh_root = True, sh_exe = Inr ''/usr/bin/kyomi-connect'', sh_dir_exists = (\<lambda>d. d \<noteq> service_dir),
     sh_entries = (\<lambda>_. Inr [''config.toml'']), sh_systemctl = (\<lambda>_. Inr True), sh_remove_error = (\<lambda>_. None),
     sh_toml_error = (\<lambda>_. [])\<rparr>"

definition demo_operator :: machine where
  "demo_operator = demo_machine\<lparr>ma_files := (ma_files demo_machine)
     (''/home/u/kyomi-connect/config.toml'' \<mapsto> Text (to_print demo_toml demo_installed))\<rparr>"

theorem service_keeps_configuration_witness:
  "\<exists>m' text. service_install demo_toml demo_service_host demo_operator = Inr m' \<and>
     ma_files m' ''/etc/kyomi-connect/env'' = Some (Text text) \<and>
     from_env demo_toml demo_jwt_lib (demo_machine\<lparr>ma_env := demo_env_parse text\<rparr>)
       = Inr \<lparr>co_token = ''tok'', co_db_type = ''postgres'', co_ws_url = ''wss://k'', co_db_host = ''db'',
           co_db_port = 5433, co_db_user = ''u'', co_db_password = ''secret'', co_db_name = ''app'',
           co_db_ssl_mode = Some ''prefer'', co_db_ssl_ca = None, co_health_port = 9090\<rparr>"
proof -
  have paths: "path_join (path_join ''/home/u'' ''kyomi-connect'') ''config.toml'' = ''/home/u/kyomi-connect/config.toml''"
    "path_join service_dir ''config.toml'' = ''/etc/kyomi-connect/config.toml''"
    "path_join service_dir ''env'' = ''/etc/kyomi-connect/env''"
    by (simp_all add: path_join_def service_dir_def)
  let ?conf = "Text (to_print demo_toml demo_installed)"
  let ?m1 = "demo_operator\<lparr>ma_files := (ma_files demo_operator)(''/etc/kyomi-connect/config.toml'' \<mapsto> ?conf)\<rparr>"
  have "copy_user_config demo_service_host demo_operator = Inr ?m1"
  proof -
    have "service_dir \<noteq> path_join ''/home/u'' ''kyomi-connect''" by (simp add: path_join_def service_dir_def)
    moreover have "copy_file ''/home/u/kyomi-connect/config.toml'' ''/etc/kyomi-connect/config.toml'' demo_operator = Inr ?m1"
      by (simp add: copy_file_def demo_operator_def demo_machine_def)
    ultimately show ?thesis
      by (simp add: copy_user_config_def demo_service_host_def demo_operator_def demo_machine_def Let_def paths)
  qed
  moreover have "generate_env_file demo_toml demo_service_host ?m1
      = write_private ''/etc/kyomi-connect/env'' (env_text (env_pairs demo_installed)) ?m1"
    by (simp add: generate_env_file_def Let_def paths demo_toml_law)
  ultimately obtain m' where m': "service_install demo_toml demo_service_host demo_operator = Inr m'"
    "ma_files m' ''/etc/kyomi-connect/config.toml'' = Some ?conf" "ma_files m' ''/pw'' = Some (Text ''secret'')"
    by (simp add: service_install_def demo_service_host_def write_private_def write_file_def UNIT_PATH_def
        demo_operator_def demo_machine_def)
  have "list_all plain_value [''tok'', ''db'', ''app'', ''u'', ''/pw'', ''prefer'']" by code_simp
  then have "plain_config demo_installed" by (simp add: plain_config_def demo_installed_def)
  then obtain content where content: "ma_files m' ''/etc/kyomi-connect/env'' = Some (Text content)"
    "\<forall>start :: machine. (\<forall>name \<in> agent_variables. ma_env start name = demo_env_parse content name) \<longrightarrow>
       from_env demo_toml demo_jwt_lib start =
         (let other = load_config demo_toml start in
          case verify_token demo_jwt_lib (cf_token demo_installed) of
            Inl e \<Rightarrow> Inl e
          | Inr claims \<Rightarrow>
              (case if_some (file_password start demo_installed) Some (Option.bind other (file_password start)) of
                 None \<Rightarrow> Inl ''DB_PASSWORD (or DB_PASSWORD_FILE) is required''
               | Some pw \<Rightarrow>
                   Inr \<lparr>co_token = cf_token demo_installed, co_db_type = cc_db claims, co_ws_url = cc_url claims,
                     co_db_host = cf_db_host demo_installed, co_db_port = cf_db_port demo_installed,
                     co_db_user = cf_db_user demo_installed, co_db_password = pw, co_db_name = cf_db_name demo_installed,
                     co_db_ssl_mode = if_some (cf_db_ssl_mode demo_installed) Some (Option.bind other cf_db_ssl_mode),
                     co_db_ssl_ca = if_some (cf_db_ssl_ca demo_installed) Some (Option.bind other cf_db_ssl_ca),
                     co_health_port = (case if_some (cf_health_port demo_installed) Some (Option.bind other cf_health_port) of
                       Some p \<Rightarrow> p | None \<Rightarrow> 9090)\<rparr>))"
    using service_keeps_configuration [OF m'(1) _ demo_toml_law _ demo_env_parse_law, of demo_installed demo_jwt_lib]
      m'(2) unfolding paths by blast
  have "load_config demo_toml (demo_machine\<lparr>ma_env := demo_env_parse content\<rparr>) = None"
    by (simp add: load_config_def config_paths_def paths demo_machine_def)
  moreover have "str_trim ''secret'' = ''secret''" by code_simp
  ultimately have "from_env demo_toml demo_jwt_lib (demo_machine\<lparr>ma_env := demo_env_parse content\<rparr>)
       = Inr \<lparr>co_token = ''tok'', co_db_type = ''postgres'', co_ws_url = ''wss://k'', co_db_host = ''db'',
           co_db_port = 5433, co_db_user = ''u'', co_db_password = ''secret'', co_db_name = ''app'',
           co_db_ssl_mode = Some ''prefer'', co_db_ssl_ca = None, co_health_port = 9090\<rparr>"
    using content(2) by (simp add: demo_setup_steps file_password_def read_to_string_def demo_installed_def demo_machine_def)
  then show ?thesis using m'(1) content(1) by blast
qed

end
