(* ===== verification/Relay.thy ===== *)
theory Relay
  imports Ssh_Tunnel
begin

text \<open>
  The tunnel at work (ssh_tunnel.rs): the listener that accepts local connections and the task of
  each connection that copies bytes between it and its SSH channel, in both directions at once.
  Sockets, channels and the scheduler are step relations: every interleaving of arriving bytes,
  reads, partial writes, errors, new connections and shutdown is a sequence of steps.
\<close>

section \<open>One direction\<close>

text \<open>
  The copy loop reads at most one buffer, writes all of it and flushes; it ends without an error
  when a read returns nothing.
\<close>

datatype copy_state = Reading | Writing "u8 list" | CopyOk | CopyFailed

definition COPY_BUFFER :: nat where
  "COPY_BUFFER = 8192"

text \<open>
  A direction: what its sender has sent so far (kept for the statements only), what of it has not
  been read yet, whether the sender has shut down, the loop, and what has been written.
\<close>

record pipe =
  pp_sent :: "u8 list"
  pp_pending :: "u8 list"
  pp_eof :: bool
  pp_copy :: copy_state
  pp_written :: "u8 list"

definition fresh_pipe :: pipe where
  "fresh_pipe = \<lparr>pp_sent = [], pp_pending = [], pp_eof = False, pp_copy = Reading, pp_written = []\<rparr>"

inductive sender_step :: "pipe \<Rightarrow> pipe \<Rightarrow> bool" where
  arrives: "\<not> pp_eof p \<Longrightarrow>
    sender_step p (p\<lparr>pp_sent := pp_sent p @ bs, pp_pending := pp_pending p @ bs\<rparr>)"
| shuts: "sender_step p (p\<lparr>pp_eof := True\<rparr>)"

inductive copy_step :: "pipe \<Rightarrow> pipe \<Rightarrow> bool" where
  reads: "\<lbrakk>pp_copy p = Reading; 0 < n; n \<le> COPY_BUFFER; n \<le> length (pp_pending p)\<rbrakk> \<Longrightarrow>
    copy_step p (p\<lparr>pp_copy := Writing (take n (pp_pending p)), pp_pending := drop n (pp_pending p)\<rparr>)"
| writes: "\<lbrakk>pp_copy p = Writing bs; 0 < k; k \<le> length bs\<rbrakk> \<Longrightarrow>
    copy_step p (p\<lparr>pp_copy := Writing (drop k bs), pp_written := pp_written p @ take k bs\<rparr>)"
| flushes: "pp_copy p = Writing [] \<Longrightarrow> copy_step p (p\<lparr>pp_copy := Reading\<rparr>)"
| finishes: "\<lbrakk>pp_copy p = Reading; pp_pending p = []; pp_eof p\<rbrakk> \<Longrightarrow> copy_step p (p\<lparr>pp_copy := CopyOk\<rparr>)"

inductive copy_fails :: "pipe \<Rightarrow> pipe \<Rightarrow> bool" where
  io_error: "pp_copy p \<noteq> CopyOk \<Longrightarrow> copy_fails p (p\<lparr>pp_copy := CopyFailed\<rparr>)"

definition copy_ended :: "pipe \<Rightarrow> bool" where
  "copy_ended p \<longleftrightarrow> pp_copy p = CopyOk \<or> pp_copy p = CopyFailed"

inductive_cases copy_stepE: "copy_step p q"

section \<open>A connection\<close>

record forward =
  fw_up :: pipe
  fw_down :: pipe
  fw_open :: bool

definition pipe_step :: "pipe \<Rightarrow> pipe \<Rightarrow> bool" where
  "pipe_step p q \<longleftrightarrow> sender_step p q \<or> copy_step p q \<or> copy_fails p q"

definition forward_opened :: "forward \<Rightarrow> bool" where
  "forward_opened f \<longleftrightarrow> f = \<lparr>fw_up = fresh_pipe, fw_down = fresh_pipe, fw_open = True\<rparr>"

text \<open>
  Both directions run until the first of them ends; then the task ends and drops both ends of
  the connection, whatever the other direction still has to copy. The channel may also not open.
\<close>

inductive forward_step :: "forward \<Rightarrow> forward \<Rightarrow> bool" where
  up: "\<lbrakk>fw_open f; \<not> copy_ended (fw_up f); \<not> copy_ended (fw_down f); pipe_step (fw_up f) p\<rbrakk>
    \<Longrightarrow> forward_step f (f\<lparr>fw_up := p\<rparr>)"
| down: "\<lbrakk>fw_open f; \<not> copy_ended (fw_up f); \<not> copy_ended (fw_down f); pipe_step (fw_down f) p\<rbrakk>
    \<Longrightarrow> forward_step f (f\<lparr>fw_down := p\<rparr>)"
| selected: "\<lbrakk>fw_open f; copy_ended (fw_up f) \<or> copy_ended (fw_down f)\<rbrakk> \<Longrightarrow> forward_step f (f\<lparr>fw_open := False\<rparr>)"
| no_channel: "forward_opened f \<Longrightarrow> forward_step f (f\<lparr>fw_open := False\<rparr>)"

definition forward_finished :: "forward \<Rightarrow> bool" where
  "forward_finished f \<longleftrightarrow> \<not> fw_open f"

section \<open>The listener\<close>

text \<open>
  The loop of \<open>run_listener\<close>, of the Unix socket relay and of the HTTP proxy, for any kind of
  connection task: the last two stop when accepting fails (\<open>stops\<close>), the first goes on. Leaving
  the loop, by shutdown or because the task is aborted, ends every connection.
\<close>

record 'c listener =
  li_running :: bool
  li_connections :: "'c list"

inductive listener_step ::
  "bool \<Rightarrow> ('c \<Rightarrow> bool) \<Rightarrow> ('c \<Rightarrow> 'c \<Rightarrow> bool) \<Rightarrow> ('c \<Rightarrow> bool) \<Rightarrow> 'c listener \<Rightarrow> 'c listener \<Rightarrow> bool"
  for stops opened step finished where
  accepts: "\<lbrakk>li_running l; opened c\<rbrakk> \<Longrightarrow>
    listener_step stops opened step finished l (l\<lparr>li_connections := li_connections l @ [c]\<rparr>)"
| accept_error: "li_running l \<Longrightarrow>
    listener_step stops opened step finished l
      (if stops then l\<lparr>li_running := False, li_connections := []\<rparr> else l)"
| works: "\<lbrakk>i < length (li_connections l); step (li_connections l ! i) c\<rbrakk> \<Longrightarrow>
    listener_step stops opened step finished l (l\<lparr>li_connections := (li_connections l)[i := c]\<rparr>)"
| joins: "\<lbrakk>i < length (li_connections l); finished (li_connections l ! i)\<rbrakk> \<Longrightarrow>
    listener_step stops opened step finished l
      (l\<lparr>li_connections := take i (li_connections l) @ drop (Suc i) (li_connections l)\<rparr>)"
| stopped: "li_running l \<Longrightarrow>
    listener_step stops opened step finished l (l\<lparr>li_running := False, li_connections := []\<rparr>)"

inductive listener_reachable ::
  "bool \<Rightarrow> ('c \<Rightarrow> bool) \<Rightarrow> ('c \<Rightarrow> 'c \<Rightarrow> bool) \<Rightarrow> ('c \<Rightarrow> bool) \<Rightarrow> 'c listener \<Rightarrow> bool"
  for stops opened step finished where
  bound: "listener_reachable stops opened step finished \<lparr>li_running = True, li_connections = []\<rparr>"
| later: "\<lbrakk>listener_reachable stops opened step finished l; listener_step stops opened step finished l m\<rbrakk>
   \<Longrightarrow> listener_reachable stops opened step finished m"

text \<open>The three loops: forwarding into SSH, the Unix socket relay and the HTTP proxy.\<close>

definition tunnel_listener_step :: "forward listener \<Rightarrow> forward listener \<Rightarrow> bool" where
  "tunnel_listener_step = listener_step False forward_opened forward_step forward_finished"

definition relay_listener_step ::
  "('c \<Rightarrow> bool) \<Rightarrow> ('c \<Rightarrow> 'c \<Rightarrow> bool) \<Rightarrow> ('c \<Rightarrow> bool) \<Rightarrow> 'c listener \<Rightarrow> 'c listener \<Rightarrow> bool" where
  "relay_listener_step = listener_step True"

definition proxy_listener_step ::
  "('c \<Rightarrow> bool) \<Rightarrow> ('c \<Rightarrow> 'c \<Rightarrow> bool) \<Rightarrow> ('c \<Rightarrow> bool) \<Rightarrow> 'c listener \<Rightarrow> 'c listener \<Rightarrow> bool" where
  "proxy_listener_step = listener_step True"

text \<open>What a connection task must keep for a listener of such tasks to keep it everywhere.\<close>

locale connection_task =
  fixes opened :: "'c \<Rightarrow> bool" and step :: "'c \<Rightarrow> 'c \<Rightarrow> bool" and keeps :: "'c \<Rightarrow> bool"
  assumes opened_keeps: "opened c \<Longrightarrow> keeps c"
    and step_keeps: "\<lbrakk>keeps c; step c d\<rbrakk> \<Longrightarrow> keeps d"
begin

lemma listener_keeps:
  assumes "listener_reachable stops opened step finished l"
  shows "list_all keeps (li_connections l) \<and> (\<not> li_running l \<longrightarrow> li_connections l = [])"
  using assms
proof induction
  case (later l m)
  from later(2) show ?case
  proof cases
    case (works i c)
    then have "keeps c" using later(3) step_keeps by (auto simp: list_all_length)
    then show ?thesis using works later(3) by (auto simp: list_all_length nth_list_update)
  next
    case (joins i)
    then show ?thesis using later(3) by (auto simp: list_all_iff dest: in_set_takeD in_set_dropD)
  qed (use later(3) opened_keeps in \<open>auto split: if_splits\<close>)
qed simp

end

section \<open>Bytes are copied in order\<close>

fun in_flight :: "copy_state \<Rightarrow> u8 list" where
  "in_flight (Writing bs) = bs"
| "in_flight _ = []"

definition pipe_ok :: "pipe \<Rightarrow> bool" where
  "pipe_ok p \<longleftrightarrow> length (in_flight (pp_copy p)) \<le> COPY_BUFFER \<and>
     (if pp_copy p = CopyFailed then prefix (pp_written p) (pp_sent p)
      else pp_sent p = pp_written p @ in_flight (pp_copy p) @ pp_pending p) \<and>
     (pp_copy p = CopyOk \<longrightarrow> pp_eof p \<and> pp_pending p = [])"

lemma pipe_ok_prefix: "pipe_ok p \<Longrightarrow> prefix (pp_written p) (pp_sent p)"
  by (auto simp: pipe_ok_def split: if_splits)

lemma copy_step_ok:
  assumes "copy_step p q" "pipe_ok p"
  shows "pipe_ok q \<and> pp_sent q = pp_sent p \<and> pp_eof q = pp_eof p \<and> pp_copy q \<noteq> CopyFailed"
  using assms by cases (auto simp: pipe_ok_def split: if_splits)

lemma pipe_step_ok:
  assumes "pipe_step p q" "pipe_ok p"
  shows "pipe_ok q"
proof -
  consider "sender_step p q" | "copy_step p q" | "copy_fails p q" using assms(1) by (auto simp: pipe_step_def)
  then show ?thesis
  proof cases
    case 1
    then show ?thesis using assms(2) by cases (auto simp: pipe_ok_def split: if_splits)
  next
    case 2
    then show ?thesis using copy_step_ok assms(2) by blast
  next
    case 3
    then show ?thesis using pipe_ok_prefix [OF assms(2)] by cases (simp add: pipe_ok_def)
  qed
qed

definition forward_ok :: "forward \<Rightarrow> bool" where
  "forward_ok f \<longleftrightarrow> pipe_ok (fw_up f) \<and> pipe_ok (fw_down f)"

interpretation forwarding: connection_task forward_opened forward_step forward_ok
proof
  show "forward_ok f" if "forward_opened f" for f
    using that by (simp add: forward_opened_def forward_ok_def pipe_ok_def fresh_pipe_def)
  show "forward_ok g" if "forward_ok f" "forward_step f g" for f g
    using that(2,1) by cases (auto simp: forward_ok_def intro: pipe_step_ok)
qed

section \<open>Copying finishes\<close>

fun copy_weight :: "copy_state \<Rightarrow> nat" where
  "copy_weight Reading = 1"
| "copy_weight (Writing bs) = 2 * length bs + 2"
| "copy_weight _ = 0"

definition copy_left :: "pipe \<Rightarrow> nat" where
  "copy_left p = 4 * length (pp_pending p) + copy_weight (pp_copy p)"

lemma copy_step_left: "copy_step p q \<Longrightarrow> copy_left q < copy_left p"
  by (cases rule: copy_step.cases) (auto simp: copy_left_def)

lemma copy_steps_left: "(copy_step ^^ n) p q \<Longrightarrow> n + copy_left q \<le> copy_left p"
  by (induction n arbitrary: q) (fastforce dest: copy_step_left)+

lemma copy_steps_ok:
  assumes "(copy_step ^^ n) p q" "pipe_ok p" "pp_copy p \<noteq> CopyFailed"
  shows "pipe_ok q \<and> pp_sent q = pp_sent p \<and> pp_eof q = pp_eof p \<and> pp_copy q \<noteq> CopyFailed"
  using assms
proof (induction n arbitrary: q)
  case (Suc n)
  from Suc.prems(1) obtain m where m: "(copy_step ^^ n) p m" "copy_step m q" by (rule relpowp_Suc_E)
  show ?case using Suc.IH [OF m(1)] Suc.prems(2,3) copy_step_ok [OF m(2)] by auto
qed simp

lemma copy_stuck:
  assumes "\<And>q. \<not> copy_step p q" "pp_copy p \<noteq> CopyFailed" "pipe_ok p"
  shows "pp_written p = pp_sent p \<and> (pp_eof p \<longrightarrow> pp_copy p = CopyOk)"
proof (cases "pp_copy p")
  case Reading
  have "pp_pending p = []"
  proof (rule ccontr)
    assume "pp_pending p \<noteq> []"
    then have "copy_step p (p\<lparr>pp_copy := Writing (take 1 (pp_pending p)), pp_pending := drop 1 (pp_pending p)\<rparr>)"
      by (intro copy_step.reads Reading) (cases "pp_pending p"; simp add: COPY_BUFFER_def)+
    then show False using assms(1) by blast
  qed
  moreover have "\<not> pp_eof p" using copy_step.finishes [OF Reading calculation] assms(1) by blast
  ultimately show ?thesis using Reading assms(3) by (simp add: pipe_ok_def)
next
  case (Writing bs)
  have "copy_step p (if bs = [] then p\<lparr>pp_copy := Reading\<rparr>
      else p\<lparr>pp_copy := Writing (drop 1 bs), pp_written := pp_written p @ take 1 bs\<rparr>)"
    using Writing copy_step.flushes [of p] copy_step.writes [OF Writing, of 1] by (cases bs) auto
  then show ?thesis using assms(1) by blast
qed (use assms(2,3) in \<open>auto simp: pipe_ok_def\<close>)

text \<open>
  C29. A tunnel connection carries bytes faithfully. In every state of the listener, for each of
  its connections and each direction: what has been written at the far end is a first part of
  what was sent; without an I/O error nothing between the two is lost, repeated or out of order,
  and at most 8192 bytes are in the buffer. If no more bytes arrive, copying ends within a bound,
  and then everything that was sent has been written, unless the connection is cut short.
\<close>

theorem tunnel_carries_bytes:
  assumes "listener_reachable False forward_opened forward_step forward_finished l"
    "f \<in> set (li_connections l)" "p \<in> {fw_up f, fw_down f}"
  shows "prefix (pp_written p) (pp_sent p) \<and> length (in_flight (pp_copy p)) \<le> 8192 \<and>
    (pp_copy p \<noteq> CopyFailed \<longrightarrow> pp_sent p = pp_written p @ in_flight (pp_copy p) @ pp_pending p \<and>
      (\<forall>n q. (copy_step ^^ n) p q \<longrightarrow> n \<le> copy_left p \<and>
        ((\<forall>r. \<not> copy_step q r) \<longrightarrow> pp_written q = pp_sent p \<and> (pp_eof p \<longrightarrow> pp_copy q = CopyOk))))"
proof -
  have ok: "pipe_ok p"
    using forwarding.listener_keeps [OF assms(1)] assms(2,3) by (auto simp: list_all_iff forward_ok_def)
  have copied: "n \<le> copy_left p \<and>
      ((\<forall>r. \<not> copy_step q r) \<longrightarrow> pp_written q = pp_sent p \<and> (pp_eof p \<longrightarrow> pp_copy q = CopyOk))"
    if "pp_copy p \<noteq> CopyFailed" "(copy_step ^^ n) p q" for n q
    using copy_steps_left [OF that(2)] copy_steps_ok [OF that(2) ok that(1)] copy_stuck [of q] by simp
  show ?thesis
    using ok pipe_ok_prefix [OF ok] copied by (auto simp: pipe_ok_def COPY_BUFFER_def split: if_splits)
qed

section \<open>A half-closed connection\<close>

abbreviation forwards :: "forward \<Rightarrow> forward \<Rightarrow> bool" where
  "forwards \<equiv> forward_step\<^sup>*\<^sup>*"

lemma forward_up:
  assumes "fw_open f" "\<not> copy_ended (fw_up f)" "\<not> copy_ended (fw_down f)" "pipe_step (fw_up f) p"
    and "forwards (f\<lparr>fw_up := p\<rparr>) g"
  shows "forwards f g"
  using forward_step.up [OF assms(1-4)] assms(5) by (rule converse_rtranclp_into_rtranclp)

lemma forward_set:
  assumes "fw_open f" "\<not> copy_ended (fw_down f)" "\<not> copy_ended p" "pipe_step p q"
    and "forwards (f\<lparr>fw_up := q\<rparr>) g"
  shows "forwards (f\<lparr>fw_up := p\<rparr>) g"
  by (rule forward_up [of "f\<lparr>fw_up := p\<rparr>" q]) (simp_all add: assms)

text \<open>What is pending can be copied to the end, here one byte at a time.\<close>

lemma forward_pump:
  assumes "fw_open f" "\<not> copy_ended (fw_down f)" "pp_copy (fw_up f) = Reading"
  shows "forwards f (f\<lparr>fw_up := (fw_up f)\<lparr>pp_pending := [],
     pp_written := pp_written (fw_up f) @ pp_pending (fw_up f)\<rparr>\<rparr>)"
  using assms
proof (induction "pp_pending (fw_up f)" arbitrary: f)
  case Nil
  have "f\<lparr>fw_up := (fw_up f)\<lparr>pp_pending := [], pp_written := pp_written (fw_up f) @ pp_pending (fw_up f)\<rparr>\<rparr> = f"
    by (simp add: Nil(1) [symmetric])
  then show ?case by simp
next
  case (Cons b bs)
  let ?p = "fw_up f"
  let ?r = "?p\<lparr>pp_copy := Writing [b], pp_pending := bs\<rparr>"
  let ?w = "?r\<lparr>pp_copy := Writing [], pp_written := pp_written ?p @ [b]\<rparr>"
  let ?q = "?p\<lparr>pp_pending := bs, pp_written := pp_written ?p @ [b]\<rparr>"
  let ?g = "f\<lparr>fw_up := ?q\<rparr>"
  have pending: "pp_pending ?p = b # bs" using Cons(2) by simp
  let ?t = "f\<lparr>fw_up := ?p\<lparr>pp_pending := [], pp_written := pp_written ?p @ pp_pending ?p\<rparr>\<rparr>"
  have reads: "pipe_step ?p ?r"
    using copy_step.reads [OF Cons.prems(3), of 1] by (simp add: pipe_step_def pending COPY_BUFFER_def)
  have writes: "pipe_step ?r ?w"
    using copy_step.writes [of ?r "[b]" 1] by (simp add: pipe_step_def)
  have "?w\<lparr>pp_copy := Reading\<rparr> = ?q" by (rule pipe.equality) (simp_all add: Cons.prems(3))
  then have flushes: "pipe_step ?w ?q"
    using copy_step.flushes [of ?w] by (simp add: pipe_step_def)
  have "forwards ?g (?g\<lparr>fw_up := (fw_up ?g)\<lparr>pp_pending := [],
     pp_written := pp_written (fw_up ?g) @ pp_pending (fw_up ?g)\<rparr>\<rparr>)"
    by (rule Cons(1)) (use Cons.prems in simp_all)
  then have rest: "forwards ?g ?t" by (simp add: pending)
  have "forwards (f\<lparr>fw_up := ?w\<rparr>) ?t"
    by (rule forward_set [OF Cons.prems(1,2) _ flushes rest]) (simp add: copy_ended_def)
  then have "forwards (f\<lparr>fw_up := ?r\<rparr>) ?t"
    by (rule forward_set [OF Cons.prems(1,2) _ writes, rotated]) (simp add: copy_ended_def)
  then have "forwards (f\<lparr>fw_up := ?p\<rparr>) ?t"
    by (rule forward_set [OF Cons.prems(1,2) _ reads, rotated]) (simp add: copy_ended_def Cons.prems(3))
  then show ?case by simp
qed

text \<open>
  C30. A client that shuts down its sending side loses the answer: whatever the request and the
  reply, a connection can end, with no I/O error at all, when the request has been copied and
  the client has shut down, although the reply has arrived and none of it has been written.
\<close>

theorem half_close_cuts_reply:
  "\<exists>f. forward_step\<^sup>*\<^sup>* \<lparr>fw_up = fresh_pipe, fw_down = fresh_pipe, fw_open = True\<rparr> f \<and>
     \<not> fw_open f \<and> (\<forall>g. \<not> forward_step f g) \<and>
     pp_copy (fw_up f) = CopyOk \<and> pp_written (fw_up f) = request \<and>
     pp_copy (fw_down f) = Reading \<and> pp_sent (fw_down f) = reply \<and> pp_written (fw_down f) = []"
proof -
  let ?up = "\<lambda>rest out eof c. \<lparr>pp_sent = request, pp_pending = rest, pp_eof = eof, pp_copy = c, pp_written = out\<rparr>"
  let ?down = "\<lparr>pp_sent = reply, pp_pending = reply, pp_eof = False, pp_copy = Reading, pp_written = []\<rparr>"
  let ?f = "\<lambda>u d b. \<lparr>fw_up = u, fw_down = d, fw_open = b\<rparr>"
  have "forwards (?f fresh_pipe fresh_pipe True) (?f (?up request [] False Reading) fresh_pipe True)"
    using forward_step.up [of "?f fresh_pipe fresh_pipe True" "?up request [] False Reading"]
      sender_step.arrives [of fresh_pipe request] by (auto simp: fresh_pipe_def copy_ended_def pipe_step_def)
  also have "forwards \<dots> (?f (?up request [] False Reading) ?down True)"
    using forward_step.down [of "?f (?up request [] False Reading) fresh_pipe True" ?down]
      sender_step.arrives [of fresh_pipe reply] by (auto simp: fresh_pipe_def copy_ended_def pipe_step_def)
  also have "forwards \<dots> (?f (?up [] request False Reading) ?down True)"
    using forward_pump [of "?f (?up request [] False Reading) ?down True"] by (simp add: copy_ended_def)
  also have "forwards \<dots> (?f (?up [] request True Reading) ?down True)"
    using forward_step.up [of "?f (?up [] request False Reading) ?down True" "?up [] request True Reading"]
      sender_step.shuts [of "?up [] request False Reading"] by (auto simp: copy_ended_def pipe_step_def)
  also have "forwards \<dots> (?f (?up [] request True CopyOk) ?down True)"
    using forward_step.up [of "?f (?up [] request True Reading) ?down True" "?up [] request True CopyOk"]
      copy_step.finishes [of "?up [] request True Reading"] by (auto simp: copy_ended_def pipe_step_def)
  also have "forwards \<dots> (?f (?up [] request True CopyOk) ?down False)"
    using forward_step.selected [of "?f (?up [] request True CopyOk) ?down True"] by (auto simp: copy_ended_def)
  finally have "forwards (?f fresh_pipe fresh_pipe True) (?f (?up [] request True CopyOk) ?down False)" .
  moreover have "\<not> forward_step (?f (?up [] request True CopyOk) ?down False) g" for g
    by (auto simp: forward_opened_def elim: forward_step.cases)
  ultimately show ?thesis by (intro exI [of _ "?f (?up [] request True CopyOk) ?down False"]) simp
qed

text \<open>A listener with one connection on which a request has arrived.\<close>

theorem tunnel_carries_bytes_witness:
  "\<exists>l f p. listener_reachable False forward_opened forward_step forward_finished l \<and>
     f \<in> set (li_connections l) \<and> p = fw_up f \<and> pp_sent p = [1, 2] \<and>
     pp_sent p = pp_written p @ in_flight (pp_copy p) @ pp_pending p \<and>
     prefix (pp_written p) [1, 2] \<and> \<not> (copy_step ^^ 10) p p"
proof -
  let ?p = "fresh_pipe\<lparr>pp_sent := [1, 2], pp_pending := [1, 2]\<rparr>"
  let ?f = "\<lparr>fw_up = fresh_pipe, fw_down = fresh_pipe, fw_open = True\<rparr>"
  let ?reach = "listener_reachable False forward_opened forward_step forward_finished"
  have "?reach \<lparr>li_running = True, li_connections = [?f]\<rparr>"
    using listener_reachable.later [OF listener_reachable.bound listener_step.accepts, of forward_opened ?f]
    by (simp add: forward_opened_def)
  moreover have "forward_step ?f (?f\<lparr>fw_up := ?p\<rparr>)"
    using forward_step.up [of ?f ?p] sender_step.arrives [of fresh_pipe "[1, 2]"]
    by (simp add: fresh_pipe_def copy_ended_def pipe_step_def)
  ultimately have "?reach \<lparr>li_running = True, li_connections = [?f\<lparr>fw_up := ?p\<rparr>]\<rparr>"
    using listener_reachable.later [OF _ listener_step.works [of 0]] by fastforce
  note reach = this
  note carried = tunnel_carries_bytes [OF reach, of "?f\<lparr>fw_up := ?p\<rparr>" ?p]
  have "pp_sent ?p = pp_written ?p @ in_flight (pp_copy ?p) @ pp_pending ?p \<and>
      prefix (pp_written ?p) [1, 2]"
    using carried by (simp add: fresh_pipe_def)
  moreover have "(copy_step ^^ 10) ?p ?p \<Longrightarrow> 10 \<le> copy_left ?p"
    using carried by (simp add: fresh_pipe_def)
  then have "\<not> (copy_step ^^ 10) ?p ?p"
    by (auto simp: copy_left_def fresh_pipe_def)
  ultimately have "pp_sent ?p = pp_written ?p @ in_flight (pp_copy ?p) @ pp_pending ?p \<and>
      prefix (pp_written ?p) [1, 2] \<and> \<not> (copy_step ^^ 10) ?p ?p" by blast
  with reach show ?thesis
    by (intro exI [of _ "\<lparr>li_running = True, li_connections = [?f\<lparr>fw_up := ?p\<rparr>]\<rparr>"]
        exI [of _ "?f\<lparr>fw_up := ?p\<rparr>"] exI [of _ ?p]) (simp add: fresh_pipe_def)
qed

end
