(* ===== verification/Clickhouse_Native.thy ===== *)
theory Clickhouse_Native
  imports Providers
begin

text \<open>
  The alternative ClickHouse provider (clickhouse_datafusion.rs, feature \<open>datafusion-providers\<close>):
  the native client with Arrow streams. The client library, the Arrow IPC reader and the SQL parser
  are parameters; the provider has no stream of its own and uses the default of the trait.
\<close>

section \<open>The client\<close>

text \<open>
  \<open>nc_execute\<close> and \<open>nc_fetch\<close> take time, \<^const>\<open>None\<close> is no answer; \<open>nc_fetch\<close> may be refused
  before it is sent. \<open>nc_read\<close> is \<open>StreamReader\<close>: it opens or fails, then yields batches and errors.
  \<open>nc_int64\<close> reads an \<open>Int64Array\<close>, \<open>nc_parse\<close> is the parser's error, if any.
\<close>

record native_client =
  nc_execute :: "string \<Rightarrow> ((string + unit) \<times> nat) option"
  nc_fetch :: "string \<Rightarrow> string + ((string + u8 list) \<times> nat) option"
  nc_read :: "u8 list \<Rightarrow> string + (string + record_batch) list"
  nc_concat :: "schema \<Rightarrow> record_batch list \<Rightarrow> string + record_batch"
  nc_int64 :: "arrow_array \<Rightarrow> i64 list"
  nc_parse :: "string \<Rightarrow> string option"

text \<open>The settings a client is built with; \<open>ns_dial\<close> is the tunnel's address, if there is a tunnel.\<close>

record native_settings =
  ns_url :: string
  ns_user :: string
  ns_password :: string
  ns_database :: string
  ns_dial :: "(string \<times> u16) option"

definition native_settings_of :: "'k host_api \<Rightarrow> json \<Rightarrow> json \<Rightarrow> native_settings result" where
  "native_settings_of ho config credentials =
     (let host = get_str_or ''localhost'' config ''host''; port = get_port 8123 config ''port'' in
      case tcp_tunnel ho config host port of
        Inl e \<Rightarrow> Inl e
      | Inr tunnel \<Rightarrow>
          Inr \<lparr>ns_url = (if get_bool config ''secure'' = Some True then ''https'' else ''http'')
                 @ ''://'' @ host @ '':'' @ show_word port,
               ns_user = get_str_or ''default'' credentials ''username'',
               ns_password = get_str_or_empty credentials ''password'',
               ns_database = get_str_or ''default'' config ''database'',
               ns_dial = map_option local_addr tunnel\<rparr>)"

definition native_new ::
  "(native_settings \<Rightarrow> native_client) \<Rightarrow> 'k host_api \<Rightarrow> json \<Rightarrow> json \<Rightarrow> native_client result" where
  "native_new client ho config credentials =
     (case native_settings_of ho config credentials of
        Inl e \<Rightarrow> Inl e
      | Inr settings \<Rightarrow>
          (let nc = client settings in
           case within DATASOURCE_TIMEOUT_CONNECT (nc_execute nc ''SELECT 1'') of
             None \<Rightarrow> Inl (Provider ''ClickHouse connection timed out after 30s'')
           | Some (Inl e) \<Rightarrow> Inl (Provider (''ClickHouse connection failed: '' @ e))
           | Some (Inr _) \<Rightarrow> Inr nc))"

section \<open>Queries\<close>

fun read_batches :: "(string + record_batch) list \<Rightarrow> record_batch list result" where
  "read_batches [] = Inr []"
| "read_batches (Inl e # items) = Inl (Provider (''Failed to read Arrow batch: '' @ e))"
| "read_batches (Inr b # items) =
     (case read_batches items of Inl e \<Rightarrow> Inl e | Inr bs \<Rightarrow> Inr (b # bs))"

definition query_arrow :: "native_client \<Rightarrow> string \<Rightarrow> record_batch list result" where
  "query_arrow nc sql =
     (case nc_fetch nc sql of
        Inl e \<Rightarrow> Inl (Provider (''ClickHouse query failed: '' @ e))
      | Inr collect \<Rightarrow>
          (case within DATASOURCE_TIMEOUT_QUERY collect of
             None \<Rightarrow> Inl (Provider ''ClickHouse query timed out after 120s'')
           | Some (Inl e) \<Rightarrow> Inl (Provider (''Failed to collect Arrow stream: '' @ e))
           | Some (Inr collected) \<Rightarrow>
               if collected = [] then Inr []
               else case nc_read nc collected of
                 Inl e \<Rightarrow> Inl (Provider (''Failed to parse Arrow IPC: '' @ e))
               | Inr items \<Rightarrow> read_batches items))"

definition arrow_type_to_simple_type :: "data_type \<Rightarrow> simple_type" where
  "arrow_type_to_simple_type t =
     (case t of
        DtBoolean \<Rightarrow> TBoolean
      | DtInt8 \<Rightarrow> TNumber | DtInt16 \<Rightarrow> TNumber | DtInt32 \<Rightarrow> TNumber | DtInt64 \<Rightarrow> TNumber
      | DtUInt8 \<Rightarrow> TNumber | DtUInt16 \<Rightarrow> TNumber | DtUInt32 \<Rightarrow> TNumber | DtUInt64 \<Rightarrow> TNumber
      | DtFloat16 \<Rightarrow> TNumber | DtFloat32 \<Rightarrow> TNumber | DtFloat64 \<Rightarrow> TNumber
      | DtDecimal128 _ _ \<Rightarrow> TNumber | DtDecimal256 _ _ \<Rightarrow> TNumber
      | DtUtf8 \<Rightarrow> TString | DtLargeUtf8 \<Rightarrow> TString
      | DtDate32 \<Rightarrow> TDate | DtDate64 \<Rightarrow> TDate | DtTime32 _ \<Rightarrow> TDate | DtTime64 _ \<Rightarrow> TDate
      | DtTimestamp _ _ \<Rightarrow> TDate
      | _ \<Rightarrow> TString)"

definition schema_to_columns :: "schema \<Rightarrow> column_info list" where
  "schema_to_columns s = map (\<lambda>(n, t). \<lparr>col_name = n, col_type = arrow_type_to_simple_type t\<rparr>) s"

definition combine_batches :: "native_client \<Rightarrow> record_batch list \<Rightarrow> record_batch option result" where
  "combine_batches nc batches =
     (case batches of
        [] \<Rightarrow> Inr None
      | [b] \<Rightarrow> Inr (Some b)
      | b # _ \<Rightarrow>
          (case nc_concat nc (rb_schema b) batches of
             Inl e \<Rightarrow> Inl (Provider (''Failed to combine RecordBatches: '' @ e))
           | Inr combined \<Rightarrow> Inr (Some combined)))"

definition extract_string_column :: "record_batch \<Rightarrow> nat \<Rightarrow> string list" where
  "extract_string_column batch col_idx =
     (if length (rb_columns batch) \<le> col_idx then []
      else let col = rb_columns batch ! col_idx in
        if arr_type col = DtUtf8 then List.map_filter cell_str (arr_vals col) else [])"

definition native_pagination :: "string \<Rightarrow> u32 option \<Rightarrow> u32 option \<Rightarrow> string" where
  "native_pagination sql limit offset =
     (case (limit, offset) of
        (Some l, Some k) \<Rightarrow> sql @ '' LIMIT '' @ show_word l @ '' OFFSET '' @ show_word k
      | (Some l, None) \<Rightarrow> sql @ '' LIMIT '' @ show_word l
      | (None, Some k) \<Rightarrow> sql @ '' OFFSET '' @ show_word k
      | (None, None) \<Rightarrow> sql)"

text \<open>\<open>column(0)\<close> and \<open>value(0)\<close> panic without a column or a row: \<^const>\<open>None\<close>.\<close>

definition native_count :: "native_client \<Rightarrow> record_batch \<Rightarrow> i64 option option" where
  "native_count nc b =
     (case rb_columns b of
        [] \<Rightarrow> None
      | col # _ \<Rightarrow>
          if arr_type col = DtInt64
          then (case nc_int64 nc col of [] \<Rightarrow> None | n # _ \<Rightarrow> Some (Some n))
          else Some None)"

definition native_total :: "native_client \<Rightarrow> string \<Rightarrow> i64 option option" where
  "native_total nc sql =
     (case query_arrow nc (''SELECT count(*) FROM ('' @ sql @ '')'') of
        Inl _ \<Rightarrow> Some None
      | Inr count_batches \<Rightarrow>
          (case combine_batches nc count_batches of
             Inr (Some b) \<Rightarrow> native_count nc b
           | _ \<Rightarrow> Some None))"

definition native_execute_query ::
  "native_client \<Rightarrow> i64 \<Rightarrow> string \<Rightarrow> u32 option \<Rightarrow> u32 option \<Rightarrow> bool \<Rightarrow> string option
   \<Rightarrow> query_result result option" where
  "native_execute_query nc elapsed sql limit offset include_total job_id =
     (case query_arrow nc (native_pagination sql limit offset) of
        Inl e \<Rightarrow> Some (Inl e)
      | Inr batches \<Rightarrow>
     (case combine_batches nc batches of
        Inl e \<Rightarrow> Some (Inl e)
      | Inr batch \<Rightarrow>
          map_option (\<lambda>total_rows. Inr
            \<lparr>qr_status = Success, qr_columns = map_option (\<lambda>b. schema_to_columns (rb_schema b)) batch,
             qr_total_rows = total_rows,
             qr_has_more = (case limit of
                 Some l \<Rightarrow> (case batch of Some b \<Rightarrow> rb_num_rows b | None \<Rightarrow> 0) = unat l
               | None \<Rightarrow> False),
             qr_bytes_processed = None, qr_execution_time_ms = Some elapsed, qr_error = None,
             qr_record_batch = batch, qr_job_id = None\<rparr>)
          (if include_total then native_total nc sql else Some None)))"

definition native_test_connection :: "native_client \<Rightarrow> bool result" where
  "native_test_connection nc = (case query_arrow nc ''SELECT 1'' of Inl e \<Rightarrow> Inl e | Inr _ \<Rightarrow> Inr True)"

definition native_dry_run :: "native_client \<Rightarrow> string \<Rightarrow> dry_run_result result" where
  "native_dry_run nc sql =
     (case nc_parse nc sql of
        None \<Rightarrow> Inr (dry_run_success ''Query syntax is valid'')
      | Some e \<Rightarrow> Inr (dry_run_failure e None None))"

definition native_list_databases :: "native_client \<Rightarrow> discovery_result" where
  "native_list_databases nc =
     (case query_arrow nc (''SELECT name FROM system.databases WHERE name NOT IN ('' @ quoted ''system'' @ '', ''
          @ quoted ''information_schema'' @ '', '' @ quoted ''INFORMATION_SCHEMA'' @ '')'') of
        Inr batches \<Rightarrow>
          \<lparr>di_items = (case combine_batches nc batches of
               Inr (Some b) \<Rightarrow> extract_string_column b 0 | _ \<Rightarrow> []), di_error = None\<rparr>
      | Inl e \<Rightarrow> \<lparr>di_items = [], di_error = Some (error_to_string e)\<rparr>)"

section \<open>Behind the trait\<close>

definition native_provider :: "arrow_api \<Rightarrow> native_client \<Rightarrow> i64 \<Rightarrow> provider" where
  "native_provider arrow nc elapsed =
     \<lparr>pv_test_connection = Some (native_test_connection nc),
      pv_execute_query = native_execute_query nc elapsed,
      pv_dry_run = (\<lambda>sql. Some (native_dry_run nc sql)),
      pv_stream_arrow = default_stream arrow (native_execute_query nc elapsed)\<rparr>"

lemma default_stream_closed:
  assumes "query_result_to_arrow_stream arrow r = Inr ms"
  shows "stream_phase ms = Some Closed"
  using assms
  by (auto simp: query_result_to_arrow_stream_def stream_phase_def Let_def split: if_splits option.splits sum.splits)

interpretation native_exec: stream_provider "native_provider arrow nc elapsed"
proof
  fix sql limit offset tot chunk ms
  assume "pv_stream_arrow (native_provider arrow nc elapsed) sql limit offset tot chunk = Some (Inr ms)"
  then obtain z where "(case z of Inl e \<Rightarrow> Inl e | Inr r \<Rightarrow> query_result_to_arrow_stream arrow r) = Inr ms"
    by (auto simp: native_provider_def default_stream_def)
  then show "stream_phase ms = Some Closed" by (cases z) (auto intro: default_stream_closed)
qed

text \<open>
  What a ClickHouse server reports as the count, a \<open>UInt64\<close>, is not read, so the total asked for
  is missing from the result.
\<close>

lemma native_total_missing:
  assumes "query_arrow nc (native_pagination sql limit offset) = Inr batches"
    and "combine_batches nc batches = Inr batch"
    and "query_arrow nc (''SELECT count(*) FROM ('' @ sql @ '')'') = Inr [b]"
    and "rb_columns b = [col]" "arr_type col = DtUInt64"
  shows "\<exists>r. native_execute_query nc elapsed sql limit offset True job = Some (Inr r) \<and> qr_total_rows r = None"
  using assms by (simp add: native_execute_query_def native_total_def native_count_def combine_batches_def)

end
