(* ===== verification/Typed_Batches.thy ===== *)
theory Typed_Batches
  imports Arrow_Builder
begin

text \<open>
  Types of record batches: whatever a converter appends, a value of any kind to a column of any
  kind, the result builder of arrow_builder.rs builds batches whose values have the Arrow types of
  their columns. The append operations are collected in one type, to speak of all of them.
\<close>

section \<open>Appends as data\<close>

datatype append_op =
    OpNull | OpF64 f64 | OpI64 i64 | OpBool bool | OpString string | OpDays i32
  | OpDate naive_date | OpTime naive_time | OpDateTime naive_datetime | OpUtc naive_datetime
  | OpMicros i64 | OpJson json simple_type

fun run_op :: "value_api \<Rightarrow> append_op \<Rightarrow> nat \<Rightarrow> arrow_builder \<Rightarrow> arrow_builder option" where
  "run_op api OpNull i b = append_null i b"
| "run_op api (OpF64 v) i b = append_f64 api i v b"
| "run_op api (OpI64 v) i b = append_i64 api i v b"
| "run_op api (OpBool v) i b = append_bool i v b"
| "run_op api (OpString v) i b = append_string api i v b"
| "run_op api (OpDays v) i b = append_date_days api i v b"
| "run_op api (OpDate v) i b = append_naive_date api i v b"
| "run_op api (OpTime v) i b = append_naive_time api i v b"
| "run_op api (OpDateTime v) i b = append_naive_datetime api i v b"
| "run_op api (OpUtc v) i b = append_datetime_utc api i v b"
| "run_op api (OpMicros v) i b = append_timestamp_micros api i v b"
| "run_op api (OpJson v ty) i b = json_value_to_arrow api v ty b i"

text \<open>A row: one operation for every column, then \<open>finish_row\<close>.\<close>

fun run_ops :: "value_api \<Rightarrow> append_op list \<Rightarrow> nat \<Rightarrow> arrow_builder \<Rightarrow> arrow_builder option" where
  "run_ops api [] i b = Some (finish_row b)"
| "run_ops api (op # ops) i b = Option.bind (run_op api op i b) (run_ops api ops (Suc i))"

fun run_rows :: "value_api \<Rightarrow> append_op list list \<Rightarrow> arrow_builder \<Rightarrow> arrow_builder option" where
  "run_rows api [] b = Some b"
| "run_rows api (r # rs) b = Option.bind (run_ops api r 0 b) (run_rows api rs)"

section \<open>Typing\<close>

fun cell_type :: "cell \<Rightarrow> data_type \<Rightarrow> bool" where
  "cell_type (CF64 _) t \<longleftrightarrow> t = DtFloat64"
| "cell_type (CBool _) t \<longleftrightarrow> t = DtBoolean"
| "cell_type (CStr _) t \<longleftrightarrow> t = DtUtf8"
| "cell_type (CDate _) t \<longleftrightarrow> t = DtDate32"
| "cell_type (CTime _) t \<longleftrightarrow> t = DtTime64 TuMicrosecond"
| "cell_type (CTs _) t \<longleftrightarrow> (case t of DtTimestamp u _ \<Rightarrow> u = TuMicrosecond | _ \<Rightarrow> False)"

definition array_typed :: "arrow_array \<Rightarrow> bool" where
  "array_typed a \<longleftrightarrow> list_all (\<lambda>v. case v of None \<Rightarrow> True | Some c \<Rightarrow> cell_type c (arr_type a)) (arr_vals a)"

definition batch_typed :: "column_info list \<Rightarrow> record_batch \<Rightarrow> bool" where
  "batch_typed cols batch \<longleftrightarrow>
     rb_schema batch = map (\<lambda>c. (col_name c, simple_type_to_arrow (col_type c))) cols \<and>
     map arr_type (rb_columns batch) = map snd (rb_schema batch) \<and>
     list_all (\<lambda>a. array_typed a \<and> length (arr_vals a) = rb_num_rows batch) (rb_columns batch)"

text \<open>A finished column holds values of its type only.\<close>

lemma col_finish_typed: "array_typed (col_finish c)"
  by (cases c) (auto simp: array_typed_def list_all_iff split: option.split)

lemma builder_ok_typed:
  assumes "builder_ok cols b"
  shows "batch_typed cols \<lparr>rb_schema = ab_schema b, rb_columns = map col_finish (ab_builders b),
    rb_num_rows = ab_row_count b\<rparr>"
proof -
  have "map (\<lambda>c. arr_type (col_finish c)) (ab_builders b) = map snd (ab_schema b)"
    using assms by (auto simp: row_part_def col_dt_def intro: nth_equalityI)
  then show ?thesis
    using assms
    by (auto simp: batch_typed_def row_part_def list_all_length o_def col_finish_typed col_vals_def)
qed

section \<open>Every row is appended\<close>

lemma run_op_appends: "i < length (ab_builders b) \<Longrightarrow> appends i b (run_op api op i b)"
  by (cases op) (auto intro: append_intros)

lemma run_ops_row:
  assumes "row_part cols i b" "i + length ops = length cols"
  shows "\<exists>b'. run_ops api ops i b = Some b' \<and> builder_ok cols b' \<and> ab_row_count b' = ab_row_count b + 1"
  using assms
proof (induction ops arbitrary: i b)
  case (Cons op ops)
  have "i < length (ab_builders b)" using Cons.prems by (simp add: row_part_def)
  then obtain b1 v where b1: "run_op api op i b = Some b1" "cell_appended i v b b1"
    using run_op_appends [of i b api op] by (auto simp: appends_def)
  note step = cell_appended_row_part [OF b1(2) Cons.prems(1)]
  show ?case using Cons.IH [OF step(1)] Cons.prems(2) b1(1) step(4) by auto
next
  case Nil
  then show ?case using finish_row_ok [of cols b] by auto
qed

lemma run_rows_ok:
  assumes "list_all (\<lambda>r. length r = length cols) rows" "builder_ok cols b"
  shows "\<exists>b'. run_rows api rows b = Some b' \<and> builder_ok cols b' \<and> ab_row_count b' = ab_row_count b + length rows"
  using assms
proof (induction rows arbitrary: b)
  case (Cons r rs)
  obtain b1 where "run_ops api r 0 b = Some b1" "builder_ok cols b1" "ab_row_count b1 = ab_row_count b + 1"
    using run_ops_row [OF Cons.prems(2), of r api] Cons.prems(1) by auto
  then show ?case using Cons.IH [of b1] Cons.prems(1) by auto
qed simp

text \<open>
  C19. The result builder is type safe: for any columns and any rows of appends, one of any kind
  for each column, nothing panics and the batch is built; its schema is that of the columns, it has
  one array for each of them, of its Arrow type and as long as there are rows, and every value
  in an array has the array's type.
\<close>

theorem builder_type_safe:
  assumes "try_new_law arrow" "cols \<noteq> []" "list_all (\<lambda>r. length r = length cols) rows"
  shows "\<exists>b batch. run_rows api rows (builder_new cols) = Some b \<and> builder_finish arrow b = Inr batch \<and>
    batch_typed cols batch \<and> rb_num_rows batch = length rows"
proof -
  obtain b where b: "run_rows api rows (builder_new cols) = Some b" "builder_ok cols b" "ab_row_count b = length rows"
    using run_rows_ok [OF assms(3) builder_new_ok, of api] by (auto simp: builder_new_def)
  show ?thesis
    using b builder_finish_ok [OF assms(1) b(2) assms(2)] builder_ok_typed [OF b(2)] by simp
qed

definition typed_arrow :: arrow_api where
  "typed_arrow = \<lparr>rb_try_new = (\<lambda>s cols. Inr \<lparr>rb_schema = s, rb_columns = cols,
       rb_num_rows = (case cols of [] \<Rightarrow> 0 | c # _ \<Rightarrow> length (arr_vals c))\<rparr>),
     ipc_schema = (\<lambda>_. Inr []), ipc_batch = (\<lambda>_ _. Inr [])\<rparr>"

lemma typed_arrow_law: "try_new_law typed_arrow"
  by (auto simp: try_new_law_def typed_arrow_def split: list.split)

theorem builder_type_safe_witness:
  "\<forall>api. \<exists>b batch. run_rows api [[OpBool True, OpString ''x''], [OpI64 5, OpNull]]
      (builder_new [\<lparr>col_name = ''d'', col_type = TDate\<rparr>, \<lparr>col_name = ''n'', col_type = TNumber\<rparr>]) = Some b \<and>
    builder_finish typed_arrow b = Inr batch \<and>
    batch_typed [\<lparr>col_name = ''d'', col_type = TDate\<rparr>, \<lparr>col_name = ''n'', col_type = TNumber\<rparr>] batch \<and>
    rb_num_rows batch = 2"
proof
  fix api
  note safe = builder_type_safe [OF typed_arrow_law, of "[\<lparr>col_name = ''d'', col_type = TDate\<rparr>, \<lparr>col_name = ''n'', col_type = TNumber\<rparr>]"
      "[[OpBool True, OpString ''x''], [OpI64 5, OpNull]]" api]
  show "\<exists>b batch. run_rows api [[OpBool True, OpString ''x''], [OpI64 5, OpNull]]
      (builder_new [\<lparr>col_name = ''d'', col_type = TDate\<rparr>, \<lparr>col_name = ''n'', col_type = TNumber\<rparr>]) = Some b \<and>
    builder_finish typed_arrow b = Inr batch \<and>
    batch_typed [\<lparr>col_name = ''d'', col_type = TDate\<rparr>, \<lparr>col_name = ''n'', col_type = TNumber\<rparr>] batch \<and>
    rb_num_rows batch = 2"
    using safe by (simp del: run_rows.simps add: numeral_2_eq_2)
qed

end
