(* ===== verification/Session_Refinement.thy ===== *)
theory Session_Refinement
  imports Agent
begin

text \<open>
  What a session promises, without tasks, queue and writer: a reply service that takes requests
  and pings, fixes the reply to a request once, and sends the parts of each reply in order. The
  session of ws_client.rs refines it: every step of a session is a step of the service or
  invisible to it.
\<close>

section \<open>The reply service\<close>

text \<open>
  A job is a request with the texts still to be sent for it, \<^const>\<open>None\<close> before it is answered;
  a service that is closed sends nothing more.
\<close>

record service =
  sv_open :: bool
  sv_jobs :: "(connect_request \<times> string list option) list"
  sv_pings :: "string list"
  sv_sent :: "out_message list"

definition idle_service :: service where
  "idle_service = \<lparr>sv_open = True, sv_jobs = [], sv_pings = [], sv_sent = []\<rparr>"

definition closed_service :: "out_message list \<Rightarrow> service" where
  "closed_service sent = \<lparr>sv_open = False, sv_jobs = [], sv_pings = [], sv_sent = sent\<rparr>"

inductive service_step ::
  "codec \<Rightarrow> (connect_request \<Rightarrow> connect_response list \<Rightarrow> bool) \<Rightarrow> service \<Rightarrow> service \<Rightarrow> bool"
  for cd answers where
  asks: "sv_open v \<Longrightarrow> service_step cd answers v (v\<lparr>sv_jobs := sv_jobs v @ [(request, None)]\<rparr>)"
| pings: "sv_open v \<Longrightarrow> service_step cd answers v (v\<lparr>sv_pings := sv_pings v @ [d]\<rparr>)"
| answers: "\<lbrakk>sv_open v; i < length (sv_jobs v); sv_jobs v ! i = (request, None); answers request rs\<rbrakk> \<Longrightarrow>
    service_step cd answers v
      (v\<lparr>sv_jobs := (sv_jobs v)[i := (request, Some (map (write_response cd) rs))]\<rparr>)"
| replies: "\<lbrakk>sv_open v; i < length (sv_jobs v); sv_jobs v ! i = (request, Some (t # ts))\<rbrakk> \<Longrightarrow>
    service_step cd answers v
      (v\<lparr>sv_jobs := (sv_jobs v)[i := (request, Some ts)], sv_sent := sv_sent v @ [OutText i t]\<rparr>)"
| pongs: "\<lbrakk>sv_open v; sv_pings v = d # ds\<rbrakk> \<Longrightarrow>
    service_step cd answers v (v\<lparr>sv_pings := ds, sv_sent := sv_sent v @ [OutPong d]\<rparr>)"
| breaks: "sv_open v \<Longrightarrow> service_step cd answers v (closed_service (sv_sent v))"

section \<open>The service a session provides\<close>

fun pongs_of :: "out_message list \<Rightarrow> string list" where
  "pongs_of [] = []"
| "pongs_of (OutPong d # ms) = d # pongs_of ms"
| "pongs_of (OutText i t # ms) = pongs_of ms"

lemma pongs_of_append [simp]: "pongs_of (xs @ ys) = pongs_of xs @ pongs_of ys"
  by (induction xs rule: pongs_of.induct) auto

text \<open>Messages on their way: in the hands of the writer, then in the queue.\<close>

definition waiting :: "session \<Rightarrow> out_message list" where
  "waiting s = in_flight (ss_writer s) @ ss_queue s"

fun unsent :: "string list \<Rightarrow> work \<Rightarrow> string list option" where
  "unsent ts (Answering todo) = Some (ts @ todo)"
| "unsent ts _ = None"

definition job_of :: "session \<Rightarrow> nat \<Rightarrow> connect_request \<times> string list option" where
  "job_of s i = (tk_request (ss_tasks s ! i), unsent (texts_of i (waiting s)) (tk_work (ss_tasks s ! i)))"

definition service_of :: "session \<Rightarrow> service" where
  "service_of s =
     (if ss_writer s = WriterClosed then closed_service (ss_socket s)
      else \<lparr>sv_open = True, sv_jobs = map (job_of s) [0..<length (ss_tasks s)],
             sv_pings = pongs_of (waiting s), sv_sent = ss_socket s\<rparr>)"

lemma service_of_start: "service_of open_session = idle_service"
  by (simp add: service_of_def open_session_def idle_service_def waiting_def)

lemma service_sent [simp]: "sv_sent (service_of s) = ss_socket s"
  by (simp add: service_of_def closed_service_def)

lemma job_length [simp]: "ss_writer s \<noteq> WriterClosed \<Longrightarrow> length (sv_jobs (service_of s)) = length (ss_tasks s)"
  by (simp add: service_of_def)

lemma job_nth [simp]:
  "\<lbrakk>ss_writer s \<noteq> WriterClosed; i < length (ss_tasks s)\<rbrakk> \<Longrightarrow> sv_jobs (service_of s) ! i = job_of s i"
  by (simp add: service_of_def)

lemma service_open [simp]: "sv_open (service_of s) \<longleftrightarrow> ss_writer s \<noteq> WriterClosed"
  by (simp add: service_of_def closed_service_def)

lemma job_list_upd:
  assumes "length (ss_tasks s') = length (ss_tasks s)" "job_of s' i = job"
    and "\<And>j. \<lbrakk>j < length (ss_tasks s); j \<noteq> i\<rbrakk> \<Longrightarrow> job_of s' j = job_of s j"
  shows "map (job_of s') [0..<length (ss_tasks s')] = (map (job_of s) [0..<length (ss_tasks s)])[i := job]"
proof (rule nth_equalityI)
  fix j
  assume "j < length (map (job_of s') [0..<length (ss_tasks s')])"
  then have "j < length (ss_tasks s)" using assms(1) by simp
  then show "map (job_of s') [0..<length (ss_tasks s')] ! j
      = (map (job_of s) [0..<length (ss_tasks s)])[i := job] ! j"
    using assms by (cases "j = i") simp_all
qed (simp add: assms(1))

text \<open>In a session the texts of a task that has no answer yet are nowhere on their way.\<close>

lemma no_texts:
  assumes "session_ok cd answers s" "ss_writer s \<noteq> WriterClosed"
    "i < length (ss_tasks s)" "\<not> is_answering (tk_work (ss_tasks s ! i))"
  shows "texts_of i (waiting s) = []"
  using assms unfolding session_ok_def task_ok_def pipeline_def waiting_def
  by (cases "tk_work (ss_tasks s ! i)") auto

lemma waiting_task:
  assumes "session_ok cd answers s" "ss_writer s \<noteq> WriterClosed" "OutText i t \<in> set (waiting s)"
  shows "i < length (ss_tasks s)" "\<exists>todo. tk_work (ss_tasks s ! i) = Answering todo"
proof -
  have texts: "texts_of i (waiting s) \<noteq> []" using texts_of_set [OF assms(3)] by auto
  then have "texts_of i (pipeline s) \<noteq> []" by (simp add: pipeline_def waiting_def)
  then show i: "i < length (ss_tasks s)" using assms(1) unfolding session_ok_def by (meson not_less)
  show "\<exists>todo. tk_work (ss_tasks s ! i) = Answering todo"
    using no_texts [OF assms(1,2) i] texts by (cases "tk_work (ss_tasks s ! i)") auto
qed

section \<open>The simulation\<close>

definition refines_step ::
  "codec \<Rightarrow> (connect_request \<Rightarrow> connect_response list \<Rightarrow> bool) \<Rightarrow> session \<Rightarrow> session \<Rightarrow> bool" where
  "refines_step cd answers s s' \<longleftrightarrow>
     service_step cd answers (service_of s) (service_of s') \<or> service_of s' = service_of s"

lemma refines_stutter: "service_of s' = service_of s \<Longrightarrow> refines_step cd answers s s'"
  by (simp add: refines_step_def)

lemma refines_closed:
  assumes "ss_writer s = WriterClosed" "ss_writer s' = WriterClosed" "ss_socket s' = ss_socket s"
  shows "refines_step cd answers s s'"
  using assms by (intro refines_stutter) (simp add: service_of_def)

text \<open>A request opens a job, a ping is noted, everything else the reader reads is invisible.\<close>

lemma refines_spawn:
  assumes "session_ok cd answers s"
  shows "refines_step cd answers s (spawn_request request s)"
proof (cases "ss_writer s = WriterClosed")
  case False
  let ?s = "spawn_request request s"
  have "texts_of (length (ss_tasks s)) (waiting s) = []"
    using assms by (simp add: session_ok_def pipeline_def waiting_def)
  then have "job_of ?s (length (ss_tasks s)) = (request, None)"
    "\<And>i. i < length (ss_tasks s) \<Longrightarrow> job_of ?s i = job_of s i"
    by (auto simp: job_of_def spawn_request_def waiting_def nth_append)
  then have "service_of ?s = (service_of s)\<lparr>sv_jobs := sv_jobs (service_of s) @ [(request, None)]\<rparr>"
    using False by (simp add: service_of_def spawn_request_def waiting_def)
  then show ?thesis using service_step.asks [of "service_of s"] False by (simp add: refines_step_def)
qed (simp add: refines_closed spawn_request_def)

lemma refines_ping:
  assumes "enqueue_pong d s = Some s'"
  shows "refines_step cd answers s s'"
proof -
  from assms have s': "s' = s\<lparr>ss_queue := ss_queue s @ [OutPong d]\<rparr>" "ss_writer s \<noteq> WriterClosed"
    by (auto simp: enqueue_pong_def try_send_def split: if_splits)
  then have "job_of s' i = job_of s i" for i by (simp add: job_of_def waiting_def)
  then have "service_of s' = (service_of s)\<lparr>sv_pings := sv_pings (service_of s) @ [d]\<rparr>"
    using s' by (simp add: service_of_def waiting_def)
  then show ?thesis using service_step.pings [of "service_of s"] s'(2) by (simp add: refines_step_def)
qed

lemma refines_read:
  assumes "session_ok cd answers s" "read_message cd r s = Some s'"
  shows "refines_step cd answers s s'"
  using assms(2) refines_spawn [OF assms(1)] refines_ping [of _ s s']
  by (auto simp: read_message_def refines_stutter split: received.splits frame.splits option.splits)

text \<open>The handler fixes the reply; a handler that panics leaves the job unanswered.\<close>

lemma refines_work:
  assumes "session_ok cd answers s" "i < length (ss_tasks s)" "tk_work (ss_tasks s ! i) = Handling"
  shows "refines_step cd answers s (set_work i Panicked s)"
    and "answers (tk_request (ss_tasks s ! i)) rs \<Longrightarrow>
      refines_step cd answers s (handler_returned cd i rs s)"
proof -
  have others: "job_of (set_work i w s) j = job_of s j" if "j \<noteq> i" for j w
    using that by (simp add: job_of_def set_work_def waiting_def)
  have writer: "ss_writer (set_work i w s) = ss_writer s" "ss_socket (set_work i w s) = ss_socket s"
    "length (ss_tasks (set_work i w s)) = length (ss_tasks s)"
    "waiting (set_work i w s) = waiting s" for w
    by (simp_all add: set_work_def waiting_def)
  have jobs: "service_of (set_work i w s)
      = (service_of s)\<lparr>sv_jobs := (sv_jobs (service_of s))[i := job_of (set_work i w s) i]\<rparr>"
    if "ss_writer s \<noteq> WriterClosed" for w
    using that job_list_upd [of "set_work i w s" s i] others writer by (simp add: service_of_def)
  have "job_of (set_work i Panicked s) i = job_of s i"
    using assms by (simp add: job_of_def set_work_def waiting_def)
  then have "service_of (set_work i Panicked s) = service_of s" if "ss_writer s \<noteq> WriterClosed"
    using jobs [OF that, of Panicked] job_nth [OF that assms(2)] by (metis list_update_id service.surjective service.update_convs(2))
  then show "refines_step cd answers s (set_work i Panicked s)"
    using writer by (cases "ss_writer s = WriterClosed") (auto intro: refines_stutter refines_closed)
  assume reply: "answers (tk_request (ss_tasks s ! i)) rs"
  show "refines_step cd answers s (handler_returned cd i rs s)"
  proof (cases "ss_writer s = WriterClosed")
    case True
    then show ?thesis using writer by (intro refines_closed) (simp_all add: handler_returned_def)
  next
    case False
    then have "job_of s i = (tk_request (ss_tasks s ! i), None)"
      "job_of (handler_returned cd i rs s) i = (tk_request (ss_tasks s ! i), Some (map (write_response cd) rs))"
      using no_texts [OF assms(1)] assms(2,3) by (simp_all add: job_of_def handler_returned_def set_work_def waiting_def)
    then show ?thesis
      using service_step.answers [of "service_of s" i "tk_request (ss_tasks s ! i)" answers rs cd]
        jobs [OF False, of "Answering (map (write_response cd) rs)"] assms(2) reply False
      by (simp add: handler_returned_def refines_step_def)
  qed
qed

text \<open>Queueing a text, and taking it from the queue, changes nothing the service can see.\<close>

lemma refines_send:
  assumes "task_send i s = Some s'"
  shows "refines_step cd answers s s'"
proof (cases "ss_writer s = WriterClosed")
  case True
  then show ?thesis using assms
    by (auto simp: task_send_def set_work_def try_send_def intro: refines_closed split: if_splits work.splits list.splits)
next
  case False
  then obtain t todo where t: "i < length (ss_tasks s)" "tk_work (ss_tasks s ! i) = Answering (t # todo)"
    "s' = set_work i (Answering todo) (s\<lparr>ss_queue := ss_queue s @ [OutText i t]\<rparr>)"
    using assms by (auto simp: task_send_def try_send_def split: if_splits work.splits list.splits)
  have "job_of s' j = job_of s j" if "j < length (ss_tasks s)" for j
    using t that by (cases "j = i") (simp_all add: job_of_def set_work_def waiting_def)
  then show ?thesis using t False
    by (intro refines_stutter) (simp add: service_of_def set_work_def waiting_def cong: map_cong)
qed

lemma refines_take:
  assumes "writer_takes s = Some s'"
  shows "refines_step cd answers s s'"
proof -
  from assms obtain m ms where s': "ss_writer s = WaitingForMessage" "ss_queue s = m # ms"
    "s' = s\<lparr>ss_writer := Sending m, ss_queue := ms\<rparr>"
    by (auto simp: writer_takes_def split: writer.splits list.splits)
  then have "waiting s' = waiting s" by (simp add: waiting_def)
  with s' show ?thesis by (intro refines_stutter) (simp add: service_of_def job_of_def)
qed

text \<open>What the writer has sent is what the service sends.\<close>

lemma refines_written:
  assumes "session_ok cd answers s" "writer_sends s = Some s'"
  shows "refines_step cd answers s s'"
proof -
  from assms(2) obtain m where m: "ss_writer s = Sending m"
    "s' = s\<lparr>ss_writer := WaitingForMessage, ss_socket := ss_socket s @ [m]\<rparr>"
    by (auto simp: writer_sends_def split: writer.splits)
  then have w: "waiting s = m # waiting s'" by (simp add: waiting_def)
  show ?thesis
  proof (cases m)
    case (OutText i t)
    then obtain todo where i: "i < length (ss_tasks s)" "tk_work (ss_tasks s ! i) = Answering todo"
      using waiting_task [OF assms(1), of i t] m(1) w by auto
    let ?rest = "texts_of i (waiting s') @ todo"
    have "job_of s' j = job_of s j" if "j \<noteq> i" for j
      using that m(2) w OutText by (simp add: job_of_def)
    moreover have job: "job_of s i = (tk_request (ss_tasks s ! i), Some (t # ?rest))"
      "job_of s' i = (tk_request (ss_tasks s ! i), Some ?rest)"
      using i m(2) w OutText by (simp_all add: job_of_def)
    ultimately have "service_of s' = (service_of s)\<lparr>sv_jobs := (sv_jobs (service_of s))[i :=
        (tk_request (ss_tasks s ! i), Some ?rest)], sv_sent := sv_sent (service_of s) @ [OutText i t]\<rparr>"
      using job_list_upd [of s' s i] m w OutText by (simp add: service_of_def)
    then show ?thesis
      using service_step.replies [of "service_of s" i "tk_request (ss_tasks s ! i)" t ?rest cd answers]
        i m(1) job(1) by (simp add: refines_step_def)
  next
    case (OutPong d)
    then have "job_of s' j = job_of s j" for j using m(2) w by (simp add: job_of_def)
    then have "service_of s' = (service_of s)\<lparr>sv_pings := pongs_of (waiting s'),
        sv_sent := sv_sent (service_of s) @ [OutPong d]\<rparr>"
      using m w OutPong by (simp add: service_of_def)
    moreover have "sv_pings (service_of s) = d # pongs_of (waiting s')"
      using m(1) w OutPong by (simp add: service_of_def)
    ultimately show ?thesis
      using service_step.pongs [of "service_of s" d "pongs_of (waiting s')" cd answers] m(1)
      by (simp add: refines_step_def)
  qed
qed

lemma refines_fail:
  assumes "writer_fails s = Some s'"
  shows "refines_step cd answers s s'"
proof -
  from assms have "ss_writer s \<noteq> WriterClosed" "service_of s' = closed_service (ss_socket s)"
    by (auto simp: writer_fails_def service_of_def split: writer.splits)
  then show ?thesis using service_step.breaks [of "service_of s" cd answers] by (simp add: refines_step_def)
qed

lemma session_step_refines:
  assumes "session_ok cd answers s" "session_step cd answers s s'"
  shows "refines_step cd answers s s'"
  using assms(2)
proof cases
  case (drains)
  then show ?thesis
    by cases (auto intro: refines_send refines_take refines_written [OF assms(1)])
qed (use assms(1) in \<open>auto intro: refines_read refines_work refines_fail\<close>)

section \<open>Sessions refine the service\<close>

text \<open>
  C5. A session is a correct reply service. Whatever a session of the agent does, seen from the
  socket it behaves like a service without tasks, queue and writer that fixes the reply to each
  request once, sends the parts of every reply in their order and the pongs in the order of the
  pings, and sends nothing more once the connection is broken: each step of the session is a step
  of the service or invisible, and what is on the socket is what the service has sent.
\<close>

theorem session_refines_service:
  "service_of open_session = idle_service \<and> sv_sent (service_of s) = ss_socket s \<and>
   ((session_step cd answers)\<^sup>*\<^sup>* open_session s \<longrightarrow>
     (service_step cd answers)\<^sup>*\<^sup>* idle_service (service_of s) \<and>
     (\<forall>s'. session_step cd answers s s' \<longrightarrow>
        service_step cd answers (service_of s) (service_of s') \<or> service_of s' = service_of s))"
proof (intro conjI impI)
  assume "(session_step cd answers)\<^sup>*\<^sup>* open_session s"
  then have "session_ok cd answers s \<and> (service_step cd answers)\<^sup>*\<^sup>* idle_service (service_of s)"
  proof (induction rule: rtranclp_induct)
    case base
    then show ?case by (simp add: session_ok_open service_of_start)
  next
    case (step s s')
    then show ?case
      using session_step_ok [of cd answers s s'] session_step_refines [of cd answers s s']
      by (auto simp: refines_step_def intro: rtranclp.rtrancl_into_rtrancl)
  qed
  then show "(service_step cd answers)\<^sup>*\<^sup>* idle_service (service_of s)"
    "\<forall>s'. session_step cd answers s s' \<longrightarrow>
        service_step cd answers (service_of s) (service_of s') \<or> service_of s' = service_of s"
    using session_step_refines by (auto simp: refines_step_def)
qed (simp_all add: service_of_start)

theorem session_refines_service_witness:
  "(service_step demo_codec (\<lambda>_ rs. rs = [demo_reply]))\<^sup>*\<^sup>* idle_service
     (service_of (demo_session (Answering [''reply''])))"
  using session_refines_service [of "demo_session (Answering [''reply''])" demo_codec "\<lambda>_ rs. rs = [demo_reply]"]
    demo_session_runs [of "\<lambda>_ rs. rs = [demo_reply]"] by simp

end
