(* ===== verification/Query_Path.thy ===== *)
theory Query_Path
  imports Providers
begin

text \<open>
  The way of a query through the whole agent, from the text the backend sends to the responses it
  reads back: the codec of the session, the executor, the provider and its stream, the row
  conversion and the wire format, put together for the engines that speak a database protocol.
\<close>

section \<open>The exchange of one request\<close>

text \<open>
  A request as a text frame, the responses of the executor as text frames, and what the
  backend reads from these; \<^const>\<open>None\<close> when a text is not readable or there is no answer.
\<close>

definition exchange ::
  "codec \<Rightarrow> (string \<Rightarrow> u8 list option) \<Rightarrow> arrow_api \<Rightarrow> (json \<Rightarrow> string) \<Rightarrow> provider \<Rightarrow> string \<Rightarrow> string
   \<Rightarrow> connect_response list option" where
  "exchange cd dec arrow serde_err pv db_type frame =
     Option.bind (read_request cd frame) (\<lambda>request.
     Option.bind (execute arrow serde_err pv db_type request) (\<lambda>rs.
     those (map (\<lambda>r. read_response cd dec (write_response cd r)) rs)))"

definition query_request :: "string \<Rightarrow> query_params \<Rightarrow> bool \<Rightarrow> connect_request" where
  "query_request rid p streaming =
     \<lparr>req_id = rid, req_op = ExecuteQuery, req_params = Some (query_params_to_json p),
      req_streaming = streaming\<rparr>"

text \<open>The bodies the backend should read: a header, the batches with their numbers, a summary.\<close>

fun batch_bodies ::
  "arrow_api \<Rightarrow> ('row \<Rightarrow> column_info \<Rightarrow> nat \<Rightarrow> arrow_builder \<Rightarrow> arrow_builder option)
   \<Rightarrow> column_info list \<Rightarrow> nat \<Rightarrow> 'row list list \<Rightarrow> response_body list" where
  "batch_bodies arrow put cols k [] = []"
| "batch_bodies arrow put cols k (rs # rss) =
     ArrowBatch (rows_bytes arrow put cols rs) (of_nat k) # batch_bodies arrow put cols (k + 1) rss"

definition reply_bodies ::
  "arrow_api \<Rightarrow> ('row \<Rightarrow> column_info \<Rightarrow> nat \<Rightarrow> arrow_builder \<Rightarrow> arrow_builder option)
   \<Rightarrow> column_info list \<Rightarrow> i64 \<Rightarrow> 'row list list \<Rightarrow> response_body list" where
  "reply_bodies arrow put cols elapsed groups =
     ArrowHeader (case ipc_schema arrow (ab_schema (builder_new cols)) of Inr bytes \<Rightarrow> bytes | Inl _ \<Rightarrow> [])
       cols None
     # batch_bodies arrow put cols 0 groups
     @ [ArrowComplete (Some elapsed) None (of_nat (length groups)) (of_nat (length (concat groups))) None]"

section \<open>Lemmas\<close>

lemma batch_responses:
  "stream_responses i (batch_events arrow put cols k groups @ ms)
     = map (respond i) (batch_bodies arrow put cols k groups) @ stream_responses i ms"
  by (induction arrow put cols k groups rule: batch_events.induct) simp_all

lemma reply_responses:
  "stream_responses i (stream_of arrow put cols None elapsed groups)
     = map (respond i) (reply_bodies arrow put cols elapsed groups)"
  by (simp add: stream_of_def reply_bodies_def schema_event_def batch_responses)

lemma read_all:
  assumes "\<And>r. r \<in> set rs \<Longrightarrow> readable cd dec r"
  shows "those (map (\<lambda>r. read_response cd dec (write_response cd r)) rs) = Some rs"
  using assms by (induction rs) (simp_all add: read_write)

text \<open>A query that streams comes back as the responses of its stream.\<close>

lemma exchange_stream:
  assumes frame: "cd_parse cd frame = Some (request_to_json (query_request rid p streaming))"
    and "use_streaming p"
    and stream: "pv_stream_arrow pv (qp_sql p) (qp_limit p) (qp_offset p) (qp_include_total p) None
        = Some (Inr ms)" "stream_responses rid ms = map (respond rid) bodies"
    and legible: "\<And>b. b \<in> set bodies \<Longrightarrow> readable cd dec (respond rid b)"
  shows "exchange cd dec arrow serde_err pv db_type frame = Some (map (respond rid) bodies)"
proof -
  have params: "query_params_from_json (query_params_to_json p) = Some p"
    by (rule query_params_read_back)
  have "request_from_json (request_to_json (query_request rid p streaming)) = Some (query_request rid p streaming)"
    by (rule request_read_back) (simp add: query_request_def query_params_to_json_def json_obj_def)
  then have "read_request cd frame = Some (query_request rid p streaming)"
    using frame by (simp add: read_request_def)
  moreover have "execute arrow serde_err pv db_type (query_request rid p streaming)
      = Some (map (respond rid) bodies)"
    using assms(2) stream params
    by (simp add: execute_def query_request_def Let_def handle_execute_query_maybe_stream_def
        read_params_def execute_query_streaming_arrow_def)
  moreover have "those (map (\<lambda>r. read_response cd dec (write_response cd r)) (map (respond rid) bodies))
      = Some (map (respond rid) bodies)"
    by (rule read_all) (use legible in auto)
  ultimately show ?thesis unfolding exchange_def by simp
qed

text \<open>A statement that is a SELECT without a limit of its own gets one, asked for or not.\<close>

lemma unlimited_query_sql:
  "\<lbrakk>is_select_sql (to_uppercase (strip_sql sql)); \<not> str_contains (to_uppercase (strip_sql sql)) ''LIMIT''\<rbrakk>
   \<Longrightarrow> pq_sql (prepare_query sql None None) = strip_sql sql @ limit_offset 1000 0"
  by (simp add: prepare_query_def Let_def)

section \<open>From the backend and back\<close>

text \<open>
  C2. A query arrives and its rows come back. The backend sends the text of a query without limit,
  or with one above 1000, to an agent over PostgreSQL, MySQL or SQL Server; what it reads
  back are exactly, under the id of the request, the header with the columns of the result, all rows
  of the database in order in batches of 100 (SQL Server: 10000), numbered from 0, and the
  number of batches and rows. A SELECT without any limit is sent to PostgreSQL and MySQL with
  \<open>LIMIT 1000 OFFSET 0\<close>, so that "all rows" are at most 1000.
\<close>

theorem query_reaches_backend:
  assumes laws: "try_new_law (rt_arrow rt)" "ipc_law (rt_arrow rt)"
    and frame: "cd_parse cd frame = Some (request_to_json (query_request rid p streaming))"
    and p: "use_streaming p" "\<not> qp_include_total p"
    and legible: "\<And>b. b \<in> set bodies \<Longrightarrow> readable cd dec (respond rid b)"
  shows "(pool_fetch pg (pq_sql (prepare_query (qp_sql p) (qp_limit p) (qp_offset p))) = map RowOk (row # rows) \<and>
      pg_columns row \<noteq> [] \<and>
      bodies = reply_bodies (rt_arrow rt) (pg_put (rt_values rt)) (pg_column_infos row) (rt_elapsed rt)
        (chunks 100 (row # rows)) \<longrightarrow>
      exchange cd dec (rt_arrow rt) serde_err (provider_of rt (ConnPostgres pg)) db_type frame
        = Some (map (respond rid) bodies)) \<and>
    (pool_fetch my (pq_sql (prepare_query (qp_sql p) (qp_limit p) (qp_offset p))) = map RowOk (my_row # my_rows) \<and>
      my_columns my_row \<noteq> [] \<and>
      bodies = reply_bodies (rt_arrow rt) (mysql_put (rt_values rt)) (mysql_column_infos my_row) (rt_elapsed rt)
        (chunks 100 (my_row # my_rows)) \<longrightarrow>
      exchange cd dec (rt_arrow rt) serde_err (provider_of rt (ConnMySql my)) db_type frame
        = Some (map (respond rid) bodies)) \<and>
    (tds_query tds (tds_paginated_sql 10000 (qp_sql p) (qp_limit p) (qp_offset p)) = TdsRows trows \<and>
      cols = tds_column_infos trows \<and> (trows \<noteq> [] \<longrightarrow> filtered_columns cols \<noteq> []) \<and>
      bodies = reply_bodies (rt_arrow rt) (tds_put (rt_values rt) (row_num_idx cols)) (filtered_columns cols)
        (rt_elapsed rt) (chunks 10000 trows) \<longrightarrow>
      exchange cd dec (rt_arrow rt) serde_err (provider_of rt (ConnSqlServer tds)) db_type frame
        = Some (map (respond rid) bodies)) \<and>
    (is_select_sql (to_uppercase (strip_sql (qp_sql p))) \<and>
      \<not> str_contains (to_uppercase (strip_sql (qp_sql p))) ''LIMIT'' \<and> qp_limit p = None \<and> qp_offset p = None \<longrightarrow>
      pq_sql (prepare_query (qp_sql p) (qp_limit p) (qp_offset p)) = strip_sql (qp_sql p) @ '' LIMIT 1000 OFFSET 0'')"
proof (intro conjI impI; (elim conjE)?)
  note path = exchange_stream [OF frame p(1) _ _ legible] and total = p(2)
  show "exchange cd dec (rt_arrow rt) serde_err (provider_of rt (ConnPostgres pg)) db_type frame
      = Some (map (respond rid) bodies)"
    if "pool_fetch pg (pq_sql (prepare_query (qp_sql p) (qp_limit p) (qp_offset p))) = map RowOk (row # rows)"
      "pg_columns row \<noteq> []" "bodies = reply_bodies (rt_arrow rt) (pg_put (rt_values rt)) (pg_column_infos row)
        (rt_elapsed rt) (chunks 100 (row # rows))"
    using pg_stream_rows [OF laws that(2,1)] total
    by (intro path) (simp add: pg_provider_def, simp only: that(3), rule reply_responses)
  show "exchange cd dec (rt_arrow rt) serde_err (provider_of rt (ConnMySql my)) db_type frame
      = Some (map (respond rid) bodies)"
    if "pool_fetch my (pq_sql (prepare_query (qp_sql p) (qp_limit p) (qp_offset p))) = map RowOk (my_row # my_rows)"
      "my_columns my_row \<noteq> []" "bodies = reply_bodies (rt_arrow rt) (mysql_put (rt_values rt)) (mysql_column_infos my_row)
        (rt_elapsed rt) (chunks 100 (my_row # my_rows))"
    using mysql_stream_rows [OF laws that(2,1)] total
    by (intro path) (simp add: mysql_provider_def, simp only: that(3), rule reply_responses)
  show "exchange cd dec (rt_arrow rt) serde_err (provider_of rt (ConnSqlServer tds)) db_type frame
      = Some (map (respond rid) bodies)"
    if "tds_query tds (tds_paginated_sql 10000 (qp_sql p) (qp_limit p) (qp_offset p)) = TdsRows trows"
      "cols = tds_column_infos trows" "trows \<noteq> [] \<longrightarrow> filtered_columns cols \<noteq> []"
      "bodies = reply_bodies (rt_arrow rt) (tds_put (rt_values rt) (row_num_idx cols)) (filtered_columns cols)
        (rt_elapsed rt) (chunks 10000 trows)"
    using tds_stream [where query = "tds_query tds" and sql = "qp_sql p" and limit = "qp_limit p" and offset = "qp_offset p",
        OF laws that(1,2)] that(3) total
    by (intro path) (simp add: sqlserver_provider_def, simp only: that(4), rule reply_responses)
  have "limit_offset 1000 0 = '' LIMIT 1000 OFFSET 0''" by code_simp
  then show "pq_sql (prepare_query (qp_sql p) (qp_limit p) (qp_offset p)) = strip_sql (qp_sql p) @ '' LIMIT 1000 OFFSET 0''"
    if "is_select_sql (to_uppercase (strip_sql (qp_sql p)))"
      "\<not> str_contains (to_uppercase (strip_sql (qp_sql p))) ''LIMIT''" "qp_limit p = None" "qp_offset p = None"
    using unlimited_query_sql [OF that(1,2)] that(3,4) by simp
qed

text \<open>A codec over a table of the JSON values it can write: a text is as long as its value's index.\<close>

definition table_codec :: "json list \<Rightarrow> codec" where
  "table_codec js =
     \<lparr>cd_parse = (\<lambda>t. if length t < length js then Some (js ! length t) else None),
      cd_print = (\<lambda>j. map (\<lambda>_. CHR ''x'') (takeWhile (\<lambda>x. x \<noteq> j) js)),
      cd_base64 = cd_base64 demo_codec\<rparr>"

lemma table_codec_reads:
  assumes "j \<in> set js"
  shows "cd_parse (table_codec js) (cd_print (table_codec js) j) = Some j"
proof -
  let ?n = "length (takeWhile (\<lambda>x. x \<noteq> j) js)"
  have n: "?n < length js"
    using assms by (metis (mono_tags, lifting) length_takeWhile_le nat_less_le takeWhile_eq_all_conv takeWhile_eq_take take_all_iff order_refl)
  then have "js ! ?n = j" using nth_length_takeWhile [of "\<lambda>x. x \<noteq> j" js] by simp
  then show ?thesis using n by (simp add: table_codec_def)
qed

definition demo_params :: query_params where
  "demo_params = \<lparr>qp_sql = ''SELECT id FROM t'', qp_limit = None, qp_offset = None,
     qp_include_total = False, qp_format = Arrow, qp_job_id = None\<rparr>"

definition demo_query :: connect_request where
  "demo_query = query_request ''q1'' demo_params True"

definition demo_table :: "response_body list \<Rightarrow> codec" where
  "demo_table bodies = table_codec (request_to_json demo_query
     # map (\<lambda>b. response_to_json (cd_base64 demo_codec) (respond ''q1'' b)) bodies)"

lemma demo_table_readable:
  assumes "b \<in> set bodies"
  shows "readable (demo_table bodies) demo_decode (respond ''q1'' b)"
proof -
  have "cd_base64 (demo_table bodies) = cd_base64 demo_codec" by (simp add: demo_table_def table_codec_def)
  moreover have "cd_parse (demo_table bodies)
      (cd_print (demo_table bodies) (response_to_json (cd_base64 demo_codec) (respond ''q1'' b)))
    = Some (response_to_json (cd_base64 demo_codec) (respond ''q1'' b))"
    unfolding demo_table_def by (rule table_codec_reads) (use assms in simp)
  ultimately show ?thesis
    using demo_readable by (simp add: readable_def write_response_def)
qed

lemma demo_table_request:
  "cd_parse (demo_table bodies) [] = Some (request_to_json (query_request ''q1'' demo_params True))"
  by (simp add: demo_table_def table_codec_def demo_query_def)

definition demo_pg_bodies :: "value_api \<Rightarrow> response_body list" where
  "demo_pg_bodies api = reply_bodies demo_arrow (pg_put api) (pg_column_infos demo_pg_row) 5
     (chunks 100 [demo_pg_row, demo_pg_row])"

definition demo_mysql_bodies :: "value_api \<Rightarrow> response_body list" where
  "demo_mysql_bodies api = reply_bodies demo_arrow (mysql_put api) (mysql_column_infos demo_mysql_row) 5
     (chunks 100 [demo_mysql_row])"

definition demo_tds_bodies :: "value_api \<Rightarrow> response_body list" where
  "demo_tds_bodies api = reply_bodies demo_arrow (tds_put api (row_num_idx (tds_column_infos [demo_tds_row])))
     (filtered_columns (tds_column_infos [demo_tds_row])) 5 (chunks 10000 [demo_tds_row])"

definition demo_tds_client :: tds_client where
  "demo_tds_client = \<lparr>tds_query = (\<lambda>_. TdsRows [demo_tds_row]), tds_count_row = (\<lambda>_. None)\<rparr>"

theorem query_reaches_backend_witness:
  "\<forall>api. exchange (demo_table (demo_pg_bodies api)) demo_decode (rt_arrow (demo_runtime api)) (\<lambda>_. [])
       (provider_of (demo_runtime api) (ConnPostgres (demo_pool [demo_pg_row, demo_pg_row] demo_error))) ''postgres'' []
     = Some (map (respond ''q1'') (demo_pg_bodies api)) \<and>
   exchange (demo_table (demo_mysql_bodies api)) demo_decode (rt_arrow (demo_runtime api)) (\<lambda>_. [])
       (provider_of (demo_runtime api) (ConnMySql (demo_pool [demo_mysql_row] demo_error))) ''mysql'' []
     = Some (map (respond ''q1'') (demo_mysql_bodies api)) \<and>
   exchange (demo_table (demo_tds_bodies api)) demo_decode (rt_arrow (demo_runtime api)) (\<lambda>_. [])
       (provider_of (demo_runtime api) (ConnSqlServer demo_tds_client)) ''sqlserver'' []
     = Some (map (respond ''q1'') (demo_tds_bodies api)) \<and>
   pq_sql (prepare_query (qp_sql demo_params) (qp_limit demo_params) (qp_offset demo_params))
     = strip_sql (qp_sql demo_params) @ '' LIMIT 1000 OFFSET 0''"
proof (intro allI conjI)
  fix api
  have stream: "use_streaming demo_params" "\<not> qp_include_total demo_params"
    by (simp_all add: use_streaming_def demo_params_def)
  have laws: "try_new_law (rt_arrow (demo_runtime api))" "ipc_law (rt_arrow (demo_runtime api))"
    using demo_arrow_law demo_ipc_law by simp_all
  note path = query_reaches_backend [where p = demo_params and rid = "''q1''" and streaming = True
      and frame = "[]" and rt = "demo_runtime api" and dec = demo_decode and row = demo_pg_row and rows = "[demo_pg_row]"
      and my_row = demo_mysql_row and my_rows = "[]" and trows = "[demo_tds_row]"
      and cols = "tds_column_infos [demo_tds_row]", OF laws demo_table_request stream demo_table_readable]
  show "exchange (demo_table (demo_pg_bodies api)) demo_decode (rt_arrow (demo_runtime api)) (\<lambda>_. [])
       (provider_of (demo_runtime api) (ConnPostgres (demo_pool [demo_pg_row, demo_pg_row] demo_error))) ''postgres'' []
     = Some (map (respond ''q1'') (demo_pg_bodies api))"
    by (rule path [THEN conjunct1, THEN mp])
       (simp_all add: demo_pool_def demo_pg_row_def demo_pg_bodies_def demo_runtime_def)
  show "exchange (demo_table (demo_mysql_bodies api)) demo_decode (rt_arrow (demo_runtime api)) (\<lambda>_. [])
       (provider_of (demo_runtime api) (ConnMySql (demo_pool [demo_mysql_row] demo_error))) ''mysql'' []
     = Some (map (respond ''q1'') (demo_mysql_bodies api))"
    by (rule path [THEN conjunct2, THEN conjunct1, THEN mp])
       (simp_all add: demo_pool_def demo_mysql_row_def demo_mysql_bodies_def demo_runtime_def)
  show "exchange (demo_table (demo_tds_bodies api)) demo_decode (rt_arrow (demo_runtime api)) (\<lambda>_. [])
       (provider_of (demo_runtime api) (ConnSqlServer demo_tds_client)) ''sqlserver'' []
     = Some (map (respond ''q1'') (demo_tds_bodies api))"
    by (rule path [THEN conjunct2, THEN conjunct2, THEN conjunct1, THEN mp])
       (simp_all add: demo_tds_client_def demo_tds_bodies_def demo_runtime_def demo_tds_row_def
         tds_column_infos_def filtered_columns_def row_num_idx_def)
  show "pq_sql (prepare_query (qp_sql demo_params) (qp_limit demo_params) (qp_offset demo_params))
     = strip_sql (qp_sql demo_params) @ '' LIMIT 1000 OFFSET 0''"
  proof (rule path [THEN conjunct2, THEN conjunct2, THEN conjunct2, THEN mp])
    have "is_select_sql (to_uppercase (strip_sql ''SELECT id FROM t''))"
      "\<not> str_contains (to_uppercase (strip_sql ''SELECT id FROM t'')) ''LIMIT''" by code_simp+
    then show "is_select_sql (to_uppercase (strip_sql (qp_sql demo_params))) \<and>
      \<not> str_contains (to_uppercase (strip_sql (qp_sql demo_params))) ''LIMIT'' \<and>
      qp_limit demo_params = None \<and> qp_offset demo_params = None"
      by (simp add: demo_params_def)
  qed
qed

end
