(* ===== verification/Spec2Isabelle.thy ===== *)
theory Spec2Isabelle
  imports Service Relay Clickhouse_Native Typed_Batches Session_Refinement Query_Path
begin

text \<open>
  Kyomi Connect: an agent that runs beside a data warehouse, keeps its credentials, and answers
  the queries of the Kyomi backend over one WebSocket. This development models the three crates
  under \<^verbatim>\<open>src/crates\<close> and proves what makes them correct.

  \<^bold>\<open>The program and its parts.\<close> The command line chooses between the setup wizard, the service
  installation and the agent. The wizard gets a token from the operator or from a browser, asks for
  the database, tests it and saves a configuration file. The agent reads configuration file,
  environment and token, builds the configuration and credentials of a provider, refreshes or
  fetches credentials, opens an SSH tunnel where one is asked for, and connects. Then its reconnect
  loop keeps a session with the backend: a reader starts a task for each request, the task runs the
  executor, and the writer sends the responses from a bounded queue. The executor calls the provider
  of the database: it prepares the SQL, sends it, maps the column types, converts the rows to Arrow
  and returns one result or a stream of events.

  \<^bold>\<open>Theories, in the order of the code, with the files they model.\<close>
  Files of \<^verbatim>\<open>kyomi-connect-protocol/src\<close>, \<^verbatim>\<open>kyomi-datasource/src\<close> and
  \<^verbatim>\<open>kyomi-connect/src\<close> are named without their directory.

  \<^item> Prelude: machine integers, strings as UTF-8 bytes with the slices that panic, decimal numbers.
  \<^item> Protocol_Types (types.rs, error.rs): datasource and column types, errors. Json: the values of
    serde_json, objects as sorted key lists. Wire (wire.rs): requests, responses and catalogs with
    their JSON form.
  \<^item> Type_Mapping (type_mapping.rs): type names and codes of every engine to column types.
  \<^item> Arrow_Builder and Typed_Batches (arrow_builder.rs): column builders, appends with their
    fallbacks, batches. Row_Convert: one row of each engine to Arrow (the row functions of
    providers/*.rs).
  \<^item> Sql_Prep (sqlx_common.rs, tsql_common.rs, executor.rs): pagination, escaping, error positions.
  \<^item> Query_Result and Stream_Driver (provider.rs, stream.rs, sqlx_common.rs, tsql_common.rs):
    results, events, the channel of a stream and the two tasks that drive one.
  \<^item> Sql_Providers (postgres.rs, mysql.rs, redshift.rs, sqlserver.rs, synapse.rs), Clickhouse
    (clickhouse.rs), Clickhouse_Native (clickhouse_datafusion.rs), Rest_Api with Snowflake,
    Databricks and Bigquery (snowflake.rs, databricks.rs, bigquery.rs), Flaredb (flaredb.rs): all
    operations of each provider.
  \<^item> Credentials (oauth_refresh.rs, aws_sigv4.rs, redshift.rs, synapse.rs, factory.rs): shared
    credentials, OAuth refresh, Azure AD, signed AWS requests. Ssh_Tunnel and Relay (ssh_tunnel.rs):
    making a tunnel, its endpoints and proxy, and its work. Connection (factory.rs and the
    \<open>new\<close> functions of the providers): from configuration to an open connection.
  \<^item> Executor (executor.rs): a request becomes responses; catalog discovery. Providers: every kind
    of connection as the trait's methods (provider.rs).
  \<^item> Agent (ws_client.rs, health.rs, main.rs): session, reconnect loop, readiness.
    Session_Refinement: the reply service a session refines. Query_Path: a query from the text the
    backend sends to the responses it reads, through session codec, executor, provider and stream.
    Setup (config_file.rs, config.rs, wizard.rs, callback_server.rs, executor.rs): configuration,
    wizard, callback. Service (service.rs, main.rs): the service and the command line.

  \<^bold>\<open>How code becomes definitions.\<close> A struct is a record, an enum a datatype, a
  \<^verbatim>\<open>Result\<close> a sum with the errors of error.rs on the left. Integers keep their width where it
  matters; casts and release-mode wrap-around are written out. A floating-point number is its bit
  pattern and is never computed with. A call that panics or never returns is \<^const>\<open>None\<close>. Time is
  in milliseconds: a timed call takes a moment and returns a value and a moment. An answer over HTTP
  has a head and a body, each with its time, and the body may never end: most time-outs of the code
  cover the head only. In the same way the rows of a T-SQL reply and the batches of FlareDB may
  never all arrive. Tasks that send
  events are written with \<^typ>\<open>'a flow\<close>, where each early return is a \<open>Stop\<close>. Concurrent parts (the
  session with its tasks and writer, the reconnect loop, the readiness check, the tunnel listener
  and its connections) are inductive step relations over explicit states: every interleaving is a
  sequence of steps. Environment, files and terminal are an explicit machine state.

  \<^bold>\<open>What is a parameter.\<close> Everything outside the repository: drivers and connection pools, HTTP,
  Flight SQL and SSH libraries, JWT, TOML, hashes and signatures, the arrow crate, the clock with
  its date formats, regular expressions, base64, what services reply and what the operator types.
  Hypotheses on them are named and documented behaviour: \<^const>\<open>try_new_law\<close> (a batch is made from
  columns that fit its schema), \<^const>\<open>ipc_law\<close> (writing a schema or a batch to memory succeeds), \<^const>\<open>clock_law\<close>
  (a date that is printed reads back), \<^const>\<open>env_file_law\<close> (systemd sets the variables of plain
  lines). Each theorem with a hypothesis has a witness that satisfies it.

  \<^bold>\<open>Interfaces.\<close> The locales are contracts between components, each interpreted on the model:
  \<open>object_map\<close> (objects of JSON), \<open>row_writer\<close> (a converter appends to each column the cell it
  stands for; six converters), \<open>query_provider\<close> (a query returns a consistent result),
  \<open>poller\<close> (a poll is answered or hangs; the four kinds of poll), \<open>stream_provider\<close> and \<open>total_provider\<close>
  (streams read to the end are closed; all providers, then the provider of any connection; calls
  return: the sqlx providers, and the T-SQL ones over a server whose replies arrive), \<open>request_handler\<close> (replies are complete; the executor is one), \<open>connection_task\<close>
  (what a task keeps, its listener keeps for all its connections).

  \<^bold>\<open>What the lemmas show.\<close>
  \<^item> Replies (C1 to C6): each request has one complete reply, from the text of a query to the rows
    the backend reads; it is delivered in order through a queue that never locks up, as an abstract
    reply service would; readiness and backoff follow the state of the session.
  \<^item> Streams and listings (C7 to C16, C24, C40): the event protocol holds for every driver whatever the
    service and the receiver do, and what a stream delivers is the result, page by page.
  \<^item> Waiting (C17, C18): poll loops end if answers do, and do not miss a result.
  \<^item> Values (C19 to C23): batches are well typed and the cells of rows arrive.
  \<^item> Configuration and service (C25 to C27): what was set up or installed is what runs.
  \<^item> Tunnels and credentials (C28 to C34): host keys, bytes, endpoints and identity, signatures, tokens.
  \<^item> Wire and SQL (C35 to C39): round trips, escaping by SQL dialect, pagination.

  \<^bold>\<open>Bounds and fuel.\<close> Three kinds of page loop have no bound of their own (ClickHouse pages,
  Databricks chunks, BigQuery pages and projects) and take fuel; without fuel they give \<^const>\<open>None\<close>
  or \<open>OutOfFuel\<close>. The safety theorems hold for every fuel; the delivery theorems say how much is
  enough: one step for each page or chunk, for BigQuery more steps than rows. The poll loops stop at their deadline and are total recursions over the time that is left.

  \<^bold>\<open>Not modelled.\<close> The requests of the setup wizard and the first fetch of the key set have no
  time-out in the code and are taken as answered; rows of a result are finite lists. Case mapping and white space beyond ASCII; the message texts of the third-party
  errors; log output, terminal colours and the HTML of the callback page; Windows branches (the
  agent is modelled as compiled for Unix); sockets, TLS (tls.rs installs the crypto provider) and
  HTTP servers below the level of a request; tooltips of datasource types;
  the \<open>close\<close> method of the providers, which the agent never calls; crate roots and
  re-exports; tests; charts, scripts and documents.
\<close>

section \<open>The warehouse streams\<close>

text \<open>
  C7. The streams of the five warehouse providers keep the event protocol, whatever the service
  replies, however long it takes and whenever the receiver goes away: a Schema, then Batch
  events numbered 0, 1, 2, ..., then Complete with their number, or an error at any point and
  nothing after it; a receiver that reads to the end finds every stream that ends closed.
\<close>

theorem http_streams_keep_protocol:
  "flow_ended (clickhouse_stream_arrow fuel arrow api hsv cp elapsed sql limit offset tot chunk_size
      \<lparr>ch_sent = [], ch_budget = n\<rparr>) \<and>
   flow_ended (databricks_stream_arrow fuel arrow api sv dp elapsed sql limit offset tot chunk_size now
      \<lparr>ch_sent = [], ch_budget = n\<rparr>) \<and>
   flow_ended (snowflake_stream_arrow arrow api sv sp elapsed sql limit offset tot chunk_size now
      \<lparr>ch_sent = [], ch_budget = n\<rparr>) \<and>
   flow_ended (bigquery_stream_arrow fuel arrow api sv bp elapsed sql limit offset tot chunk_size now
      \<lparr>ch_sent = [], ch_budget = n\<rparr>) \<and>
   flow_ended (flaredb_stream_arrow arrow fl elapsed sql limit offset tot chunk_size
      \<lparr>ch_sent = [], ch_budget = n\<rparr>)"
  by (intro conjI flow_ok_ended clickhouse_stream_ok databricks_stream_ok snowflake_stream_ok
      bigquery_stream_ok flaredb_stream_ok fresh_chan_phase)

section \<open>Waiting for a statement\<close>

lemma poll_within:
  assumes "poller ask hangs time" "\<And>t. \<not> hangs t" "\<And>t. time t \<le> delay"
  shows "\<exists>r t. poll_loop expired ask (now + 120000) now = Some (r, t) \<and> t \<le> now + 120500 + delay"
proof -
  have "now \<le> now + 120000 + POLL_INTERVAL + delay" by simp
  from poller.poll_returns [OF assms this, of expired] show ?thesis
    by (simp add: POLL_INTERVAL_def add.commute add.left_commute)
qed

text \<open>The polls of a stream when no body goes on for ever, and when the one of each poll does.\<close>

lemma stream_polls:
  assumes "bodies_end sv reading"
  shows "\<exists>r t. poll_loop expired (sf_stream_poll sv rq) (now + SF_POLL_TIMEOUT) now = Some (r, t)"
proof -
  have "\<exists>r t. poll_loop expired (sf_stream_poll sv rq) (now + 120000) now = Some (r, t)
      \<and> t \<le> now + 120500 + (DATASOURCE_TIMEOUT_QUERY + reading)"
  proof (rule poll_within [OF sf_stream_poller.poller_axioms])
    show "ask_within DATASOURCE_TIMEOUT_QUERY sv rq t \<noteq> None" for t
      by (rule ask_within_returns [OF assms, of DATASOURCE_TIMEOUT_QUERY rq t]) simp
    show "timed_delay DATASOURCE_TIMEOUT_QUERY sv rq t \<le> DATASOURCE_TIMEOUT_QUERY + reading" for t
      by (rule ask_within_returns [OF assms, of DATASOURCE_TIMEOUT_QUERY rq t]) (simp add: timed_delay_def)
  qed
  then show ?thesis unfolding SF_POLL_TIMEOUT_def by blast
qed

text \<open>
  C17. Waiting for a statement ends: if the service answers every request completely within a
  delay, the poll loops of Databricks, Snowflake and BigQuery return at most one interval and one
  delay after their deadline of 120 s, whatever the answers are. The requests of these loops have
  no time-out of their own: if a poll is never answered, the loop never returns. The requests of
  a Snowflake stream have one, for the head of the answer: its statement comes back if the bodies of
  the answers end, and never does if they begin and do not end.
\<close>

theorem polls_return:
  "((\<forall>rq t. \<exists>r d. ask_untimed sv rq t = Some (r, d) \<and> d \<le> delay) \<longrightarrow>
      (\<exists>r t. poll_statement sv dp sid now = Some (r, t) \<and> t \<le> now + 120500 + delay) \<and>
      (\<exists>r t. poll_statement_url sv sp url now = Some (r, t) \<and> t \<le> now + 120500 + delay) \<and>
      (\<exists>r t. poll_job sv bp job loc now = Some (r, t) \<and> t \<le> now + 120500 + delay)) \<and>
   ((\<forall>rq t. sv rq t = Silent) \<longrightarrow>
      poll_statement sv dp sid now = None \<and> poll_statement_url sv sp url now = None \<and>
      poll_job sv bp job loc now = None) \<and>
   (bodies_end sv reading \<longrightarrow> (\<exists>r t. sf_stream_statement sv sp sql now = Some (r, t))) \<and>
   ((\<forall>rq t. \<exists>r d. d \<le> DATASOURCE_TIMEOUT_QUERY \<and> sv rq t = Answered r d None) \<longrightarrow>
      sf_stream_statement sv sp sql now = None)"
proof (intro conjI impI)
  assume "\<forall>rq t. \<exists>r d. ask_untimed sv rq t = Some (r, d) \<and> d \<le> delay"
  then have live: "ask_untimed sv rq t \<noteq> None" "untimed_delay sv rq t \<le> delay" for rq t
    unfolding untimed_delay_def by (metis option.distinct(1), metis (mono_tags, lifting) case_prod_conv option.simps(5))
  show "\<exists>r t. poll_statement sv dp sid now = Some (r, t) \<and> t \<le> now + 120500 + delay"
    unfolding poll_statement_def STATEMENT_POLL_TIMEOUT_def
    by (rule poll_within [OF databricks_poller.poller_axioms live])
  show "\<exists>r t. poll_statement_url sv sp url now = Some (r, t) \<and> t \<le> now + 120500 + delay"
    unfolding poll_statement_url_def SF_POLL_TIMEOUT_def
    by (rule poll_within [OF sf_poller.poller_axioms live])
  show "\<exists>r t. poll_job sv bp job loc now = Some (r, t) \<and> t \<le> now + 120500 + delay"
    unfolding poll_job_def DATASOURCE_TIMEOUT_QUERY_def
    by (rule poll_within [OF bq_poller.poller_axioms live])
next
  assume "\<forall>rq t. sv rq t = Silent"
  then have silent: "ask_untimed sv rq t = None" for rq t by (simp add: ask_untimed_def)
  show "poll_statement sv dp sid now = None"
    unfolding poll_statement_def by (rule databricks_poller.poll_hangs) (simp_all add: silent)
  show "poll_statement_url sv sp url now = None"
    unfolding poll_statement_url_def by (rule sf_poller.poll_hangs) (simp_all add: silent)
  show "poll_job sv bp job loc now = None"
    unfolding poll_job_def by (rule bq_poller.poll_hangs) (simp_all add: silent)
next
  assume ends: "bodies_end sv reading"
  obtain r t where "ask_within DATASOURCE_TIMEOUT_QUERY sv (sf_request sp (sf_statements_url sp)
      (PostJson (sf_statement_body sp sql))) now = Some (r, t)"
    by (rule ask_within_returns [OF ends])
  then show "\<exists>r t. sf_stream_statement sv sp sql now = Some (r, t)"
    using stream_polls [OF ends]
    by (auto simp: sf_stream_statement_def split: option.split rest_reply.split)
next
  assume "\<forall>rq t. \<exists>r d. d \<le> DATASOURCE_TIMEOUT_QUERY \<and> sv rq t = Answered r d None"
  then obtain r d where "d \<le> DATASOURCE_TIMEOUT_QUERY" "sv (sf_request sp (sf_statements_url sp)
      (PostJson (sf_statement_body sp sql))) now = Answered r d None" by blast
  then show "sf_stream_statement sv sp sql now = None"
    by (simp add: sf_stream_statement_def ask_within_def await_def)
qed

theorem polls_return_witness:
  "(\<exists>r t. poll_statement (demo_databricks (RestErr ''gone'')) demo_dp ''s1'' 0 = Some (r, t) \<and> t \<le> 0 + 120500 + 10) \<and>
   poll_statement (\<lambda>_ _. Silent) demo_dp ''s1'' 0 = None \<and>
   (\<exists>r t. sf_stream_statement (demo_snowflake (RestErr ''gone'') (RestErr ''gone'')) demo_sp ''SELECT 1'' 0 = Some (r, t)) \<and>
   sf_stream_statement (\<lambda>_ _. Answered (RestErr ''gone'') 5 None) demo_sp ''SELECT 1'' 0 = None"
  using polls_return [of "demo_databricks (RestErr ''gone'')" 10 demo_dp "''s1''" 0]
    polls_return [of "\<lambda>_ _. Silent" 10 demo_dp "''s1''" 0]
    polls_return [of "demo_snowflake (RestErr ''gone'') (RestErr ''gone'')" 10 demo_dp "''s1''" 0 demo_sp _ _ _ _ 5 "''SELECT 1''"]
    polls_return [of "\<lambda>_ _. Answered (RestErr ''gone'') 5 None" 10 demo_dp "''s1''" 0 demo_sp _ _ _ _ 5 "''SELECT 1''"]
  by (simp add: demo_databricks_def demo_snowflake_def ask_untimed_def bodies_end_def DATASOURCE_TIMEOUT_QUERY_def)

text \<open>
  C18. A statement that finishes is not missed: if it runs until a time \<open>T\<close>, each poll before
  that is answered within a delay, and \<open>T\<close> is at least that delay before the deadline, then the
  poll loops of the three providers return its result.
\<close>

theorem statements_finish:
  assumes run: "\<And>t. t < T \<Longrightarrow> \<exists>st b d. ask_untimed sv rq t = Some (RestJson st b, d) \<and> d \<le> delay \<and> running b"
    and fin: "\<And>t. T \<le> t \<Longrightarrow> \<exists>st d. ask_untimed sv rq t = Some (RestJson st body, d)"
    and time: "T + delay \<le> now + 120000"
  shows "(rq = databricks_get dp (statement_url dp sid) \<and> running = (\<lambda>b. statement_state b \<in> running_states) \<and>
      statement_state body = ''SUCCEEDED'' \<longrightarrow> (\<exists>t. poll_statement sv dp sid now = Some (Inr body, t))) \<and>
    (rq = sf_request sp url Get \<and> running = (\<lambda>b. sf_code b = ''333334'') \<and>
      sf_code body \<noteq> ''333334'' \<and> path_str_or [] body [''status''] \<noteq> ''FAILED_WITH_ERROR'' \<longrightarrow>
      (\<exists>t. poll_statement_url sv sp url now = Some (Inr body, t))) \<and>
    (rq = bq_request bp (bq_job_url bp job loc) Get \<and> running = (\<lambda>b. bq_state b \<noteq> ''DONE'') \<and>
      bq_state body = ''DONE'' \<and> bq_job_error body = None \<longrightarrow>
      (\<exists>t. poll_job sv bp job loc now = Some (Inr body, t)))"
proof -
  have loop: "\<exists>t. poll_loop expired ask (now + 120000) now = Some (Inr body, t)"
    if again: "\<And>st b d t. \<lbrakk>ask_untimed sv rq t = Some (RestJson st b, d); running b\<rbrakk> \<Longrightarrow> ask t = Some (PollAgain, d)"
      and ended: "\<And>st d t. ask_untimed sv rq t = Some (RestJson st body, d) \<Longrightarrow> ask t = Some (PollDone body, d)" for expired ask
  proof (rule poll_finishes [OF _ _ time])
    show "\<exists>d \<le> delay. ask t = Some (PollAgain, d)" if "t < T" for t
      using run [OF that] again by blast
    show "\<exists>d. ask t = Some (PollDone body, d)" if "T \<le> t" for t
      using fin [OF that] ended by blast
  qed simp
  show ?thesis
    unfolding poll_statement_def poll_statement_url_def poll_job_def
      STATEMENT_POLL_TIMEOUT_def SF_POLL_TIMEOUT_def DATASOURCE_TIMEOUT_QUERY_def
    by (intro conjI impI loop)
       (auto simp: databricks_poll_def sf_poll_def sf_poll_reply_def sf_poll_body_def bq_poll_def)
qed

definition demo_running :: json where
  "demo_running = json_obj [(''status'', Some (json_obj [(''state'', Some (JString ''RUNNING''))]))]"

theorem statements_finish_witness:
  "\<exists>t. poll_statement (\<lambda>rq t. Answered (RestJson 200 (if t < 60000 then demo_running else demo_statement)) 5 (Some 5))
     demo_dp ''s1'' 0 = Some (Inr demo_statement, t)"
proof -
  have "statement_state demo_running = ''RUNNING''" by code_simp
  then show ?thesis
    using statements_finish [where T = 60000 and delay = 10 and now = 0 and body = demo_statement
        and sv = "\<lambda>rq t. Answered (RestJson 200 (if t < 60000 then demo_running else demo_statement)) 5 (Some 5)"
        and running = "\<lambda>b. statement_state b \<in> running_states"
        and rq = "databricks_get demo_dp (statement_url demo_dp ''s1'')" and dp = demo_dp and sid = "''s1''"]
    by (simp add: demo_statement_facts(1) ask_untimed_def)
qed

end
